(* ===== verification/Prelude.thy ===== *)
theory Prelude
  imports Main "HOL-Library.Word"
begin

text \<open>
  Shared vocabulary of the development: the theorem collections the component theories
  fill, the integer bounds of the Go types, and the few facts about lists, options and
  finite searches that several components use.

  Go's \<^verbatim>\<open>uint64\<close> identifiers are natural numbers below \<open>2 ^ 64\<close>: the program never
  computes with an identifier, it only compares, prints and parses it, and the two places
  that could leave the range (parsing and the auto-increment counter) check the bound
  explicitly. Go strings are byte sequences, which is what \<open>string\<close> (a list of 8-bit
  characters) is.
\<close>

section \<open>Theorem collections\<close>

named_theorems wp_intro \<open>one rule per effectful operation, for the verification conditions\<close>
named_theorems perm_simps \<open>equations of the permission algebra\<close>

section \<open>Machine integers\<close>

type_synonym id64 = nat

definition max_uint64 :: nat where
  "max_uint64 = 2 ^ 64 - 1"

lemma max_uint64_value: "max_uint64 = 18446744073709551615"
  by (simp add: max_uint64_def)

section \<open>Outcomes of a Go call\<close>

text \<open>A call returns a value, returns an error, or panics.\<close>

datatype 'a outcome = Returned 'a | Failed | Panicked

section \<open>Searching, updating and deleting rows of a list\<close>

text \<open>A table is the list of its rows in the order of insertion.\<close>

definition rows_update :: "('r \<Rightarrow> bool) \<Rightarrow> ('r \<Rightarrow> 'r) \<Rightarrow> 'r list \<Rightarrow> 'r list" where
  "rows_update P f rs = map (\<lambda>r. if P r then f r else r) rs"

definition rows_delete :: "('r \<Rightarrow> bool) \<Rightarrow> 'r list \<Rightarrow> 'r list" where
  "rows_delete P rs = filter (\<lambda>r. \<not> P r) rs"

lemma rows_update_Nil [simp]: "rows_update P f [] = []"
  by (simp add: rows_update_def)

lemma rows_update_Cons [simp]:
  "rows_update P f (r # rs) = (if P r then f r else r) # rows_update P f rs"
  by (simp add: rows_update_def)

lemma length_rows_update [simp]: "length (rows_update P f rs) = length rs"
  by (simp add: rows_update_def)

lemma in_rows_update:
  "r \<in> set (rows_update P f rs) \<longleftrightarrow> (\<exists>s \<in> set rs. r = (if P s then f s else s))"
  by (auto simp: rows_update_def image_iff)

lemma in_rows_delete [simp]: "r \<in> set (rows_delete P rs) \<longleftrightarrow> r \<in> set rs \<and> \<not> P r"
  by (auto simp: rows_delete_def)

lemma set_rows_delete: "set (rows_delete P rs) = {r \<in> set rs. \<not> P r}"
  by auto

lemma rows_delete_Nil [simp]: "rows_delete P [] = []"
  by (simp add: rows_delete_def)

lemma rows_delete_Cons [simp]:
  "rows_delete P (r # rs) = (if P r then rows_delete P rs else r # rows_delete P rs)"
  by (simp add: rows_delete_def)

text \<open>An update that keeps a key keeps the list of keys; deletion keeps distinctness.\<close>

lemma map_rows_update_key:
  assumes "\<And>r. k (f r) = k r"
  shows "map k (rows_update P f rs) = map k rs"
  by (induction rs) (simp_all add: assms)

lemma distinct_map_rows_delete:
  "distinct (map k rs) \<Longrightarrow> distinct (map k (rows_delete P rs))"
  by (simp add: rows_delete_def distinct_map_filter)

text \<open>The rows an update does not select are the same rows as before.\<close>

lemma rows_update_unselected:
  assumes "\<And>r. Q r \<Longrightarrow> \<not> P r" and "\<And>r. P r \<Longrightarrow> \<not> Q (f r)"
  shows "filter Q (rows_update P f rs) = filter Q rs"
  using assms by (induction rs) auto

lemma rows_delete_unselected:
  assumes "\<And>r. Q r \<Longrightarrow> \<not> P r"
  shows "filter Q (rows_delete P rs) = filter Q rs"
  using assms by (induction rs) auto

lemma find_SomeD: "find P rs = Some r \<Longrightarrow> r \<in> set rs \<and> P r"
  by (induction rs) (auto split: if_splits)

lemma find_None_iff': "find P rs = None \<longleftrightarrow> (\<forall>r \<in> set rs. \<not> P r)"
  by (induction rs) auto

lemma find_unique_key:
  assumes "distinct (map k rs)" and "r \<in> set rs"
  shows "find (\<lambda>x. k x = k r) rs = Some r"
  using assms by (induction rs) (auto simp: image_iff)

lemma find_append:
  "find P (xs @ ys) = (case find P xs of Some x \<Rightarrow> Some x | None \<Rightarrow> find P ys)"
  by (induction xs) auto

text \<open>Two rows of a table with the same key are one row.\<close>

lemma same_key: "distinct (map f xs) \<Longrightarrow> x \<in> set xs \<Longrightarrow> y \<in> set xs \<Longrightarrow> f x = f y \<Longrightarrow> x = y"
  by (auto simp: distinct_map inj_on_def)

text \<open>Finitely many cases of a natural number below a numeral.\<close>

lemma all_less_Suc: "(\<forall>i < Suc n. P i) \<longleftrightarrow> P n \<and> (\<forall>i < n. P i)"
  by (auto simp: less_Suc_eq)

end
