(* ===== verification/Go_Strings.thy ===== *)
theory Go_Strings
  imports Prelude
begin

text \<open>
  The string operations the program takes from Go's standard library, on byte strings:
  UTF-8 decoding and encoding (\<^verbatim>\<open>unicode/utf8\<close>, \<^verbatim>\<open>[]rune(s)\<close>,
  \<^verbatim>\<open>string(runes)\<close>), \<^verbatim>\<open>strings.ToLower\<close>, \<^verbatim>\<open>strings.Split\<close>, the verb
  \<^verbatim>\<open>%d\<close> of \<^verbatim>\<open>fmt.Sprintf\<close>, \<^verbatim>\<open>strconv.ParseUint\<close>, and the program's own
  \<^verbatim>\<open>Truncate\<close> (\<^verbatim>\<open>handlers/validations.go\<close> and
  \<^verbatim>\<open>security_helpers/text_helpers.go\<close>) and channel-handle rewriting
  (\<^verbatim>\<open>handlers/create_channel.go\<close>, \<^verbatim>\<open>handlers/edit_channel.go\<close>).
\<close>

section \<open>UTF-8\<close>

abbreviation byte :: "nat \<Rightarrow> char" where
  "byte n \<equiv> char_of n"

definition rune_error :: nat where
  "rune_error = 0xFFFD"

text \<open>\<^verbatim>\<open>utf8.ValidRune\<close>: the code points that are Unicode scalar values.\<close>

definition valid_rune :: "nat \<Rightarrow> bool" where
  "valid_rune r \<longleftrightarrow> r < 0xD800 \<or> (0xE000 \<le> r \<and> r \<le> 0x10FFFF)"

text \<open>\<^verbatim>\<open>utf8.EncodeRune\<close>: invalid code points are written as the replacement rune.\<close>

definition encode_valid_rune :: "nat \<Rightarrow> string" where
  "encode_valid_rune r =
     (if r < 0x80 then [byte r]
      else if r < 0x800 then [byte (0xC0 + r div 64), byte (0x80 + r mod 64)]
      else if r < 0x10000 then
        [byte (0xE0 + r div 4096), byte (0x80 + r div 64 mod 64), byte (0x80 + r mod 64)]
      else
        [byte (0xF0 + r div 262144), byte (0x80 + r div 4096 mod 64),
         byte (0x80 + r div 64 mod 64), byte (0x80 + r mod 64)])"

definition encode_rune :: "nat \<Rightarrow> string" where
  "encode_rune r = encode_valid_rune (if valid_rune r then r else rune_error)"

definition encode_runes :: "nat list \<Rightarrow> string" where
  "encode_runes rs = concat (map encode_rune rs)"

definition continuation :: "nat \<Rightarrow> bool" where
  "continuation b \<longleftrightarrow> 0x80 \<le> b \<and> b \<le> 0xBF"

text \<open>
  \<^verbatim>\<open>utf8.DecodeRuneInString\<close>: the rune at the head of the bytes and its width. The
  second byte of a three- or four-byte sequence has the narrower range that rules out
  overlong forms, surrogates and code points above \<open>0x10FFFF\<close>. Anything else is one
  byte wide and decodes to the replacement rune.
\<close>

definition second_byte_ok :: "nat \<Rightarrow> nat \<Rightarrow> bool" where
  "second_byte_ok b0 b1 \<longleftrightarrow>
     (if b0 = 0xE0 then 0xA0 \<le> b1 \<and> b1 \<le> 0xBF
      else if b0 = 0xED then 0x80 \<le> b1 \<and> b1 \<le> 0x9F
      else if b0 = 0xF0 then 0x90 \<le> b1 \<and> b1 \<le> 0xBF
      else if b0 = 0xF4 then 0x80 \<le> b1 \<and> b1 \<le> 0x8F
      else continuation b1)"

definition decode_rune :: "nat list \<Rightarrow> nat \<times> nat" where
  "decode_rune bs =
     (case bs of
        [] \<Rightarrow> (rune_error, 0)
      | b0 # rest \<Rightarrow>
          if b0 < 0x80 then (b0, 1)
          else if 0xC2 \<le> b0 \<and> b0 \<le> 0xDF then
            (case rest of
               b1 # _ \<Rightarrow> if continuation b1 then ((b0 - 0xC0) * 64 + (b1 - 0x80), 2)
                         else (rune_error, 1)
             | _ \<Rightarrow> (rune_error, 1))
          else if 0xE0 \<le> b0 \<and> b0 \<le> 0xEF then
            (case rest of
               b1 # b2 # _ \<Rightarrow>
                 if second_byte_ok b0 b1 \<and> continuation b2
                 then ((b0 - 0xE0) * 4096 + (b1 - 0x80) * 64 + (b2 - 0x80), 3)
                 else (rune_error, 1)
             | _ \<Rightarrow> (rune_error, 1))
          else if 0xF0 \<le> b0 \<and> b0 \<le> 0xF4 then
            (case rest of
               b1 # b2 # b3 # _ \<Rightarrow>
                 if second_byte_ok b0 b1 \<and> continuation b2 \<and> continuation b3
                 then ((b0 - 0xF0) * 262144 + (b1 - 0x80) * 4096 + (b2 - 0x80) * 64 + (b3 - 0x80), 4)
                 else (rune_error, 1)
             | _ \<Rightarrow> (rune_error, 1))
          else (rune_error, 1))"

lemma decode_rune_width: "bs \<noteq> [] \<Longrightarrow> 0 < snd (decode_rune bs)"
  by (auto simp: decode_rune_def split: list.splits)

text \<open>The conversion \<^verbatim>\<open>[]rune(s)\<close>: decode, advance by the width, repeat.\<close>

function decode_byte_list :: "nat list \<Rightarrow> nat list" where
  "decode_byte_list bs =
     (if bs = [] then []
      else fst (decode_rune bs) # decode_byte_list (drop (snd (decode_rune bs)) bs))"
  by pat_completeness auto
termination
  by (relation "measure length") (simp_all add: decode_rune_width)

declare decode_byte_list.simps [simp del]

definition string_bytes :: "string \<Rightarrow> nat list" where
  "string_bytes s = map of_char s"

definition decode_runes :: "string \<Rightarrow> nat list" where
  "decode_runes s = decode_byte_list (string_bytes s)"

text \<open>\<^verbatim>\<open>utf8.RuneCountInString\<close>.\<close>

definition rune_count :: "string \<Rightarrow> nat" where
  "rune_count s = length (decode_runes s)"

lemma decode_byte_list_Nil [simp]: "decode_byte_list [] = []"
  by (subst decode_byte_list.simps) simp

lemma decode_byte_list_step:
  assumes "decode_rune (bs @ rest) = (r, length bs)" and "bs \<noteq> []"
  shows "decode_byte_list (bs @ rest) = r # decode_byte_list rest"
  using assms by (subst decode_byte_list.simps) simp

lemma string_bytes_append [simp]: "string_bytes (xs @ ys) = string_bytes xs @ string_bytes ys"
  by (simp add: string_bytes_def)

lemma decode_runes_Nil [simp]: "decode_runes [] = []"
  by (simp add: decode_runes_def string_bytes_def)


section \<open>Decoding what was encoded\<close>

lemma of_char_byte: "n < 256 \<Longrightarrow> of_char (byte n) = n"
  by simp

lemma string_bytes_encode:
  assumes "valid_rune r"
  shows "string_bytes (encode_valid_rune r) =
     (if r < 0x80 then [r]
      else if r < 0x800 then [0xC0 + r div 64, 0x80 + r mod 64]
      else if r < 0x10000 then [0xE0 + r div 4096, 0x80 + r div 64 mod 64, 0x80 + r mod 64]
      else [0xF0 + r div 262144, 0x80 + r div 4096 mod 64, 0x80 + r div 64 mod 64,
            0x80 + r mod 64])"
proof -
  have "r \<le> 0x10FFFF" using assms by (auto simp: valid_rune_def)
  then have "r div 262144 < 16" by simp
  moreover have "r < 0x800 \<Longrightarrow> r div 64 < 32" "r < 0x10000 \<Longrightarrow> r div 4096 < 16"
    by auto
  moreover have "r mod 64 < 64" "r div 64 mod 64 < 64" "r div 4096 mod 64 < 64"
    by simp_all
  ultimately show ?thesis
    unfolding encode_valid_rune_def string_bytes_def by (simp add: of_char_byte)
qed

lemma div_4096: "r div 4096 = r div 64 div (64::nat)"
  by (simp flip: div_mult2_eq)

lemma div_262144: "r div 262144 = r div 64 div 64 div (64::nat)"
  by (simp flip: div_mult2_eq)

lemma split_three: "(r div 4096) * 4096 + (r div 64 mod 64) * 64 + r mod 64 = (r::nat)"
  unfolding div_4096
  using div_mult_mod_eq [of r 64] div_mult_mod_eq [of "r div 64" 64] by linarith

lemma split_four:
  "(r div 262144) * 262144 + (r div 4096 mod 64) * 4096 + (r div 64 mod 64) * 64 + r mod 64
     = (r::nat)"
  unfolding div_4096 div_262144
  using div_mult_mod_eq [of r 64] div_mult_mod_eq [of "r div 64" 64]
    div_mult_mod_eq [of "r div 64 div 64" 64] by linarith

lemma no_overlong_three: "0x800 \<le> r \<Longrightarrow> r div 4096 = 0 \<Longrightarrow> 0x20 \<le> r div 64 mod (64::nat)"
  using split_three [of r] mod_less_divisor [of 64 r] by linarith

lemma no_surrogate:
  "valid_rune r \<Longrightarrow> r < 0x10000 \<Longrightarrow> r div 4096 = 13 \<Longrightarrow> r div 64 mod (64::nat) < 0x20"
  using split_three [of r] mod_less_divisor [of 64 "r div 64"] by (auto simp: valid_rune_def)

lemma no_overlong_four:
  "0x10000 \<le> r \<Longrightarrow> r div 262144 = 0 \<Longrightarrow> 0x10 \<le> r div 4096 mod (64::nat)"
  using split_four [of r] mod_less_divisor [of 64 r] mod_less_divisor [of 64 "r div 64"]
  by linarith

lemma no_large: "r \<le> 0x10FFFF \<Longrightarrow> r div 262144 = 4 \<Longrightarrow> r div 4096 mod (64::nat) < 0x10"
  using split_four [of r] by linarith

lemma decode_encoded_rune:
  assumes "valid_rune r"
  shows "decode_rune (string_bytes (encode_valid_rune r) @ rest)
           = (r, length (string_bytes (encode_valid_rune r)))"
proof -
  have m: "r mod 64 < 64" "r div 64 mod 64 < 64" "r div 4096 mod 64 < 64" by simp_all
  have top: "r \<le> 0x10FFFF" using assms by (auto simp: valid_rune_def)
  consider (one) "r < 0x80" | (two) "0x80 \<le> r" "r < 0x800"
    | (three) "0x800 \<le> r" "r < 0x10000" | (four) "0x10000 \<le> r" by linarith
  then show ?thesis
  proof cases
    case one
    then show ?thesis using assms by (simp add: string_bytes_encode decode_rune_def)
  next
    case two
    then have "2 \<le> r div 64" "r div 64 < 32" by auto
    with two m show ?thesis using assms
      by (simp add: string_bytes_encode decode_rune_def continuation_def)
  next
    case three
    then have d: "r div 4096 < 16" by auto
    have b1: "second_byte_ok (0xE0 + r div 4096) (0x80 + r div 64 mod 64)"
      using no_overlong_three [OF three(1)] no_surrogate [OF assms three(2)] m(2) d
      by (auto simp: second_byte_ok_def continuation_def)
    have c: "continuation (0x80 + r mod 64)" using m(1) by (simp add: continuation_def)
    show ?thesis using three d b1 c split_three [of r] assms
      by (simp add: string_bytes_encode decode_rune_def)
  next
    case four
    then have d: "r div 262144 \<le> 4" using top by auto
    have b1: "second_byte_ok (0xF0 + r div 262144) (0x80 + r div 4096 mod 64)"
      using no_overlong_four [OF four] no_large [OF top] m(3) d
      by (auto simp: second_byte_ok_def continuation_def)
    have c: "continuation (0x80 + r mod 64)" "continuation (0x80 + r div 64 mod 64)"
      using m by (simp_all add: continuation_def)
    show ?thesis using four d b1 c split_four [of r] assms
      by (simp add: string_bytes_encode decode_rune_def)
  qed
qed

lemma string_bytes_encode_nonempty: "string_bytes (encode_valid_rune r) \<noteq> []"
  by (simp add: encode_valid_rune_def string_bytes_def)

lemma decode_runes_encode_Cons:
  assumes "valid_rune r"
  shows "decode_runes (encode_valid_rune r @ s) = r # decode_runes s"
  unfolding decode_runes_def
  by (simp add: decode_byte_list_step [OF decode_encoded_rune [OF assms]]
      string_bytes_encode_nonempty)

lemma decode_runes_encode_runes:
  "list_all valid_rune rs \<Longrightarrow> decode_runes (encode_runes rs) = rs"
  by (induction rs)
    (simp_all add: encode_runes_def encode_rune_def decode_runes_encode_Cons)

text \<open>Every rune a decoding returns is a scalar value, so decoding is idempotent.\<close>

lemma valid_rune_error [simp]: "valid_rune rune_error"
  by (simp add: valid_rune_def rune_error_def)

lemma valid_decode_rune: "valid_rune (fst (decode_rune bs))"
proof -
  have three: "valid_rune ((b0 - 0xE0) * 4096 + (b1 - 0x80) * 64 + (b2 - 0x80))"
    if "0xE0 \<le> b0" "b0 \<le> 0xEF" "second_byte_ok b0 b1" "continuation b2" for b0 b1 b2 :: nat
    using that by (auto simp: valid_rune_def second_byte_ok_def continuation_def split: if_splits)
  have four: "valid_rune ((b0 - 0xF0) * 262144 + (b1 - 0x80) * 4096 + (b2 - 0x80) * 64 + (b3 - 0x80))"
    if "0xF0 \<le> b0" "b0 \<le> 0xF4" "second_byte_ok b0 b1" "continuation b2" "continuation b3"
    for b0 b1 b2 b3 :: nat
    using that by (auto simp: valid_rune_def second_byte_ok_def continuation_def split: if_splits)
  have two: "valid_rune ((b0 - 0xC0) * 64 + (b1 - 0x80))"
    if "b0 \<le> 0xDF" "continuation b1" for b0 b1 :: nat
    using that by (auto simp: valid_rune_def continuation_def)
  have one: "valid_rune b0" if "b0 < 0x80" for b0
    using that by (simp add: valid_rune_def)
  show ?thesis
    by (simp add: decode_rune_def one two three four split: list.split)
qed

lemma valid_decode_byte_list: "list_all valid_rune (decode_byte_list bs)"
proof (induction bs rule: decode_byte_list.induct)
  case (1 bs)
  then show ?case
    by (subst decode_byte_list.simps) (simp add: valid_decode_rune)
qed

lemma valid_decode_runes: "list_all valid_rune (decode_runes s)"
  by (simp add: decode_runes_def valid_decode_byte_list)

section \<open>Truncation\<close>

text \<open>
  \<^verbatim>\<open>handlers.Truncate\<close>: the string itself when it has fewer than \<open>lim\<close> runes, else its
  first \<open>lim\<close> runes, written again as UTF-8. \<open>lim\<close> is a Go \<^verbatim>\<open>int\<close>, so it may be
  negative. Slicing never runs out of range there: the count is at least \<open>lim\<close>.
\<close>

definition Truncate :: "string \<Rightarrow> int \<Rightarrow> string" where
  "Truncate s lim =
     (if lim \<le> 0 then []
      else if int (rune_count s) < lim then s
      else encode_runes (take (nat lim) (decode_runes s)))"

text \<open>\<^verbatim>\<open>security_helpers.Truncate\<close> is the same routine on a byte slice.\<close>

definition Truncate_bytes :: "string \<Rightarrow> int \<Rightarrow> string" where
  "Truncate_bytes s lim =
     (if lim \<le> 0 then []
      else let ss = s in
        if int (rune_count ss) < lim then s
        else encode_runes (take (nat lim) (decode_runes ss)))"

lemma rune_count_encode_runes: "list_all valid_rune rs \<Longrightarrow> rune_count (encode_runes rs) = length rs"
  by (simp add: rune_count_def decode_runes_encode_runes)

lemma list_all_take: "list_all P xs \<Longrightarrow> list_all P (take n xs)"
  by (induction xs arbitrary: n) (simp_all add: take_Cons' )

lemma decode_Truncate:
  "0 \<le> lim \<Longrightarrow> decode_runes (Truncate s lim) = take (nat lim) (decode_runes s)"
  by (auto simp: Truncate_def rune_count_def decode_runes_encode_runes list_all_take
      valid_decode_runes)

lemma rune_count_Truncate: "rune_count (Truncate s lim) = min (rune_count s) (nat lim)"
proof (cases "lim \<le> 0")
  case True
  then show ?thesis by (simp add: Truncate_def rune_count_def)
next
  case False
  then show ?thesis using decode_Truncate [of lim s] by (simp add: rune_count_def)
qed

lemma Truncate_idem: "Truncate (Truncate s lim) lim = Truncate s lim"
proof (cases "0 < lim \<and> \<not> int (rune_count s) < lim")
  case True
  then have "int (rune_count (Truncate s lim)) = lim"
    by (auto simp: rune_count_Truncate min_def)
  moreover have "decode_runes (Truncate s lim) = take (nat lim) (decode_runes s)"
    using True by (intro decode_Truncate) simp
  ultimately show ?thesis using True by (simp add: Truncate_def [of _ lim])
next
  case False
  then show ?thesis by (auto simp: Truncate_def)
qed

section \<open>Lower case\<close>

text \<open>
  \<^verbatim>\<open>strings.ToLower\<close>: byte by byte on an ASCII string; otherwise
  \<^verbatim>\<open>strings.Map(unicode.ToLower, s)\<close>, rune by rune, with the Unicode table \<open>lower\<close>
  (data of the Go distribution) for the runes above ASCII.
\<close>

definition ascii_lower :: "nat \<Rightarrow> nat" where
  "ascii_lower b = (if 65 \<le> b \<and> b \<le> 90 then b + 32 else b)"

definition is_ascii :: "string \<Rightarrow> bool" where
  "is_ascii s = list_all (\<lambda>c. (of_char c :: nat) < 0x80) s"

definition ToLower :: "(nat \<Rightarrow> nat) \<Rightarrow> string \<Rightarrow> string" where
  "ToLower lower s =
     (if is_ascii s then map (\<lambda>c. byte (ascii_lower (of_char c))) s
      else encode_runes
             (map (\<lambda>r. if r < 0x80 then ascii_lower r else lower r) (decode_runes s)))"


section \<open>Decimal numbers\<close>

text \<open>The verb \<^verbatim>\<open>%d\<close> on an unsigned integer.\<close>

fun itoa :: "nat \<Rightarrow> string" where
  "itoa n = (if n < 10 then [byte (48 + n)] else itoa (n div 10) @ [byte (48 + n mod 10)])"

declare itoa.simps [simp del]

text \<open>
  \<^verbatim>\<open>strconv.ParseUint(s, 10, 64)\<close>: one decimal digit after another, an error on the empty
  string, on any other character and on a value above the largest \<^verbatim>\<open>uint64\<close>.
\<close>

definition digit_value :: "char \<Rightarrow> nat option" where
  "digit_value c =
     (let b = of_char c :: nat in if 48 \<le> b \<and> b \<le> 57 then Some (b - 48) else None)"

fun parse_digits :: "nat \<Rightarrow> string \<Rightarrow> nat option" where
  "parse_digits n [] = Some n"
| "parse_digits n (c # cs) =
     (case digit_value c of
        None \<Rightarrow> None
      | Some d \<Rightarrow> if max_uint64 < n * 10 + d then None else parse_digits (n * 10 + d) cs)"

definition ParseUint :: "string \<Rightarrow> nat option" where
  "ParseUint s = (if s = [] then None else parse_digits 0 s)"

lemma digit_value_byte: "d < 10 \<Longrightarrow> digit_value (byte (48 + d)) = Some d"
  by (simp add: digit_value_def)

lemma parse_digits_append:
  "parse_digits n (xs @ ys) = (case parse_digits n xs of None \<Rightarrow> None | Some m \<Rightarrow> parse_digits m ys)"
  by (induction xs arbitrary: n) (auto split: option.splits)

lemma itoa_nonempty [simp]: "itoa n \<noteq> []"
  by (subst itoa.simps) simp

lemma parse_digits_itoa: "n \<le> max_uint64 \<Longrightarrow> parse_digits 0 (itoa n) = Some n"
proof (induction n rule: itoa.induct)
  case (1 n)
  show ?case
  proof (cases "n < 10")
    case True
    with 1 show ?thesis by (subst itoa.simps) (simp add: digit_value_byte)
  next
    case False
    with 1 have "parse_digits 0 (itoa (n div 10)) = Some (n div 10)"
      by (meson div_le_dividend le_trans)
    with False 1(2) show ?thesis
      by (subst itoa.simps) (simp add: parse_digits_append digit_value_byte)
  qed
qed

lemma ParseUint_itoa: "n \<le> max_uint64 \<Longrightarrow> ParseUint (itoa n) = Some n"
  by (simp add: ParseUint_def parse_digits_itoa)

lemma parse_digits_bound: "parse_digits n s = Some m \<Longrightarrow> n \<le> max_uint64 \<Longrightarrow> m \<le> max_uint64"
  by (induction n s rule: parse_digits.induct) (auto split: option.splits if_splits)

lemma ParseUint_bound: "ParseUint s = Some n \<Longrightarrow> n \<le> max_uint64"
  unfolding ParseUint_def by (auto split: if_splits dest: parse_digits_bound)

lemma itoa_digits: "c \<in> set (itoa n) \<Longrightarrow> (of_char c :: nat) \<in> {48..57}"
proof (induction n rule: itoa.induct)
  case (1 n)
  then show ?case
  proof (cases "n < 10")
    case True
    with 1 show ?thesis by (auto simp: itoa.simps [of n])
  next
    case False
    have "n mod 10 < 10" by simp
    with 1 False show ?thesis by (auto simp: itoa.simps [of n])
  qed
qed

lemma itoa_small: "n < 10 \<Longrightarrow> itoa n = [byte (48 + n)]"
  by (subst itoa.simps) simp

lemma itoa_large: "\<not> n < 10 \<Longrightarrow> itoa n = itoa (n div 10) @ [byte (48 + n mod 10)]"
  by (subst itoa.simps) simp

lemma itoa_inj: "itoa m = itoa n \<Longrightarrow> m = n"
proof (induction m arbitrary: n rule: itoa.induct)
  case (1 m)
  have d: "a = b" if "byte (48 + a) = byte (48 + b)" "a < 10" "b < 10" for a b :: nat
    using digit_value_byte [OF that(2)] digit_value_byte [OF that(3)] that(1) by (metis option.inject)
  show ?case
  proof (cases "m < 10"; cases "n < 10")
    assume s: "m < 10" "n < 10"
    with 1(2) show ?thesis using d by (simp only: itoa_small list.inject)
  next
    assume "m < 10" "\<not> n < 10"
    with 1(2) show ?thesis by (simp only: itoa_small itoa_large simp_thms) (metis append_Cons append_Nil append_is_Nil_conv butlast_snoc itoa_nonempty butlast.simps(2))
  next
    assume "\<not> m < 10" "n < 10"
    with 1(2) show ?thesis by (simp only: itoa_small itoa_large simp_thms) (metis append_Cons append_Nil append_is_Nil_conv butlast_snoc itoa_nonempty butlast.simps(2))
  next
    assume big: "\<not> m < 10" "\<not> n < 10"
    with 1(2) have eq: "itoa (m div 10) = itoa (n div 10) \<and> byte (48 + m mod 10) = byte (48 + n mod 10)"
      by (simp only: itoa_large append1_eq_conv simp_thms)
    have "m div 10 = n div 10" using 1(1) [OF big(1)] eq by blast
    moreover have "m mod 10 = n mod 10" by (rule d) (rule conjunct2 [OF eq], simp_all)
    ultimately show ?thesis by (metis div_mult_mod_eq)
  qed
qed

section \<open>Splitting\<close>

text \<open>\<^verbatim>\<open>strings.Split(s, "/")\<close> with a one-byte separator: always at least one piece.\<close>

fun Split :: "char \<Rightarrow> string \<Rightarrow> string list" where
  "Split sep [] = [[]]"
| "Split sep (c # cs) =
     (if c = sep then [] # Split sep cs
      else case Split sep cs of p # ps \<Rightarrow> (c # p) # ps | [] \<Rightarrow> [[c]])"

lemma Split_nonempty [simp]: "Split sep s \<noteq> []"
  by (induction s) (auto split: list.splits)

lemma Split_no_sep: "sep \<notin> set s \<Longrightarrow> Split sep s = [s]"
  by (induction s) auto

lemma Split_append: "sep \<notin> set p \<Longrightarrow> Split sep (p @ sep # s) = p # Split sep s"
  by (induction p) auto

lemma Split_pieces: "p \<in> set (Split sep s) \<Longrightarrow> sep \<notin> set p"
  by (induction s arbitrary: p) (auto split: list.splits if_splits)

section \<open>Channel handles\<close>

text \<open>
  The two regular-expression replacements that turn a channel name into its handle:
  every white-space character (RE2's \<^verbatim>\<open>\s\<close>) becomes a dash, then everything but lower-case
  letters, digits and dashes is dropped. Both classes are ASCII, so working on bytes and
  working on runes agree: every byte of a longer rune is dropped.
\<close>

definition regexp_space :: "char \<Rightarrow> bool" where
  "regexp_space c \<longleftrightarrow> c \<in> {CHR 0x09, CHR 0x0A, CHR 0x0C, CHR 0x0D, CHR '' ''}"

definition handle_char :: "char \<Rightarrow> bool" where
  "handle_char c \<longleftrightarrow>
     (let b = of_char c :: nat in (97 \<le> b \<and> b \<le> 122) \<or> (48 \<le> b \<and> b \<le> 57) \<or> b = 45)"

definition channel_handle_of :: "(nat \<Rightarrow> nat) \<Rightarrow> string \<Rightarrow> string" where
  "channel_handle_of lower name =
     filter handle_char
       (map (\<lambda>c. if regexp_space c then CHR ''-'' else c) (ToLower lower name))"

text \<open>\<^verbatim>\<open>regexp.MatchString("[a-z-]+", s)\<close>: unanchored, so one matching character is enough.\<close>

definition match_some :: "(char \<Rightarrow> bool) \<Rightarrow> string \<Rightarrow> bool" where
  "match_some P s = list_ex P s"

definition lower_letter_or_dash :: "char \<Rightarrow> bool" where
  "lower_letter_or_dash c \<longleftrightarrow> (let b = of_char c :: nat in (97 \<le> b \<and> b \<le> 122) \<or> b = 45)"

lemma channel_handle_chars: "list_all handle_char (channel_handle_of lower name)"
  by (auto simp: channel_handle_of_def list_all_iff)

lemma handle_char_ascii: "handle_char c \<Longrightarrow> (of_char c :: nat) < 0x80"
  by (auto simp: handle_char_def Let_def)

lemma handle_char_lower: "handle_char c \<Longrightarrow> byte (ascii_lower (of_char c)) = c"
  by (auto simp: handle_char_def ascii_lower_def Let_def)

lemma handle_char_not_space: "handle_char c \<Longrightarrow> \<not> regexp_space c"
  by (auto simp: handle_char_def regexp_space_def)

lemma ToLower_handle: "list_all handle_char s \<Longrightarrow> ToLower lower s = s"
proof -
  assume h: "list_all handle_char s"
  then have "is_ascii s" by (auto simp: is_ascii_def list_all_iff handle_char_ascii)
  moreover have "map (\<lambda>c. byte (ascii_lower (of_char c))) s = s"
    using h by (induction s) (simp_all add: handle_char_lower)
  ultimately show ?thesis by (simp add: ToLower_def)
qed

text \<open>Rewriting a handle again changes nothing, so handles are stable under editing.\<close>

lemma channel_handle_fixed:
  assumes "list_all handle_char s"
  shows "channel_handle_of lower s = s"
proof -
  have "map (\<lambda>c. if regexp_space c then CHR ''-'' else c) s = s"
    using assms by (induction s) (simp_all add: handle_char_not_space)
  then show ?thesis using assms by (simp add: channel_handle_of_def ToLower_handle filter_id_conv list_all_iff)
qed

end
