(* ===== verification/Base64.thy ===== *)
theory Base64
  imports Go_Strings "HOL-Library.Code_Target_Nat"
begin

text \<open>
  The two base64 encodings the object identifiers use, as Go's \<^verbatim>\<open>encoding/base64\<close>
  defines them: \<^verbatim>\<open>StdEncoding\<close> (padded) and \<^verbatim>\<open>RawURLEncoding\<close> (unpadded, with the
  URL-safe alphabet). The decoder is Go's: it skips carriage returns and newlines, reads
  four characters at a time, and does not insist on zero trailing bits. The interface
  \<open>codec\<close> is what the identifier code needs of an encoding; it is interpreted here for
  both base64 encodings and for decimal numbers.
\<close>

section \<open>The interface of an encoding\<close>

locale codec =
  fixes enc :: "'a \<Rightarrow> string"
    and dec :: "string \<Rightarrow> 'a option"
    and ok :: "'a \<Rightarrow> bool"
  assumes dec_enc: "ok x \<Longrightarrow> dec (enc x) = Some x"
begin

lemma enc_inj: "ok x \<Longrightarrow> ok y \<Longrightarrow> enc x = enc y \<longleftrightarrow> x = y"
  by (metis dec_enc option.inject)

lemma enc_inj_on: "inj_on enc (Collect ok)"
  by (auto simp: inj_on_def enc_inj)

lemma dec_enc_list: "list_all ok xs \<Longrightarrow> map (dec \<circ> enc) xs = map Some xs"
  by (induction xs) (simp_all add: dec_enc)

end

text \<open>An encoding whose output stays inside an alphabet can be framed by other characters.\<close>

locale framed_codec = codec +
  fixes alphabet :: "char set"
  assumes enc_alphabet: "ok x \<Longrightarrow> set (enc x) \<subseteq> alphabet"
begin

lemma not_in_enc: "ok x \<Longrightarrow> c \<notin> alphabet \<Longrightarrow> c \<notin> set (enc x)"
  using enc_alphabet by blast

lemma Split_framed:
  "ok x \<Longrightarrow> sep \<notin> alphabet \<Longrightarrow> Split sep (enc x @ sep # s) = enc x # Split sep s"
  by (simp add: Split_append not_in_enc)

end

text \<open>One encoding inside another.\<close>

locale codec_pair = outer: codec enc1 dec1 ok1 + inner: codec enc2 dec2 ok2
  for enc1 :: "string \<Rightarrow> string" and dec1 and ok1
    and enc2 :: "'a \<Rightarrow> string" and dec2 and ok2 +
  assumes inner_ok: "ok2 x \<Longrightarrow> ok1 (enc2 x)"
begin

lemma dec_enc_both: "ok2 x \<Longrightarrow> Option.bind (dec1 (enc1 (enc2 x))) dec2 = Some x"
  by (simp add: outer.dec_enc inner.dec_enc inner_ok)

end

sublocale codec_pair \<subseteq> both: codec "\<lambda>x. enc1 (enc2 x)" "\<lambda>s. Option.bind (dec1 s) dec2" ok2
  by unfold_locales (rule dec_enc_both)

section \<open>Base64\<close>

definition std_alphabet :: string where
  "std_alphabet = ''ABCDEFGHIJKLMNOPQRSTUVWXYZabcdefghijklmnopqrstuvwxyz0123456789+/''"

definition url_alphabet :: string where
  "url_alphabet = ''ABCDEFGHIJKLMNOPQRSTUVWXYZabcdefghijklmnopqrstuvwxyz0123456789-_''"

fun index_of :: "char \<Rightarrow> string \<Rightarrow> nat option" where
  "index_of c [] = None"
| "index_of c (d # ds) = (if c = d then Some 0 else map_option Suc (index_of c ds))"

fun b64_encode :: "string \<Rightarrow> bool \<Rightarrow> nat list \<Rightarrow> string" where
  "b64_encode al pad [] = []"
| "b64_encode al pad [a] =
     [al ! (a div 4), al ! (a mod 4 * 16)] @ (if pad then ''=='' else [])"
| "b64_encode al pad [a, b] =
     [al ! (a div 4), al ! (a mod 4 * 16 + b div 16), al ! (b mod 16 * 4)]
       @ (if pad then ''='' else [])"
| "b64_encode al pad (a # b # c # rest) =
     [al ! (a div 4), al ! (a mod 4 * 16 + b div 16), al ! (b mod 16 * 4 + c div 64),
      al ! (c mod 64)] @ b64_encode al pad rest"

definition quantum1 :: "nat \<Rightarrow> nat \<Rightarrow> nat list" where
  "quantum1 s0 s1 = [s0 * 4 + s1 div 16]"

definition quantum2 :: "nat \<Rightarrow> nat \<Rightarrow> nat \<Rightarrow> nat list" where
  "quantum2 s0 s1 s2 = [s0 * 4 + s1 div 16, s1 mod 16 * 16 + s2 div 4]"

definition quantum3 :: "nat \<Rightarrow> nat \<Rightarrow> nat \<Rightarrow> nat \<Rightarrow> nat list" where
  "quantum3 s0 s1 s2 s3 = [s0 * 4 + s1 div 16, s1 mod 16 * 16 + s2 div 4, s2 mod 4 * 64 + s3]"

text \<open>
  \<^verbatim>\<open>Encoding.decodeQuantum\<close>, four characters at a time: a short last group is only legal
  without padding, padding only in the last group and only in its last two places.
\<close>

fun b64_decode :: "string \<Rightarrow> bool \<Rightarrow> string \<Rightarrow> nat list option" where
  "b64_decode al pad [] = Some []"
| "b64_decode al pad [c0] = None"
| "b64_decode al pad [c0, c1] =
     (if pad then None
      else case (index_of c0 al, index_of c1 al) of
             (Some s0, Some s1) \<Rightarrow> Some (quantum1 s0 s1) | _ \<Rightarrow> None)"
| "b64_decode al pad [c0, c1, c2] =
     (if pad then None
      else case (index_of c0 al, index_of c1 al, index_of c2 al) of
             (Some s0, Some s1, Some s2) \<Rightarrow> Some (quantum2 s0 s1 s2) | _ \<Rightarrow> None)"
| "b64_decode al pad (c0 # c1 # c2 # c3 # rest) =
     (case (index_of c0 al, index_of c1 al) of
        (Some s0, Some s1) \<Rightarrow>
          if pad \<and> c2 = CHR ''='' then
            (if c3 = CHR ''='' \<and> rest = [] then Some (quantum1 s0 s1) else None)
          else (case index_of c2 al of
                  None \<Rightarrow> None
                | Some s2 \<Rightarrow>
                    if pad \<and> c3 = CHR ''='' then
                      (if rest = [] then Some (quantum2 s0 s1 s2) else None)
                    else (case index_of c3 al of
                            None \<Rightarrow> None
                          | Some s3 \<Rightarrow>
                              map_option (\<lambda>bs. quantum3 s0 s1 s2 s3 @ bs) (b64_decode al pad rest)))
      | _ \<Rightarrow> None)"

definition strip_newlines :: "string \<Rightarrow> string" where
  "strip_newlines s = filter (\<lambda>c. c \<noteq> CHR 0x0A \<and> c \<noteq> CHR 0x0D) s"

definition bytes_string :: "nat list \<Rightarrow> string" where
  "bytes_string bs = map byte bs"

definition StdEncode :: "string \<Rightarrow> string" where
  "StdEncode s = b64_encode std_alphabet True (string_bytes s)"

definition StdDecode :: "string \<Rightarrow> string option" where
  "StdDecode s = map_option bytes_string (b64_decode std_alphabet True (strip_newlines s))"

definition RawURLEncode :: "string \<Rightarrow> string" where
  "RawURLEncode s = b64_encode url_alphabet False (string_bytes s)"

definition RawURLDecode :: "string \<Rightarrow> string option" where
  "RawURLDecode s = map_option bytes_string (b64_decode url_alphabet False (strip_newlines s))"

section \<open>Decoding inverts encoding\<close>

text \<open>What the proof needs of an alphabet; both alphabets have it by evaluation.\<close>

definition good_alphabet :: "string \<Rightarrow> bool" where
  "good_alphabet al \<longleftrightarrow>
     length al = 64 \<and> list_all (\<lambda>i. index_of (al ! i) al = Some i) [0..<64] \<and>
     list_all (\<lambda>c. c \<notin> {CHR ''='', CHR 0x0A, CHR 0x0D}) al"

lemma index_of_distinct: "distinct al \<Longrightarrow> i < length al \<Longrightarrow> index_of (al ! i) al = Some i"
  by (induction al arbitrary: i) (auto simp: nth_Cons split: nat.split)

lemma good_alphabetI:
  "distinct al \<and> length al = 64 \<and> list_all (\<lambda>c. c \<notin> {CHR ''='', CHR 0x0A, CHR 0x0D}) al \<Longrightarrow>
   good_alphabet al"
  by (auto simp: good_alphabet_def list_all_iff index_of_distinct)

lemma good_std_alphabet: "good_alphabet std_alphabet"
  by (rule good_alphabetI) code_simp

lemma good_url_alphabet: "good_alphabet url_alphabet"
  by (rule good_alphabetI) code_simp

lemma index_of_nth: "good_alphabet al \<Longrightarrow> i < 64 \<Longrightarrow> index_of (al ! i) al = Some i"
  by (simp add: good_alphabet_def list_all_iff)

lemma nth_plain:
  assumes "good_alphabet al" and "i < 64"
  shows "al ! i \<noteq> CHR ''=''" "al ! i \<noteq> CHR 0x0A" "al ! i \<noteq> CHR 0x0D"
proof -
  have "al ! i \<in> set al" using assms by (simp add: good_alphabet_def)
  then have "al ! i \<notin> {CHR ''='', CHR 0x0A, CHR 0x0D}"
    using assms(1) by (simp add: good_alphabet_def list_all_iff)
  then show "al ! i \<noteq> CHR ''=''" "al ! i \<noteq> CHR 0x0A" "al ! i \<noteq> CHR 0x0D" by auto
qed

lemma sextet_bounds:
  fixes a b c :: nat
  assumes "a < 256" "b < 256" "c < 256"
  shows "a div 4 < 64" "a mod 4 * 16 < 64" "a mod 4 * 16 + b div 16 < 64"
    "b mod 16 * 4 < 64" "b mod 16 * 4 + c div 64 < 64" "c mod 64 < 64"
  using assms by auto

lemma quantum1_encode: "(a::nat) < 256 \<Longrightarrow> quantum1 (a div 4) (a mod 4 * 16) = [a]"
  by (simp add: quantum1_def)

lemma quantum2_encode:
  assumes "(a::nat) < 256" "b < 256"
  shows "quantum2 (a div 4) (a mod 4 * 16 + b div 16) (b mod 16 * 4) = [a, b]"
proof -
  have b: "b div 16 < 16" using assms by auto
  have "(a mod 4 * 16 + b div 16) div 16 = a mod 4" "(a mod 4 * 16 + b div 16) mod 16 = b div 16"
    using b by (auto simp: div_mult_self3)
  then show ?thesis by (simp add: quantum2_def)
qed

lemma quantum3_encode:
  assumes "(a::nat) < 256" "b < 256" "c < 256"
  shows "quantum3 (a div 4) (a mod 4 * 16 + b div 16) (b mod 16 * 4 + c div 64) (c mod 64) = [a, b, c]"
proof -
  have b: "b div 16 < 16" and c: "c div 64 < 4" using assms by auto
  have 1: "(a mod 4 * 16 + b div 16) div 16 = a mod 4" "(a mod 4 * 16 + b div 16) mod 16 = b div 16"
    using b by (auto simp: div_mult_self3)
  have 2: "(b mod 16 * 4 + c div 64) div 4 = b mod 16" "(b mod 16 * 4 + c div 64) mod 4 = c div 64"
    using c by (auto simp: div_mult_self3)
  show ?thesis using 1 2 by (simp add: quantum3_def)
qed

lemma b64_decode_encode:
  assumes "good_alphabet al" and "list_all (\<lambda>b. b < 256) bs"
  shows "b64_decode al pad (b64_encode al pad bs) = Some bs"
  using assms
proof (induction al pad bs rule: b64_encode.induct)
  case (1 al pad)
  then show ?case by simp
next
  case (2 al pad a)
  then have "a < 256" by simp
  with 2 show ?case
    by (simp add: index_of_nth sextet_bounds [of a 0 0, simplified] quantum1_encode)
next
  case (3 al pad a b)
  then have "a < 256" "b < 256" by simp_all
  note bounds = sextet_bounds [OF this, of 0, simplified]
  from 3 \<open>a < 256\<close> \<open>b < 256\<close> bounds show ?case
    by (simp add: index_of_nth nth_plain quantum2_encode)
next
  case (4 al pad a b c rest)
  then have "a < 256" "b < 256" "c < 256" by simp_all
  note bounds = sextet_bounds [OF this]
  from 4 \<open>a < 256\<close> \<open>b < 256\<close> \<open>c < 256\<close> bounds show ?case
    by (simp add: index_of_nth nth_plain quantum3_encode)
qed

lemma b64_encode_chars:
  assumes "good_alphabet al" and "list_all (\<lambda>b. b < 256) bs"
  shows "c \<in> set (b64_encode al pad bs) \<Longrightarrow> c \<in> set al \<or> c = CHR ''=''"
  using assms
proof (induction al pad bs rule: b64_encode.induct)
  case (1 al pad)
  then show ?case by simp
next
  case (2 al pad a)
  then have "a < 256" "length al = 64" by (simp_all add: good_alphabet_def)
  with 2 sextet_bounds [of a 0 0, simplified] show ?case by (auto split: if_splits)
next
  case (3 al pad a b)
  then have "a < 256" "b < 256" "length al = 64" by (simp_all add: good_alphabet_def)
  with 3 sextet_bounds [of a b 0, simplified] show ?case by (auto split: if_splits)
next
  case (4 al pad a b c' rest)
  then have "a < 256" "b < 256" "c' < 256" "length al = 64" by (simp_all add: good_alphabet_def)
  with 4 sextet_bounds [of a b c'] show ?case by auto
qed

lemma string_bytes_less: "list_all (\<lambda>b. b < 256) (string_bytes s)"
  by (induction s) (simp_all add: string_bytes_def)

lemma bytes_string_bytes: "bytes_string (string_bytes s) = s"
  by (induction s) (simp_all add: bytes_string_def string_bytes_def)

lemma string_bytes_string: "list_all (\<lambda>b. b < 256) bs \<Longrightarrow> string_bytes (bytes_string bs) = bs"
  by (induction bs) (simp_all add: bytes_string_def string_bytes_def)

lemma strip_newlines_encode:
  assumes "good_alphabet al" and "list_all (\<lambda>b. b < 256) bs"
  shows "strip_newlines (b64_encode al pad bs) = b64_encode al pad bs"
proof -
  have "c \<noteq> CHR 0x0A \<and> c \<noteq> CHR 0x0D" if "c \<in> set (b64_encode al pad bs)" for c
    using b64_encode_chars [OF assms that] assms(1) by (auto simp: good_alphabet_def list_all_iff)
  then show ?thesis by (simp add: strip_newlines_def filter_id_conv)
qed

section \<open>Evaluation\<close>

text \<open>The two encoders on concrete strings: the sextets first, then a letter for each of them.\<close>

fun sextets :: "nat list \<Rightarrow> nat list" where
  "sextets [] = []"
| "sextets [a] = [a div 4, a mod 4 * 16]"
| "sextets [a, b] = [a div 4, a mod 4 * 16 + b div 16, b mod 16 * 4]"
| "sextets (a # b # c # rest) =
     [a div 4, a mod 4 * 16 + b div 16, b mod 16 * 4 + c div 64, c mod 64] @ sextets rest"

definition padding :: "nat list \<Rightarrow> string" where
  "padding bs = (if length bs mod 3 = 1 then ''=='' else if length bs mod 3 = 2 then ''='' else [])"

lemma b64_encode_sextets:
  "b64_encode al pad bs = map ((!) al) (sextets bs) @ (if pad then padding bs else [])"
  by (induction al pad bs rule: b64_encode.induct) (auto simp: padding_def)

lemma sextets_less: "list_all (\<lambda>b. b < 256) bs \<Longrightarrow> list_all (\<lambda>n. n < 64) (sextets bs)"
  by (induction bs rule: sextets.induct) (auto)

definition std_letter :: "nat \<Rightarrow> char" where
  "std_letter n =
     (if n < 26 then byte (65 + n) else if n < 52 then byte (71 + n) else if n < 62 then byte (n - 4)
      else if n = 62 then CHR ''+'' else CHR ''/'')"

definition url_letter :: "nat \<Rightarrow> char" where
  "url_letter n = (if n < 62 then std_letter n else if n = 62 then CHR ''-'' else CHR ''_'')"

lemma std_alphabet_letters: "std_alphabet = map std_letter [0..<64]"
  by code_simp

lemma url_alphabet_letters: "url_alphabet = map url_letter [0..<64]"
  by code_simp

lemma StdEncode_code [code]: "StdEncode s = (let bs = string_bytes s in map std_letter (sextets bs) @ padding bs)"
  using sextets_less [OF string_bytes_less [of s]]
  by (auto simp: StdEncode_def b64_encode_sextets Let_def std_alphabet_letters list_all_iff)

lemma RawURLEncode_code [code]: "RawURLEncode s = map url_letter (sextets (string_bytes s))"
  using sextets_less [OF string_bytes_less [of s]]
  by (auto simp: RawURLEncode_def b64_encode_sextets url_alphabet_letters list_all_iff)

section \<open>The encodings as instances of the interface\<close>

interpretation std: framed_codec StdEncode StdDecode "\<lambda>_. True" "insert (CHR ''='') (set std_alphabet)"
  using b64_encode_chars [OF good_std_alphabet string_bytes_less]
  by unfold_locales
    (auto simp: StdEncode_def StdDecode_def strip_newlines_encode good_std_alphabet
      string_bytes_less b64_decode_encode bytes_string_bytes)

interpretation rawurl: framed_codec RawURLEncode RawURLDecode "\<lambda>_. True"
  "insert (CHR ''='') (set url_alphabet)"
  using b64_encode_chars [OF good_url_alphabet string_bytes_less]
  by unfold_locales
    (auto simp: RawURLEncode_def RawURLDecode_def strip_newlines_encode good_url_alphabet
      string_bytes_less b64_decode_encode bytes_string_bytes)

interpretation decimal: framed_codec itoa ParseUint "\<lambda>n. n \<le> max_uint64" "byte ` {48..57}"
proof unfold_locales
  show "ParseUint (itoa n) = Some n" if "n \<le> max_uint64" for n
    using that by (rule ParseUint_itoa)
  show "set (itoa n) \<subseteq> byte ` {48..57}" if "n \<le> max_uint64" for n
  proof
    fix c assume "c \<in> set (itoa n)"
    then have "(of_char c :: nat) \<in> {48..57}" by (rule itoa_digits)
    then show "c \<in> byte ` {48..57}" by (rule image_eqI [rotated]) simp
  qed
qed

interpretation std_in_rawurl: codec_pair RawURLEncode RawURLDecode "\<lambda>_. True"
  StdEncode StdDecode "\<lambda>_. True"
  by unfold_locales simp

end
