(* ===== verification/Object_Id.thy ===== *)
theory Object_Id
  imports Base64
begin

unbundle bit_operations_syntax

text \<open>
  The opaque object identifiers of \<^verbatim>\<open>security_helpers/object_id.go\<close>: the row id, the type
  tag and the row's salt are joined by slashes, padded to a whole number of cipher blocks,
  encrypted with AES in CBC mode and encoded twice in base64. The block cipher itself is
  \<^verbatim>\<open>crypto/aes\<close>: a parameter of the model, together with the key and the
  initialisation vector the environment provides. CBC chaining, the padding, the parsing
  and every error branch are modelled.
\<close>

section \<open>The block cipher and CBC chaining\<close>

record aes =
  aes_key :: string
  aes_iv :: string
  aes_encrypt :: "string \<Rightarrow> string \<Rightarrow> string"
  aes_decrypt :: "string \<Rightarrow> string \<Rightarrow> string"

definition block_size :: nat where
  "block_size = 16"

text \<open>\<^verbatim>\<open>aes.NewCipher\<close> refuses any other key size.\<close>

definition key_size_ok :: "string \<Rightarrow> bool" where
  "key_size_ok k \<longleftrightarrow> length k \<in> {16, 24, 32}"

definition xor_char :: "char \<Rightarrow> char \<Rightarrow> char" where
  "xor_char a b = byte ((of_char a :: nat) XOR of_char b)"

definition xor_bytes :: "string \<Rightarrow> string \<Rightarrow> string" where
  "xor_bytes xs ys = map2 xor_char xs ys"

function cbc_encrypt :: "(string \<Rightarrow> string) \<Rightarrow> string \<Rightarrow> string \<Rightarrow> string" where
  "cbc_encrypt E prev src =
     (if src = [] then []
      else let c = E (xor_bytes prev (take 16 src)) in c @ cbc_encrypt E c (drop 16 src))"
  by pat_completeness auto
termination
  by (relation "measure (\<lambda>(E, prev, src). length src)") simp_all

function cbc_decrypt :: "(string \<Rightarrow> string) \<Rightarrow> string \<Rightarrow> string \<Rightarrow> string" where
  "cbc_decrypt D prev src =
     (if src = [] then []
      else xor_bytes prev (D (take 16 src)) @ cbc_decrypt D (take 16 src) (drop 16 src))"
  by pat_completeness auto
termination
  by (relation "measure (\<lambda>(D, prev, src). length src)") simp_all

declare cbc_encrypt.simps [simp del] cbc_decrypt.simps [simp del]

section \<open>Encryption of identifiers\<close>

text \<open>
  \<^verbatim>\<open>GetAESEncrypted\<close>: pad only when the length is not a multiple of the block size.
  \<^verbatim>\<open>cipher.NewCBCEncrypter\<close> panics when the vector is not one block long.
\<close>

definition pad_block :: "string \<Rightarrow> string" where
  "pad_block plain =
     (if length plain mod block_size \<noteq> 0
      then let extend = block_size - length plain mod block_size
           in plain @ replicate extend (byte extend)
      else plain)"

definition GetAESEncrypted :: "aes \<Rightarrow> string \<Rightarrow> string outcome" where
  "GetAESEncrypted A plain =
     (let block = pad_block plain in
      if \<not> key_size_ok (aes_key A) then Failed
      else if length (aes_iv A) \<noteq> block_size then Panicked
      else Returned (StdEncode (cbc_encrypt (aes_encrypt A (aes_key A)) (aes_iv A) block)))"

definition GetAESDecrypted :: "aes \<Rightarrow> string \<Rightarrow> string outcome" where
  "GetAESDecrypted A encrypted =
     (case StdDecode encrypted of
        None \<Rightarrow> Failed
      | Some ciphertext \<Rightarrow>
          if \<not> key_size_ok (aes_key A) then Failed
          else if length ciphertext mod block_size \<noteq> 0 then Failed
          else if length (aes_iv A) \<noteq> block_size then Panicked
          else Returned (cbc_decrypt (aes_decrypt A (aes_key A)) (aes_iv A) ciphertext))"

text \<open>
  \<^verbatim>\<open>PKCS5UnPadding\<close> reads the last byte and cuts that many bytes off: it panics on an
  empty slice and when the last byte is larger than the length.
\<close>

definition PKCS5UnPadding :: "string \<Rightarrow> string outcome" where
  "PKCS5UnPadding src =
     (if src = [] then Panicked
      else let unpadding = of_char (last src) :: nat in
        if length src < unpadding then Panicked
        else Returned (take (length src - unpadding) src))"

section \<open>Encoding and decoding identifiers\<close>

definition slash :: char where
  "slash = CHR ''/''"

definition full_id :: "nat \<Rightarrow> string \<Rightarrow> string \<Rightarrow> string" where
  "full_id i obj salt = itoa i @ slash # obj @ slash # salt"

definition Encode :: "aes \<Rightarrow> nat \<Rightarrow> string \<Rightarrow> string \<Rightarrow> string outcome" where
  "Encode A i obj salt =
     (case GetAESEncrypted A (full_id i obj salt) of
        Panicked \<Rightarrow> Panicked
      | Failed \<Rightarrow> Returned []
      | Returned encrypted \<Rightarrow> Returned (RawURLEncode encrypted))"

definition Decode :: "aes \<Rightarrow> string \<Rightarrow> (nat \<times> string) outcome" where
  "Decode A encoded =
     (case RawURLDecode encoded of
        None \<Rightarrow> Returned (0, [])
      | Some decoded \<Rightarrow>
          (case GetAESDecrypted A decoded of
             Panicked \<Rightarrow> Panicked
           | Failed \<Rightarrow> Returned (0, [])
           | Returned decrypted \<Rightarrow>
               (case Split slash decrypted of
                  [s0, s1, s2] \<Rightarrow>
                    (case ParseUint s0 of
                       None \<Rightarrow> Returned (0, [])
                     | Some i \<Rightarrow> Returned (i, s1))
                | _ \<Rightarrow> Returned (0, []))))"

text \<open>
  What the program relies on: the cipher maps blocks to blocks and decryption inverts
  encryption under the configured key, and the configuration is one \<^verbatim>\<open>crypto/aes\<close>
  accepts. The \<^verbatim>\<open>.env\<close> example of the README has a 32-byte key and a 16-byte vector.
\<close>

definition block_cipher :: "aes \<Rightarrow> bool" where
  "block_cipher A \<longleftrightarrow>
     (\<forall>b. length b = block_size \<longrightarrow>
        length (aes_encrypt A (aes_key A) b) = block_size \<and>
        aes_decrypt A (aes_key A) (aes_encrypt A (aes_key A) b) = b)"

definition aes_configured :: "aes \<Rightarrow> bool" where
  "aes_configured A \<longleftrightarrow> key_size_ok (aes_key A) \<and> length (aes_iv A) = block_size"

section \<open>CBC decryption inverts CBC encryption\<close>

lemma xor_char_twice: "xor_char a (xor_char a b) = b"
proof -
  have "(of_char a :: nat) < 256" "(of_char b :: nat) < 256" by simp_all
  then have t: "take_bit 8 (of_char a :: nat) = of_char a" "take_bit 8 (of_char b :: nat) = of_char b"
    by (simp_all add: take_bit_eq_mod)
  have "(of_char (byte ((of_char a :: nat) XOR of_char b)) :: nat) = take_bit 8 (of_char a XOR of_char b)"
    by (simp add: take_bit_eq_mod)
  also have "\<dots> = of_char a XOR of_char b" by (simp only: take_bit_xor t)
  finally show ?thesis by (simp add: xor_char_def flip: xor.assoc)
qed

lemma xor_bytes_twice: "length xs = length ys \<Longrightarrow> xor_bytes xs (xor_bytes xs ys) = ys"
  by (induction xs ys rule: list_induct2) (simp_all add: xor_bytes_def xor_char_twice)

lemma length_xor_bytes [simp]: "length (xor_bytes xs ys) = min (length xs) (length ys)"
  by (simp add: xor_bytes_def)

lemma cbc_encrypt_Nil [simp]: "cbc_encrypt E prev [] = []"
  by (subst cbc_encrypt.simps) simp

lemma cbc_decrypt_Nil [simp]: "cbc_decrypt D prev [] = []"
  by (subst cbc_decrypt.simps) simp

lemma cbc_encrypt_block:
  "src \<noteq> [] \<Longrightarrow> cbc_encrypt E prev src =
     E (xor_bytes prev (take 16 src)) @ cbc_encrypt E (E (xor_bytes prev (take 16 src))) (drop 16 src)"
  by (subst cbc_encrypt.simps) (simp add: Let_def)

lemma cbc_decrypt_block:
  "length c = 16 \<Longrightarrow> cbc_decrypt D prev (c @ src) = xor_bytes prev (D c) @ cbc_decrypt D c src"
  by (subst cbc_decrypt.simps) auto

lemma cbc_decrypt_encrypt:
  assumes E: "\<And>b. length b = 16 \<Longrightarrow> length (E b) = 16 \<and> D (E b) = b"
    and "length prev = 16" and "length src mod 16 = 0"
  shows "cbc_decrypt D prev (cbc_encrypt E prev src) = src \<and>
         length (cbc_encrypt E prev src) = length src"
  using assms(2,3)
proof (induction "length src" arbitrary: prev src rule: less_induct)
  case less
  show ?case
  proof (cases "src = []")
    case True
    then show ?thesis by simp
  next
    case False
    with less.prems(2) have len: "16 \<le> length src" by (cases "length src < 16") auto
    let ?b = "xor_bytes prev (take 16 src)"
    have b: "length ?b = 16" using len less.prems(1) by simp
    note c = E [OF b]
    have rest: "length (drop 16 src) mod 16 = 0" "length (drop 16 src) < length src"
      using len less.prems(2) le_mod_geq [OF len] by simp_all
    have IH: "cbc_decrypt D (E ?b) (cbc_encrypt E (E ?b) (drop 16 src)) = drop 16 src \<and>
        length (cbc_encrypt E (E ?b) (drop 16 src)) = length (drop 16 src)"
      by (rule less.hyps [OF rest(2) conjunct1 [OF c] rest(1)])
    have "xor_bytes prev ?b = take 16 src" using len less.prems(1) by (simp add: xor_bytes_twice)
    then show ?thesis
      using IH c False len by (simp add: cbc_encrypt_block cbc_decrypt_block)
  qed
qed

section \<open>Padding\<close>

lemma length_pad_block: "length (pad_block plain) mod block_size = 0"
proof (cases "length plain mod block_size = 0")
  case True
  then show ?thesis by (simp add: pad_block_def)
next
  case False
  have "length plain mod 16 < 16" by simp
  then have "(length plain + (16 - length plain mod 16)) mod 16 = 0" by presburger
  with False show ?thesis by (simp add: pad_block_def block_size_def Let_def)
qed

text \<open>The padding is a suffix of bytes between 1 and 15, so it holds no slash.\<close>

lemma pad_block_suffix:
  obtains pad where "pad_block plain = plain @ pad" "slash \<notin> set pad" "length pad < block_size"
proof (cases "length plain mod block_size = 0")
  case True
  then show ?thesis using that [of "[]"] by (simp add: pad_block_def block_size_def)
next
  case False
  define k where "k = block_size - length plain mod block_size"
  have k: "0 < k" "k < block_size"
    using False by (simp_all add: k_def block_size_def)
  have "byte k \<noteq> slash"
  proof
    assume "byte k = slash"
    then have "(of_char (byte k) :: nat) = 47" by (simp add: slash_def)
    moreover have "(of_char (byte k) :: nat) = k" using k by (simp add: block_size_def)
    ultimately show False using k by (simp add: block_size_def)
  qed
  then show ?thesis
    using that [of "replicate k (byte k)"] False k by (simp add: pad_block_def k_def Let_def)
qed

text \<open>Unpadding is right exactly when padding was added; a full last block loses text.\<close>

lemma PKCS5_unpad_padded:
  assumes "length plain mod block_size \<noteq> 0"
  shows "PKCS5UnPadding (pad_block plain) = Returned plain"
proof -
  define k where "k = block_size - length plain mod block_size"
  have k: "0 < k" "k < 16" using assms by (simp_all add: k_def block_size_def)
  have p: "pad_block plain = plain @ replicate k (byte k)"
    using assms by (simp add: pad_block_def k_def Let_def)
  have "last (pad_block plain) = byte k" using k by (simp add: p last_replicate)
  then show ?thesis using k by (simp add: PKCS5UnPadding_def p Let_def)
qed

section \<open>Round trip of identifiers\<close>

lemma GetAES_roundtrip:
  assumes "block_cipher A" and "aes_configured A"
  obtains c where "GetAESEncrypted A plain = Returned c"
    and "GetAESDecrypted A c = Returned (pad_block plain)"
proof -
  let ?E = "aes_encrypt A (aes_key A)" and ?D = "aes_decrypt A (aes_key A)"
  let ?ct = "cbc_encrypt ?E (aes_iv A) (pad_block plain)"
  have cfg: "key_size_ok (aes_key A)" "length (aes_iv A) = 16"
    using assms(2) by (simp_all add: aes_configured_def block_size_def)
  have E: "\<And>b. length b = 16 \<Longrightarrow> length (?E b) = 16 \<and> ?D (?E b) = b"
    using assms(1) by (simp add: block_cipher_def block_size_def)
  have len: "length (pad_block plain) mod 16 = 0"
    using length_pad_block [of plain] by (simp add: block_size_def)
  have "cbc_decrypt ?D (aes_iv A) ?ct = pad_block plain \<and> length ?ct = length (pad_block plain)"
    using cbc_decrypt_encrypt [OF E cfg(2) len] by blast
  then show ?thesis
    using cfg len
    by (intro that [of "StdEncode ?ct"])
      (simp_all add: GetAESEncrypted_def GetAESDecrypted_def Let_def block_size_def std.dec_enc)
qed

lemma Split_full_id:
  assumes "i \<le> max_uint64" and "slash \<notin> set obj" and "slash \<notin> set salt" and "slash \<notin> set pad"
  shows "Split slash (full_id i obj salt @ pad) = [itoa i, obj, salt @ pad]"
proof -
  have "slash \<notin> byte ` {48..57}"
  proof
    assume "slash \<in> byte ` {48..57}"
    then obtain n where "n \<in> {48..57}" "slash = byte n" by blast
    then have "n < 256" "(of_char slash :: nat) = of_char (byte n)" by simp_all
    then have "(of_char slash :: nat) = n" by (simp only: of_char_byte)
    with \<open>n \<in> {48..57}\<close> show False by (simp add: slash_def)
  qed
  then show ?thesis
    using assms by (simp add: full_id_def decimal.Split_framed Split_append Split_no_sep)
qed

lemma Decode_Encode:
  assumes "block_cipher A" and "aes_configured A"
    and "i \<le> max_uint64" and "slash \<notin> set obj" and "slash \<notin> set salt"
  obtains s where "Encode A i obj salt = Returned s" and "Decode A s = Returned (i, obj)"
proof -
  obtain c where c: "GetAESEncrypted A (full_id i obj salt) = Returned c"
      "GetAESDecrypted A c = Returned (pad_block (full_id i obj salt))"
    using GetAES_roundtrip [OF assms(1,2)] by blast
  obtain pad where pad: "pad_block (full_id i obj salt) = full_id i obj salt @ pad"
      "slash \<notin> set pad" "length pad < block_size"
    by (rule pad_block_suffix)
  have "Decode A (RawURLEncode c) = Returned (i, obj)"
    using assms(3-5) pad(2)
    by (simp add: Decode_def rawurl.dec_enc c pad(1) Split_full_id decimal.dec_enc)
  moreover have "Encode A i obj salt = Returned (RawURLEncode c)"
    by (simp add: Encode_def c)
  ultimately show ?thesis by (intro that)
qed

text \<open>Whatever string a client sends, the decoded number is a \<^verbatim>\<open>uint64\<close>.\<close>

lemma Decode_bound: "Decode A s = Returned (i, ty) \<Longrightarrow> i \<le> max_uint64"
  by (auto simp: Decode_def max_uint64_def split: option.splits outcome.splits list.splits
      dest: ParseUint_bound [unfolded max_uint64_def])

lemma Decode_configured: "aes_configured A \<Longrightarrow> Decode A s \<noteq> Panicked \<and> Decode A s \<noteq> Failed"
  by (auto simp: Decode_def GetAESDecrypted_def aes_configured_def
      split: option.splits outcome.splits list.splits)

lemma Encode_configured: "aes_configured A \<Longrightarrow> \<exists>s. Encode A i obj salt = Returned s"
  by (auto simp: Encode_def GetAESEncrypted_def aes_configured_def Let_def split: outcome.splits)

end
