(* ===== verification/Models.thy ===== *)
theory Models
  imports Object_Id
begin

text \<open>
  The data of the program: what the process gets from outside (the record \<open>env\<close>), JSON
  values, the row types of \<^verbatim>\<open>db/chat_users_db/model\<close> and their \<^verbatim>\<open>ToFiberMap\<close>
  renderings. Time is a natural number of seconds; a nullable column
  (\<^verbatim>\<open>sql.NullString\<close> and its kin) is an \<open>option\<close>.
\<close>

section \<open>What the process gets from outside\<close>

text \<open>
  \<^item> \<open>env_aes\<close>: key, vector and block cipher (\<^verbatim>\<open>crypto/aes\<close>);
  \<^item> \<open>env_getenv\<close>: \<^verbatim>\<open>os.Getenv\<close>;
  \<^item> \<open>env_fault n\<close>: whether the \<open>n\<close>-th call to MySQL or Redis fails, and with what text;
  \<^item> \<open>env_now n\<close>, \<open>env_uuid n\<close>, \<open>env_rand n\<close>: clock, fresh UUID and random draw at call \<open>n\<close>;
  \<^item> \<open>env_lower\<close>: \<^verbatim>\<open>unicode.ToLower\<close> above ASCII;
  \<^item> \<open>env_collate\<close>: the collation key of the database's text columns;
  \<^item> \<open>env_rfc3339\<close>, \<open>env_parse_time\<close>: \<^verbatim>\<open>time.Format\<close> and \<^verbatim>\<open>time.Parse\<close>;
  \<^item> \<open>env_translate field rule\<close>: the validator's message texts;
  \<^item> \<open>env_email_ok\<close>, \<open>env_parse_address\<close>: the validator's email rule, \<^verbatim>\<open>mail.ParseAddress\<close>;
  \<^item> \<open>env_bcrypt_hash\<close>, \<open>env_bcrypt_check\<close>: \<^verbatim>\<open>golang.org/x/crypto/bcrypt\<close>;
  \<^item> \<open>env_sign\<close>: the signed token for an id claim and an expiry;
  \<^item> \<open>env_cloudflare\<close>: whether \<^verbatim>\<open>cloudflare.New\<close> accepts the configured key and address;
  \<^item> \<open>env_file_io n\<close>: whether the uploaded file can be opened or saved at call \<open>n\<close>;
  \<^item> \<open>env_image_id\<close>, \<open>env_video\<close>: the image id, and the stream uid and thumbnail, that the
    Cloudflare client returns for a file name at call \<open>n\<close> (its errors are never looked at);
  \<^item> \<open>env_r2_key\<close>: the key of an upload to the bucket, or its error.
\<close>

record env =
  env_aes :: aes
  env_getenv :: "string \<Rightarrow> string"
  env_fault :: "nat \<Rightarrow> string option"
  env_now :: "nat \<Rightarrow> nat"
  env_uuid :: "nat \<Rightarrow> string"
  env_rand :: "nat \<Rightarrow> 64 word"
  env_lower :: "nat \<Rightarrow> nat"
  env_collate :: "string \<Rightarrow> string"
  env_rfc3339 :: "nat \<Rightarrow> string"
  env_parse_time :: "string \<Rightarrow> nat option"
  env_translate :: "string \<Rightarrow> string \<Rightarrow> string"
  env_email_ok :: "string \<Rightarrow> bool"
  env_parse_address :: "string \<Rightarrow> string option"
  env_bcrypt_hash :: "string \<Rightarrow> string option"
  env_bcrypt_check :: "string \<Rightarrow> string \<Rightarrow> bool"
  env_sign :: "string \<Rightarrow> nat \<Rightarrow> string option"
  env_cloudflare :: bool
  env_file_io :: "nat \<Rightarrow> bool"
  env_image_id :: "nat \<Rightarrow> string \<Rightarrow> string"
  env_video :: "nat \<Rightarrow> string \<Rightarrow> string \<times> string"
  env_r2_key :: "nat \<Rightarrow> string \<Rightarrow> string option"

section \<open>JSON\<close>

text \<open>A \<^verbatim>\<open>fiber.Map\<close> is an object; its fields are kept in the order the code lists them.\<close>

datatype json =
    JNull
  | JBool bool
  | JNum int
  | JStr string
  | JArr "json list"
  | JObj "(string \<times> json) list"

fun json_fields :: "json \<Rightarrow> (string \<times> json) list" where
  "json_fields (JObj fs) = fs"
| "json_fields _ = []"

definition json_field :: "json \<Rightarrow> string \<Rightarrow> json option" where
  "json_field j k = map_of (json_fields j) k"

text \<open>\<^verbatim>\<open>maps.Copy(dst, src)\<close>: every entry of \<open>src\<close> replaces the one of \<open>dst\<close>.\<close>

definition copy_fields :: "(string \<times> json) list \<Rightarrow> (string \<times> json) list \<Rightarrow> (string \<times> json) list" where
  "copy_fields dst src = filter (\<lambda>(k, _). k \<notin> fst ` set src) dst @ src"

definition json_opt :: "string option \<Rightarrow> json" where
  "json_opt s = (case s of None \<Rightarrow> JNull | Some t \<Rightarrow> JStr t)"

text \<open>\<^verbatim>\<open>sql.NullString.String\<close> is the empty string on a null.\<close>

definition null_string :: "string option \<Rightarrow> string" where
  "null_string s = (case s of None \<Rightarrow> [] | Some t \<Rightarrow> t)"

section \<open>Permissions\<close>

datatype permission =
    ViewChannels | ManageChannels | ManageCommunity | CreateInvite
  | KickMembers | BanMembers | SendMessages | AttachMedia

text \<open>\<^verbatim>\<open>iota + 1\<close>: the constants are numbered from 1.\<close>

fun EnumIndex :: "permission \<Rightarrow> nat" where
  "EnumIndex ViewChannels = 1"
| "EnumIndex ManageChannels = 2"
| "EnumIndex ManageCommunity = 3"
| "EnumIndex CreateInvite = 4"
| "EnumIndex KickMembers = 5"
| "EnumIndex BanMembers = 6"
| "EnumIndex SendMessages = 7"
| "EnumIndex AttachMedia = 8"

definition permission_names :: "string list" where
  "permission_names =
     [''view_channels'', ''manage_channels'', ''manage_community'', ''create_invite'',
      ''kick_members'', ''ban_members'', ''send_messages'', ''attach_media'']"

definition permission_String :: "permission \<Rightarrow> string" where
  "permission_String w = permission_names ! (EnumIndex w - 1)"

record permissions =
  p_view_channels :: bool
  p_manage_channels :: bool
  p_manage_community :: bool
  p_create_invite :: bool
  p_kick_members :: bool
  p_ban_members :: bool
  p_send_messages :: bool
  p_attach_media :: bool

text \<open>\<^verbatim>\<open>CommunitiesUsers.HasCommunityPermission\<close>: the switch over the constants.\<close>

fun has_perm :: "permissions \<Rightarrow> permission \<Rightarrow> bool" where
  "has_perm c ViewChannels = p_view_channels c"
| "has_perm c ManageChannels = p_manage_channels c"
| "has_perm c ManageCommunity = p_manage_community c"
| "has_perm c CreateInvite = p_create_invite c"
| "has_perm c KickMembers = p_kick_members c"
| "has_perm c BanMembers = p_ban_members c"
| "has_perm c SendMessages = p_send_messages c"
| "has_perm c AttachMedia = p_attach_media c"

definition no_permissions :: permissions where
  "no_permissions = \<lparr>p_view_channels = False, p_manage_channels = False,
     p_manage_community = False, p_create_invite = False, p_kick_members = False,
     p_ban_members = False, p_send_messages = False, p_attach_media = False\<rparr>"

definition Permissions_ToFiberMap :: "permissions \<Rightarrow> (string \<times> json) list" where
  "Permissions_ToFiberMap c =
     [(''view_channels'', JBool (p_view_channels c)),
      (''manage_channels'', JBool (p_manage_channels c)),
      (''manage_community'', JBool (p_manage_community c)),
      (''create_invite'', JBool (p_create_invite c)),
      (''kick_members'', JBool (p_kick_members c)),
      (''ban_members'', JBool (p_ban_members c)),
      (''send_messages'', JBool (p_send_messages c)),
      (''attach_media'', JBool (p_attach_media c))]"

instantiation permission :: linorder
begin

definition less_eq_permission :: "permission \<Rightarrow> permission \<Rightarrow> bool" where
  "less_eq_permission a b \<longleftrightarrow> EnumIndex a \<le> EnumIndex b"

definition less_permission :: "permission \<Rightarrow> permission \<Rightarrow> bool" where
  "less_permission a b \<longleftrightarrow> EnumIndex a < EnumIndex b"

instance
proof
  fix x y z :: permission
  show "(x < y) = (x \<le> y \<and> \<not> y \<le> x)"
    by (auto simp: less_eq_permission_def less_permission_def)
  show "x \<le> x" by (simp add: less_eq_permission_def)
  show "x \<le> y \<Longrightarrow> y \<le> z \<Longrightarrow> x \<le> z" by (simp add: less_eq_permission_def)
  show "x \<le> y \<Longrightarrow> y \<le> x \<Longrightarrow> x = y"
    by (cases x; cases y) (simp_all add: less_eq_permission_def)
  show "x \<le> y \<or> y \<le> x" by (auto simp: less_eq_permission_def)
qed

end

text \<open>A permission set is the eight answers it gives.\<close>

lemma permissions_eqI: "(\<And>k. has_perm p k = has_perm q k) \<Longrightarrow> p = (q :: permissions)"
proof -
  assume h: "\<And>k. has_perm p k = has_perm q k"
  show "p = q"
    using h [of ViewChannels] h [of ManageChannels] h [of ManageCommunity] h [of CreateInvite]
      h [of KickMembers] h [of BanMembers] h [of SendMessages] h [of AttachMedia]
    by simp
qed

lemma has_perm_none [perm_simps]: "\<not> has_perm no_permissions k"
  by (cases k) (simp_all add: no_permissions_def)

text \<open>The name of a constant is the column the switch reads for it.\<close>

lemma permission_column:
  "map_of (Permissions_ToFiberMap p) (permission_String k) = Some (JBool (has_perm p k))"
  by (cases k) (simp_all add: Permissions_ToFiberMap_def permission_String_def permission_names_def
      numeral_nat)

text \<open>The Redis key of a user's cached permissions in a community.\<close>

definition PermissionRedisKey :: "nat \<Rightarrow> nat \<Rightarrow> string" where
  "PermissionRedisKey uId cId = ''user-'' @ itoa uId @ ''-'' @ itoa cId @ ''-permissions''"


section \<open>Rows\<close>

record users_row =
  u_id :: nat
  u_created_at :: nat
  u_updated_at :: "nat option"
  u_salt :: string
  u_password_hash :: string
  u_email :: string
  u_name :: "string option"
  u_handle :: "string option"
  u_date_of_birth :: "nat option"
  u_about :: "string option"
  u_community_owner_count :: nat
  u_community_participant_count :: nat
  u_verified :: bool
  u_last_active_at :: nat
  u_cf_avatar_images_id :: "string option"
  u_avatar_file_id :: "nat option"

record communities_row =
  c_id :: nat
  c_created_at :: nat
  c_updated_at :: "nat option"
  c_private :: bool
  c_self_hosted :: bool
  c_owner_id :: nat
  c_salt :: string
  c_name :: string
  c_handle :: string
  c_fqn :: string
  c_railway_service_id :: "string option"
  c_railway_deploy_status :: "string option"
  c_cf_record_id :: "string option"
  c_ready :: bool
  c_permissions :: permissions

record communities_users_row =
  cu_created_at :: nat
  cu_community_id :: nat
  cu_selected_channel_id :: nat
  cu_user_id :: nat
  cu_permissions :: permissions

record community_roles_row =
  r_id :: nat
  r_created_at :: nat
  r_updated_at :: "nat option"
  r_salt :: string
  r_color :: string
  r_community_id :: nat
  r_name :: string
  r_show_online_differently :: bool
  r_priority :: nat
  r_permissions :: permissions

record community_roles_users_row =
  ru_created_at :: nat
  ru_community_role_id :: nat
  ru_user_id :: nat
  ru_community_id :: nat

record channels_row =
  ch_id :: nat
  ch_created_at :: nat
  ch_updated_at :: "nat option"
  ch_community_id :: nat
  ch_group_id :: nat
  ch_salt :: string
  ch_name :: string
  ch_handle :: string

record channel_groups_row =
  g_id :: nat
  g_created_at :: nat
  g_updated_at :: "nat option"
  g_community_id :: nat
  g_salt :: string
  g_name :: string

record messages_row =
  m_id :: nat
  m_created_at :: nat
  m_updated_at :: "nat option"
  m_text :: string
  m_salt :: string
  m_user_id :: nat
  m_channel_id :: nat
  m_community_id :: nat
  m_edited :: bool
  m_parent_id :: nat

record files_row =
  f_id :: nat
  f_created_at :: nat
  f_salt :: string
  f_file_name :: string
  f_user_id :: nat
  f_content_size :: nat
  f_message_id :: "nat option"
  f_mime_type :: "string option"
  f_cf_images_id :: "string option"
  f_cf_video_stream_uid :: "string option"
  f_cf_video_stream_thumbnail :: "string option"
  f_cf_r2_id :: "string option"

record community_invites_row =
  i_id :: nat
  i_created_at :: nat
  i_updated_at :: "nat option"
  i_expires_at :: nat
  i_expires_on_use :: bool
  i_salt :: string
  i_code :: string
  i_user_id :: nat
  i_community_id :: nat

record communities_banned_users_row =
  b_created_at :: nat
  b_community_id :: nat
  b_user_id :: nat

record beta_users_row =
  bu_id :: nat
  bu_created_at :: nat
  bu_updated_at :: "nat option"
  bu_email :: string
  bu_redeemed :: bool
  bu_enabled :: bool

definition HasCommunityPermission_row :: "communities_users_row \<Rightarrow> permission \<Rightarrow> bool" where
  "HasCommunityPermission_row c k = has_perm (cu_permissions c) k"

text \<open>The zero value of \<^verbatim>\<open>model.CommunitiesUsers\<close>, which an unreadable cache entry leaves.\<close>

definition zero_communities_user :: communities_users_row where
  "zero_communities_user =
     \<lparr>cu_created_at = 0, cu_community_id = 0, cu_selected_channel_id = 0, cu_user_id = 0,
      cu_permissions = no_permissions\<rparr>"

section \<open>Reactions\<close>

record reaction_user =
  rx_user_id :: nat
  rx_user_handle :: string

type_synonym reactions = "(string \<times> reaction_user list) list"

record messages_reactions =
  mr_message_id :: nat
  mr_reactions :: reactions

text \<open>
  \<^verbatim>\<open>RemoveReactionUser(slice, s)\<close>: \<^verbatim>\<open>append(slice[:s], slice[s+1:]...)\<close>, which panics when
  \<open>s\<close> is not an index.
\<close>

definition RemoveReactionUser :: "reaction_user list \<Rightarrow> nat \<Rightarrow> reaction_user list outcome" where
  "RemoveReactionUser xs s =
     (if s < length xs then Returned (take s xs @ drop (Suc s) xs) else Panicked)"

definition Reactions_ToFiberMap :: "messages_reactions \<Rightarrow> json" where
  "Reactions_ToFiberMap c =
     JObj (map (\<lambda>(i, m). (i, JArr (map (\<lambda>u. JObj [(''user_id'', JNum (int (rx_user_id u))),
        (''user_handle'', JStr (rx_user_handle u))]) m))) (mr_reactions c))"

section \<open>Type tags and renderings\<close>

definition USERS_TYPE :: string where "USERS_TYPE = ''Users''"
definition COMMUNITIES_TYPE :: string where "COMMUNITIES_TYPE = ''Communities''"
definition CHANNELS_TYPE :: string where "CHANNELS_TYPE = ''Channel''"
definition CHANNEL_GROUPS_TYPE :: string where "CHANNEL_GROUPS_TYPE = ''ChannelGroup''"
definition COMMUNITY_ROLES_TYPE :: string where "COMMUNITY_ROLES_TYPE = ''CommunityRole''"
definition MESSAGES_TYPE :: string where "MESSAGES_TYPE = ''Messages''"
definition FILES_TYPE :: string where "FILES_TYPE = ''Files''"

lemmas type_tags = USERS_TYPE_def COMMUNITIES_TYPE_def CHANNELS_TYPE_def CHANNEL_GROUPS_TYPE_def
  COMMUNITY_ROLES_TYPE_def MESSAGES_TYPE_def FILES_TYPE_def

text \<open>The seven tags are different and hold no slash, so a tag survives the round trip.\<close>

lemma type_tags_distinct:
  "distinct [USERS_TYPE, COMMUNITIES_TYPE, CHANNELS_TYPE, CHANNEL_GROUPS_TYPE,
     COMMUNITY_ROLES_TYPE, MESSAGES_TYPE, FILES_TYPE]"
  by (simp add: type_tags)

lemma type_tags_no_slash:
  "list_all (\<lambda>t. slash \<notin> set t) [USERS_TYPE, COMMUNITIES_TYPE, CHANNELS_TYPE,
     CHANNEL_GROUPS_TYPE, COMMUNITY_ROLES_TYPE, MESSAGES_TYPE, FILES_TYPE]"
  by (simp add: type_tags slash_def)

text \<open>A rendering that starts by encoding the row's identifier.\<close>

definition with_encoded ::
  "env \<Rightarrow> nat \<Rightarrow> string \<Rightarrow> string \<Rightarrow> (string \<Rightarrow> 'a) \<Rightarrow> 'a outcome" where
  "with_encoded E i ty salt k =
     (case Encode (env_aes E) i ty salt of
        Returned s \<Rightarrow> Returned (k s) | Failed \<Rightarrow> Failed | Panicked \<Rightarrow> Panicked)"

text \<open>Rendering a list of rows: one panic is a panic.\<close>

fun outcomes :: "'a outcome list \<Rightarrow> 'a list outcome" where
  "outcomes [] = Returned []"
| "outcomes (x # xs) =
     (case x of
        Panicked \<Rightarrow> Panicked | Failed \<Rightarrow> Failed
      | Returned a \<Rightarrow>
          (case outcomes xs of Returned bs \<Rightarrow> Returned (a # bs) | Failed \<Rightarrow> Failed | Panicked \<Rightarrow> Panicked))"

definition avatar_url :: "env \<Rightarrow> users_row \<Rightarrow> string option" where
  "avatar_url E u =
     map_option (\<lambda>s. env_getenv E ''CLOUDFLARE_IMAGES_PROXY'' @ s @ ''/public'')
       (u_cf_avatar_images_id u)"

definition Users_ToFiberMap :: "env \<Rightarrow> users_row \<Rightarrow> json outcome" where
  "Users_ToFiberMap E c =
     with_encoded E (u_id c) USERS_TYPE (u_salt c) (\<lambda>i.
       JObj [(''id'', JStr i), (''created_at'', JStr (env_rfc3339 E (u_created_at c))),
             (''name'', JStr (null_string (u_name c))),
             (''handle'', JStr (null_string (u_handle c))),
             (''about'', JStr (null_string (u_about c))),
             (''avatar_url'', json_opt (avatar_url E c))])"

definition GHOST_USER :: "nat \<Rightarrow> users_row" where
  "GHOST_USER now =
     \<lparr>u_id = 0, u_created_at = now, u_updated_at = None, u_salt = ''ghost'',
      u_password_hash = ''beepbeep'', u_email = ''ghost@wikid.app'', u_name = Some ''Ghost'',
      u_handle = Some ''Ghost'', u_date_of_birth = None, u_about = None,
      u_community_owner_count = 0, u_community_participant_count = 0, u_verified = False,
      u_last_active_at = 0, u_cf_avatar_images_id = None, u_avatar_file_id = None\<rparr>"

definition CommunityRoles_ToFiberMap ::
  "env \<Rightarrow> community_roles_row \<Rightarrow> bool \<Rightarrow> (string \<times> json) list outcome" where
  "CommunityRoles_ToFiberMap E c showPermissions =
     with_encoded E (r_id c) COMMUNITY_ROLES_TYPE (r_salt c) (\<lambda>i.
       let info = [(''id'', JStr i), (''created_at'', JStr (env_rfc3339 E (r_created_at c))),
                   (''name'', JStr (r_name c)), (''color'', JStr (r_color c)),
                   (''priority'', JNum (int (r_priority c))),
                   (''show_online_differently'', JBool (r_show_online_differently c))]
       in if showPermissions then copy_fields info (Permissions_ToFiberMap (r_permissions c))
          else info)"

definition Channels_ToFiberMap :: "env \<Rightarrow> channels_row \<Rightarrow> json outcome" where
  "Channels_ToFiberMap E c =
     with_encoded E (ch_id c) CHANNELS_TYPE (ch_salt c) (\<lambda>i.
       JObj [(''id'', JStr i), (''created_at'', JStr (env_rfc3339 E (ch_created_at c))),
             (''name'', JStr (ch_name c)), (''handle'', JStr (ch_handle c))])"

definition Messages_ToFiberMap :: "env \<Rightarrow> messages_row \<Rightarrow> json outcome" where
  "Messages_ToFiberMap E c =
     with_encoded E (m_id c) MESSAGES_TYPE (m_salt c) (\<lambda>i.
       JObj [(''id'', JStr i), (''created_at'', JStr (env_rfc3339 E (m_created_at c))),
             (''text'', JStr (m_text c)), (''edited'', JBool (m_edited c))])"

definition CommunityInvites_ToFiberMap :: "env \<Rightarrow> community_invites_row \<Rightarrow> json" where
  "CommunityInvites_ToFiberMap E c =
     JObj [(''code'', JStr (i_code c)), (''created_at'', JStr (env_rfc3339 E (i_created_at c))),
           (''expires_at'', JStr (env_rfc3339 E (i_expires_at c)))]"

definition Files_ToFiberMap :: "env \<Rightarrow> files_row \<Rightarrow> json outcome" where
  "Files_ToFiberMap E c =
     with_encoded E (f_id c) FILES_TYPE (f_salt c) (\<lambda>i.
       let common = [(''id'', JStr i), (''created_at'', JStr (env_rfc3339 E (f_created_at c))),
                     (''name'', JStr (f_file_name c)),
                     (''content_size'', JNum (int (f_content_size c))),
                     (''mime_type'', JStr (null_string (f_mime_type c)))]
       in case f_cf_images_id c of
            Some img \<Rightarrow>
              (let url = env_getenv E ''CLOUDFLARE_IMAGES_PROXY'' @ img @ ''/public''
               in JObj (common @ [(''url'', JStr url), (''thumbnail_url'', JStr url)]))
          | None \<Rightarrow>
              (case f_cf_video_stream_uid c of
                 Some uid \<Rightarrow>
                   (let base = env_getenv E ''CLOUDFLARE_VIDEOS_PROXY'' @ uid in
                    JObj (common @
                      [(''dash_url'', JStr (base @ ''/manifest/video.mpd'')),
                       (''hls_url'', JStr (base @ ''/manifest/video.m3u8'')),
                       (''thumbnail_url'', JStr (null_string (f_cf_video_stream_thumbnail c)))]))
               | None \<Rightarrow>
                   JObj (common @
                     [(''url'', JStr (env_getenv E ''CLOUDFLARE_FILES_PROXY''
                        @ null_string (f_cf_r2_id c)))])))"

text \<open>Showing the permissions of a role adds to the rendering and replaces nothing.\<close>

lemma role_rendering_fields:
  assumes "CommunityRoles_ToFiberMap E r True = Returned fs"
  shows "map_of fs (permission_String k) = Some (JBool (has_perm (r_permissions r) k))"
    and "map_of fs ''name'' = Some (JStr (r_name r))"
proof -
  obtain i where fs: "fs = [(''id'', JStr i), (''created_at'', JStr (env_rfc3339 E (r_created_at r))),
      (''name'', JStr (r_name r)), (''color'', JStr (r_color r)),
      (''priority'', JNum (int (r_priority r))),
      (''show_online_differently'', JBool (r_show_online_differently r))]
      @ Permissions_ToFiberMap (r_permissions r)"
    using assms by (auto simp: CommunityRoles_ToFiberMap_def with_encoded_def copy_fields_def
        Permissions_ToFiberMap_def Let_def split: outcome.splits)
  show "map_of fs (permission_String k) = Some (JBool (has_perm (r_permissions r) k))"
    unfolding fs by (cases k) (simp_all add: permission_String_def permission_names_def
        Permissions_ToFiberMap_def numeral_nat)
  show "map_of fs ''name'' = Some (JStr (r_name r))"
    unfolding fs by simp
qed

section \<open>Redis keys\<close>

definition user_key :: "nat \<Rightarrow> string" where
  "user_key i = ''user-'' @ itoa i"

definition user_channel_key :: "nat \<Rightarrow> nat \<Rightarrow> string" where
  "user_channel_key u ch = ''user-'' @ itoa u @ ''-channel-'' @ itoa ch"

definition reactions_key :: "nat \<Rightarrow> string" where
  "reactions_key m = ''message-reactions-'' @ itoa m"

lemma dash_not_digit: "CHR ''-'' \<notin> set (itoa n)"
  using itoa_digits [of "CHR ''-''" n] by auto

text \<open>A number followed by a dash is read off unambiguously.\<close>

lemma itoa_dash_cancel: "itoa m @ CHR ''-'' # xs = itoa n @ CHR ''-'' # ys \<longleftrightarrow> m = n \<and> xs = ys"
proof
  assume eq: "itoa m @ CHR ''-'' # xs = itoa n @ CHR ''-'' # ys"
  have "Split (CHR ''-'') (itoa m @ CHR ''-'' # xs) = itoa m # Split (CHR ''-'') xs"
       "Split (CHR ''-'') (itoa n @ CHR ''-'' # ys) = itoa n # Split (CHR ''-'') ys"
    by (simp_all add: Split_append dash_not_digit)
  then have "itoa m = itoa n" using eq by simp
  then show "m = n \<and> xs = ys" using eq itoa_inj by auto
qed simp

lemma itoa_not_dashed: "itoa m \<noteq> itoa n @ CHR ''-'' # ys"
  using dash_not_digit [of m] by auto

lemma PermissionRedisKey_inj [simp]:
  "PermissionRedisKey u c = PermissionRedisKey u' c' \<longleftrightarrow> u = u' \<and> c = c'"
  by (auto simp: PermissionRedisKey_def itoa_dash_cancel dest: itoa_inj)

lemma user_key_inj [simp]: "user_key u = user_key u' \<longleftrightarrow> u = u'"
  by (auto simp: user_key_def dest: itoa_inj)

lemma reactions_key_inj [simp]: "reactions_key m = reactions_key n \<longleftrightarrow> m = n"
  by (auto simp: reactions_key_def dest: itoa_inj)

lemma PermissionRedisKey_other [simp]:
  "PermissionRedisKey u c \<noteq> user_key v" "PermissionRedisKey u c \<noteq> user_channel_key v ch"
  "PermissionRedisKey u c \<noteq> reactions_key m"
  "user_key v \<noteq> PermissionRedisKey u c" "user_channel_key v ch \<noteq> PermissionRedisKey u c"
  "reactions_key m \<noteq> PermissionRedisKey u c"
proof -
  have chan: "itoa c @ ''-permissions'' \<noteq> ''channel-'' @ ys" for ys
    using itoa_digits [of "hd (itoa c)" c] by (cases "itoa c") auto
  show u: "PermissionRedisKey u c \<noteq> user_key v"
    using itoa_not_dashed [of v u "itoa c @ ''-permissions''"] by (auto simp: PermissionRedisKey_def user_key_def)
  show ch: "PermissionRedisKey u c \<noteq> user_channel_key v ch"
    using chan by (simp add: PermissionRedisKey_def user_channel_key_def itoa_dash_cancel)
  show r: "PermissionRedisKey u c \<noteq> reactions_key m"
    by (simp add: PermissionRedisKey_def reactions_key_def)
  from u show "user_key v \<noteq> PermissionRedisKey u c" by simp
  from ch show "user_channel_key v ch \<noteq> PermissionRedisKey u c" by simp
  from r show "reactions_key m \<noteq> PermissionRedisKey u c" by simp
qed

lemma user_key_other [simp]:
  "user_key i \<noteq> reactions_key m" "reactions_key m \<noteq> user_key i"
  "user_key i \<noteq> user_channel_key u c" "user_channel_key u c \<noteq> user_key i"
  "reactions_key m \<noteq> user_channel_key u c" "user_channel_key u c \<noteq> reactions_key m"
proof -
  show r: "user_key i \<noteq> reactions_key m" by (simp add: user_key_def reactions_key_def)
  show c: "user_key i \<noteq> user_channel_key u c"
    using itoa_not_dashed [of i u "''channel-'' @ itoa c"] by (auto simp: user_channel_key_def user_key_def)
  show m: "reactions_key m \<noteq> user_channel_key u c" by (simp add: reactions_key_def user_channel_key_def)
  from r show "reactions_key m \<noteq> user_key i" by simp
  from c show "user_channel_key u c \<noteq> user_key i" by simp
  from m show "user_channel_key u c \<noteq> reactions_key m" by simp
qed

end
