(* ===== verification/Store.thy ===== *)
theory Store
  imports Models
begin

text \<open>
  The two stores the program talks to, as one state that every call threads: the MySQL
  tables of \<^verbatim>\<open>db/migrations\<close>, the open transactions, the Redis keys, and the goroutines
  that were started and have not run yet; and the calls to the providers of the hosted
  communities.

  A call to a store returns an error or a value. Before a statement reaches the tables the
  schedule \<open>env_fault\<close> may fail it, the server rejects a table that is not in the schema,
  and the driver rejects a statement whose arguments do not match its placeholders. A
  transaction works on its own copy of the tables; a commit that succeeds makes the copy
  the tables, a commit that fails and a rollback drop it. The counters behind
  \<^verbatim>\<open>AUTO_INCREMENT\<close> are not part of the copy: a rollback does not give an id back.
  The read and the write Redis client are one store: replication lag is not modelled.
\<close>

section \<open>State\<close>

record database =
  d_users :: "users_row list"
  d_communities :: "communities_row list"
  d_members :: "communities_users_row list"
  d_roles :: "community_roles_row list"
  d_roles_users :: "community_roles_users_row list"
  d_channels :: "channels_row list"
  d_groups :: "channel_groups_row list"
  d_messages :: "messages_row list"
  d_files :: "files_row list"
  d_invites :: "community_invites_row list"
  d_banned :: "communities_banned_users_row list"
  d_beta :: "beta_users_row list"

definition schema_tables :: "string list" where
  "schema_tables =
     [''users'', ''communities'', ''communities_users'', ''community_roles'',
      ''community_roles_users'', ''channels'', ''channel_groups'', ''messages'', ''files'',
      ''community_invites'', ''communities_banned_users'', ''beta_users'']"

datatype db_err =
    ErrNoRows | ErrNoTable string | ErrArity | ErrDuplicate | ErrNoDefault string | ErrTooLong
  | ErrOutOfRange | ErrAutoInc | ErrEmptyIn | ErrTxDone | ErrRedisNil | ErrFault string

text \<open>\<^verbatim>\<open>err.Error()\<close>, as far as the program reads it: it searches for \<^verbatim>\<open>duplicate\<close>.\<close>

fun err_text :: "db_err \<Rightarrow> string" where
  "err_text ErrNoRows = ''sql: no rows in result set''"
| "err_text (ErrNoTable t) = ''Error 1146 (42S02): Table '' @ t @ '' doesn't exist''"
| "err_text ErrArity = ''sql: expected arguments do not match''"
| "err_text ErrDuplicate = ''Error 1062 (23000): Duplicate entry''"
| "err_text (ErrNoDefault c) = ''Error 1364 (HY000): Field '' @ c @ '' doesn't have a default value''"
| "err_text ErrTooLong = ''Error 1406 (22001): Data too long for column''"
| "err_text ErrOutOfRange = ''Error 1264 (22003): Out of range value for column''"
| "err_text ErrAutoInc = ''Error 1467 (HY000): Failed to read auto-increment value from storage engine''"
| "err_text ErrEmptyIn = ''empty slice passed to 'in' query''"
| "err_text ErrTxDone = ''sql: transaction has already been committed or rolled back''"
| "err_text ErrRedisNil = ''redis: nil''"
| "err_text (ErrFault s) = s"

definition contains :: "string \<Rightarrow> string \<Rightarrow> bool" where
  "contains s sub \<longleftrightarrow> (\<exists>i \<in> {0..length s}. take (length sub) (drop i s) = sub)"

text \<open>Redis values are the JSON texts the program stores, kept as the value they encode.\<close>

datatype rval =
    RPerm communities_users_row
  | RUser users_row
  | RReactions messages_reactions
  | RText string

text \<open>What a goroutine still has to do.\<close>

record role_input =
  ri_name :: string
  ri_color :: string
  ri_show_online_differently :: bool
  ri_permissions :: permissions
  ri_members :: "string list"

datatype job =
    JobRedisSet string rval "nat option"
  | JobRedisStamp string
  | JobLastActive nat
  | JobEditRole nat communities_row role_input
  | JobBroadcast string json

text \<open>
  What the workers of the queue have asked Railway, Cloudflare and Postmark to do, with the
  answer: the result, or nothing on an error.
\<close>

record dns_record =
  dr_record_type :: string
  dr_required_value :: string

datatype provider_call =
    ServiceCreate string "string option"
  | CustomDomainCreate string string "dns_record list option"
  | VariableCollectionUpsert string "(string \<times> string) list" bool
  | CreateDNSRecord string string string "string option"
  | ServiceInstanceUpdate string string bool
  | ServiceConnect string string string bool
  | ServiceDelete string bool
  | DeleteDNSRecord string string bool
  | SendTemplatedEmail string "(string \<times> json) list" string string bool

record world =
  w_db :: database
  w_txs :: "database list"
  w_auto :: "string \<Rightarrow> nat"
  w_last_id :: nat
  w_redis :: "string \<Rightarrow> (rval \<times> nat option) option"
  w_tick :: nat
  w_jobs :: "job list"
  w_calls :: "provider_call list"

type_synonym 'a call = "world \<Rightarrow> (db_err + 'a) \<times> world"

section \<open>Statements\<close>

text \<open>The table a statement names, its placeholders, and the arguments the code passes.\<close>

record stmt =
  st_table :: string
  st_holes :: nat
  st_args :: nat

abbreviation on_table :: "string \<Rightarrow> stmt" where
  "on_table t \<equiv> \<lparr>st_table = t, st_holes = 0, st_args = 0\<rparr>"

definition prepare :: "stmt \<Rightarrow> db_err option" where
  "prepare s =
     (if st_table s \<notin> set schema_tables then Some (ErrNoTable (st_table s))
      else if st_holes s \<noteq> st_args s then Some ErrArity
      else None)"

lemma prepare_on_table [simp]: "t \<in> set schema_tables \<Longrightarrow> prepare (on_table t) = None"
  by (simp add: prepare_def)

text \<open>Every call to a store is numbered, so that the schedule can fail any of them.\<close>

definition tick :: "world \<Rightarrow> world" where
  "tick w = w\<lparr>w_tick := Suc (w_tick w)\<rparr>"

definition external :: "env \<Rightarrow> 'a call \<Rightarrow> 'a call" where
  "external E f w =
     (case env_fault E (w_tick w) of
        Some e \<Rightarrow> (Inl (ErrFault e), tick w)
      | None \<Rightarrow> f (tick w))"

definition statement :: "env \<Rightarrow> stmt \<Rightarrow> 'a call \<Rightarrow> 'a call" where
  "statement E s f =
     external E (\<lambda>w. case prepare s of Some e \<Rightarrow> (Inl e, w) | None \<Rightarrow> f w)"

definition select_in :: "'a option \<Rightarrow> db_err + 'a" where
  "select_in r = (case r of None \<Rightarrow> Inl ErrNoRows | Some x \<Rightarrow> Inr x)"

text \<open>\<^verbatim>\<open>db.Select\<close>, \<^verbatim>\<open>db.Get\<close> and \<^verbatim>\<open>db.Exec\<close>, outside a transaction.\<close>

definition db_select :: "env \<Rightarrow> stmt \<Rightarrow> (database \<Rightarrow> 'a) \<Rightarrow> 'a call" where
  "db_select E s f = statement E s (\<lambda>w. (Inr (f (w_db w)), w))"

definition db_get :: "env \<Rightarrow> stmt \<Rightarrow> (database \<Rightarrow> 'a option) \<Rightarrow> 'a call" where
  "db_get E s f = statement E s (\<lambda>w. (select_in (f (w_db w)), w))"

definition db_exec :: "env \<Rightarrow> stmt \<Rightarrow> (database \<Rightarrow> db_err + database) \<Rightarrow> unit call" where
  "db_exec E s f = statement E s (\<lambda>w.
     case f (w_db w) of Inl e \<Rightarrow> (Inl e, w) | Inr d \<Rightarrow> (Inr (), w\<lparr>w_db := d\<rparr>))"

text \<open>An insert takes the next id of its table; the id is spent even when the row is refused.\<close>

definition spend_id :: "string \<Rightarrow> world \<Rightarrow> world" where
  "spend_id t w = w\<lparr>w_auto := (w_auto w)(t := Suc (w_auto w t))\<rparr>"

definition db_insert ::
  "env \<Rightarrow> stmt \<Rightarrow> (nat \<Rightarrow> database \<Rightarrow> db_err + database) \<Rightarrow> nat call" where
  "db_insert E s f = statement E s (\<lambda>w.
     let i = w_auto w (st_table s) in
     if max_uint64 < i then (Inl ErrAutoInc, w)
     else case f i (w_db w) of
         Inl e \<Rightarrow> (Inl e, spend_id (st_table s) w)
       | Inr d \<Rightarrow> (Inr i, (spend_id (st_table s) w)\<lparr>w_db := d, w_last_id := i\<rparr>))"

section \<open>Transactions\<close>

definition begin_tx :: "env \<Rightarrow> unit call" where
  "begin_tx E = external E (\<lambda>w. (Inr (), w\<lparr>w_txs := w_db w # w_txs w\<rparr>))"

definition rollback :: "world \<Rightarrow> world" where
  "rollback w = tick (w\<lparr>w_txs := tl (w_txs w)\<rparr>)"

definition commit :: "env \<Rightarrow> unit call" where
  "commit E w =
     (case w_txs w of
        [] \<Rightarrow> (Inl ErrTxDone, tick w)
      | d # ds \<Rightarrow>
          (case env_fault E (w_tick w) of
             Some e \<Rightarrow> (Inl (ErrFault e), tick (w\<lparr>w_txs := ds\<rparr>))
           | None \<Rightarrow> (Inr (), tick (w\<lparr>w_db := d, w_txs := ds\<rparr>))))"

definition in_tx :: "(database \<Rightarrow> database list \<Rightarrow> 'a call) \<Rightarrow> 'a call" where
  "in_tx f w = (case w_txs w of [] \<Rightarrow> (Inl ErrTxDone, w) | d # ds \<Rightarrow> f d ds w)"

definition tx_select :: "env \<Rightarrow> stmt \<Rightarrow> (database \<Rightarrow> 'a) \<Rightarrow> 'a call" where
  "tx_select E s f = statement E s (in_tx (\<lambda>d _ w. (Inr (f d), w)))"

definition tx_get :: "env \<Rightarrow> stmt \<Rightarrow> (database \<Rightarrow> 'a option) \<Rightarrow> 'a call" where
  "tx_get E s f = statement E s (in_tx (\<lambda>d _ w. (select_in (f d), w)))"

definition tx_exec :: "env \<Rightarrow> stmt \<Rightarrow> (database \<Rightarrow> db_err + database) \<Rightarrow> unit call" where
  "tx_exec E s f = statement E s (in_tx (\<lambda>d ds w.
     case f d of Inl e \<Rightarrow> (Inl e, w) | Inr d' \<Rightarrow> (Inr (), w\<lparr>w_txs := d' # ds\<rparr>)))"

definition tx_insert ::
  "env \<Rightarrow> stmt \<Rightarrow> (nat \<Rightarrow> database \<Rightarrow> db_err + database) \<Rightarrow> unit call" where
  "tx_insert E s f = statement E s (in_tx (\<lambda>d ds w.
     let i = w_auto w (st_table s) in
     if max_uint64 < i then (Inl ErrAutoInc, w)
     else case f i d of
         Inl e \<Rightarrow> (Inl e, spend_id (st_table s) w)
       | Inr d' \<Rightarrow> (Inr (), (spend_id (st_table s) w)\<lparr>w_txs := d' # ds, w_last_id := i\<rparr>)))"

text \<open>\<^verbatim>\<open>SELECT LAST_INSERT_ID()\<close> on the connection of the transaction.\<close>

definition tx_last_insert_id :: "env \<Rightarrow> nat call" where
  "tx_last_insert_id E = external E (in_tx (\<lambda>_ _ w. (Inr (w_last_id w), w)))"

section \<open>Redis\<close>

definition live :: "env \<Rightarrow> world \<Rightarrow> (rval \<times> nat option) option \<Rightarrow> rval option" where
  "live E w r =
     (case r of
        None \<Rightarrow> None
      | Some (v, None) \<Rightarrow> Some v
      | Some (v, Some t) \<Rightarrow> if env_now E (w_tick w) < t then Some v else None)"

definition redis_get :: "env \<Rightarrow> string \<Rightarrow> rval call" where
  "redis_get E k = external E (\<lambda>w.
     case live E w (w_redis w k) of None \<Rightarrow> (Inl ErrRedisNil, w) | Some v \<Rightarrow> (Inr v, w))"

definition redis_set :: "env \<Rightarrow> string \<Rightarrow> rval \<Rightarrow> nat option \<Rightarrow> unit call" where
  "redis_set E k v ttl = external E (\<lambda>w.
     (Inr (), w\<lparr>w_redis := (w_redis w)
        (k \<mapsto> (v, map_option (\<lambda>t. env_now E (w_tick w) + t) ttl))\<rparr>))"

definition redis_del :: "env \<Rightarrow> string \<Rightarrow> unit call" where
  "redis_del E k = external E (\<lambda>w. (Inr (), w\<lparr>w_redis := (w_redis w)(k := None)\<rparr>))"

definition one_hour :: nat where
  "one_hour = 60 * 60"

section \<open>What a call leaves alone\<close>

text \<open>
  The shapes of a world a handler can be in, relative to the tables \<open>d\<close> and the open
  transactions \<open>ts\<close> it started with: nothing has changed (\<open>Idle\<close>), one transaction of its
  own is open and the tables are still \<open>d\<close> (\<open>Busy\<close>), it has changed the tables and its
  transaction is closed (\<open>Done\<close>).
\<close>

datatype shape = Idle | Busy | Done

fun in_shape :: "shape \<Rightarrow> database \<Rightarrow> database list \<Rightarrow> world \<Rightarrow> bool" where
  "in_shape Idle d ts w = (w_db w = d \<and> w_txs w = ts)"
| "in_shape Busy d ts w = (w_db w = d \<and> (\<exists>x. w_txs w = x # ts))"
| "in_shape Done d ts w = (w_txs w = ts)"

lemma in_shape_Done: "in_shape Idle d ts w \<Longrightarrow> in_shape Done d ts w"
  by simp

lemma tick_simps [simp]:
  "w_db (tick w) = w_db w" "w_txs (tick w) = w_txs w" "w_auto (tick w) = w_auto w"
  "w_last_id (tick w) = w_last_id w" "w_redis (tick w) = w_redis w" "w_jobs (tick w) = w_jobs w"
  "w_tick (tick w) = Suc (w_tick w)" "w_calls (tick w) = w_calls w"
  by (simp_all add: tick_def)

lemma spend_id_simps [simp]:
  "w_db (spend_id t w) = w_db w" "w_txs (spend_id t w) = w_txs w"
  "w_last_id (spend_id t w) = w_last_id w" "w_redis (spend_id t w) = w_redis w"
  "w_jobs (spend_id t w) = w_jobs w" "w_tick (spend_id t w) = w_tick w"
  "w_calls (spend_id t w) = w_calls w"
  "w_auto (spend_id t w) = (w_auto w)(t := Suc (w_auto w t))"
  by (simp_all add: spend_id_def)

lemma in_shape_simps [simp]:
  "in_shape s d ts (tick w) = in_shape s d ts w"
  "in_shape s d ts (w\<lparr>w_jobs := js\<rparr>) = in_shape s d ts w"
  "in_shape s d ts (w\<lparr>w_redis := r\<rparr>) = in_shape s d ts w"
  "in_shape s d ts (w\<lparr>w_calls := cs\<rparr>) = in_shape s d ts w"
  "in_shape s d ts (spend_id t w) = in_shape s d ts w"
  by (cases s; simp)+

lemmas call_defs = db_select_def db_get_def db_exec_def db_insert_def tx_select_def tx_get_def
  tx_exec_def tx_insert_def tx_last_insert_id_def redis_get_def redis_set_def redis_del_def
  statement_def external_def in_tx_def Let_def

text \<open>
  \<open>moves s f t m\<close>: from shape \<open>s\<close>, the call \<open>m\<close> ends in shape \<open>f\<close> when it fails and in
  shape \<open>t\<close> when it succeeds.
\<close>

definition moves :: "shape \<Rightarrow> shape \<Rightarrow> shape \<Rightarrow> (world \<Rightarrow> ('e + 'a) \<times> world) \<Rightarrow> bool" where
  "moves s f t m \<longleftrightarrow> (\<forall>d ts w. in_shape s d ts w \<longrightarrow>
     (case m w of (Inl e, w') \<Rightarrow> in_shape f d ts w' | (Inr x, w') \<Rightarrow> in_shape t d ts w'))"

named_theorems shapes \<open>what each call does to the shape of the world\<close>

lemma moves_reads [shapes]:
  "moves s s s (db_select E q f)" "moves s s s (db_get E q g)"
  "moves s s s (redis_get E k)" "moves s s s (redis_set E k v ttl)" "moves s s s (redis_del E k)"
  "moves Busy Busy Busy (tx_select E q f)" "moves Busy Busy Busy (tx_get E q g)"
  "moves Busy Busy Busy (tx_last_insert_id E)"
  by (auto simp: moves_def call_defs split: option.splits list.splits sum.splits)

lemma moves_writes [shapes]:
  "moves Busy Busy Busy (tx_exec E q f)" "moves Busy Busy Busy (tx_insert E q g)"
  "moves Idle Idle Done (db_exec E q f)" "moves Idle Idle Done (db_insert E q g)"
  by (auto simp: moves_def call_defs split: option.splits list.splits sum.splits)

lemma moves_tx [shapes]:
  "moves Idle Idle Busy (begin_tx E)" "moves Busy Idle Done (commit E)"
  by (auto simp: moves_def begin_tx_def commit_def external_def split: option.splits list.splits)

lemma moves_commit_any: "moves Busy Done Done (commit E)"
  by (auto simp: moves_def commit_def split: option.splits list.splits)

lemma rollback_shape: "in_shape Busy d ts w \<Longrightarrow> in_shape Idle d ts (rollback w)"
  by (auto simp: rollback_def)

end
