(* ===== verification/Handler.thy ===== *)
theory Handler
  imports Store
begin

text \<open>
  A request handler as a program over the stores: the responses of the API, programs with
  early returns, the calls a handler makes with the error branch it takes, and the
  verification conditions of such programs. The locales at the end state what a handler
  promises to the router.
\<close>

section \<open>Responses\<close>

text \<open>A handler answers with a status and a JSON body, panics, or never answers.\<close>

datatype response = Resp nat json | Panic | Hang

definition message_error :: "nat \<Rightarrow> string \<Rightarrow> response" where
  "message_error code m = Resp code (JObj [(''errors'', JArr [JObj [(''message'', JStr m)]])])"

definition field_error :: "nat \<Rightarrow> string \<Rightarrow> string \<Rightarrow> response" where
  "field_error code f m =
     Resp code (JObj [(''errors'', JArr [JObj [(''field'', JStr f), (''message'', JStr m)]])])"

definition input_errors :: "nat \<Rightarrow> json list \<Rightarrow> response" where
  "input_errors code es = Resp code (JObj [(''errors'', JArr es)])"

definition plain_error :: "nat \<Rightarrow> string \<Rightarrow> response" where
  "plain_error code m = Resp code (JObj [(''error'', JStr m)])"

abbreviation not_allowed :: response where
  "not_allowed \<equiv> message_error 401 ''Not allowed.''"

abbreviation not_found :: response where
  "not_found \<equiv> message_error 200 ''Not found''"

abbreviation invalid_input :: response where
  "invalid_input \<equiv> plain_error 200 ''Invalid input''"

text \<open>Most failures are answered with status 200; the body tells, or the status does.\<close>

fun is_error :: "response \<Rightarrow> bool" where
  "is_error Panic = True"
| "is_error Hang = True"
| "is_error (Resp code j) =
     (400 \<le> code \<or> json_field j ''errors'' \<noteq> None \<or> json_field j ''error'' \<noteq> None)"

lemma is_error_simps [simp]:
  "is_error (message_error code m)" "is_error (field_error code f m)"
  "is_error (input_errors code es)" "is_error (plain_error code m)" "is_error Panic"
  "is_error Hang"
  by (simp_all add: message_error_def field_error_def input_errors_def plain_error_def
      json_field_def)

section \<open>Programs with early returns\<close>

text \<open>
  A program threads the world and ends with a result or early: a function that returns an
  error ends with it (a \<open>call\<close>), a handler ends with its response (a \<open>go\<close>).
\<close>

type_synonym ('e, 'a) prog = "world \<Rightarrow> ('e + 'a) \<times> world"
type_synonym 'a go = "(response, 'a) prog"

definition ret :: "'a \<Rightarrow> ('e, 'a) prog" where
  "ret x w = (Inr x, w)"

definition quit :: "'e \<Rightarrow> ('e, 'a) prog" where
  "quit r w = (Inl r, w)"

definition andThen :: "('e, 'a) prog \<Rightarrow> ('a \<Rightarrow> ('e, 'b) prog) \<Rightarrow> ('e, 'b) prog" where
  "andThen m k w = (case m w of (Inl r, w') \<Rightarrow> (Inl r, w') | (Inr x, w') \<Rightarrow> k x w')"

text \<open>\<^verbatim>\<open>if err != nil { ... }\<close>: the error branch of a call.\<close>

definition on_err :: "('e, 'a) prog \<Rightarrow> ('e \<Rightarrow> ('f, 'a) prog) \<Rightarrow> ('f, 'a) prog" where
  "on_err m h w = (case m w of (Inl e, w') \<Rightarrow> h e w' | (Inr x, w') \<Rightarrow> (Inr x, w'))"

text \<open>The result of a call with its error, when the code looks at both.\<close>

definition attempt :: "('e, 'a) prog \<Rightarrow> ('f, 'e + 'a) prog" where
  "attempt m w = (case m w of (r, w') \<Rightarrow> (Inr r, w'))"

text \<open>Leave unless the condition holds.\<close>

definition ensure :: "bool \<Rightarrow> ('e, unit) prog \<Rightarrow> ('e, unit) prog" where
  "ensure b h = (if b then ret () else h)"

definition rolling_back :: "'e \<Rightarrow> ('e, 'a) prog" where
  "rolling_back r w = quit r (rollback w)"

definition of_outcome :: "'a outcome \<Rightarrow> 'a go" where
  "of_outcome x = (case x of Returned a \<Rightarrow> ret a | _ \<Rightarrow> quit Panic)"

definition of_option :: "'a option \<Rightarrow> ('e, 'a) prog \<Rightarrow> ('e, 'a) prog" where
  "of_option x h = (case x of Some a \<Rightarrow> ret a | None \<Rightarrow> h)"

definition time_now :: "env \<Rightarrow> ('e, nat) prog" where
  "time_now E w = (Inr (env_now E (w_tick w)), tick w)"

definition new_uuid :: "env \<Rightarrow> ('e, string) prog" where
  "new_uuid E w = (Inr (env_uuid E (w_tick w)), tick w)"

definition spawn :: "job \<Rightarrow> ('e, unit) prog" where
  "spawn j w = (Inr (), w\<lparr>w_jobs := w_jobs w @ [j]\<rparr>)"

primrec for_each :: "'a list \<Rightarrow> ('a \<Rightarrow> ('e, unit) prog) \<Rightarrow> ('e, unit) prog" where
  "for_each [] f = ret ()"
| "for_each (x # xs) f = andThen (f x) (\<lambda>_. for_each xs f)"

text \<open>\<^verbatim>\<open>security_helpers.Decode\<close> and \<^verbatim>\<open>Encode\<close>, whose panics end the request.\<close>

definition decode_id :: "env \<Rightarrow> string \<Rightarrow> (nat \<times> string) go" where
  "decode_id E s = of_outcome (Decode (env_aes E) s)"

definition encode_id :: "env \<Rightarrow> nat \<Rightarrow> string \<Rightarrow> string \<Rightarrow> string go" where
  "encode_id E i ty salt = of_outcome (Encode (env_aes E) i ty salt)"

definition run :: "response go \<Rightarrow> world \<Rightarrow> response \<times> world" where
  "run m w = (case m w of (Inl r, w') \<Rightarrow> (r, w') | (Inr r, w') \<Rightarrow> (r, w'))"

text \<open>The monad laws, so that a handler can be cut into parts anywhere.\<close>

lemma andThen_ret [simp]: "andThen (ret x) k = k x"
  by (rule ext) (simp add: andThen_def ret_def)

lemma andThen_quit [simp]: "andThen (quit r) k = quit r"
  by (rule ext) (simp add: andThen_def quit_def)

lemma andThen_assoc: "andThen (andThen m k) l = andThen m (\<lambda>x. andThen (k x) l)"
  by (rule ext) (simp add: andThen_def split: prod.split sum.split)

lemma andThen_rolling_back [simp]: "andThen (rolling_back r) k = rolling_back r"
  by (rule ext) (simp add: andThen_def rolling_back_def quit_def)

lemma ensure_simps [simp]: "ensure True h = ret ()" "ensure False h = h"
  by (simp_all add: ensure_def)

text \<open>What is known once a call has succeeded.\<close>

lemma andThen_InrE:
  assumes "andThen m k w = (Inr y, w')"
  obtains x w1 where "m w = (Inr x, w1)" and "k x w1 = (Inr y, w')"
  using assms by (auto simp: andThen_def split: prod.splits sum.splits)

named_theorems inr_dest \<open>what is known once a step has succeeded\<close>

lemma andThen_InrD:
  "andThen m k w = (Inr y, w') \<Longrightarrow> \<exists>x w1. m w = (Inr x, w1) \<and> k x w1 = (Inr y, w')"
  by (blast elim: andThen_InrE)

lemma on_err_quit_InrD [inr_dest]:
  "on_err m (\<lambda>e. quit (f e)) w = (Inr x, w') \<Longrightarrow> m w = (Inr x, w')"
  "on_err m (\<lambda>e. rolling_back (f e)) w = (Inr x, w') \<Longrightarrow> m w = (Inr x, w')"
  by (auto simp: on_err_def quit_def rolling_back_def split: prod.splits sum.splits)

lemma ensure_InrD [inr_dest]:
  "ensure b (quit e) w = (Inr x, w') \<Longrightarrow> b \<and> w' = w"
  "ensure b (rolling_back r) w = (Inr x, w') \<Longrightarrow> b \<and> w' = w"
  by (auto simp: ensure_def ret_def quit_def rolling_back_def split: if_splits)

lemma of_option_InrD [inr_dest]:
  "of_option v (quit e) w = (Inr x, w') \<Longrightarrow> v = Some x \<and> w' = w"
  "of_option v (rolling_back e) w = (Inr x, w') \<Longrightarrow> v = Some x \<and> w' = w"
  by (auto simp: of_option_def ret_def quit_def rolling_back_def split: option.splits)

lemma ret_InrD [inr_dest]: "ret x w = (Inr y, w') \<Longrightarrow> y = x \<and> w' = w"
  by (auto simp: ret_def)

lemma quit_InrD [inr_dest]: "quit e w = (Inr y, w') \<Longrightarrow> False" "rolling_back r w = (Inr y, w') \<Longrightarrow> False"
  by (simp_all add: quit_def rolling_back_def)

lemma attempt_InrD [inr_dest]: "attempt m w = (Inr r, w') \<Longrightarrow> m w = (r, w')"
  by (auto simp: attempt_def split: prod.splits)

lemma time_now_InrD [inr_dest]: "time_now E w = (Inr t, w') \<Longrightarrow> t = env_now E (w_tick w) \<and> w' = tick w"
  by (auto simp: time_now_def)

lemma new_uuid_InrD [inr_dest]: "new_uuid E w = (Inr u, w') \<Longrightarrow> u = env_uuid E (w_tick w) \<and> w' = tick w"
  by (auto simp: new_uuid_def)

lemma spawn_InrD [inr_dest]: "spawn j w = (Inr u, w') \<Longrightarrow> w' = w\<lparr>w_jobs := w_jobs w @ [j]\<rparr>"
  by (auto simp: spawn_def)

lemma decode_id_InrD [inr_dest]:
  "decode_id E s w = (Inr x, w') \<Longrightarrow> Decode (env_aes E) s = Returned x \<and> w' = w"
  by (auto simp: decode_id_def of_outcome_def ret_def quit_def split: outcome.splits)

lemma of_outcome_InrD [inr_dest]: "of_outcome x w = (Inr a, w') \<Longrightarrow> x = Returned a \<and> w' = w"
  by (auto simp: of_outcome_def ret_def quit_def split: outcome.splits)

lemma encode_id_InrD [inr_dest]:
  "encode_id E i ty salt w = (Inr x, w') \<Longrightarrow> Encode (env_aes E) i ty salt = Returned x \<and> w' = w"
  by (auto simp: encode_id_def of_outcome_def ret_def quit_def split: outcome.splits)

lemma tx_insert_InrD:
  "tx_insert E s f w = (Inr (), w') \<Longrightarrow>
   \<exists>d ds d'. w_txs w = d # ds \<and> f (w_auto w (st_table s)) d = Inr d' \<and> prepare s = None \<and>
     w_auto w (st_table s) \<le> max_uint64 \<and>
     w' = (spend_id (st_table s) (tick w))\<lparr>w_txs := d' # ds, w_last_id := w_auto w (st_table s)\<rparr>"
  by (auto simp: call_defs not_less split: option.splits list.splits sum.splits if_splits)

lemma tx_last_insert_id_InrD:
  "tx_last_insert_id E w = (Inr i, w') \<Longrightarrow> i = w_last_id w \<and> w' = tick w"
  by (auto simp: call_defs split: option.splits list.splits)

lemma db_exec_InrD:
  "db_exec E s f w = (Inr (), w') \<Longrightarrow>
   \<exists>d'. f (w_db w) = Inr d' \<and> w' = (tick w)\<lparr>w_db := d'\<rparr> \<and> prepare s = None"
  by (auto simp: call_defs split: option.splits sum.splits)

lemma tx_select_InrD:
  "tx_select E s f w = (Inr x, w') \<Longrightarrow> \<exists>d ds. w_txs w = d # ds \<and> x = f d \<and> w' = tick w"
  by (auto simp: call_defs split: option.splits list.splits)

lemma tx_get_InrD:
  "tx_get E s f w = (Inr x, w') \<Longrightarrow> \<exists>d ds. w_txs w = d # ds \<and> f d = Some x \<and> w' = tick w"
  by (auto simp: call_defs select_in_def split: option.splits list.splits)

lemma tx_exec_InrD:
  "tx_exec E s f w = (Inr (), w') \<Longrightarrow>
   \<exists>d ds d'. w_txs w = d # ds \<and> f d = Inr d' \<and> w' = (tick w)\<lparr>w_txs := d' # ds\<rparr> \<and> prepare s = None"
  by (auto simp: call_defs split: option.splits list.splits sum.splits)

lemma db_get_InrD:
  "db_get E s f w = (Inr x, w') \<Longrightarrow> f (w_db w) = Some x \<and> w' = tick w \<and> prepare s = None"
  by (auto simp: call_defs select_in_def split: option.splits)

lemma db_select_InrD:
  "db_select E s f w = (Inr x, w') \<Longrightarrow> x = f (w_db w) \<and> w' = tick w \<and> prepare s = None"
  by (auto simp: call_defs split: option.splits)

lemma redis_del_InrD:
  "redis_del E k w = (Inr (), w') \<Longrightarrow> w' = (tick w)\<lparr>w_redis := (w_redis w)(k := None)\<rparr>"
  by (auto simp: call_defs split: option.splits)

lemma begin_tx_InrD: "begin_tx E w = (Inr (), w') \<Longrightarrow> w' = (tick w)\<lparr>w_txs := w_db w # w_txs w\<rparr>"
  by (auto simp: begin_tx_def call_defs split: option.splits)

lemma commit_InrD:
  "commit E w = (Inr (), w') \<Longrightarrow>
   \<exists>d ds. w_txs w = d # ds \<and> w' = tick (w\<lparr>w_db := d, w_txs := ds\<rparr>)"
  by (auto simp: commit_def split: list.splits option.splits)

lemmas call_InrD = tx_select_InrD tx_get_InrD tx_exec_InrD tx_insert_InrD tx_last_insert_id_InrD
  db_get_InrD db_select_InrD db_exec_InrD redis_del_InrD begin_tx_InrD commit_InrD

section \<open>Verification conditions\<close>

text \<open>
  \<open>wp m Q R w\<close>: from \<open>w\<close>, the program continues with a result in \<open>Q\<close> or returns a
  response in \<open>R\<close>.
\<close>

definition wp ::
  "('e, 'a) prog \<Rightarrow> ('a \<Rightarrow> world \<Rightarrow> bool) \<Rightarrow> ('e \<Rightarrow> world \<Rightarrow> bool) \<Rightarrow> world \<Rightarrow> bool" where
  "wp m Q R w = (case m w of (Inl r, w') \<Rightarrow> R r w' | (Inr x, w') \<Rightarrow> Q x w')"

lemma wp_ret [wp_intro]: "Q x w \<Longrightarrow> wp (ret x) Q R w"
  by (simp add: wp_def ret_def)

lemma wp_quit [wp_intro]: "R r w \<Longrightarrow> wp (quit r) Q R w"
  by (simp add: wp_def quit_def)

lemma wp_andThen [wp_intro]: "wp m (\<lambda>x. wp (k x) Q R) R w \<Longrightarrow> wp (andThen m k) Q R w"
  by (simp add: wp_def andThen_def split: prod.splits sum.splits)

lemma wp_ensure [wp_intro]:
  "(b \<Longrightarrow> Q () w) \<Longrightarrow> (\<not> b \<Longrightarrow> wp h Q R w) \<Longrightarrow> wp (ensure b h) Q R w"
  by (simp add: ensure_def wp_ret)

lemma wp_if [wp_intro]:
  "(b \<Longrightarrow> wp m Q R w) \<Longrightarrow> (\<not> b \<Longrightarrow> wp n Q R w) \<Longrightarrow> wp (if b then m else n) Q R w"
  by simp

lemma wp_of_option [wp_intro]:
  "(\<And>a. x = Some a \<Longrightarrow> Q a w) \<Longrightarrow> (x = None \<Longrightarrow> wp h Q R w) \<Longrightarrow> wp (of_option x h) Q R w"
  by (simp add: of_option_def wp_ret split: option.split)

lemma wp_of_outcome:
  "(\<And>a. x = Returned a \<Longrightarrow> Q a w) \<Longrightarrow> (\<forall>a. x \<noteq> Returned a \<Longrightarrow> R Panic w) \<Longrightarrow>
   wp (of_outcome x) Q R w"
  by (auto simp: of_outcome_def wp_ret wp_quit split: outcome.split)

lemma wp_mono:
  assumes "wp m Q R w"
    and "\<And>x w'. Q x w' \<Longrightarrow> Q' x w'" and "\<And>r w'. R r w' \<Longrightarrow> R' r w'"
  shows "wp m Q' R' w"
  using assms by (auto simp: wp_def split: prod.splits sum.splits)

lemma wp_run: "wp m R R w \<Longrightarrow> run m w = (r, w') \<Longrightarrow> R r w'"
  by (auto simp: wp_def run_def split: prod.splits sum.splits)

section \<open>What a handler promises\<close>

text \<open>
  \<open>atomic_post d ts r w\<close>: no transaction is left open, and a request that is answered with
  an error has not changed a table.
\<close>

definition atomic_post :: "database \<Rightarrow> database list \<Rightarrow> response \<Rightarrow> world \<Rightarrow> bool" where
  "atomic_post d ts r w \<longleftrightarrow> w_txs w = ts \<and> (is_error r \<longrightarrow> w_db w = d)"

text \<open>
  \<open>sound s t m\<close>: from shape \<open>s\<close>, the program goes on in shape \<open>t\<close> or answers atomically.
  The rules below are directed by the syntax of the program.
\<close>

lemma wp_on_err_step:
  assumes "m w = (r, w')"
  shows "wp (on_err m h) Q R w = (case r of Inl e \<Rightarrow> wp (h e) Q R w' | Inr x \<Rightarrow> Q x w')"
  using assms by (simp add: wp_def on_err_def split: sum.split)

lemma wp_on_err: "wp m Q (\<lambda>e. wp (h e) Q R) w \<Longrightarrow> wp (on_err m h) Q R w"
  by (cases "m w") (auto simp: wp_on_err_step wp_def [of m] split: sum.split_asm)

lemma wp_attempt: "wp m (\<lambda>x. Q (Inr x)) (\<lambda>e. Q (Inl e)) w \<Longrightarrow> wp (attempt m) Q R w"
  by (cases "m w") (auto simp: attempt_def wp_def split: sum.split_asm)

definition sound :: "shape \<Rightarrow> shape \<Rightarrow> 'a go \<Rightarrow> bool" where
  "sound s t m \<longleftrightarrow> (\<forall>d ts w. in_shape s d ts w \<longrightarrow>
     (case m w of (Inl r, w') \<Rightarrow> atomic_post d ts r w' | (Inr x, w') \<Rightarrow> in_shape t d ts w'))"

lemma soundD:
  "sound s t m \<Longrightarrow> in_shape s d ts w \<Longrightarrow>
   wp m (\<lambda>_. in_shape t d ts) (atomic_post d ts) w"
  by (simp add: sound_def wp_def)

lemma soundI:
  "(\<And>d ts w. in_shape s d ts w \<Longrightarrow> wp m (\<lambda>_. in_shape t d ts) (atomic_post d ts) w) \<Longrightarrow>
   sound s t m"
  by (simp add: sound_def wp_def)

named_theorems sound_intro \<open>one rule per construct of the handlers\<close>

lemma sound_ret [sound_intro]: "sound s s (ret x)"
  by (simp add: sound_def ret_def)

lemma sound_quit [sound_intro]: "sound Idle t (quit r)"
  by (simp add: sound_def quit_def atomic_post_def)

lemma sound_rolling_back [sound_intro]: "sound Busy t (rolling_back r)"
  using rollback_shape by (simp add: sound_def rolling_back_def quit_def atomic_post_def)

lemma sound_andThen [sound_intro]:
  assumes "sound s t m" and "\<And>x. sound t u (k x)"
  shows "sound s u (andThen m k)"
proof (rule soundI)
  fix d ts w assume "in_shape s d ts w"
  then have "wp m (\<lambda>_. in_shape t d ts) (atomic_post d ts) w" by (rule soundD [OF assms(1)])
  then have "wp m (\<lambda>x. wp (k x) (\<lambda>_. in_shape u d ts) (atomic_post d ts)) (atomic_post d ts) w"
    by (rule wp_mono) (auto intro: soundD [OF assms(2)])
  then show "wp (andThen m k) (\<lambda>_. in_shape u d ts) (atomic_post d ts) w" by (rule wp_andThen)
qed

lemma movesD:
  "moves s f t m \<Longrightarrow> in_shape s d ts w \<Longrightarrow> wp m (\<lambda>_. in_shape t d ts) (\<lambda>_. in_shape f d ts) w"
  by (simp add: moves_def wp_def)

lemma movesI:
  "(\<And>d ts w. in_shape s d ts w \<Longrightarrow> wp m (\<lambda>_. in_shape t d ts) (\<lambda>_. in_shape f d ts) w) \<Longrightarrow>
   moves s f t m"
  by (simp add: moves_def wp_def)

lemma sound_on_err [sound_intro]:
  assumes "moves s f t m" and "\<And>e. sound f t (h e)"
  shows "sound s t (on_err m h)"
proof (rule soundI)
  fix d ts w assume "in_shape s d ts w"
  then have "wp m (\<lambda>_. in_shape t d ts) (\<lambda>_. in_shape f d ts) w" by (rule movesD [OF assms(1)])
  then have "wp m (\<lambda>_. in_shape t d ts)
      (\<lambda>e. wp (h e) (\<lambda>_. in_shape t d ts) (atomic_post d ts)) w"
    by (rule wp_mono) (auto intro: soundD [OF assms(2)])
  then show "wp (on_err m h) (\<lambda>_. in_shape t d ts) (atomic_post d ts) w" by (rule wp_on_err)
qed

lemma sound_attempt [sound_intro]: "moves s t t m \<Longrightarrow> sound s t (attempt m)"
  by (rule soundI, rule wp_attempt, erule movesD)

lemma sound_ensure [sound_intro]: "sound s s h \<Longrightarrow> sound s s (ensure b h)"
  by (simp add: ensure_def sound_ret)

lemma sound_if [sound_intro]: "sound s t m \<Longrightarrow> sound s t n \<Longrightarrow> sound s t (if b then m else n)"
  by simp

lemma sound_case_option [sound_intro]:
  "sound s t m \<Longrightarrow> (\<And>a. sound s t (k a)) \<Longrightarrow> sound s t (case x of None \<Rightarrow> m | Some a \<Rightarrow> k a)"
  by (simp split: option.split)

lemma sound_case_sum [sound_intro]:
  "(\<And>e. sound s t (m e)) \<Longrightarrow> (\<And>a. sound s t (k a)) \<Longrightarrow>
   sound s t (case x of Inl e \<Rightarrow> m e | Inr a \<Rightarrow> k a)"
  by (simp split: sum.split)

lemma sound_case_prod [sound_intro]:
  "(\<And>a b. sound s t (f a b)) \<Longrightarrow> sound s t (case x of (a, b) \<Rightarrow> f a b)"
  by (simp split: prod.split)

lemma sound_of_option [sound_intro]: "sound s s h \<Longrightarrow> sound s s (of_option x h)"
  by (simp add: of_option_def sound_ret split: option.split)

lemma sound_time_now [sound_intro]: "sound s s (time_now E)" "sound s s (new_uuid E)"
  by (simp_all add: sound_def time_now_def new_uuid_def)

lemma sound_spawn [sound_intro]: "sound s s (spawn j)"
  by (simp add: sound_def spawn_def)

lemma sound_for_each [sound_intro]: "(\<And>x. sound s s (f x)) \<Longrightarrow> sound s s (for_each xs f)"
  by (induction xs) (auto intro: sound_intro)

text \<open>Encoding and decoding identifiers panic only when AES is misconfigured.\<close>

lemma sound_decode_id:
  "aes_configured (env_aes E) \<Longrightarrow> sound s s (decode_id E x)"
  using Decode_configured [of "env_aes E" x]
  by (auto simp: decode_id_def of_outcome_def sound_ret split: outcome.split)

lemma sound_encode_id:
  "aes_configured (env_aes E) \<Longrightarrow> sound s s (encode_id E i ty salt)"
  using Encode_configured [of "env_aes E" i ty salt]
  by (auto simp: encode_id_def of_outcome_def sound_ret)

lemma sound_of_outcome: "(\<exists>a. x = Returned a) \<Longrightarrow> sound s s (of_outcome x)"
  by (auto simp: of_outcome_def sound_ret)

lemmas sound_ids = sound_decode_id sound_encode_id

text \<open>Composed calls have shapes too.\<close>

lemma moves_ret [shapes]: "moves s f s (ret x)"
  by (simp add: moves_def ret_def)

lemma moves_quit [shapes]: "moves s s t (quit e)" "moves Idle Done t (quit e)"
  "moves Busy Done t (rolling_back e)"
  using rollback_shape in_shape_Done by (auto simp: moves_def quit_def rolling_back_def)

lemma moves_on_err [shapes]:
  assumes "moves s f t m" and "\<And>e. moves f g t (h e)"
  shows "moves s g t (on_err m h)"
proof (rule movesI)
  fix d ts w assume "in_shape s d ts w"
  then have "wp m (\<lambda>_. in_shape t d ts) (\<lambda>_. in_shape f d ts) w" by (rule movesD [OF assms(1)])
  then have "wp m (\<lambda>_. in_shape t d ts) (\<lambda>e. wp (h e) (\<lambda>_. in_shape t d ts) (\<lambda>_. in_shape g d ts)) w"
    by (rule wp_mono) (auto intro: movesD [OF assms(2)])
  then show "wp (on_err m h) (\<lambda>_. in_shape t d ts) (\<lambda>_. in_shape g d ts) w" by (rule wp_on_err)
qed

lemma moves_of_outcome [shapes]: "moves s s s (of_outcome x)"
  by (simp add: moves_def of_outcome_def ret_def quit_def split: outcome.split)

lemma moves_time_now [shapes]: "moves s f s (time_now E)" "moves s f s (new_uuid E)"
  by (simp_all add: moves_def time_now_def new_uuid_def)

lemma moves_Idle_db:
  "moves Idle Idle Idle m \<Longrightarrow> m w = (x, w') \<Longrightarrow> w_db w' = w_db w"
proof -
  assume m: "moves Idle Idle Idle m" and eq: "m w = (x, w')"
  have "in_shape Idle (w_db w) (w_txs w) w" by simp
  from movesD [OF m this] show ?thesis using eq by (auto simp: wp_def split: sum.splits)
qed

lemma moves_sound:
  assumes "sound Idle Done m"
  shows "moves Idle Done Done m"
proof (rule movesI)
  fix d ts w assume "in_shape Idle d ts w"
  then have "wp m (\<lambda>_. in_shape Done d ts) (atomic_post d ts) w" by (rule soundD [OF assms])
  then show "wp m (\<lambda>_. in_shape Done d ts) (\<lambda>_. in_shape Done d ts) w"
    by (rule wp_mono) (simp_all add: atomic_post_def)
qed

lemma moves_again:
  assumes "moves Idle Done Done m"
  shows "moves Done Done Done m"
proof -
  have "case m w of (Inl e, w') \<Rightarrow> in_shape Done d ts w' | (Inr x, w') \<Rightarrow> in_shape Done d ts w'"
    if "w_txs w = ts" for d ts w
    using assms [unfolded moves_def, rule_format, of "w_db w" ts w] that by simp
  then show ?thesis by (simp add: moves_def)
qed

lemma moves_andThen [shapes]:
  assumes "moves s f t m" and "\<And>x. moves t f u (k x)"
  shows "moves s f u (andThen m k)"
proof (rule movesI)
  fix d ts w assume "in_shape s d ts w"
  then have "wp m (\<lambda>_. in_shape t d ts) (\<lambda>_. in_shape f d ts) w" by (rule movesD [OF assms(1)])
  then have "wp m (\<lambda>x. wp (k x) (\<lambda>_. in_shape u d ts) (\<lambda>_. in_shape f d ts)) (\<lambda>_. in_shape f d ts) w"
    by (rule wp_mono) (auto intro: movesD [OF assms(2)])
  then show "wp (andThen m k) (\<lambda>_. in_shape u d ts) (\<lambda>_. in_shape f d ts) w" by (rule wp_andThen)
qed

lemma moves_for_each [shapes]: "(\<And>x. moves s f s (g x)) \<Longrightarrow> moves s f s (for_each xs g)"
  by (induction xs) (auto intro: moves_ret moves_andThen)

lemma moves_if [shapes]: "moves s f t m \<Longrightarrow> moves s f t n \<Longrightarrow> moves s f t (if b then m else n)"
  by simp

lemma moves_attempt [shapes]: "moves s t t m \<Longrightarrow> moves s f t (attempt m)"
  by (rule movesI, rule wp_attempt, erule movesD)

lemma moves_spawn [shapes]: "moves s f s (spawn j)"
  by (simp add: moves_def spawn_def)

lemma moves_case_sum [shapes]:
  "(\<And>e. moves s f t (m e)) \<Longrightarrow> (\<And>a. moves s f t (k a)) \<Longrightarrow>
   moves s f t (case x of Inl e \<Rightarrow> m e | Inr a \<Rightarrow> k a)"
  by (simp split: sum.split)

lemma moves_case_option [shapes]:
  "moves s f t m \<Longrightarrow> (\<And>a. moves s f t (k a)) \<Longrightarrow> moves s f t (case x of None \<Rightarrow> m | Some a \<Rightarrow> k a)"
  by (simp split: option.split)

lemma moves_case_prod [shapes]:
  "(\<And>a b. moves s f t (k a b)) \<Longrightarrow> moves s f t (case x of (a, b) \<Rightarrow> k a b)"
  by (simp split: prod.split)

lemma moves_rolling_back [shapes]: "moves Busy Idle t (rolling_back e)"
  using rollback_shape by (simp add: moves_def rolling_back_def quit_def)

text \<open>A handler that cannot succeed: every path to its end meets a statement that fails.\<close>

definition alive :: "'a go \<Rightarrow> bool" where
  "alive m \<longleftrightarrow> (\<forall>w. wp m (\<lambda>_ _. True) (\<lambda>r _. is_error r) w)"

definition dead :: "'a go \<Rightarrow> bool" where
  "dead m \<longleftrightarrow> (\<forall>w. wp m (\<lambda>_ _. False) (\<lambda>r _. is_error r) w)"

named_theorems dead_intro \<open>one rule per construct, for handlers that cannot succeed\<close>

lemma dead_andThen [dead_intro]:
  assumes "alive m" and "\<And>x. dead (k x)"
  shows "dead (andThen m k)"
  unfolding dead_def
proof
  fix w
  have "wp m (\<lambda>_ _. True) (\<lambda>r _. is_error r) w" using assms(1) by (simp add: alive_def)
  then have "wp m (\<lambda>x. wp (k x) (\<lambda>_ _. False) (\<lambda>r _. is_error r)) (\<lambda>r _. is_error r) w"
    by (rule wp_mono) (use assms(2) in \<open>auto simp: dead_def\<close>)
  then show "wp (andThen m k) (\<lambda>_ _. False) (\<lambda>r _. is_error r) w" by (rule wp_andThen)
qed

lemma dead_stuck: "dead m \<Longrightarrow> dead (andThen m k)"
  unfolding dead_def by (intro allI wp_andThen) (fastforce intro: wp_mono)

lemma dead_quit [dead_intro]: "is_error r \<Longrightarrow> dead (quit r)" "is_error r \<Longrightarrow> dead (rolling_back r)"
  by (simp_all add: dead_def quit_def rolling_back_def wp_def)

lemma dead_on_err:
  assumes "\<And>w. wp m (\<lambda>_ _. False) (\<lambda>_ _. True) w" and "\<And>e. dead (h e)"
  shows "dead (on_err m h)"
  unfolding dead_def
proof (intro allI wp_on_err)
  fix w
  show "wp m (\<lambda>_ _. False) (\<lambda>e. wp (h e) (\<lambda>_ _. False) (\<lambda>r _. is_error r)) w"
    by (rule wp_mono [OF assms(1)]) (use assms(2) in \<open>auto simp: dead_def\<close>)
qed

lemma dead_tx_exec:
  assumes "prepare s \<noteq> None" and "\<And>e. dead (h e)"
  shows "dead (on_err (tx_exec E s f) h)"
proof -
  have "wp (tx_exec E s f) (\<lambda>_ _. False) (\<lambda>_ _. True) w" for w
    using assms(1) by (auto simp: wp_def call_defs split: option.splits)
  then show ?thesis using assms(2) by (rule dead_on_err)
qed

lemma dead_db_get:
  assumes "prepare s \<noteq> None" and "\<And>e. dead (h e)"
  shows "dead (on_err (db_get E s f) h)"
proof -
  have "wp (db_get E s f) (\<lambda>_ _. False) (\<lambda>_ _. True) w" for w
    using assms(1) by (auto simp: wp_def call_defs split: option.splits)
  then show ?thesis using assms(2) by (rule dead_on_err)
qed

lemma dead_case_prod [dead_intro]:
  "(\<And>a b. dead (f a b)) \<Longrightarrow> dead (case x of (a, b) \<Rightarrow> f a b)"
  by (simp split: prod.split)

lemma alive_rules [dead_intro]:
  "alive (ret x)" "alive (time_now E)" "alive (new_uuid E)" "alive (spawn j)"
  "alive (attempt c)"
  by (simp_all add: alive_def wp_def ret_def time_now_def new_uuid_def spawn_def attempt_def
      split: prod.split)

lemma alive_quit [dead_intro]: "is_error r \<Longrightarrow> alive (quit r)" "is_error r \<Longrightarrow> alive (rolling_back r)"
  by (simp_all add: alive_def wp_def quit_def rolling_back_def)

lemma alive_andThen [dead_intro]:
  assumes "alive m" and "\<And>x. alive (k x)"
  shows "alive (andThen m k)"
  unfolding alive_def
proof
  fix w
  have "wp m (\<lambda>_ _. True) (\<lambda>r _. is_error r) w" using assms(1) by (simp add: alive_def)
  then have "wp m (\<lambda>x. wp (k x) (\<lambda>_ _. True) (\<lambda>r _. is_error r)) (\<lambda>r _. is_error r) w"
    by (rule wp_mono) (use assms(2) in \<open>auto simp: alive_def\<close>)
  then show "wp (andThen m k) (\<lambda>_ _. True) (\<lambda>r _. is_error r) w" by (rule wp_andThen)
qed

lemma alive_on_err [dead_intro]:
  assumes "\<And>e. alive (h e)"
  shows "alive (on_err c h)"
  unfolding alive_def
proof
  fix w
  show "wp (on_err c h) (\<lambda>_ _. True) (\<lambda>r _. is_error r) w"
    using assms by (cases "c w") (auto simp: wp_on_err_step alive_def split: sum.split)
qed

lemma alive_ensure [dead_intro]: "alive h \<Longrightarrow> alive (ensure b h)"
  by (simp add: ensure_def alive_rules)

lemma alive_of_option [dead_intro]: "alive h \<Longrightarrow> alive (of_option x h)"
  by (simp add: of_option_def alive_rules split: option.split)

lemma alive_if [dead_intro]: "alive m \<Longrightarrow> alive n \<Longrightarrow> alive (if b then m else n)"
  by simp

lemma alive_case_sum [dead_intro]:
  "(\<And>e. alive (m e)) \<Longrightarrow> (\<And>a. alive (k a)) \<Longrightarrow> alive (case x of Inl e \<Rightarrow> m e | Inr a \<Rightarrow> k a)"
  by (simp split: sum.split)

lemma alive_of_outcome [dead_intro]: "alive (of_outcome x)"
  by (simp add: of_outcome_def alive_def wp_def ret_def quit_def split: outcome.split)

lemma alive_ids [dead_intro]: "alive (decode_id E x)" "alive (encode_id E i ty salt)"
  by (simp_all add: decode_id_def encode_id_def alive_of_outcome)

lemma dead_run: "dead m \<Longrightarrow> run m w = (r, w') \<Longrightarrow> is_error r"
  unfolding dead_def by (erule allE [of _ w]) (auto simp: wp_def run_def split: prod.splits sum.splits)

lemma alive_run_ok:
  assumes "alive m" and "run m w = (r, w')" and "\<not> is_error r"
  shows "m w = (Inr r, w')"
proof -
  have "wp m (\<lambda>_ _. True) (\<lambda>r _. is_error r) w" using assms(1) by (simp add: alive_def)
  then show ?thesis using assms(2,3) by (auto simp: wp_def run_def split: prod.splits sum.splits)
qed

section \<open>Endpoints\<close>

text \<open>
  What the router may rely on for every request that is \<open>valid\<close> (in practice: under a
  configuration AES accepts), whatever calls fail.
\<close>

locale tidy_endpoint =
  fixes serve :: "'req \<Rightarrow> world \<Rightarrow> response \<times> world"
    and valid :: "'req \<Rightarrow> bool"
  assumes no_leak: "valid q \<Longrightarrow> serve q w = (r, w') \<Longrightarrow> w_txs w' = w_txs w"
begin

text \<open>A sequence of requests, with the responses they got.\<close>

primrec serve_all :: "'req list \<Rightarrow> world \<Rightarrow> response list \<times> world" where
  "serve_all [] w = ([], w)"
| "serve_all (q # qs) w =
     (case serve q w of (r, w') \<Rightarrow> (case serve_all qs w' of (rs, w'') \<Rightarrow> (r # rs, w'')))"

lemma serve_all_no_leak:
  "list_all valid qs \<Longrightarrow> serve_all qs w = (rs, w') \<Longrightarrow> w_txs w' = w_txs w"
  by (induction qs arbitrary: w rs) (auto split: prod.splits dest: no_leak)

end

text \<open>An endpoint whose error answers mean that nothing was changed.\<close>

locale endpoint = tidy_endpoint serve valid
  for serve :: "'req \<Rightarrow> world \<Rightarrow> response \<times> world" and valid :: "'req \<Rightarrow> bool" +
  assumes error_keeps: "valid q \<Longrightarrow> serve q w = (r, w') \<Longrightarrow> is_error r \<Longrightarrow> w_db w' = w_db w"
begin

lemma serve_all_errors:
  "list_all valid qs \<Longrightarrow> serve_all qs w = (rs, w') \<Longrightarrow> list_all is_error rs \<Longrightarrow> w_db w' = w_db w"
  by (induction qs arbitrary: w rs) (auto split: prod.splits dest: error_keeps)

end

text \<open>An endpoint that some requests may not use, as the stores are.\<close>

locale guarded_endpoint = endpoint serve valid
  for serve :: "'req \<Rightarrow> world \<Rightarrow> response \<times> world" and valid :: "'req \<Rightarrow> bool" +
  fixes allowed :: "'req \<Rightarrow> world \<Rightarrow> bool"
  assumes denied: "\<not> allowed q w \<Longrightarrow> serve q w = (r, w') \<Longrightarrow> is_error r"
begin

lemma denied_keeps:
  "valid q \<Longrightarrow> \<not> allowed q w \<Longrightarrow> serve q w = (r, w') \<Longrightarrow> is_error r \<and> w_db w' = w_db w"
  using denied error_keeps by blast

lemma change_allowed: "valid q \<Longrightarrow> serve q w = (r, w') \<Longrightarrow> w_db w' \<noteq> w_db w \<Longrightarrow> allowed q w"
  using denied_keeps by blast

end

text \<open>An endpoint that no request can use.\<close>

locale broken_endpoint = guarded_endpoint serve valid "\<lambda>_ _. False"
  for serve :: "'req \<Rightarrow> world \<Rightarrow> response \<times> world" and valid :: "'req \<Rightarrow> bool"
begin

lemma always_fails: "valid q \<Longrightarrow> serve q w = (r, w') \<Longrightarrow> is_error r \<and> w_db w' = w_db w"
  using denied_keeps by blast

lemma all_fail:
  "list_all valid qs \<Longrightarrow> serve_all qs w = (rs, w') \<Longrightarrow> list_all is_error rs \<and> w_db w' = w_db w"
  by (induction qs arbitrary: w rs) (auto split: prod.splits dest: always_fails)

end

text \<open>The contract follows from the shape of the handler.\<close>

definition answers :: "response go \<Rightarrow> bool" where
  "answers m \<longleftrightarrow> (\<forall>w r w'. m w = (Inr r, w') \<longrightarrow> \<not> is_error r)"

lemma answers_rules [simp, intro]:
  "\<not> is_error r \<Longrightarrow> answers (ret r)" "answers (quit r)" "answers (rolling_back r)"
  by (simp_all add: answers_def ret_def quit_def rolling_back_def)

lemma answers_andThen [intro]: "(\<And>x. answers (k x)) \<Longrightarrow> answers (andThen m k)"
  unfolding answers_def by (blast elim: andThen_InrE)

lemma answers_if [intro]: "answers m \<Longrightarrow> answers n \<Longrightarrow> answers (if b then m else n)"
  by simp

lemma answers_cases [intro]:
  "(\<And>a b. answers (f a b)) \<Longrightarrow> answers (case x of (a, b) \<Rightarrow> f a b)"
  "answers m \<Longrightarrow> (\<And>a. answers (k a)) \<Longrightarrow> answers (case y of None \<Rightarrow> m | Some a \<Rightarrow> k a)"
  "(\<And>e. answers (l e)) \<Longrightarrow> (\<And>a. answers (k a)) \<Longrightarrow>
   answers (case z of Inl e \<Rightarrow> l e | Inr a \<Rightarrow> k a)"
  by (simp_all split: prod.split option.split sum.split)

lemma run_atomic:
  assumes "sound Idle Done m" and "answers m" and "run m w = (r, w')"
  shows "w_txs w' = w_txs w" and "is_error r \<Longrightarrow> w_db w' = w_db w"
proof -
  have "in_shape Idle (w_db w) (w_txs w) w" by simp
  then have wp: "wp m (\<lambda>_. in_shape Done (w_db w) (w_txs w)) (atomic_post (w_db w) (w_txs w)) w"
    by (rule soundD [OF assms(1)])
  then show "w_txs w' = w_txs w"
    using assms(3) by (auto simp: wp_def run_def atomic_post_def split: prod.splits sum.splits)
  show "is_error r \<Longrightarrow> w_db w' = w_db w"
    using wp assms(2,3)
    by (auto simp: wp_def run_def atomic_post_def answers_def split: prod.splits sum.splits)
qed

lemma run_tidy:
  assumes "moves Idle Done Done m" and "run m w = (r, w')"
  shows "w_txs w' = w_txs w"
proof -
  have "in_shape Idle (w_db w) (w_txs w) w" by simp
  from movesD [OF assms(1) this] show ?thesis
    using assms(2) by (auto simp: wp_def run_def split: prod.splits sum.splits)
qed

lemma tidy_endpointI:
  assumes "\<And>q. valid q \<Longrightarrow> moves Idle Done Done (h q)"
  shows "tidy_endpoint (\<lambda>q. run (h q)) valid"
  by unfold_locales (auto dest: run_tidy [OF assms])

lemma endpointI:
  assumes "\<And>q. valid q \<Longrightarrow> sound Idle Done (h q)" and "\<And>q. answers (h q)"
  shows "endpoint (\<lambda>q. run (h q)) valid"
  by unfold_locales (auto dest: run_atomic [OF assms])

lemma broken_endpointI:
  assumes "\<And>q. valid q \<Longrightarrow> sound Idle Done (h q)" and "\<And>q. dead (h q)"
  shows "broken_endpoint (\<lambda>q. run (h q)) valid"
proof -
  have "answers (h q)" for q
    unfolding answers_def
  proof (intro allI impI)
    fix w r w' assume "h q w = (Inr r, w')"
    moreover have "wp (h q) (\<lambda>_ _. False) (\<lambda>r _. is_error r) w"
      using assms(2) by (simp add: dead_def)
    ultimately show "\<not> is_error r" by (simp add: wp_def)
  qed
  then show ?thesis
    by (intro broken_endpoint.intro guarded_endpoint.intro guarded_endpoint_axioms.intro endpointI
        assms(1)) (auto dest: dead_run [OF assms(2)])
qed

end
