(* ===== verification/Validation.thy ===== *)
theory Validation
  imports Handler
begin

text \<open>
  The checks every handler starts with: the viewer, the parsed body, the rules of
  \<^verbatim>\<open>go-playground/validator\<close> the input structs use, and the lookup of the community the
  route names. Request bodies arrive parsed (\<^verbatim>\<open>c.BodyParser\<close>); \<open>None\<close> is a parse error.
\<close>

section \<open>Input rules\<close>

datatype vrule = VRequired | VGte nat | VLte nat | VEmail

fun rule_text :: "vrule \<Rightarrow> string" where
  "rule_text VRequired = ''required''"
| "rule_text (VGte n) = ''gte='' @ itoa n"
| "rule_text (VLte n) = ''lte='' @ itoa n"
| "rule_text VEmail = ''email''"

text \<open>Lengths of strings are counted in characters, not bytes.\<close>

fun rule_ok :: "env \<Rightarrow> vrule \<Rightarrow> string \<Rightarrow> bool" where
  "rule_ok E VRequired s = (s \<noteq> [])"
| "rule_ok E (VGte n) s = (n \<le> rune_count s)"
| "rule_ok E (VLte n) s = (rune_count s \<le> n)"
| "rule_ok E VEmail s = env_email_ok E s"

definition rule_error :: "env \<Rightarrow> string \<Rightarrow> vrule \<Rightarrow> json" where
  "rule_error E f r =
     JObj [(''field'', JStr f), (''message'', JStr (env_translate E f (rule_text r)))]"

text \<open>One error per field, of the first rule it breaks.\<close>

definition check_string :: "env \<Rightarrow> string \<Rightarrow> vrule list \<Rightarrow> string \<Rightarrow> json list" where
  "check_string E f rules s =
     (case find (\<lambda>r. \<not> rule_ok E r s) rules of None \<Rightarrow> [] | Some r \<Rightarrow> [rule_error E f r])"

definition check_opt_string :: "env \<Rightarrow> string \<Rightarrow> vrule list \<Rightarrow> string option \<Rightarrow> json list" where
  "check_opt_string E f rules s =
     (case s of None \<Rightarrow> [] | Some t \<Rightarrow> check_string E f rules t)"

definition check_present :: "env \<Rightarrow> string \<Rightarrow> 'a option \<Rightarrow> json list" where
  "check_present E f v = (case v of None \<Rightarrow> [rule_error E f VRequired] | Some _ \<Rightarrow> [])"

lemma check_string_ok: "check_string E f rules s = [] \<longleftrightarrow> (\<forall>r \<in> set rules. rule_ok E r s)"
  by (auto simp: check_string_def find_None_iff' split: option.splits dest: find_SomeD)

lemma check_opt_string_ok:
  "check_opt_string E f rules s = [] \<longleftrightarrow> (\<forall>t. s = Some t \<longrightarrow> (\<forall>r \<in> set rules. rule_ok E r t))"
  by (simp add: check_opt_string_def check_string_ok split: option.splits)

lemma check_present_ok [simp]: "check_present E f v = [] \<longleftrightarrow> v \<noteq> None"
  by (simp add: check_present_def split: option.splits)

section \<open>The opening of a handler\<close>

definition need_viewer :: "users_row option \<Rightarrow> users_row go" where
  "need_viewer v = of_option v (quit not_allowed)"

definition need_valid :: "nat \<Rightarrow> json list \<Rightarrow> unit go" where
  "need_valid code es = ensure (es = []) (quit (input_errors code es))"

text \<open>\<^verbatim>\<open>Truncate(strings.ToLower(c.Params("handle")), 255)\<close>.\<close>

definition lower :: "env \<Rightarrow> string \<Rightarrow> string" where
  "lower E = ToLower (env_lower E)"

definition handle_param :: "env \<Rightarrow> string \<Rightarrow> string" where
  "handle_param E p = Truncate (lower E p) 255"

text \<open>Equality of a text column is equality of collation keys.\<close>

definition text_eq :: "env \<Rightarrow> string \<Rightarrow> string \<Rightarrow> bool" where
  "text_eq E s t \<longleftrightarrow> env_collate E s = env_collate E t"

definition community_by_handle :: "env \<Rightarrow> string \<Rightarrow> database \<Rightarrow> communities_row option" where
  "community_by_handle E h d = find (\<lambda>c. text_eq E (c_handle c) h) (d_communities d)"

definition get_community :: "env \<Rightarrow> string \<Rightarrow> communities_row call" where
  "get_community E h =
     db_get E \<lparr>st_table = ''communities'', st_holes = 1, st_args = 1\<rparr> (community_by_handle E h)"

text \<open>The error closures that search \<^verbatim>\<open>err.Error()\<close> for \<^verbatim>\<open>duplicate\<close>.\<close>

definition unique_error :: "env \<Rightarrow> string \<Rightarrow> db_err \<Rightarrow> response" where
  "unique_error E otherwise e =
     (if contains (lower E (err_text e)) ''duplicate''
      then message_error 200 ''Channel name must be unique.''
      else message_error 200 otherwise)"

lemma unique_error_is_error [simp]: "is_error (unique_error E m e)"
  by (simp add: unique_error_def)

lemma moves_get_community [shapes]: "moves s s s (get_community E h)"
  by (simp add: get_community_def shapes)

lemma sound_opening [sound_intro]:
  "sound Idle Idle (need_viewer v)" "sound Idle Idle (need_valid code es)"
  unfolding need_viewer_def need_valid_def by (rule sound_intro)+

lemma alive_opening [dead_intro]: "alive (need_viewer v)" "alive (need_valid code es)"
  unfolding need_viewer_def need_valid_def by (rule dead_intro is_error_simps)+

lemma wp_need_viewer [wp_intro]:
  "(\<And>u. v = Some u \<Longrightarrow> Q u w) \<Longrightarrow> (v = None \<Longrightarrow> R not_allowed w) \<Longrightarrow> wp (need_viewer v) Q R w"
  by (simp add: need_viewer_def wp_of_option wp_quit)

lemma wp_need_valid [wp_intro]:
  "(es = [] \<Longrightarrow> Q () w) \<Longrightarrow> (es \<noteq> [] \<Longrightarrow> R (input_errors code es) w) \<Longrightarrow>
   wp (need_valid code es) Q R w"
  by (simp add: need_valid_def wp_ensure wp_quit)

text \<open>A route parameter never reaches the tables with more than 255 characters.\<close>

lemma handle_param_bound: "rune_count (handle_param E p) \<le> 255"
  by (simp add: handle_param_def rune_count_Truncate)

lemma community_by_handle_SomeD:
  "community_by_handle E h d = Some c \<Longrightarrow> c \<in> set (d_communities d) \<and> text_eq E (c_handle c) h"
  unfolding community_by_handle_def by (rule find_SomeD)

end
