(* ===== verification/Permissions.thy ===== *)
theory Permissions
  imports Validation
begin

text \<open>
  \<^verbatim>\<open>handlers/validations.go\<close>: who may do what in a community. A member row holds the
  permissions a member has; \<^verbatim>\<open>HasCommunityPermission\<close> reads it through a Redis cache, and
  the two \<^verbatim>\<open>Recalculate...\<close> routines derive it from the community's defaults and the
  roles the member was given. \<open>effective_permissions\<close> says what the derivation means.
\<close>

definition ValidColors :: "string list" where
  "ValidColors =
     [''tomato'', ''red'', ''ruby'', ''crimson'', ''pink'', ''plum'',
      ''purple'', ''violet'', ''iris'', ''indigo'', ''blue'', ''cyan'',
      ''teal'', ''jade'', ''green'', ''grass'', ''brown'', ''orange'',
      ''sky'', ''mint'', ''lime'', ''yellow'', ''amber'', ''gold'',
      ''bronze'', ''gray'']"

definition HasGroupPermission :: "nat \<Rightarrow> nat \<Rightarrow> bool" where
  "HasGroupPermission uId gId = True"

definition HasChannelPermission :: "nat \<Rightarrow> nat \<Rightarrow> permission \<Rightarrow> bool" where
  "HasChannelPermission uId cId k = True"

section \<open>Asking for a permission\<close>

definition member_row :: "nat \<Rightarrow> nat \<Rightarrow> database \<Rightarrow> communities_users_row option" where
  "member_row u c d =
     find (\<lambda>r. cu_user_id r = u \<and> cu_community_id r = c) (d_members d)"

definition get_member :: "env \<Rightarrow> nat \<Rightarrow> nat \<Rightarrow> communities_users_row call" where
  "get_member E u c =
     db_get E \<lparr>st_table = ''communities_users'', st_holes = 2, st_args = 2\<rparr> (member_row u c)"

text \<open>\<^verbatim>\<open>json.Unmarshal\<close> of the cached text; its error is dropped and the zero row is kept.\<close>

fun cached_member :: "rval \<Rightarrow> communities_users_row" where
  "cached_member (RPerm r) = r"
| "cached_member _ = zero_communities_user"

definition HasCommunityPermission :: "env \<Rightarrow> nat \<Rightarrow> nat \<Rightarrow> permission \<Rightarrow> ('e, bool) prog" where
  "HasCommunityPermission E uId cId k =
     (let rk = PermissionRedisKey uId cId in
      andThen (attempt (redis_get E rk)) (\<lambda>rp.
      case rp of
        Inl ErrRedisNil \<Rightarrow>
          andThen (attempt (get_member E uId cId)) (\<lambda>cU.
          case cU of
            Inl _ \<Rightarrow> ret False
          | Inr cU \<Rightarrow>
              andThen (spawn (JobRedisSet rk (RPerm cU) (Some one_hour))) (\<lambda>_.
              ret (HasCommunityPermission_row cU k)))
      | Inl _ \<Rightarrow> ret False
      | Inr v \<Rightarrow> ret (HasCommunityPermission_row (cached_member v) k)))"

definition need_permission :: "env \<Rightarrow> response \<Rightarrow> nat \<Rightarrow> nat \<Rightarrow> permission \<Rightarrow> unit go" where
  "need_permission E na u c k =
     andThen (HasCommunityPermission E u c k) (\<lambda>ok. ensure ok (quit na))"

section \<open>Deriving the permissions of a member\<close>

definition ServerOwnerPermissions :: permissions where
  "ServerOwnerPermissions =
     \<lparr>p_view_channels = True, p_manage_channels = True, p_manage_community = True,
      p_create_invite = True, p_kick_members = True, p_ban_members = True,
      p_send_messages = True, p_attach_media = True\<rparr>"

text \<open>The eight \<^verbatim>\<open>if role.X { permissions.X = true }\<close> of the loop bodies.\<close>

definition add_role :: "community_roles_row \<Rightarrow> permissions \<Rightarrow> permissions" where
  "add_role role p =
     (let r = r_permissions role;
          p = (if p_view_channels r then p\<lparr>p_view_channels := True\<rparr> else p);
          p = (if p_manage_channels r then p\<lparr>p_manage_channels := True\<rparr> else p);
          p = (if p_manage_community r then p\<lparr>p_manage_community := True\<rparr> else p);
          p = (if p_create_invite r then p\<lparr>p_create_invite := True\<rparr> else p);
          p = (if p_kick_members r then p\<lparr>p_kick_members := True\<rparr> else p);
          p = (if p_ban_members r then p\<lparr>p_ban_members := True\<rparr> else p);
          p = (if p_send_messages r then p\<lparr>p_send_messages := True\<rparr> else p);
          p = (if p_attach_media r then p\<lparr>p_attach_media := True\<rparr> else p)
      in p)"

text \<open>The map of \<^verbatim>\<open>"role-user"\<close> strings, and the loop over the roles for one user.\<close>

definition roles_user_key :: "nat \<Rightarrow> nat \<Rightarrow> string" where
  "roles_user_key r u = itoa r @ CHR ''-'' # itoa u"

definition rolesUserMap :: "community_roles_users_row list \<Rightarrow> string set" where
  "rolesUserMap rus = (\<lambda>r. roles_user_key (ru_community_role_id r) (ru_user_id r)) ` set rus"

definition permissions_from ::
  "communities_row \<Rightarrow> community_roles_row list \<Rightarrow> community_roles_users_row list \<Rightarrow> nat \<Rightarrow> permissions" where
  "permissions_from community roles rus uid =
     (if uid = c_owner_id community then ServerOwnerPermissions
      else fold (\<lambda>role p. if roles_user_key (r_id role) uid \<in> rolesUserMap rus
                          then add_role role p else p)
             roles (c_permissions community))"

definition set_member_permissions ::
  "nat \<Rightarrow> nat \<Rightarrow> permissions \<Rightarrow> database \<Rightarrow> db_err + database" where
  "set_member_permissions u c p d =
     Inr (d\<lparr>d_members := rows_update (\<lambda>r. cu_user_id r = u \<and> cu_community_id r = c)
              (\<lambda>r. r\<lparr>cu_permissions := p\<rparr>) (d_members d)\<rparr>)"

definition roles_of :: "nat \<Rightarrow> database \<Rightarrow> community_roles_row list" where
  "roles_of c d = filter (\<lambda>r. r_community_id r = c) (d_roles d)"

definition roles_users_of :: "nat \<Rightarrow> database \<Rightarrow> community_roles_users_row list" where
  "roles_users_of c d = filter (\<lambda>r. ru_community_id r = c) (d_roles_users d)"

definition RecalculateAndUpdatePermissionsForUsers ::
  "env \<Rightarrow> nat list \<Rightarrow> communities_row \<Rightarrow> unit call" where
  "RecalculateAndUpdatePermissionsForUsers E userIds community =
     (if userIds = [] then ret ()
      else
        andThen (tx_select E \<lparr>st_table = ''community_roles'', st_holes = 1, st_args = 1\<rparr>
          (roles_of (c_id community))) (\<lambda>communityRoles.
        andThen (tx_select E \<lparr>st_table = ''community_roles_users'', st_holes = 1, st_args = 1\<rparr>
          (roles_users_of (c_id community))) (\<lambda>communityRolesUsers.
        for_each userIds (\<lambda>uid.
          andThen (tx_exec E \<lparr>st_table = ''communities_users'', st_holes = 10, st_args = 10\<rparr>
            (set_member_permissions uid (c_id community)
               (permissions_from community communityRoles communityRolesUsers uid))) (\<lambda>_.
          redis_del E (PermissionRedisKey uid (c_id community)))))))"

text \<open>
  The variant for one user. Its query errors end it with empty permissions and before the
  update; the errors of the update and of the cache deletion are dropped. \<^verbatim>\<open>sqlx.In\<close> is
  only called on a list that is not empty.
\<close>

definition role_ids_of :: "nat \<Rightarrow> nat \<Rightarrow> database \<Rightarrow> nat list" where
  "role_ids_of c u d =
     map ru_community_role_id
       (filter (\<lambda>r. ru_community_id r = c \<and> ru_user_id r = u) (d_roles_users d))"

definition user_roles :: "env \<Rightarrow> nat \<Rightarrow> communities_row \<Rightarrow> community_roles_row list call" where
  "user_roles E uId community =
     andThen (tx_select E \<lparr>st_table = ''community_roles_users'', st_holes = 2, st_args = 2\<rparr>
       (role_ids_of (c_id community) uId)) (\<lambda>ids.
     if ids = [] then ret []
     else tx_select E \<lparr>st_table = ''community_roles'', st_holes = length ids, st_args = length ids\<rparr>
            (\<lambda>d. filter (\<lambda>r. r_id r \<in> set ids) (d_roles d)))"

definition RecalculateAndUpdatePermissionsForUser ::
  "env \<Rightarrow> nat \<Rightarrow> communities_row \<Rightarrow> ('e, permissions) prog" where
  "RecalculateAndUpdatePermissionsForUser E uId community =
     (let finish = (\<lambda>permissions.
        andThen (attempt (tx_exec E \<lparr>st_table = ''communities_users'', st_holes = 10, st_args = 10\<rparr>
          (set_member_permissions uId (c_id community) permissions))) (\<lambda>_.
        andThen (attempt (redis_del E (PermissionRedisKey uId (c_id community)))) (\<lambda>_.
        ret permissions)))
      in if uId = c_owner_id community then finish ServerOwnerPermissions
         else andThen (attempt (user_roles E uId community)) (\<lambda>roles.
           case roles of
             Inl _ \<Rightarrow> ret no_permissions
           | Inr roles \<Rightarrow> finish (fold add_role roles (c_permissions community))))"

section \<open>What the derivation means\<close>

text \<open>A member has a permission as the owner, by default, or through a role.\<close>

definition effective_permissions :: "communities_row \<Rightarrow> database \<Rightarrow> nat \<Rightarrow> permissions" where
  "effective_permissions community d uid =
     (if uid = c_owner_id community then ServerOwnerPermissions
      else fold add_role
             (filter (\<lambda>role. \<exists>ru \<in> set (d_roles_users d). ru_community_id ru = c_id community
                  \<and> ru_community_role_id ru = r_id role \<and> ru_user_id ru = uid)
                (roles_of (c_id community) d))
             (c_permissions community))"

lemma has_perm_owner [perm_simps]: "has_perm ServerOwnerPermissions k"
  by (cases k) (simp_all add: ServerOwnerPermissions_def)

lemma has_perm_add_role [perm_simps]:
  "has_perm (add_role role p) k \<longleftrightarrow> has_perm p k \<or> has_perm (r_permissions role) k"
  by (cases k) (simp_all add: add_role_def Let_def)

lemma has_perm_fold_roles [perm_simps]:
  "has_perm (fold add_role roles p) k \<longleftrightarrow>
   has_perm p k \<or> (\<exists>role \<in> set roles. has_perm (r_permissions role) k)"
  by (induction roles arbitrary: p) (auto simp: has_perm_add_role)

lemma roles_user_key_inj [simp]:
  "roles_user_key r u = roles_user_key r' u' \<longleftrightarrow> r = r' \<and> u = u'"
  by (auto simp: roles_user_key_def itoa_dash_cancel dest: itoa_inj)

lemma in_rolesUserMap [simp]:
  "roles_user_key r u \<in> rolesUserMap rus \<longleftrightarrow>
   (\<exists>ru \<in> set rus. ru_community_role_id ru = r \<and> ru_user_id ru = u)"
  by (auto simp: rolesUserMap_def image_iff)

lemma fold_filter: "fold (\<lambda>x y. if P x then f x y else y) xs a = fold f (filter P xs) a"
  by (induction xs arbitrary: a) simp_all

lemma effective_has_perm:
  "has_perm (effective_permissions c d u) k \<longleftrightarrow>
   u = c_owner_id c \<or> has_perm (c_permissions c) k \<or>
   (\<exists>role \<in> set (d_roles d). r_community_id role = c_id c \<and> has_perm (r_permissions role) k \<and>
      (\<exists>ru \<in> set (d_roles_users d). ru_community_id ru = c_id c
         \<and> ru_community_role_id ru = r_id role \<and> ru_user_id ru = u))"
  by (auto simp: effective_permissions_def roles_of_def perm_simps)

lemma permissions_from_effective:
  "permissions_from c (roles_of (c_id c) d) (roles_users_of (c_id c) d) u =
   effective_permissions c d u"
proof -
  have "filter (\<lambda>role. roles_user_key (r_id role) u \<in> rolesUserMap (roles_users_of (c_id c) d))
          (roles_of (c_id c) d) =
        filter (\<lambda>role. \<exists>ru \<in> set (d_roles_users d). ru_community_id ru = c_id c
             \<and> ru_community_role_id ru = r_id role \<and> ru_user_id ru = u) (roles_of (c_id c) d)"
    by (rule filter_cong) (auto simp: roles_users_of_def)
  then show ?thesis
    unfolding permissions_from_def effective_permissions_def fold_filter by (rule ssubst) (rule refl)
qed

section \<open>Shapes\<close>

lemma moves_get_member [shapes]: "moves s s s (get_member E u c)"
  by (simp add: get_member_def shapes)

lemma HasCommunityPermission_cases:
  "HasCommunityPermission E u c k =
   andThen (attempt (redis_get E (PermissionRedisKey u c))) (\<lambda>rp.
   if rp = Inl ErrRedisNil
   then andThen (attempt (get_member E u c)) (\<lambda>cU.
        case cU of
          Inl _ \<Rightarrow> ret False
        | Inr cU \<Rightarrow>
            andThen (spawn (JobRedisSet (PermissionRedisKey u c) (RPerm cU) (Some one_hour))) (\<lambda>_.
            ret (HasCommunityPermission_row cU k)))
   else (case rp of Inl _ \<Rightarrow> ret False
         | Inr v \<Rightarrow> ret (HasCommunityPermission_row (cached_member v) k)))"
  unfolding HasCommunityPermission_def Let_def
  by (intro arg_cong [where f = "andThen _"] ext) (auto split: sum.split db_err.split)

lemma sound_HasCommunityPermission [sound_intro]: "sound s s (HasCommunityPermission E u c k)"
  unfolding HasCommunityPermission_cases by (rule sound_intro shapes)+

lemma alive_HasCommunityPermission [dead_intro]: "alive (HasCommunityPermission E u c k)"
  unfolding HasCommunityPermission_cases by (rule dead_intro)+

lemma sound_need_permission [sound_intro]: "sound Idle Idle (need_permission E na u c k)"
  unfolding need_permission_def by (rule sound_intro)+

lemma alive_need_permission [dead_intro]: "is_error na \<Longrightarrow> alive (need_permission E na u c k)"
  unfolding need_permission_def by (rule dead_intro | assumption)+

lemma moves_RecalculateAndUpdatePermissionsForUsers [shapes]:
  "moves Busy Busy Busy (RecalculateAndUpdatePermissionsForUsers E us c)"
  unfolding RecalculateAndUpdatePermissionsForUsers_def by (rule shapes)+

lemma sound_RecalculateAndUpdatePermissionsForUser [sound_intro]:
  "sound Busy Busy (RecalculateAndUpdatePermissionsForUser E u c)"
  unfolding RecalculateAndUpdatePermissionsForUser_def user_roles_def Let_def
  by (rule sound_intro shapes)+

section \<open>The opening of a guarded handler\<close>

text \<open>
  The block that every community handler with a permission starts with: viewer, body, input
  rules, community, permission. \<open>na\<close> and \<open>nf\<close> are the responses for a refusal and for a
  missing community, \<open>bad\<close> answers a body that does not parse, \<open>checks\<close> are the rules of the
  input struct, \<open>h\<close> is the handle the query is made with.
\<close>

definition admit_with ::
  "response \<Rightarrow> response \<Rightarrow> env \<Rightarrow> users_row option \<Rightarrow> 'b option \<Rightarrow> response \<Rightarrow> ('b \<Rightarrow> json list) \<Rightarrow>
   string \<Rightarrow> permission \<Rightarrow> (users_row \<times> 'b \<times> communities_row) go" where
  "admit_with na nf E viewer body bad checks h k =
     andThen (of_option viewer (quit na)) (\<lambda>user.
     andThen (of_option body (quit bad)) (\<lambda>input.
     andThen (need_valid 200 (checks input)) (\<lambda>_.
     andThen (on_err (get_community E h) (\<lambda>_. quit nf)) (\<lambda>community.
     andThen (need_permission E na (u_id user) (c_id community) k) (\<lambda>_.
     ret (user, input, community))))))"

abbreviation admit where
  "admit \<equiv> admit_with not_allowed not_found"

text \<open>
  What the stores say about a permission, whatever the clock: a cached row grants it, or
  the member row does.
\<close>

definition may :: "nat \<Rightarrow> nat \<Rightarrow> permission \<Rightarrow> world \<Rightarrow> bool" where
  "may u c k w \<longleftrightarrow>
     (\<exists>v ttl. w_redis w (PermissionRedisKey u c) = Some (v, ttl) \<and>
        has_perm (cu_permissions (cached_member v)) k) \<or>
     (\<exists>r. member_row u c (w_db w) = Some r \<and> has_perm (cu_permissions r) k)"

definition same_stores :: "world \<Rightarrow> world \<Rightarrow> bool" where
  "same_stores w w' \<longleftrightarrow> w_db w' = w_db w \<and> w_txs w' = w_txs w \<and> w_redis w' = w_redis w
     \<and> w_auto w' = w_auto w"

lemma same_stores_refl [simp]: "same_stores w w"
  by (simp add: same_stores_def)

lemma same_stores_trans: "same_stores a b \<Longrightarrow> same_stores b c \<Longrightarrow> same_stores a c"
  by (simp add: same_stores_def)

lemma live_SomeD: "live E w r = Some v \<Longrightarrow> \<exists>ttl. r = Some (v, ttl)"
  by (auto simp: live_def split: option.splits if_splits prod.splits)

lemma HasCommunityPermission_grants:
  "wp (HasCommunityPermission E u c k) (\<lambda>b w'. (b \<longrightarrow> may u c k w) \<and> same_stores w w') (\<lambda>_ _. False) w"
proof -
  let ?k = "PermissionRedisKey u c"
  obtain rp w1 where rp: "redis_get E ?k w = (rp, w1)" by (cases "redis_get E ?k w")
  have w1: "same_stores w w1"
    using rp by (auto simp: same_stores_def call_defs split: option.splits)
  show ?thesis
  proof (cases "rp = Inl ErrRedisNil")
    case True
    obtain m w2 where m: "get_member E u c w1 = (m, w2)" by (cases "get_member E u c w1")
    have w2: "same_stores w w2" and mem: "\<And>r. m = Inr r \<Longrightarrow> member_row u c (w_db w) = Some r"
      using m w1 by (auto simp: same_stores_def get_member_def call_defs select_in_def
          split: option.splits)
    show ?thesis
    proof (cases m)
      case (Inl e)
      then show ?thesis using rp m True w2
        by (simp add: HasCommunityPermission_cases wp_def andThen_def attempt_def ret_def)
    next
      case (Inr r)
      then have "member_row u c (w_db w) = Some r" by (rule mem)
      then show ?thesis using rp m True w2 Inr
        by (auto simp: HasCommunityPermission_cases wp_def andThen_def attempt_def ret_def spawn_def
            HasCommunityPermission_row_def may_def same_stores_def)
    qed
  next
    case False
    have "rp = Inr v \<Longrightarrow> \<exists>ttl. w_redis w ?k = Some (v, ttl)" for v
      using rp by (auto simp: call_defs split: option.splits dest: live_SomeD)
    then show ?thesis using False rp w1
      by (cases rp) (auto simp: HasCommunityPermission_cases wp_def andThen_def attempt_def ret_def
          HasCommunityPermission_row_def may_def)
  qed
qed

lemma wp_need_permission:
  "wp (need_permission E na u c k) (\<lambda>_ w'. may u c k w \<and> same_stores w w')
      (\<lambda>r w'. r = na \<and> same_stores w w') w"
  unfolding need_permission_def
  by (rule wp_andThen, rule wp_mono [OF HasCommunityPermission_grants])
     (auto simp: ensure_def intro: wp_ret wp_quit)

lemma db_get_same:
  "wp (db_get E s f) (\<lambda>x w'. f (w_db w) = Some x \<and> same_stores w w') (\<lambda>_ w'. same_stores w w') w"
  by (auto simp: wp_def call_defs select_in_def same_stores_def split: option.splits)

text \<open>Past the opening, everything it checked holds and the stores are as they were.\<close>

lemma wp_admit:
  "wp (admit_with na nf E viewer body bad checks h k)
     (\<lambda>(user, input, c) w'. viewer = Some user \<and> body = Some input \<and> checks input = []
        \<and> community_by_handle E h (w_db w) = Some c \<and> may (u_id user) (c_id c) k w
        \<and> same_stores w w')
     (\<lambda>r w'. (r \<in> {na, nf, bad} \<or> is_error r) \<and> same_stores w w') w"
  unfolding admit_with_def
proof (rule wp_andThen, rule wp_of_option)
  fix user assume v: "viewer = Some user"
  show "wp (andThen (of_option body (quit bad)) (\<lambda>input.
     andThen (need_valid 200 (checks input)) (\<lambda>_.
     andThen (on_err (get_community E h) (\<lambda>_. quit nf)) (\<lambda>community.
     andThen (need_permission E na (u_id user) (c_id community) k) (\<lambda>_.
     ret (user, input, community))))))
     (\<lambda>(user, input, c) w'. viewer = Some user \<and> body = Some input \<and> checks input = []
        \<and> community_by_handle E h (w_db w) = Some c \<and> may (u_id user) (c_id c) k w
        \<and> same_stores w w')
     (\<lambda>r w'. (r \<in> {na, nf, bad} \<or> is_error r) \<and> same_stores w w') w"
  proof (rule wp_andThen, rule wp_of_option, goal_cases)
    case (1 input)
    have get: "wp (on_err (get_community E h) (\<lambda>_. quit nf))
        (\<lambda>c w'. community_by_handle E h (w_db w) = Some c \<and> same_stores w w')
        (\<lambda>r w'. (r \<in> {na, nf, bad} \<or> is_error r) \<and> same_stores w w') w"
      unfolding get_community_def
      by (rule wp_on_err, rule wp_mono [OF db_get_same]) (auto intro: wp_quit)
    have perm: "wp (andThen (need_permission E na (u_id user) (c_id c) k) (\<lambda>_. ret (user, input, c)))
        (\<lambda>(user, input, c) w'. viewer = Some user \<and> body = Some input \<and> checks input = []
          \<and> community_by_handle E h (w_db w) = Some c \<and> may (u_id user) (c_id c) k w
          \<and> same_stores w w')
        (\<lambda>r w'. (r \<in> {na, nf, bad} \<or> is_error r) \<and> same_stores w w') w1"
      if "checks input = []" "community_by_handle E h (w_db w) = Some c" "same_stores w w1" for c w1
    proof -
      have "may (u_id user) (c_id c) k w1 \<Longrightarrow> may (u_id user) (c_id c) k w"
        using that(3) by (simp add: may_def same_stores_def)
      then show ?thesis
        using that 1 v by (intro wp_andThen wp_mono [OF wp_need_permission])
          (auto intro!: wp_ret intro: same_stores_trans)
    qed
    show ?case
      by (rule wp_andThen, rule wp_need_valid, rule wp_andThen, rule wp_mono [OF get])
         (use perm in \<open>blast+\<close>, auto)
  next
    case 2
    then show ?case by (simp add: wp_quit)
  qed
qed (simp add: wp_quit)

text \<open>Who may use a guarded handler.\<close>

definition permitted ::
  "env \<Rightarrow> users_row option \<Rightarrow> string \<Rightarrow> permission \<Rightarrow> world \<Rightarrow> bool" where
  "permitted E viewer h k w \<longleftrightarrow>
     (\<exists>u c. viewer = Some u \<and> community_by_handle E h (w_db w) = Some c \<and> may (u_id u) (c_id c) k w)"

lemma admit_denied:
  assumes "\<not> permitted E viewer h k w" and "list_all is_error [na, nf, bad]"
    and "run (andThen (admit_with na nf E viewer body bad checks h k) f) w = (r, w')"
  shows "is_error r"
proof -
  have "wp (admit_with na nf E viewer body bad checks h k) (\<lambda>_ _. False) (\<lambda>r _. is_error r) w"
    by (rule wp_mono [OF wp_admit]) (use assms(1,2) in \<open>auto simp: permitted_def\<close>)
  then have "wp (andThen (admit_with na nf E viewer body bad checks h k) f)
      (\<lambda>r _. is_error r) (\<lambda>r _. is_error r) w"
    by (intro wp_andThen) (erule wp_mono, auto)
  then show ?thesis using assms(3) by (rule wp_run)
qed

lemma admit_InrD [inr_dest]:
  assumes "admit_with na nf E viewer body bad checks h k w = (Inr x, w')"
  shows "\<exists>user input c. x = (user, input, c) \<and> viewer = Some user \<and> body = Some input
    \<and> checks input = [] \<and> community_by_handle E h (w_db w) = Some c \<and> may (u_id user) (c_id c) k w
    \<and> same_stores w w'"
  using wp_admit [of na nf E viewer body bad checks h k w] assms by (auto simp: wp_def)

lemma sound_admit [sound_intro]:
  "sound Idle Idle (admit_with na nf E viewer body bad checks h k)"
  unfolding admit_with_def by (rule sound_intro shapes)+

lemma alive_admit:
  assumes "is_error na" and "is_error nf" and "is_error bad"
  shows "alive (admit_with na nf E viewer body bad checks h k)"
  unfolding admit_with_def by (rule dead_intro is_error_simps assms)+

lemma guarded_handler_validI:
  assumes "\<And>E v p b. H E v p b = andThen (admit_with na nf E v b bad (checks E) (hdl E p) k) (f E v p b)"
    and "\<And>E v p b. valid E \<Longrightarrow> sound Idle Done (H E v p b)"
    and "\<And>E v p b. answers (H E v p b)"
    and "list_all is_error [na, nf, bad]"
  shows "guarded_endpoint (\<lambda>q. run (case q of (E, v, p, b) \<Rightarrow> H E v p b))
     (\<lambda>q. valid (fst q))
     (\<lambda>q w. case q of (E, v, p, b) \<Rightarrow> permitted E v (hdl E p) k w)"
  by (intro guarded_endpoint.intro guarded_endpoint_axioms.intro endpointI)
     (use assms(2,3) in auto, use assms(1,4) in \<open>auto dest: admit_denied\<close>)

lemmas guarded_handlerI = guarded_handler_validI [where valid = "\<lambda>E. aes_configured (env_aes E)"]

section \<open>Recalculating is setting the effective permissions\<close>

definition recalculated :: "communities_row \<Rightarrow> nat list \<Rightarrow> database \<Rightarrow> database" where
  "recalculated c us d =
     d\<lparr>d_members := rows_update (\<lambda>r. cu_community_id r = c_id c \<and> cu_user_id r \<in> set us)
        (\<lambda>r. r\<lparr>cu_permissions := effective_permissions c d (cu_user_id r)\<rparr>) (d_members d)\<rparr>"

lemma set_permissions_loop:
  assumes "for_each us (\<lambda>uid. andThen (tx_exec E s (set_member_permissions uid (c_id c) (p uid)))
      (\<lambda>_. redis_del E (PermissionRedisKey uid (c_id c)))) w = (Inr (), w')"
    and "w_txs w = d # ds"
  shows "w_txs w' = d\<lparr>d_members := rows_update
           (\<lambda>r. cu_community_id r = c_id c \<and> cu_user_id r \<in> set us)
           (\<lambda>r. r\<lparr>cu_permissions := p (cu_user_id r)\<rparr>) (d_members d)\<rparr> # ds"
    and "w_db w' = w_db w" and "w_jobs w' = w_jobs w"
    and "w_redis w' = (\<lambda>k. if k \<in> (\<lambda>u. PermissionRedisKey u (c_id c)) ` set us then None
                           else w_redis w k)"
proof -
  have "w_txs w' = d\<lparr>d_members := rows_update
           (\<lambda>r. cu_community_id r = c_id c \<and> cu_user_id r \<in> set us)
           (\<lambda>r. r\<lparr>cu_permissions := p (cu_user_id r)\<rparr>) (d_members d)\<rparr> # ds \<and>
        w_db w' = w_db w \<and> w_jobs w' = w_jobs w \<and>
        w_redis w' = (\<lambda>k. if k \<in> (\<lambda>u. PermissionRedisKey u (c_id c)) ` set us then None
                           else w_redis w k)"
    using assms
  proof (induction us arbitrary: w d)
    case Nil
    then show ?case by (auto simp: ret_def rows_update_def)
  next
    case (Cons u us)
    obtain w1 w2 where
      1: "tx_exec E s (set_member_permissions u (c_id c) (p u)) w = (Inr (), w1)" and
      2: "redis_del E (PermissionRedisKey u (c_id c)) w1 = (Inr (), w2)" and
      3: "for_each us (\<lambda>uid. andThen (tx_exec E s (set_member_permissions uid (c_id c) (p uid)))
            (\<lambda>_. redis_del E (PermissionRedisKey uid (c_id c)))) w2 = (Inr (), w')"
      using Cons.prems(1) by (auto elim!: andThen_InrE)
    let ?d = "d\<lparr>d_members := rows_update (\<lambda>r. cu_user_id r = u \<and> cu_community_id r = c_id c)
              (\<lambda>r. r\<lparr>cu_permissions := p u\<rparr>) (d_members d)\<rparr>"
    have w1: "w_txs w1 = ?d # ds" "w_db w1 = w_db w" "w_jobs w1 = w_jobs w" "w_redis w1 = w_redis w"
      using tx_exec_InrD [OF 1] Cons.prems(2) by (auto simp: set_member_permissions_def)
    have w2: "w_txs w2 = w_txs w1" "w_db w2 = w_db w1" "w_jobs w2 = w_jobs w1"
      "w_redis w2 = (w_redis w1)(PermissionRedisKey u (c_id c) := None)"
      using redis_del_InrD [OF 2] by auto
    have "rows_update (\<lambda>r. cu_community_id r = c_id c \<and> cu_user_id r \<in> set us)
            (\<lambda>r. r\<lparr>cu_permissions := p (cu_user_id r)\<rparr>) (d_members ?d) =
          rows_update (\<lambda>r. cu_community_id r = c_id c \<and> cu_user_id r \<in> set (u # us))
            (\<lambda>r. r\<lparr>cu_permissions := p (cu_user_id r)\<rparr>) (d_members d)"
      by (auto simp: rows_update_def)
    then show ?case
      using Cons.IH [OF 3, of ?d] w1 w2 by (auto simp: fun_eq_iff)
  qed
  then show "w_txs w' = d\<lparr>d_members := rows_update
           (\<lambda>r. cu_community_id r = c_id c \<and> cu_user_id r \<in> set us)
           (\<lambda>r. r\<lparr>cu_permissions := p (cu_user_id r)\<rparr>) (d_members d)\<rparr> # ds"
    and "w_db w' = w_db w" and "w_jobs w' = w_jobs w"
    and "w_redis w' = (\<lambda>k. if k \<in> (\<lambda>u. PermissionRedisKey u (c_id c)) ` set us then None
                           else w_redis w k)"
    by blast+
qed

lemma recalculated_Nil [simp]: "recalculated c [] d = d"
  by (simp add: recalculated_def rows_update_def)

text \<open>
  When the routine succeeds, the members it was given have exactly their effective
  permissions, nobody else's row has changed, and their cache entries are gone.
\<close>

lemma RecalculateForUsers_InrD:
  assumes "RecalculateAndUpdatePermissionsForUsers E us c w = (Inr (), w')" and "w_txs w = d # ds"
  shows "w_txs w' = recalculated c us d # ds" and "w_db w' = w_db w" and "w_jobs w' = w_jobs w"
    and "w_redis w' = (\<lambda>k. if k \<in> (\<lambda>u. PermissionRedisKey u (c_id c)) ` set us then None
                           else w_redis w k)"
proof -
  have "w_txs w' = recalculated c us d # ds \<and> w_db w' = w_db w \<and> w_jobs w' = w_jobs w \<and>
        w_redis w' = (\<lambda>k. if k \<in> (\<lambda>u. PermissionRedisKey u (c_id c)) ` set us then None
                           else w_redis w k)"
  proof (cases "us = []")
    case True
    then show ?thesis
      using assms by (auto simp: RecalculateAndUpdatePermissionsForUsers_def ret_def)
  next
    case False
    obtain x1 x2 w1 w2 where
      1: "tx_select E \<lparr>st_table = ''community_roles'', st_holes = 1, st_args = 1\<rparr>
            (roles_of (c_id c)) w = (Inr x1, w1)" and
      2: "tx_select E \<lparr>st_table = ''community_roles_users'', st_holes = 1, st_args = 1\<rparr>
            (roles_users_of (c_id c)) w1 = (Inr x2, w2)" and
      3: "for_each us (\<lambda>uid. andThen (tx_exec E
            \<lparr>st_table = ''communities_users'', st_holes = 10, st_args = 10\<rparr>
            (set_member_permissions uid (c_id c) (permissions_from c x1 x2 uid)))
          (\<lambda>_. redis_del E (PermissionRedisKey uid (c_id c)))) w2 = (Inr (), w')"
      using assms(1) False unfolding RecalculateAndUpdatePermissionsForUsers_def
      by (auto elim!: andThen_InrE)
    have x1: "x1 = roles_of (c_id c) d" and w1: "w1 = tick w"
      using tx_select_InrD [OF 1] assms(2) by auto
    have x2: "x2 = roles_users_of (c_id c) d" and w2: "w2 = tick (tick w)"
      using tx_select_InrD [OF 2] assms(2) w1 by auto
    have r: "w_redis w2 = w_redis w" by (simp add: w2)
    show ?thesis
      using set_permissions_loop [OF 3, unfolded r] assms(2)
      by (simp add: w2 x1 x2 permissions_from_effective recalculated_def)
  qed
  then show "w_txs w' = recalculated c us d # ds" and "w_db w' = w_db w" and "w_jobs w' = w_jobs w"
    and "w_redis w' = (\<lambda>k. if k \<in> (\<lambda>u. PermissionRedisKey u (c_id c)) ` set us then None
                           else w_redis w k)"
    by blast+
qed

end
