(* ===== verification/Membership.thy ===== *)
theory Membership
  imports Permissions
begin

text \<open>
  Joining and leaving a community, and throwing members out:
  \<^verbatim>\<open>handlers/join_community.go\<close>, \<^verbatim>\<open>leave_community.go\<close>, \<^verbatim>\<open>kick_user.go\<close> and
  \<^verbatim>\<open>ban_user.go\<close>. Three of the four delete from a table whose name is misspelt, the
  fourth passes two arguments to a query with one placeholder; the lemmas show what that
  means for every request.
\<close>

section \<open>Statements\<close>

definition user_by_id :: "nat \<Rightarrow> database \<Rightarrow> users_row option" where
  "user_by_id i d = find (\<lambda>u. u_id u = i) (d_users d)"

definition get_user_by_id :: "env \<Rightarrow> nat \<Rightarrow> users_row call" where
  "get_user_by_id E i =
     db_get E \<lparr>st_table = ''users'', st_holes = 1, st_args = 1\<rparr> (user_by_id i)"

definition invite_by_code :: "env \<Rightarrow> string \<Rightarrow> database \<Rightarrow> community_invites_row option" where
  "invite_by_code E code d = find (\<lambda>i. text_eq E (i_code i) code) (d_invites d)"

definition delete_members :: "(communities_users_row \<Rightarrow> bool) \<Rightarrow> database \<Rightarrow> db_err + database" where
  "delete_members P d = Inr (d\<lparr>d_members := rows_delete P (d_members d)\<rparr>)"

definition delete_roles_users ::
  "(community_roles_users_row \<Rightarrow> bool) \<Rightarrow> database \<Rightarrow> db_err + database" where
  "delete_roles_users P d = Inr (d\<lparr>d_roles_users := rows_delete P (d_roles_users d)\<rparr>)"

definition delete_invites ::
  "(community_invites_row \<Rightarrow> bool) \<Rightarrow> database \<Rightarrow> db_err + database" where
  "delete_invites P d = Inr (d\<lparr>d_invites := rows_delete P (d_invites d)\<rparr>)"

definition insert_banned :: "communities_banned_users_row \<Rightarrow> database \<Rightarrow> db_err + database" where
  "insert_banned b d = Inr (d\<lparr>d_banned := d_banned d @ [b]\<rparr>)"

text \<open>
  A new member row. Columns the statement leaves out take their default: the permission
  columns default to false, \<^verbatim>\<open>selected_channel_id\<close> is \<^verbatim>\<open>NOT NULL\<close> without a default
  (migration 33), so that leaving it out is refused.
\<close>

definition insert_member ::
  "nat \<Rightarrow> nat \<Rightarrow> nat \<Rightarrow> nat option \<Rightarrow> permissions option \<Rightarrow> database \<Rightarrow> db_err + database" where
  "insert_member createdAt communityId userId selected perms d =
     (case selected of
        None \<Rightarrow> Inl (ErrNoDefault ''selected_channel_id'')
      | Some ch \<Rightarrow>
          Inr (d\<lparr>d_members := d_members d @
            [\<lparr>cu_created_at = createdAt, cu_community_id = communityId,
              cu_selected_channel_id = ch, cu_user_id = userId,
              cu_permissions = (case perms of None \<Rightarrow> no_permissions | Some p \<Rightarrow> p)\<rparr>]\<rparr>))"

definition misspelt_roles_users :: string where
  "misspelt_roles_users = ''communiy_roles_users''"

lemma moves_get_user_by_id [shapes]: "moves s s s (get_user_by_id E i)"
  by (simp add: get_user_by_id_def shapes)

lemma misspelt_fails:
  "prepare \<lparr>st_table = misspelt_roles_users, st_holes = n, st_args = n\<rparr> \<noteq> None"
  by (simp add: prepare_def misspelt_roles_users_def schema_tables_def)

section \<open>Joining\<close>

record join_community_input =
  jc_code :: "string option"

text \<open>A private community asks for one of its own invite codes.\<close>

definition need_invite :: "env \<Rightarrow> communities_row \<Rightarrow> string option \<Rightarrow> unit go" where
  "need_invite E community code =
     (if c_private community then
        (case code of
           None \<Rightarrow> quit (message_error 200 ''Please provide a valid invite code to join.'')
         | Some s \<Rightarrow>
             andThen (on_err (db_get E
               \<lparr>st_table = ''community_invites'', st_holes = 1, st_args = 1\<rparr> (invite_by_code E s))
               (\<lambda>_. quit not_found)) (\<lambda>invite.
             ensure (i_community_id invite = c_id community)
               (quit (message_error 200 ''Please provide a valid invite code to join.''))))
      else ret ())"

text \<open>
  The query for bans is \<^verbatim>\<open>WHERE user_id = ? AND community_id\<close>: one placeholder, two
  arguments. Its error branch and the branch for a banned user return without ending the
  transaction that was begun before.
\<close>

definition banned_count :: "nat \<Rightarrow> database \<Rightarrow> nat" where
  "banned_count uId d =
     length (filter (\<lambda>b. b_user_id b = uId \<and> b_community_id b \<noteq> 0) (d_banned d))"

definition JoinCommunity ::
  "env \<Rightarrow> users_row option \<Rightarrow> string \<Rightarrow> join_community_input option \<Rightarrow> response go" where
  "JoinCommunity E viewer p body =
     andThen (need_viewer viewer) (\<lambda>user.
     andThen (of_option body (quit (plain_error 200 ''Invalid input.''))) (\<lambda>input.
     andThen (need_valid 200 (check_opt_string E ''Code'' [VLte 255] (jc_code input))) (\<lambda>_.
     andThen (on_err (get_community E (handle_param E p))
       (\<lambda>_. quit (message_error 200 ''Not found.''))) (\<lambda>community.
     andThen (need_invite E community (jc_code input)) (\<lambda>_.
     andThen (time_now E) (\<lambda>createdAt.
     andThen (on_err (begin_tx E) (\<lambda>e. quit (unique_error E ''Unable to create channel.'' e))) (\<lambda>_.
     andThen (on_err (db_get E
       \<lparr>st_table = ''communities_banned_users'', st_holes = 1, st_args = 2\<rparr>
       (\<lambda>d. Some (banned_count (u_id user) d)))
       (\<lambda>_. quit (message_error 500 ''Not found''))) (\<lambda>banned.
     andThen (ensure (banned = 0)
       (quit (message_error 200 ''You are banned from this community.''))) (\<lambda>_.
     andThen (on_err (tx_exec E
       \<lparr>st_table = ''communities_users'', st_holes = 11, st_args = 11\<rparr>
       (insert_member createdAt (c_id community) (u_id user) None
          (Some (c_permissions community))))
       (\<lambda>e. rolling_back (unique_error E ''Unable to create channel.'' e))) (\<lambda>_.
     andThen (on_err (commit E) (\<lambda>e. quit (unique_error E ''Unable to create channel.'' e))) (\<lambda>_.
     ret (Resp 200 (JObj [(''ok'', JBool True)])))))))))))))"

section \<open>Leaving\<close>

definition LeaveCommunity :: "env \<Rightarrow> users_row option \<Rightarrow> string \<Rightarrow> response go" where
  "LeaveCommunity E viewer p =
     (let failed = message_error 200 ''Unable to leave community.'' in
     andThen (need_viewer viewer) (\<lambda>user.
     andThen (on_err (get_community E (handle_param E p)) (\<lambda>_. quit not_found)) (\<lambda>community.
     andThen (ensure (u_id user \<noteq> c_owner_id community)
       (quit (message_error 200 ''You must delete the community to leave it.''))) (\<lambda>_.
     andThen (on_err (begin_tx E) (\<lambda>_. quit failed)) (\<lambda>_.
     andThen (on_err (tx_exec E \<lparr>st_table = ''communities_users'', st_holes = 1, st_args = 1\<rparr>
       (delete_members (\<lambda>r. cu_user_id r = u_id user)))
       (\<lambda>_. rolling_back failed)) (\<lambda>_.
     andThen (on_err (tx_exec E \<lparr>st_table = misspelt_roles_users, st_holes = 2, st_args = 2\<rparr>
       (delete_roles_users (\<lambda>r. ru_user_id r = u_id user \<and> ru_community_id r = c_id community)))
       (\<lambda>_. rolling_back failed)) (\<lambda>_.
     andThen (on_err (tx_exec E \<lparr>st_table = ''community_invites'', st_holes = 2, st_args = 2\<rparr>
       (delete_invites (\<lambda>r. i_user_id r = u_id user \<and> i_community_id r = c_id community)))
       (\<lambda>_. rolling_back failed)) (\<lambda>_.
     andThen (on_err (redis_del E (PermissionRedisKey (u_id user) (c_id community)))
       (\<lambda>_. rolling_back failed)) (\<lambda>_.
     andThen (on_err (commit E) (\<lambda>_. quit failed)) (\<lambda>_.
     ret (Resp 200 (JObj [(''ok'', JBool True)]))))))))))))"

section \<open>Kicking and banning\<close>

record kick_user_input =
  ku_user_id :: string

definition kick_checks :: "env \<Rightarrow> kick_user_input \<Rightarrow> json list" where
  "kick_checks E input = check_string E ''UserID'' [VRequired, VLte 255] (ku_user_id input)"

text \<open>
  The branch for an id that is not a user's logs \<^verbatim>\<open>err.Error()\<close> while \<^verbatim>\<open>err\<close> is still the
  \<^verbatim>\<open>nil\<close> of the community query: it panics.
\<close>

definition need_user_id :: "env \<Rightarrow> string \<Rightarrow> (nat \<times> users_row) go" where
  "need_user_id E s =
     andThen (decode_id E s) (\<lambda>(i, ty).
     andThen (ensure (i \<noteq> 0 \<and> ty = USERS_TYPE) (quit Panic)) (\<lambda>_.
     andThen (on_err (get_user_by_id E i) (\<lambda>_. quit not_found)) (\<lambda>u.
     ret (i, u))))"

definition KickUser ::
  "env \<Rightarrow> users_row option \<Rightarrow> string \<Rightarrow> kick_user_input option \<Rightarrow> response go" where
  "KickUser E viewer p body =
     (let failed = message_error 200 ''Unable to kick user.'' in
     andThen (admit E viewer body invalid_input (kick_checks E) (lower E (handle_param E p))
       KickMembers) (\<lambda>(user, input, community).
     andThen (need_user_id E (ku_user_id input)) (\<lambda>(kickedUserId, kickedUser).
     andThen (on_err (begin_tx E) (\<lambda>_. quit failed)) (\<lambda>_.
     andThen (on_err (tx_exec E \<lparr>st_table = ''communities_users'', st_holes = 2, st_args = 2\<rparr>
       (delete_members (\<lambda>r. cu_user_id r = kickedUserId \<and> cu_community_id r = c_id community)))
       (\<lambda>_. rolling_back failed)) (\<lambda>_.
     andThen (on_err (tx_exec E \<lparr>st_table = misspelt_roles_users, st_holes = 2, st_args = 2\<rparr>
       (delete_roles_users (\<lambda>r. ru_user_id r = kickedUserId \<and> ru_community_id r = c_id community)))
       (\<lambda>_. rolling_back failed)) (\<lambda>_.
     andThen (time_now E) (\<lambda>now.
     andThen (on_err (tx_exec E
       \<lparr>st_table = ''communities_banned_users'', st_holes = 3, st_args = 3\<rparr>
       (insert_banned \<lparr>b_created_at = now, b_community_id = c_id community,
          b_user_id = u_id kickedUser\<rparr>))
       (\<lambda>_. rolling_back failed)) (\<lambda>_.
     andThen (on_err (commit E) (\<lambda>_. quit failed)) (\<lambda>_.
     ret (Resp 200 (JObj [(''updated'', JBool True)])))))))))))"

text \<open>Banning does the same deletions and records no ban.\<close>

definition BanUser ::
  "env \<Rightarrow> users_row option \<Rightarrow> string \<Rightarrow> kick_user_input option \<Rightarrow> response go" where
  "BanUser E viewer p body =
     (let failed = message_error 200 ''Unable to ban user.'' in
     andThen (admit E viewer body invalid_input (kick_checks E) (lower E (handle_param E p))
       BanMembers) (\<lambda>(user, input, community).
     andThen (need_user_id E (ku_user_id input)) (\<lambda>(banedUserId, banedUser).
     andThen (on_err (begin_tx E) (\<lambda>_. quit failed)) (\<lambda>_.
     andThen (on_err (tx_exec E \<lparr>st_table = ''communities_users'', st_holes = 2, st_args = 2\<rparr>
       (delete_members (\<lambda>r. cu_user_id r = banedUserId \<and> cu_community_id r = c_id community)))
       (\<lambda>_. rolling_back failed)) (\<lambda>_.
     andThen (on_err (tx_exec E \<lparr>st_table = misspelt_roles_users, st_holes = 2, st_args = 2\<rparr>
       (delete_roles_users (\<lambda>r. ru_user_id r = banedUserId \<and> ru_community_id r = c_id community)))
       (\<lambda>_. rolling_back failed)) (\<lambda>_.
     andThen (on_err (commit E) (\<lambda>_. quit failed)) (\<lambda>_.
     ret (Resp 200 (JObj [(''updated'', JBool True)])))))))))"

section \<open>Contracts\<close>

lemma sound_need_user_id:
  "aes_configured (env_aes E) \<Longrightarrow> sound Idle Idle (need_user_id E s)"
  unfolding need_user_id_def by (rule sound_intro sound_ids shapes | assumption)+

lemma alive_need_user_id [dead_intro]: "alive (need_user_id E s)"
  unfolding need_user_id_def case_prod_beta by (rule dead_intro is_error_simps)+

lemma sound_LeaveCommunity: "sound Idle Done (LeaveCommunity E v p)"
  unfolding LeaveCommunity_def Let_def by (rule sound_intro shapes)+

lemma sound_KickUser: "aes_configured (env_aes E) \<Longrightarrow> sound Idle Done (KickUser E v p b)"
  unfolding KickUser_def Let_def by (rule sound_intro shapes sound_need_user_id | assumption)+

lemma sound_BanUser: "aes_configured (env_aes E) \<Longrightarrow> sound Idle Done (BanUser E v p b)"
  unfolding BanUser_def Let_def by (rule sound_intro shapes sound_need_user_id | assumption)+

lemma dead_LeaveCommunity: "dead (LeaveCommunity E v p)"
  unfolding LeaveCommunity_def Let_def
  by (rule dead_stuck [OF dead_tx_exec [OF misspelt_fails]] dead_intro is_error_simps)+

lemma dead_KickUser: "dead (KickUser E v p b)"
  unfolding KickUser_def Let_def
  by (rule dead_stuck [OF dead_tx_exec [OF misspelt_fails]] dead_intro is_error_simps alive_admit)+

lemma dead_BanUser: "dead (BanUser E v p b)"
  unfolding BanUser_def Let_def
  by (rule dead_stuck [OF dead_tx_exec [OF misspelt_fails]] dead_intro is_error_simps alive_admit)+

lemma alive_need_invite [dead_intro]: "alive (need_invite E c code)"
  unfolding need_invite_def
  by (cases "c_private c"; cases code) (auto intro!: dead_intro)

lemma dead_JoinCommunity: "dead (JoinCommunity E v p b)"
proof -
  have "prepare \<lparr>st_table = ''communities_banned_users'', st_holes = 1, st_args = 2\<rparr> \<noteq> None"
    by (simp add: prepare_def)
  note stuck = dead_stuck [OF dead_db_get [OF this]]
  show ?thesis
    unfolding JoinCommunity_def
    by (rule stuck dead_intro is_error_simps unique_error_is_error)+
qed

text \<open>
  A join changes no table, but it leaves its transaction open once it has begun it: nothing
  rolls it back when the ban cannot be looked up.
\<close>

lemma prepare_banned: "prepare \<lparr>st_table = ''communities_banned_users'', st_holes = 1, st_args = 2\<rparr> \<noteq> None"
  by (simp add: prepare_def)

lemma stuck_db_get: "prepare s \<noteq> None \<Longrightarrow> on_err (db_get E s f) (\<lambda>e. quit (g e)) w \<noteq> (Inr x, w')"
  by (metis db_get_InrD on_err_quit_InrD(1))

lemma wp_moves_step:
  assumes "moves s f t m" and "in_shape s d ts w"
    and "\<And>r w'. in_shape f d ts w' \<Longrightarrow> R r w'"
    and "\<And>x w'. in_shape t d ts w' \<Longrightarrow> wp (k x) Q R w'"
  shows "wp (andThen m k) Q R w"
  by (rule wp_andThen, rule wp_mono [OF movesD [OF assms(1,2)]]) (use assms(3,4) in auto)

lemma wp_stuck:
  assumes "moves Busy Busy Busy m" and "in_shape Busy d ts w" and "\<And>w x w'. m w \<noteq> (Inr x, w')"
    and "\<And>r w'. in_shape Busy d ts w' \<Longrightarrow> R r w'"
  shows "wp (andThen m k) Q R w"
proof (cases "m w")
  case (Pair r w')
  then obtain e where "m w = (Inl e, w')" using assms(3) by (cases r) auto
  moreover have "in_shape Busy d ts w'"
    using movesD [OF assms(1,2)] calculation by (simp add: wp_def)
  ultimately show ?thesis using assms(4) by (simp add: wp_def andThen_def)
qed

lemma moves_Idle_quit: "moves s s t m \<Longrightarrow> moves s s t (on_err m (\<lambda>e. quit (f e)))"
  by (rule moves_on_err, assumption, rule moves_quit)

lemma moves_need_invite: "moves Idle Idle Idle (need_invite E c code)"
  by (auto simp: need_invite_def ensure_def split: option.split intro!: shapes)

lemma JoinCommunity_keeps:
  assumes "run (JoinCommunity E v p b) w = (r, w')"
  shows "w_db w' = w_db w \<and> (w_txs w' = w_txs w \<or> (\<exists>d. w_txs w' = d # w_txs w))"
proof -
  let ?R = "\<lambda>(_ :: response) w'. w_db w' = w_db w \<and> (w_txs w' = w_txs w \<or> (\<exists>d. w_txs w' = d # w_txs w))"
  note step = wp_moves_step [where d = "w_db w" and ts = "w_txs w" and s = Idle and f = Idle]
  have first: "moves Idle Idle Idle (need_viewer v)"
    "moves Idle Idle Idle (of_option b (quit (plain_error 200 ''Invalid input.'')))"
    "moves Idle Idle Idle (need_valid 200 es)"
    "moves Idle Idle Idle (time_now E :: nat go)" for es
    by (auto simp: need_viewer_def need_valid_def of_option_def ensure_def split: option.split intro: shapes)
  have "wp (JoinCommunity E v p b) ?R ?R w"
    unfolding JoinCommunity_def
    apply (rule step [OF first(1)], simp, simp)
    apply (rule step [OF first(2)], assumption, simp)
    apply (rule step [OF first(3)], assumption, simp)
    apply (rule step [OF moves_Idle_quit [OF moves_get_community]], assumption, simp)
    apply (rule step [OF moves_need_invite], assumption, simp)
    apply (rule step [OF first(4)], assumption, simp)
    apply (rule step [OF moves_Idle_quit [OF moves_tx(1)]], assumption, simp)
    apply (rule wp_stuck [where d = "w_db w" and ts = "w_txs w"])
    apply (rule moves_Idle_quit, rule shapes)
    apply assumption
    apply (rule stuck_db_get [OF prepare_banned])
    by simp
  then show ?thesis using assms by (rule wp_run)
qed

text \<open>Nobody can leave, be kicked or be banned: the three endpoints keep every table.\<close>

interpretation leave: broken_endpoint "\<lambda>q. run (case q of (E, v, p) \<Rightarrow> LeaveCommunity E v p)" "\<lambda>_. True"
  by (rule broken_endpointI) (auto intro: sound_LeaveCommunity dead_LeaveCommunity)

interpretation kick: broken_endpoint "\<lambda>q. run (case q of (E, v, p, b) \<Rightarrow> KickUser E v p b)"
  "\<lambda>q. aes_configured (env_aes (fst q))"
  by (rule broken_endpointI) (auto intro: sound_KickUser dead_KickUser)

interpretation ban: broken_endpoint "\<lambda>q. run (case q of (E, v, p, b) \<Rightarrow> BanUser E v p b)"
  "\<lambda>q. aes_configured (env_aes (fst q))"
  by (rule broken_endpointI) (auto intro: sound_BanUser dead_BanUser)

end
