(* ===== verification/Channels.thy ===== *)
theory Channels
  imports Membership
begin

text \<open>
  Channels and channel groups: \<^verbatim>\<open>handlers/create_channel.go\<close>, \<^verbatim>\<open>edit_channel.go\<close>,
  \<^verbatim>\<open>delete_channel.go\<close>, \<^verbatim>\<open>channel_select.go\<close>, \<^verbatim>\<open>create_group.go\<close>, \<^verbatim>\<open>edit_group.go\<close> and
  \<^verbatim>\<open>delete_group.go\<close>. Each handler comes with its contract and with what a successful
  request has done to the tables.
\<close>

section \<open>Statements\<close>

definition too_long :: "string \<Rightarrow> bool" where
  "too_long s \<longleftrightarrow> 255 < rune_count s"

text \<open>The unique index \<^verbatim>\<open>channels_handle_uq (handle, community_id)\<close>.\<close>

definition channel_taken :: "env \<Rightarrow> (channels_row \<Rightarrow> bool) \<Rightarrow> nat \<Rightarrow> string \<Rightarrow> database \<Rightarrow> bool" where
  "channel_taken E P c h d \<longleftrightarrow>
     (\<exists>r \<in> set (d_channels d). P r \<and> ch_community_id r = c \<and> text_eq E (ch_handle r) h)"

definition insert_channel :: "env \<Rightarrow> channels_row \<Rightarrow> database \<Rightarrow> db_err + database" where
  "insert_channel E r d =
     (if too_long (ch_name r) \<or> too_long (ch_handle r) then Inl ErrTooLong
      else if channel_taken E (\<lambda>_. True) (ch_community_id r) (ch_handle r) d then Inl ErrDuplicate
      else Inr (d\<lparr>d_channels := d_channels d @ [r]\<rparr>))"

definition update_channel ::
  "env \<Rightarrow> nat \<Rightarrow> nat \<Rightarrow> string \<Rightarrow> string \<Rightarrow> nat \<Rightarrow> database \<Rightarrow> db_err + database" where
  "update_channel E i updatedAt name h groupId d =
     (case find (\<lambda>r. ch_id r = i) (d_channels d) of
        None \<Rightarrow> Inr d
      | Some r0 \<Rightarrow>
          if too_long name \<or> too_long h then Inl ErrTooLong
          else if channel_taken E (\<lambda>r. ch_id r \<noteq> i) (ch_community_id r0) h d then Inl ErrDuplicate
          else Inr (d\<lparr>d_channels := rows_update (\<lambda>r. ch_id r = i)
                 (\<lambda>r. r\<lparr>ch_updated_at := Some updatedAt, ch_name := name, ch_handle := h,
                        ch_group_id := groupId\<rparr>) (d_channels d)\<rparr>))"

definition delete_channels :: "(channels_row \<Rightarrow> bool) \<Rightarrow> database \<Rightarrow> db_err + database" where
  "delete_channels P d = Inr (d\<lparr>d_channels := rows_delete P (d_channels d)\<rparr>)"

definition delete_messages :: "(messages_row \<Rightarrow> bool) \<Rightarrow> database \<Rightarrow> db_err + database" where
  "delete_messages P d = Inr (d\<lparr>d_messages := rows_delete P (d_messages d)\<rparr>)"

definition insert_group :: "channel_groups_row \<Rightarrow> database \<Rightarrow> db_err + database" where
  "insert_group r d =
     (if too_long (g_name r) then Inl ErrTooLong else Inr (d\<lparr>d_groups := d_groups d @ [r]\<rparr>))"

definition update_group :: "nat \<Rightarrow> string \<Rightarrow> nat \<Rightarrow> database \<Rightarrow> db_err + database" where
  "update_group i name updatedAt d =
     (if too_long name then Inl ErrTooLong
      else Inr (d\<lparr>d_groups := rows_update (\<lambda>r. g_id r = i)
             (\<lambda>r. r\<lparr>g_name := name, g_updated_at := Some updatedAt\<rparr>) (d_groups d)\<rparr>))"

definition delete_groups :: "(channel_groups_row \<Rightarrow> bool) \<Rightarrow> database \<Rightarrow> db_err + database" where
  "delete_groups P d = Inr (d\<lparr>d_groups := rows_delete P (d_groups d)\<rparr>)"

definition select_channel :: "nat \<Rightarrow> nat \<Rightarrow> nat \<Rightarrow> database \<Rightarrow> db_err + database" where
  "select_channel u c ch d =
     Inr (d\<lparr>d_members := rows_update (\<lambda>r. cu_user_id r = u \<and> cu_community_id r = c)
            (\<lambda>r. r\<lparr>cu_selected_channel_id := ch\<rparr>) (d_members d)\<rparr>)"

definition group_in :: "nat \<Rightarrow> nat \<Rightarrow> database \<Rightarrow> channel_groups_row option" where
  "group_in i c d = find (\<lambda>g. g_id g = i \<and> g_community_id g = c) (d_groups d)"

definition get_group :: "env \<Rightarrow> nat \<Rightarrow> nat \<Rightarrow> channel_groups_row call" where
  "get_group E i c =
     db_get E \<lparr>st_table = ''channel_groups'', st_holes = 2, st_args = 2\<rparr> (group_in i c)"

definition channel_by_id :: "nat \<Rightarrow> database \<Rightarrow> channels_row option" where
  "channel_by_id i d = find (\<lambda>r. ch_id r = i) (d_channels d)"

definition get_channel_by_id :: "env \<Rightarrow> nat \<Rightarrow> channels_row call" where
  "get_channel_by_id E i =
     db_get E \<lparr>st_table = ''channels'', st_holes = 1, st_args = 1\<rparr> (channel_by_id i)"

definition channel_by_handle :: "env \<Rightarrow> string \<Rightarrow> nat \<Rightarrow> database \<Rightarrow> channels_row option" where
  "channel_by_handle E h c d =
     find (\<lambda>r. text_eq E (ch_handle r) h \<and> ch_community_id r = c) (d_channels d)"

definition get_channel_by_handle :: "env \<Rightarrow> string \<Rightarrow> nat \<Rightarrow> channels_row call" where
  "get_channel_by_handle E h c =
     db_get E \<lparr>st_table = ''channels'', st_holes = 2, st_args = 2\<rparr> (channel_by_handle E h c)"

lemma moves_channel_queries [shapes]:
  "moves s s s (get_group E i c)" "moves s s s (get_channel_by_id E i)"
  "moves s s s (get_channel_by_handle E h c)"
  by (simp_all add: get_group_def get_channel_by_id_def get_channel_by_handle_def shapes)

text \<open>A group the code did not look up is the zero row, with id 0.\<close>

definition group_id_of :: "channel_groups_row option \<Rightarrow> nat" where
  "group_id_of g = (case g of None \<Rightarrow> 0 | Some r \<Rightarrow> g_id r)"

definition need_own_group :: "channel_groups_row option \<Rightarrow> communities_row \<Rightarrow> unit go" where
  "need_own_group g c =
     ensure (case g of None \<Rightarrow> True | Some r \<Rightarrow> \<not> (0 < g_id r \<and> g_community_id r \<noteq> c_id c))
       (quit not_found)"

section \<open>Creating a channel\<close>

record create_channel_input =
  cc_name :: string
  cc_group_id :: "string option"

definition create_channel_checks :: "env \<Rightarrow> create_channel_input \<Rightarrow> json list" where
  "create_channel_checks E input =
     check_string E ''Name'' [VRequired, VGte 3, VLte 32] (cc_name input) @
     check_opt_string E ''GroupID'' [VLte 255] (cc_group_id input)"

text \<open>The type tag of the decoded group id is dropped; only the number is looked up.\<close>

definition create_channel_group ::
  "env \<Rightarrow> string option \<Rightarrow> communities_row \<Rightarrow> channel_groups_row option go" where
  "create_channel_group E groupID community =
     (case groupID of
        None \<Rightarrow> ret None
      | Some s \<Rightarrow>
          if s = [] then ret None
          else andThen (decode_id E s) (\<lambda>(groupId, _).
               andThen (on_err (get_group E groupId (c_id community)) (\<lambda>_. quit not_found)) (\<lambda>g.
               ret (Some g))))"

definition CreateChannel ::
  "env \<Rightarrow> users_row option \<Rightarrow> string \<Rightarrow> create_channel_input option \<Rightarrow> response go" where
  "CreateChannel E viewer p body =
     (let failed = unique_error E ''Unable to create channel.'' in
     andThen (admit E viewer body invalid_input (create_channel_checks E) (handle_param E p)
       ManageChannels) (\<lambda>(user, input, community).
     andThen (create_channel_group E (cc_group_id input) community) (\<lambda>group.
     andThen (need_own_group group community) (\<lambda>_.
     andThen (new_uuid E) (\<lambda>salt.
     andThen (time_now E) (\<lambda>createdAt.
     andThen (on_err (begin_tx E) (\<lambda>e. quit (failed e))) (\<lambda>_.
     let channelHandle = channel_handle_of (env_lower E) (cc_name input) in
     andThen (ensure (channelHandle \<noteq> [])
       (rolling_back (message_error 200 ''Unable to create channel.''))) (\<lambda>_.
     andThen (on_err (tx_insert E \<lparr>st_table = ''channels'', st_holes = 6, st_args = 6\<rparr>
       (\<lambda>i. insert_channel E
          \<lparr>ch_id = i, ch_created_at = createdAt, ch_updated_at = None,
           ch_community_id = c_id community, ch_group_id = group_id_of group, ch_salt = salt,
           ch_name = cc_name input, ch_handle = channelHandle\<rparr>))
       (\<lambda>e. rolling_back (failed e))) (\<lambda>_.
     andThen (on_err (tx_last_insert_id E) (\<lambda>e. rolling_back (failed e))) (\<lambda>channelId.
     andThen (on_err (commit E) (\<lambda>e. quit (failed e))) (\<lambda>_.
     andThen (encode_id E channelId CHANNELS_TYPE salt) (\<lambda>i.
     ret (Resp 200 (JObj [(''id'', JStr i), (''created_at'', JStr (env_rfc3339 E createdAt)),
       (''name'', JStr (cc_name input)), (''handle'', JStr channelHandle)]))))))))))))))"

section \<open>Editing a channel\<close>

record edit_channel_input =
  ec_channel_id :: string
  ec_name :: string
  ec_group_id :: "string option"

definition edit_channel_checks :: "env \<Rightarrow> edit_channel_input \<Rightarrow> json list" where
  "edit_channel_checks E input =
     check_string E ''ChannelID'' [VRequired, VGte 3, VLte 255] (ec_channel_id input) @
     check_string E ''Name'' [VRequired, VGte 3, VLte 32] (ec_name input) @
     check_opt_string E ''GroupID'' [VLte 255] (ec_group_id input)"

text \<open>
  Here the tag is checked; the branches for a wrong id log \<^verbatim>\<open>err.Error()\<close> on the \<^verbatim>\<open>nil\<close> of
  the query before, and panic.
\<close>

definition edit_channel_group ::
  "env \<Rightarrow> string option \<Rightarrow> communities_row \<Rightarrow> channel_groups_row option go" where
  "edit_channel_group E groupID community =
     (case groupID of
        None \<Rightarrow> ret None
      | Some s \<Rightarrow>
          if s = [] then ret None
          else andThen (decode_id E s) (\<lambda>(groupId, groupOk).
               andThen (ensure (groupId \<noteq> 0 \<and> groupOk = CHANNEL_GROUPS_TYPE) (quit Panic)) (\<lambda>_.
               andThen (on_err (get_group E groupId (c_id community)) (\<lambda>_. quit not_found)) (\<lambda>g.
               ret (Some g)))))"

definition need_channel :: "env \<Rightarrow> string \<Rightarrow> communities_row \<Rightarrow> channels_row go" where
  "need_channel E s community =
     andThen (decode_id E s) (\<lambda>(channelId, channelOk).
     andThen (ensure (channelId \<noteq> 0 \<and> channelOk = CHANNELS_TYPE) (quit Panic)) (\<lambda>_.
     andThen (on_err (get_channel_by_id E channelId) (\<lambda>_. quit not_found)) (\<lambda>channel.
     andThen (ensure (ch_community_id channel = c_id community) (quit not_found)) (\<lambda>_.
     ret channel))))"

definition EditChannel ::
  "env \<Rightarrow> users_row option \<Rightarrow> string \<Rightarrow> edit_channel_input option \<Rightarrow> response go" where
  "EditChannel E viewer p body =
     (let failed = unique_error E ''Unable to edit channel.'' in
     andThen (admit E viewer body invalid_input (edit_channel_checks E) (lower E (handle_param E p))
       ManageChannels) (\<lambda>(user, input, community).
     andThen (need_channel E (ec_channel_id input) community) (\<lambda>channel.
     andThen (edit_channel_group E (ec_group_id input) community) (\<lambda>group.
     andThen (need_own_group group community) (\<lambda>_.
     andThen (on_err (begin_tx E) (\<lambda>e. quit (failed e))) (\<lambda>_.
     let channelHandle = channel_handle_of (env_lower E) (ec_name input) in
     andThen (time_now E) (\<lambda>updatedAt.
     andThen (on_err (tx_exec E \<lparr>st_table = ''channels'', st_holes = 5, st_args = 5\<rparr>
       (update_channel E (ch_id channel) updatedAt (ec_name input) channelHandle
          (group_id_of group)))
       (\<lambda>e. rolling_back (failed e))) (\<lambda>_.
     andThen (on_err (commit E) (\<lambda>e. quit (failed e))) (\<lambda>_.
     ret (Resp 200 (JObj [(''id'', JStr (ec_channel_id input)),
       (''created_at'', JStr (env_rfc3339 E (ch_created_at channel))),
       (''update_at'', JStr (env_rfc3339 E updatedAt)),
       (''name'', JStr (ec_name input)), (''handle'', JStr channelHandle)])))))))))))"

section \<open>Deleting a channel\<close>

record delete_channel_input =
  dc_channel_id :: string

definition delete_channel_checks :: "env \<Rightarrow> delete_channel_input \<Rightarrow> json list" where
  "delete_channel_checks E input =
     check_string E ''ChannelID'' [VRequired, VGte 3, VLte 255] (dc_channel_id input)"

definition DeleteChannel ::
  "env \<Rightarrow> users_row option \<Rightarrow> string \<Rightarrow> delete_channel_input option \<Rightarrow> response go" where
  "DeleteChannel E viewer p body =
     (let failed = message_error 200 ''Unable to delete channel.'' in
     andThen (admit E viewer body invalid_input (delete_channel_checks E) (handle_param E p)
       ManageChannels) (\<lambda>(user, input, community).
     andThen (decode_id E (dc_channel_id input)) (\<lambda>(channelId, channelOk).
     andThen (ensure (channelId \<noteq> 0 \<and> channelOk = CHANNELS_TYPE) (quit Panic)) (\<lambda>_.
     andThen (on_err (begin_tx E) (\<lambda>_. quit failed)) (\<lambda>_.
     andThen (on_err (tx_exec E \<lparr>st_table = ''channels'', st_holes = 2, st_args = 2\<rparr>
       (delete_channels (\<lambda>r. ch_id r = channelId \<and> ch_community_id r = c_id community)))
       (\<lambda>_. rolling_back failed)) (\<lambda>_.
     andThen (on_err (tx_exec E \<lparr>st_table = ''messages'', st_holes = 2, st_args = 2\<rparr>
       (delete_messages (\<lambda>m. m_channel_id m = channelId \<and> m_community_id m = c_id community)))
       (\<lambda>_. rolling_back failed)) (\<lambda>_.
     andThen (on_err (commit E) (\<lambda>_. quit failed)) (\<lambda>_.
     ret (Resp 200 (JObj [(''ok'', JBool True)]))))))))))"

section \<open>Selecting a channel\<close>

record channel_select_input =
  cs_channel_handle :: string

text \<open>The read mark is written by a goroutine; the selection is one statement, no transaction.\<close>

definition ChannelSelect ::
  "env \<Rightarrow> users_row option \<Rightarrow> string \<Rightarrow> channel_select_input option \<Rightarrow> response go" where
  "ChannelSelect E viewer p body =
     (let missing = message_error 404 ''Not found'' in
     andThen (need_viewer viewer) (\<lambda>user.
     andThen (of_option body (quit invalid_input)) (\<lambda>input.
     andThen (need_valid 200
       (check_string E ''ChannelHandle'' [VRequired, VLte 255] (cs_channel_handle input))) (\<lambda>_.
     andThen (on_err (get_community E (handle_param E p)) (\<lambda>_. quit missing)) (\<lambda>community.
     andThen (on_err (get_channel_by_handle E
       (Truncate (lower E (cs_channel_handle input)) 255) (c_id community))
       (\<lambda>_. quit missing)) (\<lambda>channel.
     andThen (ensure (HasChannelPermission (u_id user) (ch_id channel) ViewChannels)
       (quit not_allowed)) (\<lambda>_.
     andThen (spawn (JobRedisStamp (user_channel_key (u_id user) (ch_id channel)))) (\<lambda>_.
     andThen (on_err (db_exec E \<lparr>st_table = ''communities_users'', st_holes = 3, st_args = 3\<rparr>
       (select_channel (u_id user) (c_id community) (ch_id channel)))
       (\<lambda>_. quit missing)) (\<lambda>_.
     ret (Resp 200 (JObj [(''updated'', JBool True)])))))))))))"

section \<open>Groups\<close>

record create_group_input =
  cg_name :: string

definition create_group_checks :: "env \<Rightarrow> create_group_input \<Rightarrow> json list" where
  "create_group_checks E input = check_string E ''Name'' [VRequired, VGte 3, VLte 32] (cg_name input)"

definition CreateGroup ::
  "env \<Rightarrow> users_row option \<Rightarrow> string \<Rightarrow> create_group_input option \<Rightarrow> response go" where
  "CreateGroup E viewer p body =
     (let failed = unique_error E ''Unable to create channel.'' in
     andThen (admit E viewer body invalid_input (create_group_checks E) (handle_param E p)
       ManageChannels) (\<lambda>(user, input, community).
     andThen (on_err (begin_tx E) (\<lambda>e. quit (failed e))) (\<lambda>_.
     andThen (new_uuid E) (\<lambda>salt.
     andThen (time_now E) (\<lambda>createdAt.
     andThen (on_err (tx_insert E \<lparr>st_table = ''channel_groups'', st_holes = 4, st_args = 4\<rparr>
       (\<lambda>i. insert_group \<lparr>g_id = i, g_created_at = createdAt, g_updated_at = None,
          g_community_id = c_id community, g_salt = salt, g_name = cg_name input\<rparr>))
       (\<lambda>e. rolling_back (failed e))) (\<lambda>_.
     andThen (on_err (tx_last_insert_id E) (\<lambda>e. rolling_back (failed e))) (\<lambda>groupId.
     andThen (on_err (commit E) (\<lambda>e. quit (failed e))) (\<lambda>_.
     andThen (encode_id E groupId CHANNEL_GROUPS_TYPE salt) (\<lambda>i.
     ret (Resp 200 (JObj [(''id'', JStr i), (''created_at'', JStr (env_rfc3339 E createdAt)),
       (''name'', JStr (cg_name input))])))))))))))"

record edit_group_input =
  eg_group_id :: string
  eg_name :: string

definition edit_group_checks :: "env \<Rightarrow> edit_group_input \<Rightarrow> json list" where
  "edit_group_checks E input =
     check_string E ''GroupID'' [VRequired, VGte 3, VLte 255] (eg_group_id input) @
     check_string E ''Name'' [VRequired, VGte 3, VLte 32] (eg_name input)"

definition need_group :: "env \<Rightarrow> string \<Rightarrow> communities_row \<Rightarrow> (nat \<times> channel_groups_row) go" where
  "need_group E s community =
     andThen (decode_id E s) (\<lambda>(groupId, groupOk).
     andThen (ensure (groupId \<noteq> 0 \<and> groupOk = CHANNEL_GROUPS_TYPE) (quit Panic)) (\<lambda>_.
     andThen (on_err (get_group E groupId (c_id community)) (\<lambda>_. quit not_found)) (\<lambda>group.
     ret (groupId, group))))"

definition EditGroup ::
  "env \<Rightarrow> users_row option \<Rightarrow> string \<Rightarrow> edit_group_input option \<Rightarrow> response go" where
  "EditGroup E viewer p body =
     (let failed = message_error 200 ''Unable to create channel.'' in
     andThen (admit E viewer body invalid_input (edit_group_checks E) (handle_param E p)
       ManageChannels) (\<lambda>(user, input, community).
     andThen (need_group E (eg_group_id input) community) (\<lambda>(groupId, group).
     andThen (on_err (begin_tx E) (\<lambda>_. quit failed)) (\<lambda>_.
     andThen (time_now E) (\<lambda>updatedAt.
     andThen (on_err (tx_exec E \<lparr>st_table = ''channel_groups'', st_holes = 3, st_args = 3\<rparr>
       (update_group groupId (eg_name input) updatedAt))
       (\<lambda>_. rolling_back failed)) (\<lambda>_.
     andThen (on_err (commit E) (\<lambda>_. quit failed)) (\<lambda>_.
     ret (Resp 200 (JObj [(''id'', JStr (eg_group_id input)),
       (''created_at'', JStr (env_rfc3339 E (g_created_at group))),
       (''update_at'', JStr (env_rfc3339 E updatedAt)), (''name'', JStr (eg_name input))])))))))))"

record delete_group_input =
  dg_group_id :: string

definition delete_group_checks :: "env \<Rightarrow> delete_group_input \<Rightarrow> json list" where
  "delete_group_checks E input =
     check_string E ''GroupID'' [VRequired, VGte 3, VLte 255] (dg_group_id input)"

definition DeleteGroup ::
  "env \<Rightarrow> users_row option \<Rightarrow> string \<Rightarrow> delete_group_input option \<Rightarrow> response go" where
  "DeleteGroup E viewer p body =
     (let failed = message_error 200 ''Unable to delete group.'' in
     andThen (admit E viewer body invalid_input (delete_group_checks E) (handle_param E p)
       ManageChannels) (\<lambda>(user, input, community).
     andThen (need_group E (dg_group_id input) community) (\<lambda>(groupId, group).
     andThen (on_err (begin_tx E) (\<lambda>_. quit failed)) (\<lambda>_.
     andThen (on_err (tx_exec E \<lparr>st_table = ''channels'', st_holes = 1, st_args = 1\<rparr>
       (delete_channels (\<lambda>r. ch_group_id r = groupId)))
       (\<lambda>_. rolling_back failed)) (\<lambda>_.
     andThen (on_err (tx_exec E \<lparr>st_table = ''channel_groups'', st_holes = 1, st_args = 1\<rparr>
       (delete_groups (\<lambda>g. g_id g = groupId)))
       (\<lambda>_. rolling_back failed)) (\<lambda>_.
     andThen (on_err (commit E) (\<lambda>_. quit failed)) (\<lambda>_.
     ret (Resp 200 (JObj [(''ok'', JBool True)])))))))))"

section \<open>Contracts\<close>

lemma sound_need_own_group [sound_intro]: "sound Idle Idle (need_own_group g c)"
  unfolding need_own_group_def by (rule sound_intro)+

lemma alive_need_own_group [dead_intro]: "alive (need_own_group g c)"
  unfolding need_own_group_def by (rule dead_intro is_error_simps)+

lemma sound_channel_blocks:
  assumes "aes_configured (env_aes E)"
  shows "sound Idle Idle (create_channel_group E g c)" "sound Idle Idle (edit_channel_group E g c)"
    "sound Idle Idle (need_channel E s c)" "sound Idle Idle (need_group E s c)"
  unfolding create_channel_group_def edit_channel_group_def need_channel_def need_group_def
  by (rule sound_intro sound_ids shapes assms)+

lemma alive_channel_blocks [dead_intro]:
  "alive (create_channel_group E g c)" "alive (edit_channel_group E g c)"
  "alive (need_channel E s c)" "alive (need_group E s c)"
  unfolding create_channel_group_def edit_channel_group_def need_channel_def need_group_def
    case_prod_beta
  by (rule dead_intro is_error_simps | simp split: option.split | intro conjI impI allI)+

lemmas channel_handlers = CreateChannel_def EditChannel_def DeleteChannel_def ChannelSelect_def
  CreateGroup_def EditGroup_def DeleteGroup_def

lemma sound_channel_handlers:
  assumes "aes_configured (env_aes E)"
  shows "sound Idle Done (CreateChannel E v p b1)" "sound Idle Done (EditChannel E v p b2)"
    "sound Idle Done (DeleteChannel E v p b3)" "sound Idle Done (CreateGroup E v p b4)"
    "sound Idle Done (EditGroup E v p b5)" "sound Idle Done (DeleteGroup E v p b6)"
  unfolding channel_handlers Let_def
  by (rule sound_intro sound_ids shapes sound_channel_blocks assms)+

lemma sound_ChannelSelect: "sound Idle Done (ChannelSelect E v p b)"
  unfolding ChannelSelect_def Let_def by (rule sound_intro shapes)+

lemma alive_channel_handlers [dead_intro]:
  "alive (CreateChannel E v p b1)" "alive (EditChannel E v p b2)" "alive (DeleteChannel E v p b3)"
  "alive (ChannelSelect E v p b7)" "alive (CreateGroup E v p b4)" "alive (EditGroup E v p b5)"
  "alive (DeleteGroup E v p b6)"
  unfolding channel_handlers Let_def case_prod_beta
  by (rule dead_intro is_error_simps unique_error_is_error alive_admit)+

lemma answers_channel_handlers:
  "answers (CreateChannel E v p b1)" "answers (EditChannel E v p b2)" "answers (DeleteChannel E v p b3)"
  "answers (ChannelSelect E v p b7)" "answers (CreateGroup E v p b4)" "answers (EditGroup E v p b5)"
  "answers (DeleteGroup E v p b6)"
  unfolding channel_handlers Let_def case_prod_beta
  by (intro answers_andThen answers_rules; simp add: json_field_def)+

section \<open>What a successful request has done\<close>

lemma get_group_InrD:
  "get_group E i c w = (Inr g, w') \<Longrightarrow>
   g \<in> set (d_groups (w_db w)) \<and> g_id g = i \<and> g_community_id g = c \<and> w' = tick w"
  by (auto simp: get_group_def group_in_def dest!: db_get_InrD dest: find_SomeD)

lemma get_channel_by_id_InrD:
  "get_channel_by_id E i w = (Inr r, w') \<Longrightarrow>
   r \<in> set (d_channels (w_db w)) \<and> ch_id r = i \<and> w' = tick w"
  by (auto simp: get_channel_by_id_def channel_by_id_def dest!: db_get_InrD dest: find_SomeD)

text \<open>A group id that is 0 or names a group of the community.\<close>

definition own_group_id :: "nat \<Rightarrow> nat \<Rightarrow> database \<Rightarrow> bool" where
  "own_group_id g c d \<longleftrightarrow>
     g = 0 \<or> (\<exists>gr \<in> set (d_groups d). g_id gr = g \<and> g_community_id gr = c)"

lemma channel_group_InrD:
  "create_channel_group E s c w = (Inr g, w') \<Longrightarrow>
   own_group_id (group_id_of g) (c_id c) (w_db w) \<and> (s = None \<longrightarrow> group_id_of g = 0) \<and> same_stores w w'"
  "edit_channel_group E s c w = (Inr g, w') \<Longrightarrow>
   own_group_id (group_id_of g) (c_id c) (w_db w) \<and> (s = None \<longrightarrow> group_id_of g = 0) \<and> same_stores w w'"
  by (auto simp: create_channel_group_def edit_channel_group_def own_group_id_def group_id_of_def
      same_stores_def split: option.splits if_splits elim!: andThen_InrE
      dest!: inr_dest get_group_InrD)

lemma need_own_group_InrD: "need_own_group g c w = (Inr u, w') \<Longrightarrow> w' = w"
  unfolding need_own_group_def by (drule ensure_InrD(1)) simp

lemma need_channel_InrD:
  "need_channel E s c w = (Inr ch, w') \<Longrightarrow>
   ch \<in> set (d_channels (w_db w)) \<and> ch_community_id ch = c_id c \<and> same_stores w w' \<and>
   Decode (env_aes E) s = Returned (ch_id ch, CHANNELS_TYPE)"
  by (auto simp: need_channel_def same_stores_def elim!: andThen_InrE
      dest!: inr_dest get_channel_by_id_InrD)

lemma need_group_InrD:
  "need_group E s c w = (Inr (i, g), w') \<Longrightarrow>
   g \<in> set (d_groups (w_db w)) \<and> g_community_id g = c_id c \<and> g_id g = i \<and> same_stores w w' \<and> 0 < i"
  by (auto simp: need_group_def same_stores_def elim!: andThen_InrE dest!: inr_dest get_group_InrD)

lemma CreateChannel_done:
  assumes "CreateChannel E v p b w = (Inr r, w')"
  obtains user input c salt t g where "v = Some user" and "b = Some input"
    and "community_by_handle E (handle_param E p) (w_db w) = Some c"
    and "may (u_id user) (c_id c) ManageChannels w"
    and "own_group_id g (c_id c) (w_db w)"
    and "channel_handle_of (env_lower E) (cc_name input) \<noteq> []"
    and "\<not> channel_taken E (\<lambda>_. True) (c_id c)
           (channel_handle_of (env_lower E) (cc_name input)) (w_db w)"
    and "w_db w' = (w_db w)\<lparr>d_channels := d_channels (w_db w) @
           [\<lparr>ch_id = w_auto w ''channels'', ch_created_at = t, ch_updated_at = None,
             ch_community_id = c_id c, ch_group_id = g, ch_salt = salt, ch_name = cc_name input,
             ch_handle = channel_handle_of (env_lower E) (cc_name input)\<rparr>]\<rparr>"
    and "w_auto w' = (w_auto w)(''channels'' := Suc (w_auto w ''channels''))"
    and "w_redis w' = w_redis w"
  using assms unfolding CreateChannel_def Let_def
  by (auto elim!: andThen_InrE dest!: inr_dest call_InrD channel_group_InrD need_own_group_InrD
      simp: same_stores_def insert_channel_def split: if_splits intro: that)

lemmas done_dest = inr_dest call_InrD channel_group_InrD need_own_group_InrD need_channel_InrD
  need_group_InrD

lemma EditChannel_done:
  assumes "EditChannel E v p b w = (Inr r, w')"
  obtains user input c ch t g where "v = Some user" and "b = Some input"
    and "community_by_handle E (lower E (handle_param E p)) (w_db w) = Some c"
    and "may (u_id user) (c_id c) ManageChannels w"
    and "ch \<in> set (d_channels (w_db w))" and "ch_community_id ch = c_id c"
    and "Decode (env_aes E) (ec_channel_id input) = Returned (ch_id ch, CHANNELS_TYPE)"
    and "own_group_id g (c_id c) (w_db w)"
    and "update_channel E (ch_id ch) t (ec_name input)
           (channel_handle_of (env_lower E) (ec_name input)) g (w_db w) = Inr (w_db w')"
    and "ec_group_id input = None \<longrightarrow> g = 0"
    and "w_auto w' = w_auto w" and "w_redis w' = w_redis w"
  using assms unfolding EditChannel_def Let_def
  by (auto elim!: andThen_InrE dest!: done_dest simp: same_stores_def intro: that)

lemma DeleteChannel_done:
  assumes "DeleteChannel E v p b w = (Inr r, w')"
  obtains user input c i where "v = Some user" and "b = Some input"
    and "community_by_handle E (handle_param E p) (w_db w) = Some c"
    and "may (u_id user) (c_id c) ManageChannels w"
    and "Decode (env_aes E) (dc_channel_id input) = Returned (i, CHANNELS_TYPE)" and "0 < i"
    and "w_db w' = (w_db w)
           \<lparr>d_channels := rows_delete (\<lambda>r. ch_id r = i \<and> ch_community_id r = c_id c) (d_channels (w_db w)),
            d_messages := rows_delete (\<lambda>m. m_channel_id m = i \<and> m_community_id m = c_id c)
                            (d_messages (w_db w))\<rparr>"
    and "w_auto w' = w_auto w" and "w_redis w' = w_redis w"
  using assms unfolding DeleteChannel_def Let_def
  by (auto elim!: andThen_InrE dest!: done_dest
      simp: same_stores_def delete_channels_def delete_messages_def intro: that)

lemma ChannelSelect_done:
  assumes "ChannelSelect E v p b w = (Inr r, w')"
  obtains user input c ch where "v = Some user" and "b = Some input"
    and "community_by_handle E (handle_param E p) (w_db w) = Some c"
    and "channel_by_handle E (Truncate (lower E (cs_channel_handle input)) 255) (c_id c) (w_db w) = Some ch"
    and "w_db w' = (w_db w)\<lparr>d_members := rows_update
           (\<lambda>r. cu_user_id r = u_id user \<and> cu_community_id r = c_id c)
           (\<lambda>r. r\<lparr>cu_selected_channel_id := ch_id ch\<rparr>) (d_members (w_db w))\<rparr>"
    and "w_auto w' = w_auto w" and "w_redis w' = w_redis w"
    and "w_jobs w' = w_jobs w @ [JobRedisStamp (user_channel_key (u_id user) (ch_id ch))]"
  using assms unfolding ChannelSelect_def Let_def
  by (auto elim!: andThen_InrE dest!: done_dest
      simp: select_channel_def need_viewer_def need_valid_def get_community_def
        get_channel_by_handle_def intro: that)

lemma CreateGroup_done:
  assumes "CreateGroup E v p b w = (Inr r, w')"
  obtains user input c salt t where "v = Some user" and "b = Some input"
    and "community_by_handle E (handle_param E p) (w_db w) = Some c"
    and "may (u_id user) (c_id c) ManageChannels w"
    and "w_db w' = (w_db w)\<lparr>d_groups := d_groups (w_db w) @
           [\<lparr>g_id = w_auto w ''channel_groups'', g_created_at = t, g_updated_at = None,
             g_community_id = c_id c, g_salt = salt, g_name = cg_name input\<rparr>]\<rparr>"
    and "w_auto w' = (w_auto w)(''channel_groups'' := Suc (w_auto w ''channel_groups''))"
    and "w_redis w' = w_redis w"
  using assms unfolding CreateGroup_def Let_def
  by (auto elim!: andThen_InrE dest!: done_dest
      simp: same_stores_def insert_group_def split: if_splits intro: that)

lemma EditGroup_done:
  assumes "EditGroup E v p b w = (Inr r, w')"
  obtains user input c g t where "v = Some user" and "b = Some input"
    and "community_by_handle E (handle_param E p) (w_db w) = Some c"
    and "may (u_id user) (c_id c) ManageChannels w"
    and "g \<in> set (d_groups (w_db w))" and "g_community_id g = c_id c"
    and "w_db w' = (w_db w)\<lparr>d_groups := rows_update (\<lambda>r. g_id r = g_id g)
           (\<lambda>r. r\<lparr>g_name := eg_name input, g_updated_at := Some t\<rparr>) (d_groups (w_db w))\<rparr>"
    and "w_auto w' = w_auto w" and "w_redis w' = w_redis w"
  using assms unfolding EditGroup_def Let_def
  by (auto elim!: andThen_InrE dest!: done_dest
      simp: same_stores_def update_group_def split: if_splits intro: that)

lemma DeleteGroup_done:
  assumes "DeleteGroup E v p b w = (Inr r, w')"
  obtains user input c g where "v = Some user" and "b = Some input"
    and "community_by_handle E (handle_param E p) (w_db w) = Some c"
    and "may (u_id user) (c_id c) ManageChannels w"
    and "g \<in> set (d_groups (w_db w))" and "g_community_id g = c_id c" and "0 < g_id g"
    and "w_db w' = (w_db w)
           \<lparr>d_channels := rows_delete (\<lambda>r. ch_group_id r = g_id g) (d_channels (w_db w)),
            d_groups := rows_delete (\<lambda>r. g_id r = g_id g) (d_groups (w_db w))\<rparr>"
    and "w_auto w' = w_auto w" and "w_redis w' = w_redis w"
  using assms unfolding DeleteGroup_def Let_def
  by (auto elim!: andThen_InrE dest!: done_dest
      simp: same_stores_def delete_channels_def delete_groups_def intro: that)

section \<open>The endpoints\<close>

text \<open>Who may not manage the channels of a community does not change a table through these.\<close>

interpretation create_channel: guarded_endpoint
  "\<lambda>q. run (case q of (E, v, p, b) \<Rightarrow> CreateChannel E v p b)" "\<lambda>q. aes_configured (env_aes (fst q))"
  "\<lambda>q w. case q of (E, v, p, b) \<Rightarrow> permitted E v (handle_param E p) ManageChannels w"
  by (rule guarded_handlerI, unfold CreateChannel_def Let_def, rule refl, fold CreateChannel_def [unfolded Let_def])
    (simp_all add: sound_channel_handlers(1) answers_channel_handlers(1))

interpretation edit_channel: guarded_endpoint
  "\<lambda>q. run (case q of (E, v, p, b) \<Rightarrow> EditChannel E v p b)" "\<lambda>q. aes_configured (env_aes (fst q))"
  "\<lambda>q w. case q of (E, v, p, b) \<Rightarrow> permitted E v (lower E (handle_param E p)) ManageChannels w"
  by (rule guarded_handlerI, unfold EditChannel_def Let_def, rule refl, fold EditChannel_def [unfolded Let_def])
    (simp_all add: sound_channel_handlers(2) answers_channel_handlers(2))

interpretation delete_channel: guarded_endpoint
  "\<lambda>q. run (case q of (E, v, p, b) \<Rightarrow> DeleteChannel E v p b)" "\<lambda>q. aes_configured (env_aes (fst q))"
  "\<lambda>q w. case q of (E, v, p, b) \<Rightarrow> permitted E v (handle_param E p) ManageChannels w"
  by (rule guarded_handlerI, unfold DeleteChannel_def Let_def, rule refl, fold DeleteChannel_def [unfolded Let_def])
    (simp_all add: sound_channel_handlers(3) answers_channel_handlers(3))

interpretation create_group: guarded_endpoint
  "\<lambda>q. run (case q of (E, v, p, b) \<Rightarrow> CreateGroup E v p b)" "\<lambda>q. aes_configured (env_aes (fst q))"
  "\<lambda>q w. case q of (E, v, p, b) \<Rightarrow> permitted E v (handle_param E p) ManageChannels w"
  by (rule guarded_handlerI, unfold CreateGroup_def Let_def, rule refl, fold CreateGroup_def [unfolded Let_def])
    (simp_all add: sound_channel_handlers(4) answers_channel_handlers(5))

interpretation edit_group: guarded_endpoint
  "\<lambda>q. run (case q of (E, v, p, b) \<Rightarrow> EditGroup E v p b)" "\<lambda>q. aes_configured (env_aes (fst q))"
  "\<lambda>q w. case q of (E, v, p, b) \<Rightarrow> permitted E v (handle_param E p) ManageChannels w"
  by (rule guarded_handlerI, unfold EditGroup_def Let_def, rule refl, fold EditGroup_def [unfolded Let_def])
    (simp_all add: sound_channel_handlers(5) answers_channel_handlers(6))

interpretation delete_group: guarded_endpoint
  "\<lambda>q. run (case q of (E, v, p, b) \<Rightarrow> DeleteGroup E v p b)" "\<lambda>q. aes_configured (env_aes (fst q))"
  "\<lambda>q w. case q of (E, v, p, b) \<Rightarrow> permitted E v (handle_param E p) ManageChannels w"
  by (rule guarded_handlerI, unfold DeleteGroup_def Let_def, rule refl, fold DeleteGroup_def [unfolded Let_def])
    (simp_all add: sound_channel_handlers(6) answers_channel_handlers(7))

interpretation channel_select: endpoint
  "\<lambda>q. run (case q of (E, v, p, b) \<Rightarrow> ChannelSelect E v p b)" "\<lambda>_. True"
  by (rule endpointI) (auto simp: sound_ChannelSelect answers_channel_handlers)

end
