(* ===== verification/Roles.thy ===== *)
theory Roles
  imports Channels "HOL-Library.List_Lexorder" "HOL-Library.Char_ord"
begin

text \<open>
  The roles of a community: \<^verbatim>\<open>handlers/create_community_role.go\<close>,
  \<^verbatim>\<open>edit_community_role.go\<close>, \<^verbatim>\<open>delete_community_role.go\<close>,
  and \<^verbatim>\<open>edit_community_roles_priority.go\<close>. Editing a role answers at once and leaves the
  work to a goroutine, which is the job \<open>run_edit_role\<close>.
\<close>

section \<open>Statements\<close>

definition role_by_id :: "nat \<Rightarrow> database \<Rightarrow> community_roles_row option" where
  "role_by_id i d = find (\<lambda>r. r_id r = i) (d_roles d)"

definition get_role :: "env \<Rightarrow> nat \<Rightarrow> community_roles_row call" where
  "get_role E i =
     db_get E \<lparr>st_table = ''community_roles'', st_holes = 1, st_args = 1\<rparr> (role_by_id i)"

text \<open>\<^verbatim>\<open>priority\<close> is a \<^verbatim>\<open>SMALLINT\<close>, \<^verbatim>\<open>color\<close> a \<^verbatim>\<open>VARCHAR(20)\<close>.\<close>

definition insert_role :: "community_roles_row \<Rightarrow> database \<Rightarrow> db_err + database" where
  "insert_role r d =
     (if too_long (r_name r) \<or> 20 < rune_count (r_color r) then Inl ErrTooLong
      else if 32767 < r_priority r then Inl ErrOutOfRange
      else Inr (d\<lparr>d_roles := d_roles d @ [r]\<rparr>))"

definition insert_role_user :: "community_roles_users_row \<Rightarrow> database \<Rightarrow> db_err + database" where
  "insert_role_user r d = Inr (d\<lparr>d_roles_users := d_roles_users d @ [r]\<rparr>)"

definition delete_roles :: "(community_roles_row \<Rightarrow> bool) \<Rightarrow> database \<Rightarrow> db_err + database" where
  "delete_roles P d = Inr (d\<lparr>d_roles := rows_delete P (d_roles d)\<rparr>)"

definition update_role :: "nat \<Rightarrow> nat \<Rightarrow> role_input \<Rightarrow> database \<Rightarrow> db_err + database" where
  "update_role i updatedAt input d =
     (if find (\<lambda>r. r_id r = i) (d_roles d) = None then Inr d
      else if too_long (ri_name input) \<or> 20 < rune_count (ri_color input) then Inl ErrTooLong
      else Inr (d\<lparr>d_roles := rows_update (\<lambda>r. r_id r = i)
             (\<lambda>r. r\<lparr>r_updated_at := Some updatedAt, r_name := ri_name input, r_color := ri_color input,
                    r_show_online_differently := ri_show_online_differently input,
                    r_permissions := ri_permissions input\<rparr>) (d_roles d)\<rparr>))"

definition update_priority :: "nat \<Rightarrow> nat \<Rightarrow> nat \<Rightarrow> database \<Rightarrow> db_err + database" where
  "update_priority i rid c d =
     (if find (\<lambda>r. r_id r = rid \<and> r_community_id r = c) (d_roles d) = None then Inr d
      else if 32767 < i then Inl ErrOutOfRange
      else Inr (d\<lparr>d_roles := rows_update (\<lambda>r. r_id r = rid \<and> r_community_id r = c)
             (\<lambda>r. r\<lparr>r_priority := i\<rparr>) (d_roles d)\<rparr>))"

definition members_in :: "nat \<Rightarrow> nat list \<Rightarrow> database \<Rightarrow> communities_users_row list" where
  "members_in c us d =
     filter (\<lambda>r. cu_community_id r = c \<and> cu_user_id r \<in> set us) (d_members d)"

definition role_user_ids :: "nat \<Rightarrow> database \<Rightarrow> nat list" where
  "role_user_ids c d = map ru_user_id (roles_users_of c d)"

text \<open>\<^verbatim>\<open>UPDATE communities_users SET x = true WHERE user_id = ? AND community_id = ?\<close>.\<close>

fun set_perm :: "permission \<Rightarrow> permissions \<Rightarrow> permissions" where
  "set_perm ViewChannels p = p\<lparr>p_view_channels := True\<rparr>"
| "set_perm ManageChannels p = p\<lparr>p_manage_channels := True\<rparr>"
| "set_perm ManageCommunity p = p\<lparr>p_manage_community := True\<rparr>"
| "set_perm CreateInvite p = p\<lparr>p_create_invite := True\<rparr>"
| "set_perm KickMembers p = p\<lparr>p_kick_members := True\<rparr>"
| "set_perm BanMembers p = p\<lparr>p_ban_members := True\<rparr>"
| "set_perm SendMessages p = p\<lparr>p_send_messages := True\<rparr>"
| "set_perm AttachMedia p = p\<lparr>p_attach_media := True\<rparr>"

lemma has_perm_set_perm [perm_simps]: "has_perm (set_perm k p) j \<longleftrightarrow> j = k \<or> has_perm p j"
  by (cases k; cases j) simp_all

definition grant_member :: "permission \<Rightarrow> nat \<Rightarrow> nat \<Rightarrow> database \<Rightarrow> db_err + database" where
  "grant_member k u c d =
     Inr (d\<lparr>d_members := rows_update (\<lambda>r. cu_user_id r = u \<and> cu_community_id r = c)
            (\<lambda>r. r\<lparr>cu_permissions := set_perm k (cu_permissions r)\<rparr>) (d_members d)\<rparr>)"

lemma moves_get_role [shapes]: "moves s s s (get_role E i)"
  by (simp add: get_role_def shapes)

section \<open>The form of a role\<close>

record role_form =
  rf_name :: string
  rf_color :: string
  rf_show_online_differently :: "bool option"
  rf_view_channels :: "bool option"
  rf_manage_channels :: "bool option"
  rf_manage_community :: "bool option"
  rf_create_invite :: "bool option"
  rf_kick_members :: "bool option"
  rf_ban_members :: "bool option"
  rf_send_messages :: "bool option"
  rf_attach_media :: "bool option"
  rf_members :: "string list option"

record edit_role_form = role_form +
  rf_id :: string

text \<open>\<^verbatim>\<open>x != nil && *x\<close>.\<close>

definition is_true :: "bool option \<Rightarrow> bool" where
  "is_true x \<longleftrightarrow> x = Some True"

fun rf_flag :: "permission \<Rightarrow> 'a role_form_scheme \<Rightarrow> bool option" where
  "rf_flag ViewChannels f = rf_view_channels f"
| "rf_flag ManageChannels f = rf_manage_channels f"
| "rf_flag ManageCommunity f = rf_manage_community f"
| "rf_flag CreateInvite f = rf_create_invite f"
| "rf_flag KickMembers f = rf_kick_members f"
| "rf_flag BanMembers f = rf_ban_members f"
| "rf_flag SendMessages f = rf_send_messages f"
| "rf_flag AttachMedia f = rf_attach_media f"

definition rf_permissions :: "'a role_form_scheme \<Rightarrow> permissions" where
  "rf_permissions f =
     \<lparr>p_view_channels = is_true (rf_view_channels f),
      p_manage_channels = is_true (rf_manage_channels f),
      p_manage_community = is_true (rf_manage_community f),
      p_create_invite = is_true (rf_create_invite f),
      p_kick_members = is_true (rf_kick_members f),
      p_ban_members = is_true (rf_ban_members f),
      p_send_messages = is_true (rf_send_messages f),
      p_attach_media = is_true (rf_attach_media f)\<rparr>"

lemma has_perm_rf [perm_simps]: "has_perm (rf_permissions f) k \<longleftrightarrow> is_true (rf_flag k f)"
  by (cases k) (simp_all add: rf_permissions_def)

definition form_members :: "'a role_form_scheme \<Rightarrow> string list" where
  "form_members f = (case rf_members f of None \<Rightarrow> [] | Some ms \<Rightarrow> ms)"

definition role_checks :: "env \<Rightarrow> 'a role_form_scheme \<Rightarrow> json list" where
  "role_checks E f =
     check_string E ''Name'' [VRequired, VGte 3, VLte 255] (rf_name f) @
     check_string E ''Color'' [VRequired, VGte 3, VLte 255] (rf_color f) @
     check_present E ''ShowOnlineDifferently'' (rf_show_online_differently f) @
     check_present E ''ViewChannels'' (rf_view_channels f) @
     check_present E ''ManageChannels'' (rf_manage_channels f) @
     check_present E ''ManageCommunity'' (rf_manage_community f) @
     check_present E ''CreateInvite'' (rf_create_invite f) @
     check_present E ''KickMembers'' (rf_kick_members f) @
     check_present E ''BanMembers'' (rf_ban_members f) @
     check_present E ''SendMessages'' (rf_send_messages f) @
     check_present E ''AttachMedia'' (rf_attach_media f) @
     check_present E ''Members'' (rf_members f) @
     (if rf_color f \<in> set ValidColors then []
      else [JObj [(''field'', JStr ''color''), (''message'', JStr ''Not an acceptable color value'')]])"

text \<open>\<^verbatim>\<open>Decode\<close> on every id, keeping the numbers whose tag is the wanted one.\<close>

fun decode_all :: "env \<Rightarrow> string \<Rightarrow> string list \<Rightarrow> nat list outcome" where
  "decode_all E ty [] = Returned []"
| "decode_all E ty (s # ss) =
     (case Decode (env_aes E) s of
        Returned (i, t) \<Rightarrow>
          (case decode_all E ty ss of
             Returned is \<Rightarrow> Returned (if t = ty then i # is else is)
           | Failed \<Rightarrow> Failed | Panicked \<Rightarrow> Panicked)
      | Failed \<Rightarrow> Failed | Panicked \<Rightarrow> Panicked)"

lemma decode_all_configured:
  "aes_configured (env_aes E) \<Longrightarrow> \<exists>is. decode_all E ty ss = Returned is"
proof (induction ss)
  case (Cons s ss)
  then show ?case
    using Decode_configured [of "env_aes E" s] by (cases "Decode (env_aes E) s") auto
qed simp

section \<open>Creating a role\<close>

text \<open>
  One member of a new role. The result of the insert is kept in \<^verbatim>\<open>err\<close> and overwritten by
  the result of each update that follows; only the last one is looked at.
\<close>

definition grant_if ::
  "env \<Rightarrow> role_form \<Rightarrow> communities_users_row \<Rightarrow> permission \<Rightarrow> db_err + unit \<Rightarrow> (db_err + unit) go" where
  "grant_if E input roleUser k err =
     (if is_true (rf_flag k input) \<and> \<not> has_perm (cu_permissions roleUser) k
      then attempt (tx_exec E \<lparr>st_table = ''communities_users'', st_holes = 3, st_args = 3\<rparr>
             (grant_member k (cu_user_id roleUser) (cu_community_id roleUser)))
      else ret err)"

definition create_role_failed :: response where
  "create_role_failed = message_error 200 ''Unable to create role.''"

definition add_role_member ::
  "env \<Rightarrow> role_form \<Rightarrow> nat \<Rightarrow> nat \<Rightarrow> nat \<Rightarrow> communities_users_row \<Rightarrow> unit go" where
  "add_role_member E input createdAt roleId communityId roleUser =
     andThen (on_err (redis_del E (PermissionRedisKey (cu_user_id roleUser) communityId))
       (\<lambda>_. rolling_back create_role_failed)) (\<lambda>_.
     andThen (attempt (tx_exec E \<lparr>st_table = ''community_roles_users'', st_holes = 4, st_args = 4\<rparr>
       (insert_role_user \<lparr>ru_created_at = createdAt, ru_community_role_id = roleId,
          ru_user_id = cu_user_id roleUser, ru_community_id = communityId\<rparr>))) (\<lambda>err.
     andThen (grant_if E input roleUser ViewChannels err) (\<lambda>err.
     andThen (grant_if E input roleUser ManageChannels err) (\<lambda>err.
     andThen (grant_if E input roleUser ManageCommunity err) (\<lambda>err.
     andThen (grant_if E input roleUser CreateInvite err) (\<lambda>err.
     andThen (grant_if E input roleUser KickMembers err) (\<lambda>err.
     andThen (grant_if E input roleUser BanMembers err) (\<lambda>err.
     andThen (grant_if E input roleUser SendMessages err) (\<lambda>err.
     andThen (grant_if E input roleUser AttachMedia err) (\<lambda>err.
     case err of
       Inl _ \<Rightarrow> rolling_back create_role_failed
     | Inr _ \<Rightarrow> ret ()))))))))))"

definition create_role_members ::
  "env \<Rightarrow> role_form \<Rightarrow> nat \<Rightarrow> nat \<Rightarrow> communities_row \<Rightarrow> unit go" where
  "create_role_members E input createdAt roleId community =
     andThen (of_outcome (decode_all E USERS_TYPE (form_members input))) (\<lambda>uIds.
     if uIds = [] then ret ()
     else
       andThen (on_err (tx_select E
         \<lparr>st_table = ''communities_users'', st_holes = Suc (length uIds), st_args = Suc (length uIds)\<rparr>
         (members_in (c_id community) uIds))
         (\<lambda>_. rolling_back create_role_failed)) (\<lambda>rolesUsers.
       for_each rolesUsers (add_role_member E input createdAt roleId (c_id community))))"

definition create_role_tx ::
  "env \<Rightarrow> users_row option \<Rightarrow> string \<Rightarrow> role_form option \<Rightarrow> nat go" where
  "create_role_tx E viewer p body =
     andThen (admit E viewer body invalid_input (role_checks E) (handle_param E p)
       ManageCommunity) (\<lambda>(user, input, community).
     andThen (new_uuid E) (\<lambda>salt.
     andThen (time_now E) (\<lambda>createdAt.
     andThen (on_err (begin_tx E) (\<lambda>_. quit create_role_failed)) (\<lambda>_.
     andThen (on_err (tx_select E \<lparr>st_table = ''community_roles'', st_holes = 1, st_args = 1\<rparr>
       (\<lambda>d. length (roles_of (c_id community) d)))
       (\<lambda>_. rolling_back create_role_failed)) (\<lambda>roleCount.
     andThen (on_err (tx_insert E \<lparr>st_table = ''community_roles'', st_holes = 15, st_args = 15\<rparr>
       (\<lambda>i. insert_role
          \<lparr>r_id = i, r_created_at = createdAt, r_updated_at = None, r_salt = salt,
           r_color = rf_color input, r_community_id = c_id community, r_name = rf_name input,
           r_show_online_differently = is_true (rf_show_online_differently input),
           r_priority = roleCount, r_permissions = rf_permissions input\<rparr>))
       (\<lambda>_. rolling_back create_role_failed)) (\<lambda>_.
     andThen (on_err (tx_last_insert_id E) (\<lambda>_. rolling_back create_role_failed)) (\<lambda>roleId.
     andThen (create_role_members E input createdAt roleId community) (\<lambda>_.
     andThen (on_err (commit E) (\<lambda>_. quit create_role_failed)) (\<lambda>_.
     ret roleId)))))))))"

text \<open>The role is read again for the answer, after the commit.\<close>

definition show_role :: "env \<Rightarrow> nat \<Rightarrow> response go" where
  "show_role E roleId =
     andThen (on_err (get_role E roleId) (\<lambda>_. quit not_found)) (\<lambda>role.
     andThen (of_outcome (CommunityRoles_ToFiberMap E role True)) (\<lambda>fields.
     ret (Resp 200 (JObj fields))))"

definition CreateCommunityRole ::
  "env \<Rightarrow> users_row option \<Rightarrow> string \<Rightarrow> role_form option \<Rightarrow> response go" where
  "CreateCommunityRole E viewer p body = andThen (create_role_tx E viewer p body) (show_role E)"

section \<open>Editing a role\<close>

definition need_role :: "env \<Rightarrow> string \<Rightarrow> communities_row \<Rightarrow> nat go" where
  "need_role E s community =
     andThen (decode_id E s) (\<lambda>(roleId, roleOk).
     andThen (ensure (roleId \<noteq> 0 \<and> roleOk = COMMUNITY_ROLES_TYPE) (quit Panic)) (\<lambda>_.
     andThen (on_err (get_role E roleId) (\<lambda>_. quit not_found)) (\<lambda>role.
     andThen (ensure (r_community_id role = c_id community) (quit not_allowed)) (\<lambda>_.
     ret roleId))))"

definition edit_role_checks :: "env \<Rightarrow> edit_role_form \<Rightarrow> json list" where
  "edit_role_checks E f =
     check_string E ''ID'' [VRequired, VGte 3, VLte 255] (rf_id f) @ role_checks E f"

text \<open>\<open>community\<close> is the row the handler read; the role is updated by the goroutine.\<close>

definition EditCommunityRole ::
  "env \<Rightarrow> users_row option \<Rightarrow> string \<Rightarrow> edit_role_form option \<Rightarrow> response go" where
  "EditCommunityRole E viewer p body =
     andThen (admit E viewer body invalid_input (edit_role_checks E) (lower E (handle_param E p))
       ManageCommunity) (\<lambda>(user, input, community).
     andThen (need_role E (rf_id input) community) (\<lambda>roleId.
     andThen (spawn (JobEditRole roleId community
       \<lparr>ri_name = rf_name input, ri_color = rf_color input,
        ri_show_online_differently = is_true (rf_show_online_differently input),
        ri_permissions = rf_permissions input, ri_members = form_members input\<rparr>)) (\<lambda>_.
     show_role E roleId)))"

text \<open>The goroutine: one transaction for the role, a second one for its members.\<close>

definition edit_role_row :: "env \<Rightarrow> nat \<Rightarrow> role_input \<Rightarrow> (unit, unit) prog" where
  "edit_role_row E roleId input =
     andThen (time_now E) (\<lambda>updatedAt.
     andThen (on_err (begin_tx E) (\<lambda>_. quit ())) (\<lambda>_.
     andThen (on_err (tx_exec E \<lparr>st_table = ''community_roles'', st_holes = 13, st_args = 13\<rparr>
       (update_role roleId updatedAt input)) (\<lambda>_. rolling_back ())) (\<lambda>_.
     on_err (commit E) (\<lambda>_. quit ()))))"

definition add_members_to_role ::
  "env \<Rightarrow> nat \<Rightarrow> communities_row \<Rightarrow> nat list \<Rightarrow> nat list \<Rightarrow> (unit, unit) prog" where
  "add_members_to_role E roleId community beforeIds afterIds =
     (if afterIds = [] then ret ()
      else
        andThen (on_err (tx_select E
          \<lparr>st_table = ''communities_users'', st_holes = Suc (length afterIds),
           st_args = Suc (length afterIds)\<rparr> (members_in (c_id community) afterIds))
          (\<lambda>_. rolling_back ())) (\<lambda>rolesUsers.
        andThen (time_now E) (\<lambda>createdAt.
        andThen (for_each rolesUsers (\<lambda>roleUser.
          on_err (tx_exec E \<lparr>st_table = ''community_roles_users'', st_holes = 4, st_args = 4\<rparr>
            (insert_role_user \<lparr>ru_created_at = createdAt, ru_community_role_id = roleId,
               ru_user_id = cu_user_id roleUser, ru_community_id = c_id community\<rparr>))
            (\<lambda>_. rolling_back ()))) (\<lambda>_.
        on_err (RecalculateAndUpdatePermissionsForUsers E beforeIds community)
          (\<lambda>_. rolling_back ())))))"

definition edit_role_members ::
  "env \<Rightarrow> nat \<Rightarrow> communities_row \<Rightarrow> role_input \<Rightarrow> (unit, unit) prog" where
  "edit_role_members E roleId community input =
     andThen (on_err (begin_tx E) (\<lambda>_. quit ())) (\<lambda>_.
     andThen (on_err (tx_select E \<lparr>st_table = ''community_roles_users'', st_holes = 1, st_args = 1\<rparr>
       (role_user_ids (c_id community))) (\<lambda>_. rolling_back ())) (\<lambda>beforeChangeUsersIds.
     andThen (on_err (tx_exec E \<lparr>st_table = ''community_roles_users'', st_holes = 1, st_args = 1\<rparr>
       (delete_roles_users (\<lambda>r. ru_community_role_id r = roleId))) (\<lambda>_. rolling_back ())) (\<lambda>_.
     andThen (on_err (RecalculateAndUpdatePermissionsForUsers E beforeChangeUsersIds community)
       (\<lambda>_. rolling_back ())) (\<lambda>_.
     andThen (case decode_all E USERS_TYPE (ri_members input) of
                Returned is \<Rightarrow> ret is | _ \<Rightarrow> rolling_back ()) (\<lambda>afterChangeUsersIds.
     andThen (add_members_to_role E roleId community beforeChangeUsersIds afterChangeUsersIds) (\<lambda>_.
     on_err (commit E) (\<lambda>_. quit ())))))))"

definition run_edit_role ::
  "env \<Rightarrow> nat \<Rightarrow> communities_row \<Rightarrow> role_input \<Rightarrow> (unit, unit) prog" where
  "run_edit_role E roleId community input =
     andThen (edit_role_row E roleId input) (\<lambda>_. edit_role_members E roleId community input)"

section \<open>Deleting a role\<close>

record delete_role_input =
  dr_id :: string

definition delete_role_checks :: "env \<Rightarrow> delete_role_input \<Rightarrow> json list" where
  "delete_role_checks E f = check_string E ''ID'' [VRequired, VGte 3, VLte 255] (dr_id f)"

definition delete_role_members :: "env \<Rightarrow> nat \<Rightarrow> communities_row \<Rightarrow> nat list \<Rightarrow> unit go" where
  "delete_role_members E roleId community rolesUserIds =
     (let failed = message_error 200 ''Unable to delete role.'' in
     if rolesUserIds = [] then ret ()
     else
       andThen (on_err (tx_exec E
         \<lparr>st_table = ''community_roles_users'', st_holes = Suc (length rolesUserIds),
          st_args = Suc (length rolesUserIds)\<rparr>
         (delete_roles_users (\<lambda>r. ru_community_role_id r = roleId \<and> ru_user_id r \<in> set rolesUserIds)))
         (\<lambda>_. rolling_back failed)) (\<lambda>_.
       on_err (RecalculateAndUpdatePermissionsForUsers E rolesUserIds community)
         (\<lambda>_. rolling_back failed)))"

definition DeleteCommunityRole ::
  "env \<Rightarrow> users_row option \<Rightarrow> string \<Rightarrow> delete_role_input option \<Rightarrow> response go" where
  "DeleteCommunityRole E viewer p body =
     (let failed = message_error 200 ''Unable to delete role.'' in
     andThen (admit E viewer body invalid_input (delete_role_checks E) (lower E (handle_param E p))
       ManageCommunity) (\<lambda>(user, input, community).
     andThen (need_role E (dr_id input) community) (\<lambda>roleId.
     andThen (on_err (begin_tx E) (\<lambda>_. quit failed)) (\<lambda>_.
     andThen (on_err (tx_exec E \<lparr>st_table = ''community_roles'', st_holes = 1, st_args = 1\<rparr>
       (delete_roles (\<lambda>r. r_id r = roleId))) (\<lambda>_. rolling_back failed)) (\<lambda>_.
     andThen (on_err (tx_select E \<lparr>st_table = ''community_roles_users'', st_holes = 1, st_args = 1\<rparr>
       (role_user_ids (c_id community))) (\<lambda>_. rolling_back failed)) (\<lambda>rolesUserIds.
     andThen (delete_role_members E roleId community rolesUserIds) (\<lambda>_.
     andThen (on_err (commit E) (\<lambda>_. quit failed)) (\<lambda>_.
     ret (Resp 200 (JObj [(''ok'', JBool True)]))))))))))"

section \<open>Ordering the roles\<close>

record roles_priority_input =
  rp_role_ids :: "string list option"

definition rp_ids :: "roles_priority_input \<Rightarrow> string list" where
  "rp_ids f = (case rp_role_ids f of None \<Rightarrow> [] | Some ss \<Rightarrow> ss)"

definition roles_priority_checks :: "env \<Rightarrow> roles_priority_input \<Rightarrow> json list" where
  "roles_priority_checks E f =
     check_present E ''RoleIDs'' (rp_role_ids f) @
     (if rp_ids f = []
      then [JObj [(''field'', JStr ''roles''), (''message'', JStr ''You need a role to sort'')]] else [])"

definition EditCommunityRolesPriority ::
  "env \<Rightarrow> users_row option \<Rightarrow> string \<Rightarrow> roles_priority_input option \<Rightarrow> response go" where
  "EditCommunityRolesPriority E viewer p body =
     (let failed = message_error 200 ''Unable to edit roles.'';
          refused = message_error 200 ''Not allowed.'' in
     andThen (admit_with refused not_found E viewer body invalid_input (roles_priority_checks E)
       (lower E (handle_param E p)) ManageCommunity) (\<lambda>(user, input, community).
     andThen (of_outcome (decode_all E COMMUNITY_ROLES_TYPE (rp_ids input))) (\<lambda>mappedRoleIds.
     andThen (ensure (mappedRoleIds \<noteq> []) (quit refused)) (\<lambda>_.
     andThen (on_err (begin_tx E) (\<lambda>_. quit failed)) (\<lambda>_.
     andThen (for_each (zip [0..<length mappedRoleIds] mappedRoleIds) (\<lambda>(i, rid).
       on_err (tx_exec E \<lparr>st_table = ''community_roles'', st_holes = 3, st_args = 3\<rparr>
         (update_priority i rid (c_id community))) (\<lambda>_. rolling_back failed))) (\<lambda>_.
     andThen (on_err (commit E) (\<lambda>_. quit failed)) (\<lambda>_.
     ret (Resp 200 (JObj [(''updated'', JBool True)])))))))))"

section \<open>Contracts\<close>

lemma create_role_failed_is_error [simp]: "is_error create_role_failed"
  by (simp add: create_role_failed_def)

lemma sound_decode_all:
  "aes_configured (env_aes E) \<Longrightarrow> sound s s (of_outcome (decode_all E ty ss))"
  by (rule sound_of_outcome [OF decode_all_configured])

lemma sound_role_view:
  assumes "aes_configured (env_aes E)"
  shows "sound s s (of_outcome (CommunityRoles_ToFiberMap E r b))"
proof -
  obtain i where "Encode (env_aes E) (r_id r) COMMUNITY_ROLES_TYPE (r_salt r) = Returned i"
    using Encode_configured [OF assms] by blast
  then show ?thesis
    by (intro sound_of_outcome) (simp add: CommunityRoles_ToFiberMap_def with_encoded_def)
qed

lemma sound_grant_if [sound_intro]: "sound Busy Busy (grant_if E f r k e)"
  unfolding grant_if_def by (rule sound_intro shapes)+

lemma sound_add_role_member [sound_intro]: "sound Busy Busy (add_role_member E f t i c r)"
  unfolding add_role_member_def by (rule sound_intro shapes)+

lemma sound_create_role_tx:
  assumes "aes_configured (env_aes E)"
  shows "sound Idle Done (create_role_tx E v p b)"
  unfolding create_role_tx_def create_role_members_def
  by (rule sound_intro shapes sound_decode_all assms)+

lemma sound_need_role: "aes_configured (env_aes E) \<Longrightarrow> sound Idle Idle (need_role E s c)"
  unfolding need_role_def by (rule sound_intro shapes sound_ids | assumption)+

lemma sound_show_role: "aes_configured (env_aes E) \<Longrightarrow> sound Idle Idle (show_role E i)"
  unfolding show_role_def by (rule sound_intro shapes sound_role_view | assumption)+

lemma sound_Idle_Done: "sound Idle Idle m \<Longrightarrow> sound Idle Done m"
  by (force simp: sound_def split: prod.splits sum.splits)

lemma sound_EditCommunityRole:
  assumes "aes_configured (env_aes E)"
  shows "sound Idle Done (EditCommunityRole E v p b)"
  unfolding EditCommunityRole_def
  by (rule sound_Idle_Done) (rule sound_intro sound_need_role sound_show_role assms)+

lemma sound_DeleteCommunityRole:
  assumes "aes_configured (env_aes E)"
  shows "sound Idle Done (DeleteCommunityRole E v p b)"
  unfolding DeleteCommunityRole_def delete_role_members_def Let_def
  by (rule sound_intro shapes sound_need_role assms)+

lemma sound_EditCommunityRolesPriority:
  assumes "aes_configured (env_aes E)"
  shows "sound Idle Done (EditCommunityRolesPriority E v p b)"
  unfolding EditCommunityRolesPriority_def Let_def
  by (rule sound_intro shapes sound_decode_all assms)+

text \<open>Creating a role leaks nothing, but its last read may fail after the commit.\<close>

lemma moves_CreateCommunityRole:
  assumes "aes_configured (env_aes E)"
  shows "moves Idle Done Done (CreateCommunityRole E v p b)"
  unfolding CreateCommunityRole_def show_role_def get_role_def
  by (rule moves_andThen [OF moves_sound [OF sound_create_role_tx]] assms shapes)+

lemma moves_run_edit_role: "moves Idle Done Done (run_edit_role E i c input)"
proof -
  have "moves Idle Done Done (edit_role_row E i input)"
    unfolding edit_role_row_def by (rule shapes)+
  moreover have "moves Busy Done Busy (case decode_all E ty ss of Returned is \<Rightarrow> ret is | _ \<Rightarrow> rolling_back ())"
    for ty ss
    by (simp add: shapes split: outcome.split)
  then have "moves Idle Done Done (edit_role_members E i c input)"
    unfolding edit_role_members_def add_members_to_role_def
    by - (rule shapes | assumption)+
  ultimately show ?thesis
    unfolding run_edit_role_def by (auto intro: moves_andThen [where t = Done] moves_again)
qed

lemma alive_grant_if [dead_intro]: "alive (grant_if E f r k e)"
  unfolding grant_if_def by (rule dead_intro)+

lemma alive_for_each [dead_intro]: "(\<And>x. alive (f x)) \<Longrightarrow> alive (for_each xs f)"
  by (induction xs) (auto intro: dead_intro)

lemma alive_role_blocks [dead_intro]:
  "alive (add_role_member E f t i c r)" "alive (create_role_members E f t i cm)"
  "alive (need_role E s cm)" "alive (show_role E i)" "alive (delete_role_members E i cm us)"
  unfolding add_role_member_def create_role_members_def need_role_def show_role_def
    delete_role_members_def Let_def case_prod_beta
  by (rule dead_intro is_error_simps create_role_failed_is_error)+

lemma alive_role_handlers [dead_intro]:
  "alive (create_role_tx E v p b1)" "alive (EditCommunityRole E v p b2)"
  "alive (DeleteCommunityRole E v p b3)" "alive (EditCommunityRolesPriority E v p b4)"
  unfolding create_role_tx_def EditCommunityRole_def DeleteCommunityRole_def
    EditCommunityRolesPriority_def Let_def case_prod_beta
  by (rule dead_intro is_error_simps create_role_failed_is_error alive_admit)+

lemma role_view_fields:
  "CommunityRoles_ToFiberMap E r True = Returned fs \<Longrightarrow> \<not> is_error (Resp 200 (JObj fs))"
  by (auto simp: CommunityRoles_ToFiberMap_def with_encoded_def copy_fields_def json_field_def
      Permissions_ToFiberMap_def Let_def split: outcome.splits)

lemma answers_show_role: "answers (show_role E i)"
  unfolding show_role_def answers_def
  by (auto elim!: andThen_InrE dest!: inr_dest role_view_fields)

lemma answers_role_handlers:
  "answers (EditCommunityRole E v p b2)" "answers (DeleteCommunityRole E v p b3)"
  "answers (EditCommunityRolesPriority E v p b4)"
  unfolding EditCommunityRole_def DeleteCommunityRole_def EditCommunityRolesPriority_def
    Let_def case_prod_beta
  by (intro answers_andThen answers_rules answers_show_role; simp add: json_field_def)+

interpretation create_role: tidy_endpoint
  "\<lambda>q. run (case q of (E, v, p, b) \<Rightarrow> CreateCommunityRole E v p b)"
  "\<lambda>q. aes_configured (env_aes (fst q))"
  by (rule tidy_endpointI) (auto intro: moves_CreateCommunityRole)

interpretation edit_role: guarded_endpoint
  "\<lambda>q. run (case q of (E, v, p, b) \<Rightarrow> EditCommunityRole E v p b)"
  "\<lambda>q. aes_configured (env_aes (fst q))"
  "\<lambda>q w. case q of (E, v, p, b) \<Rightarrow> permitted E v (lower E (handle_param E p)) ManageCommunity w"
  by (rule guarded_handlerI, unfold EditCommunityRole_def, rule refl, fold EditCommunityRole_def)
    (simp_all add: sound_EditCommunityRole answers_role_handlers)

interpretation delete_role: guarded_endpoint
  "\<lambda>q. run (case q of (E, v, p, b) \<Rightarrow> DeleteCommunityRole E v p b)"
  "\<lambda>q. aes_configured (env_aes (fst q))"
  "\<lambda>q w. case q of (E, v, p, b) \<Rightarrow> permitted E v (lower E (handle_param E p)) ManageCommunity w"
  by (rule guarded_handlerI, unfold DeleteCommunityRole_def Let_def, rule refl,
      fold DeleteCommunityRole_def [unfolded Let_def])
    (simp_all add: sound_DeleteCommunityRole answers_role_handlers)

interpretation roles_priority: guarded_endpoint
  "\<lambda>q. run (case q of (E, v, p, b) \<Rightarrow> EditCommunityRolesPriority E v p b)"
  "\<lambda>q. aes_configured (env_aes (fst q))"
  "\<lambda>q w. case q of (E, v, p, b) \<Rightarrow> permitted E v (lower E (handle_param E p)) ManageCommunity w"
  by (rule guarded_handlerI, unfold EditCommunityRolesPriority_def Let_def, rule refl,
      fold EditCommunityRolesPriority_def [unfolded Let_def])
    (simp_all add: sound_EditCommunityRolesPriority answers_role_handlers)

end
