(* ===== verification/Role_Effects.thy ===== *)
theory Role_Effects
  imports Roles
begin

text \<open>
  What creating, editing and deleting a role does to the permissions of the members. The
  invariant \<open>perms_ok\<close> says that every member row holds the member's effective permissions;
  deleting a role keeps it, creating one keeps it when no call fails, and editing one does
  so only for the members who held some role before.
\<close>

section \<open>Effective permissions depend on roles and links only\<close>

definition holds_role :: "nat \<Rightarrow> nat \<Rightarrow> community_roles_row \<Rightarrow> database \<Rightarrow> bool" where
  "holds_role c u role d \<longleftrightarrow>
     (\<exists>ru \<in> set (d_roles_users d). ru_community_id ru = c \<and> ru_community_role_id ru = r_id role
        \<and> ru_user_id ru = u)"

lemma effective_holds:
  "has_perm (effective_permissions c d u) k \<longleftrightarrow>
   u = c_owner_id c \<or> has_perm (c_permissions c) k \<or>
   (\<exists>role \<in> set (d_roles d). r_community_id role = c_id c \<and> has_perm (r_permissions role) k \<and>
      holds_role (c_id c) u role d)"
  by (auto simp: effective_has_perm holds_role_def)

lemma effective_cong:
  assumes "\<And>role. r_community_id role = c_id c \<Longrightarrow>
      (role \<in> set (d_roles d) \<and> holds_role (c_id c) u role d) =
      (role \<in> set (d_roles d') \<and> holds_role (c_id c) u role d')"
  shows "effective_permissions c d u = effective_permissions c d' u"
  by (rule permissions_eqI) (use assms in \<open>auto simp: effective_holds\<close>)

lemma effective_same_roles:
  assumes "d_roles d' = d_roles d" and "d_roles_users d' = d_roles_users d"
  shows "effective_permissions c d' u = effective_permissions c d u"
  by (simp add: effective_permissions_def roles_of_def assms)

lemma recalculated_tables [simp]:
  "d_roles (recalculated c us d) = d_roles d" "d_roles_users (recalculated c us d) = d_roles_users d"
  "d_communities (recalculated c us d) = d_communities d" "d_users (recalculated c us d) = d_users d"
  "d_channels (recalculated c us d) = d_channels d" "d_groups (recalculated c us d) = d_groups d"
  "d_messages (recalculated c us d) = d_messages d" "d_invites (recalculated c us d) = d_invites d"
  "d_files (recalculated c us d) = d_files d" "d_banned (recalculated c us d) = d_banned d"
  "d_beta (recalculated c us d) = d_beta d"
  by (simp_all add: recalculated_def)

lemma effective_recalculated [simp]:
  "effective_permissions c' (recalculated c us d) u = effective_permissions c' d u"
  by (rule effective_same_roles) simp_all

lemma in_recalculated:
  "r \<in> set (d_members (recalculated c us d)) \<longleftrightarrow>
   (\<exists>m \<in> set (d_members d). r = (if cu_community_id m = c_id c \<and> cu_user_id m \<in> set us
      then m\<lparr>cu_permissions := effective_permissions c d (cu_user_id m)\<rparr> else m))"
  by (simp add: recalculated_def in_rows_update)

section \<open>The invariant\<close>

definition perms_ok :: "database \<Rightarrow> bool" where
  "perms_ok d \<longleftrightarrow>
     (\<forall>m \<in> set (d_members d). \<forall>c \<in> set (d_communities d).
        cu_community_id m = c_id c \<longrightarrow>
        cu_permissions m = effective_permissions c d (cu_user_id m))"

text \<open>Ids are keys, and a link between a user and a role carries the role's community.\<close>

definition roles_keyed :: "database \<Rightarrow> bool" where
  "roles_keyed d \<longleftrightarrow>
     distinct (map c_id (d_communities d)) \<and> distinct (map r_id (d_roles d)) \<and>
     (\<forall>ru \<in> set (d_roles_users d). \<forall>r \<in> set (d_roles d).
        r_id r = ru_community_role_id ru \<longrightarrow> ru_community_id ru = r_community_id r)"

section \<open>Deleting a role\<close>

definition role_deleted :: "nat \<Rightarrow> nat list \<Rightarrow> database \<Rightarrow> database" where
  "role_deleted i us d =
     d\<lparr>d_roles := rows_delete (\<lambda>r. r_id r = i) (d_roles d),
       d_roles_users := rows_delete (\<lambda>r. ru_community_role_id r = i \<and> ru_user_id r \<in> set us)
         (d_roles_users d)\<rparr>"

lemma get_role_InrD:
  "get_role E i w = (Inr r, w') \<Longrightarrow> r \<in> set (d_roles (w_db w)) \<and> r_id r = i \<and> w' = tick w"
  by (auto simp: get_role_def role_by_id_def dest!: db_get_InrD dest: find_SomeD)

lemma need_role_InrD:
  "need_role E s c w = (Inr i, w') \<Longrightarrow>
   \<exists>r \<in> set (d_roles (w_db w)). r_id r = i \<and> r_community_id r = c_id c \<and> same_stores w w'"
  by (auto simp: need_role_def same_stores_def elim!: andThen_InrE dest!: inr_dest get_role_InrD)

lemma delete_role_members_InrD:
  assumes "delete_role_members E i c us w = (Inr u, w')" and "w_txs w = d # ds"
    and "d_roles d = rows_delete (\<lambda>r. r_id r = i) rs"
  shows "w_txs w' = recalculated c us
      (d\<lparr>d_roles_users := rows_delete (\<lambda>r. ru_community_role_id r = i \<and> ru_user_id r \<in> set us)
           (d_roles_users d)\<rparr>) # ds \<and> w_db w' = w_db w"
proof (cases "us = []")
  case True
  then show ?thesis
    using assms(1,2) by (auto simp: delete_role_members_def rows_delete_def dest!: inr_dest)
next
  case False
  then obtain w1 where
    1: "tx_exec E \<lparr>st_table = ''community_roles_users'', st_holes = Suc (length us),
          st_args = Suc (length us)\<rparr>
         (delete_roles_users (\<lambda>r. ru_community_role_id r = i \<and> ru_user_id r \<in> set us)) w = (Inr (), w1)"
    and 2: "RecalculateAndUpdatePermissionsForUsers E us c w1 = (Inr (), w')"
    using assms(1) by (auto simp: delete_role_members_def Let_def elim!: andThen_InrE dest!: inr_dest)
  show ?thesis
    using tx_exec_InrD [OF 1] assms(2) RecalculateForUsers_InrD(1,2) [OF 2]
    by (auto simp: delete_roles_users_def)
qed

lemma DeleteCommunityRole_done:
  assumes "DeleteCommunityRole E v p b w = (Inr r, w')"
  obtains user input c role where "v = Some user" and "b = Some input"
    and "community_by_handle E (lower E (handle_param E p)) (w_db w) = Some c"
    and "may (u_id user) (c_id c) ManageCommunity w"
    and "role \<in> set (d_roles (w_db w))" and "r_community_id role = c_id c"
    and "w_db w' = recalculated c (role_user_ids (c_id c) (w_db w))
           (role_deleted (r_id role) (role_user_ids (c_id c) (w_db w)) (w_db w))"
proof -
  obtain user input c w1 where
    adm: "v = Some user" "b = Some input" "may (u_id user) (c_id c) ManageCommunity w"
      "community_by_handle E (lower E (handle_param E p)) (w_db w) = Some c" "same_stores w w1" and
    rest: "andThen (need_role E (dr_id input) c) (\<lambda>roleId.
       andThen (on_err (begin_tx E) (\<lambda>_. quit (message_error 200 ''Unable to delete role.''))) (\<lambda>_.
       andThen (on_err (tx_exec E \<lparr>st_table = ''community_roles'', st_holes = 1, st_args = 1\<rparr>
         (delete_roles (\<lambda>r. r_id r = roleId)))
         (\<lambda>_. rolling_back (message_error 200 ''Unable to delete role.''))) (\<lambda>_.
       andThen (on_err (tx_select E \<lparr>st_table = ''community_roles_users'', st_holes = 1, st_args = 1\<rparr>
         (role_user_ids (c_id c)))
         (\<lambda>_. rolling_back (message_error 200 ''Unable to delete role.''))) (\<lambda>rolesUserIds.
       andThen (delete_role_members E roleId c rolesUserIds) (\<lambda>_.
       andThen (on_err (commit E) (\<lambda>_. quit (message_error 200 ''Unable to delete role.''))) (\<lambda>_.
       ret (Resp 200 (JObj [(''ok'', JBool True)])))))))) w1 = (Inr r, w')"
    using assms unfolding DeleteCommunityRole_def Let_def
    by (elim andThen_InrE) (auto dest!: admit_InrD)
  obtain i w2 w3 w4 ids w5 w6 w7 where
    nr: "need_role E (dr_id input) c w1 = (Inr i, w2)" and
    bt: "begin_tx E w2 = (Inr (), w3)" and
    ex: "tx_exec E \<lparr>st_table = ''community_roles'', st_holes = 1, st_args = 1\<rparr>
         (delete_roles (\<lambda>r. r_id r = i)) w3 = (Inr (), w4)" and
    sel: "tx_select E \<lparr>st_table = ''community_roles_users'', st_holes = 1, st_args = 1\<rparr>
         (role_user_ids (c_id c)) w4 = (Inr ids, w5)" and
    mem: "delete_role_members E i c ids w5 = (Inr (), w6)" and
    cm: "commit E w6 = (Inr (), w7)" and w': "w' = w7"
    using rest by (auto elim!: andThen_InrE dest!: on_err_quit_InrD ret_InrD)
  obtain role where role: "role \<in> set (d_roles (w_db w))" "r_community_id role = c_id c" "r_id role = i"
      and s2: "same_stores w w2"
    using need_role_InrD [OF nr] adm(5) by (auto simp: same_stores_def)
  let ?d = "w_db w"
  let ?d1 = "?d\<lparr>d_roles := rows_delete (\<lambda>r. r_id r = i) (d_roles ?d)\<rparr>"
  have w4: "w_txs w4 = ?d1 # w_txs w" "w_db w4 = ?d"
    using begin_tx_InrD [OF bt] tx_exec_InrD [OF ex] s2
    by (auto simp: delete_roles_def same_stores_def)
  have ids: "ids = role_user_ids (c_id c) ?d" and w5: "w_txs w5 = ?d1 # w_txs w" "w_db w5 = ?d"
    using tx_select_InrD [OF sel] w4 by (auto simp: role_user_ids_def roles_users_of_def)
  have "w_txs w6 = recalculated c ids
      (?d1\<lparr>d_roles_users := rows_delete (\<lambda>r. ru_community_role_id r = i \<and> ru_user_id r \<in> set ids)
           (d_roles_users ?d1)\<rparr>) # w_txs w"
    using delete_role_members_InrD [OF mem w5(1)] by simp
  then have "w_db w' = recalculated c ids (role_deleted i ids ?d)"
    using commit_InrD [OF cm] w' by (auto simp: role_deleted_def)
  with adm role ids that show ?thesis by blast
qed

lemma role_deleted_keeps_perms:
  assumes ok: "perms_ok d" and key: "roles_keyed d"
    and c: "c \<in> set (d_communities d)" and role: "role \<in> set (d_roles d)" "r_community_id role = c_id c"
    and us: "us = role_user_ids (c_id c) d"
  shows "perms_ok (recalculated c us (role_deleted (r_id role) us d))"
  unfolding perms_ok_def
proof (intro ballI impI)
  let ?d = "role_deleted (r_id role) us d"
  fix m c' assume m: "m \<in> set (d_members (recalculated c us ?d))"
    and c': "c' \<in> set (d_communities (recalculated c us ?d))" and eq: "cu_community_id m = c_id c'"
  from c' have c'd: "c' \<in> set (d_communities d)" by (simp add: role_deleted_def)
  obtain m0 where m0: "m0 \<in> set (d_members d)"
    and mm: "m = (if cu_community_id m0 = c_id c \<and> cu_user_id m0 \<in> set us
      then m0\<lparr>cu_permissions := effective_permissions c ?d (cu_user_id m0)\<rparr> else m0)"
    using m by (auto simp: in_recalculated role_deleted_def)
  have old: "cu_permissions m0 = effective_permissions c' d (cu_user_id m0)"
    using ok m0 c'd eq mm by (auto simp: perms_ok_def split: if_splits)
  show "cu_permissions m = effective_permissions c' (recalculated c us ?d) (cu_user_id m)"
  proof (cases "cu_community_id m0 = c_id c \<and> cu_user_id m0 \<in> set us")
    case True
    then have "c_id c' = c_id c" using mm eq by simp
    then have "c' = c" using key c c'd by (auto simp: roles_keyed_def dest: same_key)
    then show ?thesis using mm True by simp
  next
    case False
    then have mm0: "m = m0" using mm by auto
    have "effective_permissions c' d (cu_user_id m0) = effective_permissions c' ?d (cu_user_id m0)"
    proof (rule effective_cong)
      fix ro :: community_roles_row assume ro: "r_community_id ro = c_id c'"
      have keep: "ro \<in> set (d_roles d) \<and> holds_role (c_id c') (cu_user_id m0) ro d \<Longrightarrow> r_id ro \<noteq> r_id role"
      proof
        assume h: "ro \<in> set (d_roles d) \<and> holds_role (c_id c') (cu_user_id m0) ro d"
          and "r_id ro = r_id role"
        then have "ro = role" using key role by (auto simp: roles_keyed_def dest: same_key)
        then have "c_id c' = c_id c" using ro role by simp
        moreover obtain ru where "ru \<in> set (d_roles_users d)" "ru_community_id ru = c_id c'"
          "ru_user_id ru = cu_user_id m0"
          using h by (auto simp: holds_role_def)
        ultimately have "cu_user_id m0 \<in> set us" "cu_community_id m0 = c_id c"
          using us eq mm0 by (auto simp: role_user_ids_def roles_users_of_def image_iff)
        then show False using False by simp
      qed
      show "(ro \<in> set (d_roles d) \<and> holds_role (c_id c') (cu_user_id m0) ro d) =
          (ro \<in> set (d_roles ?d) \<and> holds_role (c_id c') (cu_user_id m0) ro ?d)"
        using keep by (fastforce simp: role_deleted_def holds_role_def set_rows_delete)
    qed
    then show ?thesis using mm0 old by simp
  qed
qed

section \<open>Creating a role, when no call fails\<close>

definition healthy :: "env \<Rightarrow> bool" where
  "healthy E \<longleftrightarrow> (\<forall>n. env_fault E n = None)"

definition perm_union :: "permissions \<Rightarrow> permissions \<Rightarrow> permissions" where
  "perm_union p q = fold (\<lambda>k r. if has_perm q k then set_perm k r else r)
     [ViewChannels, ManageChannels, ManageCommunity, CreateInvite, KickMembers, BanMembers,
      SendMessages, AttachMedia] p"

lemma has_perm_union [perm_simps]: "has_perm (perm_union p q) k \<longleftrightarrow> has_perm p k \<or> has_perm q k"
  by (cases k) (simp_all add: perm_union_def perm_simps)

lemma tx_exec_healthy:
  assumes "healthy E" and "prepare s = None" and "w_txs w = d # ds"
  shows "tx_exec E s f w =
     (case f d of Inl e \<Rightarrow> (Inl e, tick w) | Inr d' \<Rightarrow> (Inr (), (tick w)\<lparr>w_txs := d' # ds\<rparr>))"
  using assms by (simp add: healthy_def call_defs split: sum.split)

definition granted :: "permission \<Rightarrow> nat \<Rightarrow> nat \<Rightarrow> database \<Rightarrow> database" where
  "granted k u c d =
     d\<lparr>d_members := rows_update (\<lambda>r. cu_user_id r = u \<and> cu_community_id r = c)
            (\<lambda>r. r\<lparr>cu_permissions := set_perm k (cu_permissions r)\<rparr>) (d_members d)\<rparr>"

lemma grant_if_InrD:
  assumes "grant_if E f r k e w = (Inr e', w')" and "healthy E" and "w_txs w = d # ds"
  shows "w_txs w' = (if is_true (rf_flag k f) \<and> \<not> has_perm (cu_permissions r) k
           then granted k (cu_user_id r) (cu_community_id r) d else d) # ds
         \<and> w_db w' = w_db w \<and> w_auto w' = w_auto w
         \<and> e' = (if is_true (rf_flag k f) \<and> \<not> has_perm (cu_permissions r) k then Inr () else e)"
proof -
  have p: "prepare \<lparr>st_table = ''communities_users'', st_holes = 3, st_args = 3\<rparr> = None"
    by (simp add: prepare_def schema_tables_def)
  show ?thesis
    using assms(1,3)
    by (auto simp: grant_if_def granted_def grant_member_def tx_exec_healthy [OF assms(2) p assms(3)]
        dest!: inr_dest split: if_splits)
qed

text \<open>The eight conditional updates of a member amount to one union of permission sets.\<close>

definition grant_step :: "role_form \<Rightarrow> communities_users_row \<Rightarrow> permission \<Rightarrow> database \<Rightarrow> database" where
  "grant_step f r k d =
     (if is_true (rf_flag k f) \<and> \<not> has_perm (cu_permissions r) k
      then granted k (cu_user_id r) (cu_community_id r) d else d)"

definition grant_steps :: "role_form \<Rightarrow> communities_users_row \<Rightarrow> database \<Rightarrow> database" where
  "grant_steps f r d = fold (grant_step f r)
     [ViewChannels, ManageChannels, ManageCommunity, CreateInvite, KickMembers, BanMembers,
      SendMessages, AttachMedia] d"

definition member_key :: "communities_users_row \<Rightarrow> nat \<times> nat" where
  "member_key r = (cu_user_id r, cu_community_id r)"

lemma grant_step_members:
  "d_members (grant_step f r k d) = rows_update (\<lambda>m. member_key m = member_key r)
     (\<lambda>m. m\<lparr>cu_permissions := (if is_true (rf_flag k f) \<and> \<not> has_perm (cu_permissions r) k
        then set_perm k (cu_permissions m) else cu_permissions m)\<rparr>) (d_members d)"
  by (cases "is_true (rf_flag k f) \<and> \<not> has_perm (cu_permissions r) k")
     (auto simp: grant_step_def granted_def rows_update_def member_key_def intro!: map_idI [symmetric])

lemma rows_update_twice:
  assumes "\<And>m. P (f m) = P m"
  shows "rows_update P g (rows_update P f ms) = rows_update P (\<lambda>m. g (f m)) ms"
  using assms by (simp add: rows_update_def)

lemma member_key_update [simp]: "member_key (m\<lparr>cu_permissions := p\<rparr>) = member_key m"
  by (simp add: member_key_def)

definition all_permissions :: "permission list" where
  "all_permissions = [ViewChannels, ManageChannels, ManageCommunity, CreateInvite, KickMembers,
     BanMembers, SendMessages, AttachMedia]"

lemma in_all_permissions: "k \<in> set all_permissions"
  by (cases k) (simp_all add: all_permissions_def)

definition grant_flag :: "role_form \<Rightarrow> communities_users_row \<Rightarrow> permission \<Rightarrow> permissions \<Rightarrow> permissions" where
  "grant_flag f r k p =
     (if is_true (rf_flag k f) \<and> \<not> has_perm (cu_permissions r) k then set_perm k p else p)"

lemma has_perm_grant_flags:
  "has_perm (fold (grant_flag f r) ks p) j \<longleftrightarrow>
   has_perm p j \<or> (j \<in> set ks \<and> is_true (rf_flag j f) \<and> \<not> has_perm (cu_permissions r) j)"
  by (induction ks arbitrary: p) (auto simp: grant_flag_def perm_simps)

lemma grant_flags_union:
  "fold (grant_flag f r) all_permissions (cu_permissions r) =
   perm_union (cu_permissions r) (rf_permissions f)"
  by (rule permissions_eqI) (auto simp: has_perm_grant_flags in_all_permissions perm_simps)

lemma fold_grant_steps_members:
  "d_members (fold (grant_step f r) ks d) = rows_update (\<lambda>m. member_key m = member_key r)
     (\<lambda>m. m\<lparr>cu_permissions := fold (grant_flag f r) ks (cu_permissions m)\<rparr>) (d_members d)"
proof (induction ks arbitrary: d)
  case Nil
  then show ?case by (simp add: rows_update_def)
next
  case (Cons k ks)
  then show ?case by (simp add: grant_step_members rows_update_twice grant_flag_def)
qed

lemma grant_steps_members:
  assumes "distinct (map member_key (d_members d))" and "r \<in> set (d_members d)"
  shows "d_members (grant_steps f r d) = rows_update (\<lambda>m. member_key m = member_key r)
     (\<lambda>m. m\<lparr>cu_permissions := perm_union (cu_permissions m) (rf_permissions f)\<rparr>) (d_members d)"
proof -
  have "m = r" if "m \<in> set (d_members d)" "member_key m = member_key r" for m
    using assms that by (auto dest: same_key)
  then show ?thesis
    unfolding grant_steps_def fold_grant_steps_members rows_update_def
      all_permissions_def [symmetric]
    by (intro map_cong refl if_cong) (metis grant_flags_union)
qed

lemma grant_steps_update: "grant_steps f r d = d\<lparr>d_members := d_members (grant_steps f r d)\<rparr>"
proof -
  have "\<exists>ms. fold (grant_step f r) ks d = d\<lparr>d_members := ms\<rparr>" for ks
  proof (induction ks arbitrary: d)
    case Nil
    have "fold (grant_step f r) [] d = d\<lparr>d_members := d_members d\<rparr>" by simp
    then show ?case by blast
  next
    case (Cons k ks)
    have "grant_step f r k d = d\<lparr>d_members := d_members (grant_step f r k d)\<rparr>"
      by (simp add: grant_step_def granted_def)
    then show ?case using Cons [of "grant_step f r k d"]
      by (metis (no_types, lifting) database.fold_congs(3) database.surjective database.update_convs(3)
          fold_simps(2))
  qed
  then obtain ms where "grant_steps f r d = d\<lparr>d_members := ms\<rparr>" unfolding grant_steps_def by blast
  then show ?thesis by simp
qed

definition role_link :: "nat \<Rightarrow> nat \<Rightarrow> nat \<Rightarrow> communities_users_row \<Rightarrow> community_roles_users_row" where
  "role_link t i c r =
     \<lparr>ru_created_at = t, ru_community_role_id = i, ru_user_id = cu_user_id r, ru_community_id = c\<rparr>"

lemma role_link_simps [simp]:
  "ru_community_role_id (role_link t i c r) = i" "ru_user_id (role_link t i c r) = cu_user_id r"
  "ru_community_id (role_link t i c r) = c"
  by (simp_all add: role_link_def)

lemma add_role_member_InrD:
  assumes "add_role_member E f t i c r w = (Inr u, w')" and "healthy E" and "w_txs w = d # ds"
  shows "w_txs w' = grant_steps f r (d\<lparr>d_roles_users := d_roles_users d @ [role_link t i c r]\<rparr>) # ds
         \<and> w_db w' = w_db w \<and> w_auto w' = w_auto w"
proof -
  let ?d = "d\<lparr>d_roles_users := d_roles_users d @ [role_link t i c r]\<rparr>"
  obtain w0 e0 w1 e1 w2 e2 w3 e3 w4 e4 w5 e5 w6 e6 w7 e7 w8 e8 w9 where
    rd: "redis_del E (PermissionRedisKey (cu_user_id r) c) w = (Inr (), w0)" and
    ins: "tx_exec E \<lparr>st_table = ''community_roles_users'', st_holes = 4, st_args = 4\<rparr>
       (insert_role_user (role_link t i c r)) w0 = (e0, w1)" and
    g1: "grant_if E f r ViewChannels e0 w1 = (Inr e1, w2)" and
    g2: "grant_if E f r ManageChannels e1 w2 = (Inr e2, w3)" and
    g3: "grant_if E f r ManageCommunity e2 w3 = (Inr e3, w4)" and
    g4: "grant_if E f r CreateInvite e3 w4 = (Inr e4, w5)" and
    g5: "grant_if E f r KickMembers e4 w5 = (Inr e5, w6)" and
    g6: "grant_if E f r BanMembers e5 w6 = (Inr e6, w7)" and
    g7: "grant_if E f r SendMessages e6 w7 = (Inr e7, w8)" and
    g8: "grant_if E f r AttachMedia e7 w8 = (Inr e8, w9)" and
    fin: "(case e8 of Inl x \<Rightarrow> rolling_back create_role_failed | Inr x \<Rightarrow> ret ()) w9 = (Inr u, w')"
    using assms(1) unfolding add_role_member_def role_link_def
    by (elim andThen_InrE) (auto dest!: on_err_quit_InrD attempt_InrD)
  have w0: "w_txs w0 = d # ds" "w_db w0 = w_db w" "w_auto w0 = w_auto w"
    using redis_del_InrD [OF rd] assms(3) by auto
  have p: "prepare \<lparr>st_table = ''community_roles_users'', st_holes = 4, st_args = 4\<rparr> = None"
    by (simp add: prepare_def schema_tables_def)
  have w1: "w_txs w1 = ?d # ds" "w_db w1 = w_db w" "w_auto w1 = w_auto w"
    using ins w0 by (auto simp: tx_exec_healthy [OF assms(2) p w0(1)] insert_role_user_def)
  note g = grant_if_InrD [OF _ assms(2), folded grant_step_def]
  have w2: "w_txs w2 = grant_step f r ViewChannels ?d # ds" "w_db w2 = w_db w" "w_auto w2 = w_auto w"
    using g [OF g1 w1(1)] w1 by auto
  have w3: "w_txs w3 = grant_step f r ManageChannels (grant_step f r ViewChannels ?d) # ds"
    "w_db w3 = w_db w" "w_auto w3 = w_auto w"
    using g [OF g2 w2(1)] w2 by auto
  note w4 = g [OF g3 w3(1)]
  note w5 = g [OF g4 conjunct1 [OF w4]]
  note w6 = g [OF g5 conjunct1 [OF w5]]
  note w7 = g [OF g6 conjunct1 [OF w6]]
  note w8 = g [OF g7 conjunct1 [OF w7]]
  note w9 = g [OF g8 conjunct1 [OF w8]]
  have "w' = w9" using fin by (auto split: sum.splits dest!: inr_dest)
  then show ?thesis
    using w3 w4 w5 w6 w7 w8 w9 by (simp add: grant_steps_def)
qed

lemma add_role_members_loop:
  assumes "for_each rs (add_role_member E f t i c) w = (Inr u, w')" and "healthy E"
    and "w_txs w = d # ds" and "distinct (map member_key (d_members d))"
    and "set rs \<subseteq> set (d_members d)" and "distinct (map member_key rs)"
  shows "w_txs w' = d\<lparr>d_members := rows_update (\<lambda>m. member_key m \<in> member_key ` set rs)
             (\<lambda>m. m\<lparr>cu_permissions := perm_union (cu_permissions m) (rf_permissions f)\<rparr>) (d_members d),
           d_roles_users := d_roles_users d @ map (role_link t i c) rs\<rparr> # ds
         \<and> w_db w' = w_db w \<and> w_auto w' = w_auto w"
  using assms
proof (induction rs arbitrary: w d)
  case Nil
  then show ?case by (auto simp: rows_update_def dest!: inr_dest)
next
  case (Cons r rs)
  obtain w1 where 1: "add_role_member E f t i c r w = (Inr (), w1)"
    and 2: "for_each rs (add_role_member E f t i c) w1 = (Inr u, w')"
    using Cons.prems(1) by (auto elim!: andThen_InrE)
  let ?d = "d\<lparr>d_roles_users := d_roles_users d @ [role_link t i c r]\<rparr>"
  let ?m = "rows_update (\<lambda>m. member_key m = member_key r)
     (\<lambda>m. m\<lparr>cu_permissions := perm_union (cu_permissions m) (rf_permissions f)\<rparr>) (d_members d)"
  have mem: "d_members (grant_steps f r ?d) = ?m"
    using grant_steps_members [of ?d r f] Cons.prems(4,5) by simp
  have step: "grant_steps f r ?d = ?d\<lparr>d_members := ?m\<rparr>"
    using grant_steps_update [of f r ?d] mem by simp
  have w1: "w_txs w1 = ?d\<lparr>d_members := ?m\<rparr> # ds" "w_db w1 = w_db w" "w_auto w1 = w_auto w"
    using add_role_member_InrD [OF 1 Cons.prems(2,3)] step by auto
  have keys: "map member_key ?m = map member_key (d_members d)"
    by (rule map_rows_update_key) simp
  have sub: "set rs \<subseteq> set ?m"
  proof
    fix x assume "x \<in> set rs"
    then have "x \<in> set (d_members d)" "member_key x \<noteq> member_key r"
      using Cons.prems(5,6) by (auto simp: image_iff)
    then show "x \<in> set ?m" by (auto simp: in_rows_update)
  qed
  have IH: "w_txs w' = (?d\<lparr>d_members := ?m\<rparr>)
      \<lparr>d_members := rows_update (\<lambda>m. member_key m \<in> member_key ` set rs)
             (\<lambda>m. m\<lparr>cu_permissions := perm_union (cu_permissions m) (rf_permissions f)\<rparr>) ?m,
           d_roles_users := d_roles_users ?d @ map (role_link t i c) rs\<rparr> # ds
         \<and> w_db w' = w_db w1 \<and> w_auto w' = w_auto w1"
    using Cons.IH [OF 2 Cons.prems(2) w1(1)] keys sub Cons.prems(4,6) by simp
  have "rows_update (\<lambda>m. member_key m \<in> member_key ` set rs)
          (\<lambda>m. m\<lparr>cu_permissions := perm_union (cu_permissions m) (rf_permissions f)\<rparr>) ?m =
        rows_update (\<lambda>m. member_key m \<in> member_key ` set (r # rs))
          (\<lambda>m. m\<lparr>cu_permissions := perm_union (cu_permissions m) (rf_permissions f)\<rparr>) (d_members d)"
    using Cons.prems(6) by (auto simp: rows_update_def)
  then show ?case using IH w1 by simp
qed

text \<open>The new role, its links, and the wider permissions of the members it was given to.\<close>

definition new_role :: "role_form \<Rightarrow> nat \<Rightarrow> string \<Rightarrow> nat \<Rightarrow> nat \<Rightarrow> nat \<Rightarrow> community_roles_row" where
  "new_role f t salt i c n =
     \<lparr>r_id = i, r_created_at = t, r_updated_at = None, r_salt = salt,
      r_color = rf_color f, r_community_id = c, r_name = rf_name f,
      r_show_online_differently = is_true (rf_show_online_differently f),
      r_priority = n, r_permissions = rf_permissions f\<rparr>"

lemma new_role_simps [simp]:
  "r_id (new_role f t salt i c n) = i" "r_community_id (new_role f t salt i c n) = c"
  "r_permissions (new_role f t salt i c n) = rf_permissions f"
  by (simp_all add: new_role_def)

definition members_added :: "role_form \<Rightarrow> nat \<Rightarrow> nat \<Rightarrow> nat \<Rightarrow> nat list \<Rightarrow> database \<Rightarrow> database" where
  "members_added f t i c us d =
     d\<lparr>d_members := rows_update (\<lambda>m. cu_community_id m = c \<and> cu_user_id m \<in> set us)
         (\<lambda>m. m\<lparr>cu_permissions := perm_union (cu_permissions m) (rf_permissions f)\<rparr>) (d_members d),
       d_roles_users := d_roles_users d @ map (role_link t i c) (members_in c us d)\<rparr>"

definition role_created ::
  "role_form \<Rightarrow> nat \<Rightarrow> string \<Rightarrow> nat \<Rightarrow> nat \<Rightarrow> nat \<Rightarrow> nat list \<Rightarrow> database \<Rightarrow> database" where
  "role_created f t salt i c n us d =
     members_added f t i c us (d\<lparr>d_roles := d_roles d @ [new_role f t salt i c n]\<rparr>)"

lemma members_added_Nil [simp]: "members_added f t i c [] d = d"
  by (simp add: members_added_def members_in_def rows_update_def)

lemma create_role_members_InrD:
  assumes "create_role_members E f t i cm w = (Inr u, w')" and "healthy E"
    and "w_txs w = d # ds" and "distinct (map member_key (d_members d))"
  obtains us where "decode_all E USERS_TYPE (form_members f) = Returned us"
    and "w_txs w' = members_added f t i (c_id cm) us d # ds"
    and "w_db w' = w_db w" and "w_auto w' = w_auto w"
proof -
  let ?s = "\<lambda>us :: nat list. \<lparr>st_table = ''communities_users'', st_holes = Suc (length us),
     st_args = Suc (length us)\<rparr>"
  obtain us where us: "decode_all E USERS_TYPE (form_members f) = Returned us"
    and rest: "(if us = [] then ret () else andThen (on_err (tx_select E (?s us)
         (members_in (c_id cm) us)) (\<lambda>_. rolling_back create_role_failed)) (\<lambda>rolesUsers.
       for_each rolesUsers (add_role_member E f t i (c_id cm)))) w = (Inr u, w')"
    using assms(1) unfolding create_role_members_def
    by (elim andThen_InrE) (auto dest!: of_outcome_InrD)
  show thesis
  proof (cases "us = []")
    case True
    then show ?thesis using rest us assms(3) that by (auto dest!: inr_dest)
  next
    case False
    then obtain rs w1 where
      sel: "tx_select E (?s us) (members_in (c_id cm) us) w = (Inr rs, w1)" and
      loop: "for_each rs (add_role_member E f t i (c_id cm)) w1 = (Inr u, w')"
      using rest by (auto elim!: andThen_InrE dest!: on_err_quit_InrD)
    have rs: "rs = members_in (c_id cm) us d" and w1: "w_txs w1 = d # ds" "w_db w1 = w_db w" "w_auto w1 = w_auto w"
      using tx_select_InrD [OF sel] assms(3) by auto
    have sub: "set rs \<subseteq> set (d_members d)" and dist: "distinct (map member_key rs)"
      using assms(4) by (auto simp: rs members_in_def distinct_map_filter)
    have key: "member_key m \<in> member_key ` set rs \<longleftrightarrow> cu_community_id m = c_id cm \<and> cu_user_id m \<in> set us"
      if "m \<in> set (d_members d)" for m
      using that by (auto simp: rs members_in_def member_key_def)
    have "rows_update (\<lambda>m. member_key m \<in> member_key ` set rs) g (d_members d) =
          rows_update (\<lambda>m. cu_community_id m = c_id cm \<and> cu_user_id m \<in> set us) g (d_members d)" for g
      unfolding rows_update_def by (rule map_cong) (simp_all add: key)
    then have "w_txs w' = members_added f t i (c_id cm) us d # ds \<and> w_db w' = w_db w \<and> w_auto w' = w_auto w"
      using add_role_members_loop [OF loop assms(2) w1(1) assms(4) sub dist] w1
      by (simp add: members_added_def rs)
    then show ?thesis using us that by blast
  qed
qed

lemma create_role_tx_done:
  assumes "create_role_tx E v p b w = (Inr i, w')" and "healthy E"
    and "distinct (map member_key (d_members (w_db w)))"
  obtains user f c t salt us where "v = Some user" and "b = Some f"
    and "community_by_handle E (handle_param E p) (w_db w) = Some c"
    and "may (u_id user) (c_id c) ManageCommunity w"
    and "decode_all E USERS_TYPE (form_members f) = Returned us"
    and "i = w_auto w ''community_roles''"
    and "w_db w' = role_created f t salt i (c_id c) (length (roles_of (c_id c) (w_db w))) us (w_db w)"
    and "w_auto w' = (w_auto w)(''community_roles'' := Suc i)"
proof -
  obtain user f c w1 where
    adm: "v = Some user" "b = Some f" "may (u_id user) (c_id c) ManageCommunity w"
      "community_by_handle E (handle_param E p) (w_db w) = Some c" "same_stores w w1" and
    rest: "(\<lambda>w1. andThen (new_uuid E) (\<lambda>salt.
     andThen (time_now E) (\<lambda>createdAt.
     andThen (on_err (begin_tx E) (\<lambda>_. quit create_role_failed)) (\<lambda>_.
     andThen (on_err (tx_select E \<lparr>st_table = ''community_roles'', st_holes = 1, st_args = 1\<rparr>
       (\<lambda>d. length (roles_of (c_id c) d)))
       (\<lambda>_. rolling_back create_role_failed)) (\<lambda>roleCount.
     andThen (on_err (tx_insert E \<lparr>st_table = ''community_roles'', st_holes = 15, st_args = 15\<rparr>
       (\<lambda>i. insert_role (new_role f createdAt salt i (c_id c) roleCount)))
       (\<lambda>_. rolling_back create_role_failed)) (\<lambda>_.
     andThen (on_err (tx_last_insert_id E) (\<lambda>_. rolling_back create_role_failed)) (\<lambda>roleId.
     andThen (create_role_members E f createdAt roleId c) (\<lambda>_.
     andThen (on_err (commit E) (\<lambda>_. quit create_role_failed)) (\<lambda>_.
     ret roleId)))))))) w1) w1 = (Inr i, w')"
    using assms(1) unfolding create_role_tx_def new_role_def
    by (elim andThen_InrE) (auto dest!: admit_InrD)
  obtain salt t w2 w3 w4 n w5 w6 w7 w8 w9 where
    bt: "begin_tx E w2 = (Inr (), w3)" and w2: "w2 = tick (tick w1)" and
    sel: "tx_select E \<lparr>st_table = ''community_roles'', st_holes = 1, st_args = 1\<rparr>
       (\<lambda>d. length (roles_of (c_id c) d)) w3 = (Inr n, w4)" and
    ins: "tx_insert E \<lparr>st_table = ''community_roles'', st_holes = 15, st_args = 15\<rparr>
       (\<lambda>i. insert_role (new_role f t salt i (c_id c) n)) w4 = (Inr (), w5)" and
    lid: "tx_last_insert_id E w5 = (Inr i, w6)" and
    mem: "create_role_members E f t i c w6 = (Inr (), w7)" and
    cm: "commit E w7 = (Inr (), w8)" and w': "w' = w8"
    using rest
    by (auto elim!: andThen_InrE dest!: on_err_quit_InrD ret_InrD new_uuid_InrD time_now_InrD)
  let ?d = "w_db w"
  have w3: "w_txs w3 = ?d # w_txs w" "w_auto w3 = w_auto w"
    using begin_tx_InrD [OF bt] w2 adm(5) by (auto simp: same_stores_def)
  have n: "n = length (roles_of (c_id c) ?d)" and w4: "w_txs w4 = ?d # w_txs w" "w_auto w4 = w_auto w"
    using tx_select_InrD [OF sel] w3 by auto
  have i: "i = w_auto w ''community_roles''"
    and w6: "w_txs w6 = ?d\<lparr>d_roles := d_roles ?d @ [new_role f t salt i (c_id c) n]\<rparr> # w_txs w"
      "w_auto w6 = (w_auto w)(''community_roles'' := Suc i)"
    using tx_insert_InrD [OF ins] tx_last_insert_id_InrD [OF lid] w4
    by (auto simp: insert_role_def split: if_splits)
  have dist: "distinct (map member_key (d_members
      (?d\<lparr>d_roles := d_roles ?d @ [new_role f t salt i (c_id c) n]\<rparr>)))"
    using assms(3) by simp
  obtain us where us: "decode_all E USERS_TYPE (form_members f) = Returned us"
    "w_txs w7 = role_created f t salt i (c_id c) n us ?d # w_txs w" "w_auto w7 = w_auto w6"
    using create_role_members_InrD [OF mem assms(2) w6(1) dist] unfolding role_created_def by blast
  have "w_db w' = role_created f t salt i (c_id c) n us ?d" "w_auto w' = w_auto w6"
    using commit_InrD [OF cm] us w' by auto
  then show thesis
    by (intro that [of user f c us t salt] adm(1-4) us(1) i) (simp_all add: n w6(2))
qed

text \<open>The id of a new role is fresh: nothing in the tables mentions it.\<close>

definition role_ids_below :: "nat \<Rightarrow> database \<Rightarrow> bool" where
  "role_ids_below n d \<longleftrightarrow>
     (\<forall>r \<in> set (d_roles d). r_id r < n) \<and> (\<forall>ru \<in> set (d_roles_users d). ru_community_role_id ru < n)"

lemma effective_after_creation:
  assumes fresh: "role_ids_below i d"
  shows "has_perm (effective_permissions c' (role_created f t salt i c n us d) u) k \<longleftrightarrow>
     has_perm (effective_permissions c' d u) k \<or>
     (c_id c' = c \<and> is_true (rf_flag k f) \<and>
        (\<exists>m \<in> set (d_members d). cu_community_id m = c \<and> cu_user_id m = u \<and> u \<in> set us))"
proof -
  let ?d = "role_created f t salt i c n us d"
  have roles: "set (d_roles ?d) = insert (new_role f t salt i c n) (set (d_roles d))"
    by (simp add: role_created_def members_added_def)
  have links: "set (d_roles_users ?d) = set (d_roles_users d) \<union> role_link t i c ` set (members_in c us d)"
    by (simp add: role_created_def members_added_def members_in_def)
  have old: "holds_role (c_id c') u role ?d \<longleftrightarrow> holds_role (c_id c') u role d" if "role \<in> set (d_roles d)" for role
    using that fresh by (fastforce simp: holds_role_def links role_ids_below_def)
  have nolink: "ru \<in> set (d_roles_users d) \<Longrightarrow> ru_community_role_id ru \<noteq> i" for ru
    using fresh by (auto simp: role_ids_below_def)
  have new: "holds_role (c_id c') u (new_role f t salt i c n) ?d \<longleftrightarrow>
      c_id c' = c \<and> (\<exists>m \<in> set (d_members d). cu_community_id m = c \<and> cu_user_id m = u \<and> u \<in> set us)"
    unfolding holds_role_def links bex_Un
    by (simp add: members_in_def) (use nolink in auto)
  show ?thesis
    by (auto simp: effective_holds roles old new perm_simps)
qed

lemma role_created_keeps_perms:
  assumes ok: "perms_ok d" and fresh: "role_ids_below i d"
  shows "perms_ok (role_created f t salt i c n us d)"
  unfolding perms_ok_def
proof (intro ballI impI)
  let ?d = "role_created f t salt i c n us d"
  fix m c' assume m: "m \<in> set (d_members ?d)" and c': "c' \<in> set (d_communities ?d)"
    and eq: "cu_community_id m = c_id c'"
  have c'd: "c' \<in> set (d_communities d)" using c' by (simp add: role_created_def members_added_def)
  obtain m0 where m0: "m0 \<in> set (d_members d)"
    and mm: "m = (if cu_community_id m0 = c \<and> cu_user_id m0 \<in> set us
      then m0\<lparr>cu_permissions := perm_union (cu_permissions m0) (rf_permissions f)\<rparr> else m0)"
    using m by (auto simp: role_created_def members_added_def in_rows_update)
  have u: "cu_user_id m = cu_user_id m0" "cu_community_id m0 = c_id c'"
    using mm eq by (auto split: if_splits)
  have old: "cu_permissions m0 = effective_permissions c' d (cu_user_id m0)"
    using ok m0 c'd u by (auto simp: perms_ok_def)
  show "cu_permissions m = effective_permissions c' ?d (cu_user_id m)"
  proof (rule permissions_eqI)
    fix k
    show "has_perm (cu_permissions m) k = has_perm (effective_permissions c' ?d (cu_user_id m)) k"
      unfolding effective_after_creation [OF fresh] u(1)
      using mm m0 u old by (auto simp: perm_simps)
  qed
qed

section \<open>Editing a role\<close>

definition role_edited :: "nat \<Rightarrow> nat \<Rightarrow> role_input \<Rightarrow> database \<Rightarrow> database" where
  "role_edited i t input d =
     d\<lparr>d_roles := rows_update (\<lambda>r. r_id r = i)
         (\<lambda>r. r\<lparr>r_updated_at := Some t, r_name := ri_name input, r_color := ri_color input,
                r_show_online_differently := ri_show_online_differently input,
                r_permissions := ri_permissions input\<rparr>) (d_roles d)\<rparr>"

lemma edit_role_row_InrD:
  assumes "edit_role_row E i input w = (Inr u, w')"
  obtains t where "update_role i t input (w_db w) = Inr (w_db w')" and "w_txs w' = w_txs w"
  using assms unfolding edit_role_row_def
  by (auto elim!: andThen_InrE dest!: done_dest intro: that)

lemma insert_links_loop:
  assumes "for_each rs (\<lambda>r. on_err (tx_exec E s (insert_role_user (role_link t i c r)))
      (\<lambda>_. rolling_back ())) w = (Inr u, w')"
    and "w_txs w = d # ds"
  shows "w_txs w' = d\<lparr>d_roles_users := d_roles_users d @ map (role_link t i c) rs\<rparr> # ds
         \<and> w_db w' = w_db w"
  using assms
proof (induction rs arbitrary: w d)
  case Nil
  then show ?case by (auto dest!: inr_dest)
next
  case (Cons r rs)
  obtain w1 where 1: "tx_exec E s (insert_role_user (role_link t i c r)) w = (Inr (), w1)"
    and 2: "for_each rs (\<lambda>r. on_err (tx_exec E s (insert_role_user (role_link t i c r)))
      (\<lambda>_. rolling_back ())) w1 = (Inr u, w')"
    using Cons.prems(1) by (auto elim!: andThen_InrE dest!: on_err_quit_InrD)
  let ?d = "d\<lparr>d_roles_users := d_roles_users d @ [role_link t i c r]\<rparr>"
  have "w_txs w1 = ?d # ds" "w_db w1 = w_db w"
    using tx_exec_InrD [OF 1] Cons.prems(2) by (auto simp: insert_role_user_def)
  then show ?case using Cons.IH [OF 2, of ?d] by simp
qed

lemma add_members_to_role_InrD:
  assumes "add_members_to_role E i c before after w = (Inr u, w')" and "w_txs w = d # ds"
  obtains t where "w_txs w' = (if after = [] then d else recalculated c before
      (d\<lparr>d_roles_users := d_roles_users d @ map (role_link t i (c_id c)) (members_in (c_id c) after d)\<rparr>)) # ds"
    and "w_db w' = w_db w"
proof (cases "after = []")
  case True
  then show ?thesis using assms that by (auto simp: add_members_to_role_def dest!: inr_dest)
next
  case False
  let ?s = "\<lparr>st_table = ''communities_users'', st_holes = Suc (length after),
     st_args = Suc (length after)\<rparr>"
  obtain rs w1 t w2 w3 where
    sel: "tx_select E ?s (members_in (c_id c) after) w = (Inr rs, w1)" and w2: "w2 = tick w1" and
    loop: "for_each rs (\<lambda>r. on_err (tx_exec E
        \<lparr>st_table = ''community_roles_users'', st_holes = 4, st_args = 4\<rparr>
        (insert_role_user (role_link t i (c_id c) r))) (\<lambda>_. rolling_back ())) w2 = (Inr (), w3)" and
    rec: "RecalculateAndUpdatePermissionsForUsers E before c w3 = (Inr (), w')"
    using assms(1) False unfolding add_members_to_role_def role_link_def
    by (auto elim!: andThen_InrE dest!: on_err_quit_InrD time_now_InrD)
  have rs: "rs = members_in (c_id c) after d" and w1: "w_txs w2 = d # ds" "w_db w2 = w_db w"
    using tx_select_InrD [OF sel] assms(2) w2 by auto
  let ?d = "d\<lparr>d_roles_users := d_roles_users d @ map (role_link t i (c_id c)) rs\<rparr>"
  have w3: "w_txs w3 = ?d # ds" "w_db w3 = w_db w"
    using insert_links_loop [OF loop w1(1)] w1(2) by auto
  show ?thesis
    by (rule that [of t]) (use RecalculateForUsers_InrD(1,2) [OF rec w3(1)] rs False w3(2) in simp_all)
qed

text \<open>
  The goroutine of an edited role, when it runs to its end: the role has the new row, its
  links are replaced, and the members who held \<^emph>\<open>some\<close> role of the community before are
  recalculated. Nobody else's permissions are touched.
\<close>

lemma edit_role_members_InrD:
  assumes "edit_role_members E i c input w = (Inr u, w')"
  obtains t after d where "decode_all E USERS_TYPE (ri_members input) = Returned after"
    and "d = recalculated c (role_user_ids (c_id c) (w_db w))
           ((w_db w)\<lparr>d_roles_users := rows_delete (\<lambda>r. ru_community_role_id r = i) (d_roles_users (w_db w))\<rparr>)"
    and "w_db w' = (if after = [] then d
      else recalculated c (role_user_ids (c_id c) (w_db w))
        (d\<lparr>d_roles_users := d_roles_users d @ map (role_link t i (c_id c)) (members_in (c_id c) after d)\<rparr>))"
    and "w_txs w' = w_txs w"
proof -
  obtain w1 ids w2 w3 w4 after w5 w6 where
    bt: "begin_tx E w = (Inr (), w1)" and
    sel: "tx_select E \<lparr>st_table = ''community_roles_users'', st_holes = 1, st_args = 1\<rparr>
       (role_user_ids (c_id c)) w1 = (Inr ids, w2)" and
    del: "tx_exec E \<lparr>st_table = ''community_roles_users'', st_holes = 1, st_args = 1\<rparr>
       (delete_roles_users (\<lambda>r. ru_community_role_id r = i)) w2 = (Inr (), w3)" and
    rec: "RecalculateAndUpdatePermissionsForUsers E ids c w3 = (Inr (), w4)" and
    dec: "(case decode_all E USERS_TYPE (ri_members input) of
             Returned is \<Rightarrow> ret is | _ \<Rightarrow> rolling_back ()) w4 = (Inr after, w5)" and
    add: "add_members_to_role E i c ids after w5 = (Inr (), w6)" and
    cm: "commit E w6 = (Inr (), w')"
    using assms unfolding edit_role_members_def
    by (auto elim!: andThen_InrE dest!: on_err_quit_InrD)
  let ?d = "w_db w"
  let ?d1 = "?d\<lparr>d_roles_users := rows_delete (\<lambda>r. ru_community_role_id r = i) (d_roles_users ?d)\<rparr>"
  have ids: "ids = role_user_ids (c_id c) ?d" and w2: "w_txs w2 = ?d # w_txs w"
    using begin_tx_InrD [OF bt] tx_select_InrD [OF sel] by auto
  have w3: "w_txs w3 = ?d1 # w_txs w"
    using tx_exec_InrD [OF del] w2 by (auto simp: delete_roles_users_def)
  have w4: "w_txs w4 = recalculated c ids ?d1 # w_txs w"
    using RecalculateForUsers_InrD(1) [OF rec w3] .
  have after: "decode_all E USERS_TYPE (ri_members input) = Returned after" and w5: "w5 = w4"
    using dec by (auto split: outcome.splits dest!: inr_dest)
  obtain t where w6: "w_txs w6 = (if after = [] then recalculated c ids ?d1 else recalculated c ids
      ((recalculated c ids ?d1)\<lparr>d_roles_users := d_roles_users (recalculated c ids ?d1) @
        map (role_link t i (c_id c)) (members_in (c_id c) after (recalculated c ids ?d1))\<rparr>)) # w_txs w"
    using add_members_to_role_InrD [OF add] w4 w5 by metis
  have fin: "w_db w' = (if after = [] then recalculated c ids ?d1 else recalculated c ids
      ((recalculated c ids ?d1)\<lparr>d_roles_users := d_roles_users (recalculated c ids ?d1) @
        map (role_link t i (c_id c)) (members_in (c_id c) after (recalculated c ids ?d1))\<rparr>))"
    "w_txs w' = w_txs w"
    using commit_InrD [OF cm] w6 by auto
  show thesis
    by (rule that [of after _ t, OF after refl]) (use fin ids in simp_all)
qed

lemma in_recalculated_members:
  assumes "m \<in> set (d_members (recalculated c us d))" and "cu_community_id m = c_id c"
    and "cu_user_id m \<in> set us"
  shows "cu_permissions m = effective_permissions c d (cu_user_id m)"
proof -
  obtain m0 where m: "m = (if cu_community_id m0 = c_id c \<and> cu_user_id m0 \<in> set us
      then m0\<lparr>cu_permissions := effective_permissions c d (cu_user_id m0)\<rparr> else m0)"
    using assms(1) by (auto simp: in_recalculated)
  then have "cu_community_id m0 = c_id c \<and> cu_user_id m0 \<in> set us"
    using assms(2,3) by (auto split: if_splits)
  then show ?thesis using m by simp
qed

lemma not_recalculated:
  assumes "m \<in> set (d_members d)" and "cu_community_id m = c_id c \<longrightarrow> cu_user_id m \<notin> set us"
  shows "m \<in> set (d_members (recalculated c us d))"
  using assms unfolding in_recalculated by (intro bexI [of _ m]) auto

text \<open>Members with a role before the edit end with their effective permissions.\<close>

lemma edit_role_members_effective:
  assumes "edit_role_members E i c input w = (Inr u, w')"
    and "m \<in> set (d_members (w_db w'))" and "cu_community_id m = c_id c"
    and "cu_user_id m \<in> set (role_user_ids (c_id c) (w_db w))"
  shows "cu_permissions m = effective_permissions c (w_db w') (cu_user_id m)"
  using assms(1)
proof (rule edit_role_members_InrD)
  fix t after d
  let ?ids = "role_user_ids (c_id c) (w_db w)"
  let ?l = "d\<lparr>d_roles_users := d_roles_users d @ map (role_link t i (c_id c)) (members_in (c_id c) after d)\<rparr>"
  assume d: "d = recalculated c ?ids ((w_db w)\<lparr>d_roles_users :=
      rows_delete (\<lambda>r. ru_community_role_id r = i) (d_roles_users (w_db w))\<rparr>)"
    and w': "w_db w' = (if after = [] then d else recalculated c ?ids ?l)"
  show ?thesis
  proof (cases "after = []")
    case True
    then have "w_db w' = d" using w' by simp
    then show ?thesis using in_recalculated_members assms(2-4) d by (metis effective_recalculated)
  next
    case False
    then have "w_db w' = recalculated c ?ids ?l" using w' by simp
    then show ?thesis using in_recalculated_members assms(2-4) by (metis effective_recalculated)
  qed
qed

text \<open>Members without a role before the edit keep the permissions they had.\<close>

lemma edit_role_members_missed:
  assumes "edit_role_members E i c input w = (Inr u, w')"
    and "m \<in> set (d_members (w_db w))"
    and "cu_user_id m \<notin> set (role_user_ids (c_id c) (w_db w))"
  shows "m \<in> set (d_members (w_db w'))"
  using assms(1)
  by (rule edit_role_members_InrD) (use assms(2,3) in \<open>auto intro!: not_recalculated\<close>)

end
