(* ===== verification/Rand_String.thy ===== *)
theory Rand_String
  imports Go_Strings
begin

unbundle bit_operations_syntax

text \<open>
  \<^verbatim>\<open>handlers/random_string.go\<close>: invite codes. \<^verbatim>\<open>RandString(n)\<close> cuts 63-bit random
  numbers into ten 6-bit pieces and keeps the pieces below 52 as letters, filling the
  result from its end. The random source is the sequence of its future draws (\<open>src d\<close> is
  the draw number \<open>d\<close>); the loop has no bound of its own, so it is a
  \<open>partial_function\<close>: \<open>None\<close> is a loop that never ends.
\<close>

section \<open>The routine\<close>

definition letterBytes :: string where
  "letterBytes = ''abcdefghijklmnopqrstuvwxyzABCDEFGHIJKLMNOPQRSTUVWXYZ''"

definition letterIdxBits :: nat where
  "letterIdxBits = 6"

definition letterIdxMask :: "64 word" where
  "letterIdxMask = push_bit letterIdxBits 1 - 1"

definition letterIdxMax :: nat where
  "letterIdxMax = 63 div letterIdxBits"

definition letter_index :: "64 word \<Rightarrow> nat" where
  "letter_index cache = unat (cache AND letterIdxMask)"

text \<open>
  One iteration: draw when no pieces remain, test the low piece, shift. \<open>left\<close> is the
  Go variable \<open>i\<close> plus one, and \<open>acc\<close> the part of the buffer already filled.
\<close>

partial_function (option) rand_loop ::
  "(nat \<Rightarrow> 64 word) \<Rightarrow> nat \<Rightarrow> nat \<Rightarrow> 64 word \<Rightarrow> nat \<Rightarrow> string \<Rightarrow> (string \<times> nat) option" where
  "rand_loop src d left cache remain acc =
     (if left = 0 then Some (acc, d)
      else if remain = 0 then
        (let c = src d; idx = letter_index c in
         if idx < length letterBytes
         then rand_loop src (Suc d) (left - 1) (drop_bit letterIdxBits c) (letterIdxMax - 1)
                (letterBytes ! idx # acc)
         else rand_loop src (Suc d) left (drop_bit letterIdxBits c) (letterIdxMax - 1) acc)
      else
        (let idx = letter_index cache in
         if idx < length letterBytes
         then rand_loop src d (left - 1) (drop_bit letterIdxBits cache) (remain - 1)
                (letterBytes ! idx # acc)
         else rand_loop src d left (drop_bit letterIdxBits cache) (remain - 1) acc))"

declare rand_loop.simps [code]

definition RandString :: "(nat \<Rightarrow> 64 word) \<Rightarrow> nat \<Rightarrow> nat \<Rightarrow> (string \<times> nat) option" where
  "RandString src d n = rand_loop src (Suc d) n (src d) letterIdxMax []"

section \<open>What it returns\<close>

lemma letter_constants: "length letterBytes = 52" "letterIdxMax = 10" "letterIdxBits = 6"
  by (simp_all add: letterBytes_def letterIdxMax_def letterIdxBits_def)


lemma letterBytes_nth: "idx < length letterBytes \<Longrightarrow> letterBytes ! idx \<in> set letterBytes"
  by simp

lemma rand_loop_result:
  "rand_loop src d left cache remain acc = Some y \<Longrightarrow> set acc \<subseteq> set letterBytes \<longrightarrow>
     length (fst y) = left + length acc \<and> set (fst y) \<subseteq> set letterBytes \<and> d \<le> snd y"
proof (induction src d left cache remain acc y
    rule: rand_loop.raw_induct [rotated, consumes 1, case_names step])
  case (step loop src d left cache remain acc y)
  consider (fin) "left = 0"
    | (draw_hit) "left \<noteq> 0" "remain = 0" "letter_index (src d) < length letterBytes"
    | (draw_miss) "left \<noteq> 0" "remain = 0" "\<not> letter_index (src d) < length letterBytes"
    | (hit) "left \<noteq> 0" "remain \<noteq> 0" "letter_index cache < length letterBytes"
    | (miss) "left \<noteq> 0" "remain \<noteq> 0" "\<not> letter_index cache < length letterBytes"
    by blast
  then show ?case
  proof cases
    case fin
    with step(2) show ?thesis by auto
  next
    case draw_hit
    with step(2) have "loop src (Suc d) (left - 1) (drop_bit letterIdxBits (src d)) (letterIdxMax - 1)
        (letterBytes ! letter_index (src d) # acc) = Some y" by (simp add: Let_def)
    from step(1) [OF this] draw_hit letterBytes_nth [OF draw_hit(3)] show ?thesis by auto
  next
    case draw_miss
    with step(2) have "loop src (Suc d) left (drop_bit letterIdxBits (src d)) (letterIdxMax - 1) acc
        = Some y" by (simp add: Let_def)
    from step(1) [OF this] show ?thesis by auto
  next
    case hit
    with step(2) have "loop src d (left - 1) (drop_bit letterIdxBits cache) (remain - 1)
        (letterBytes ! letter_index cache # acc) = Some y" by (simp add: Let_def)
    from step(1) [OF this] hit letterBytes_nth [OF hit(3)] show ?thesis by auto
  next
    case miss
    with step(2) have "loop src d left (drop_bit letterIdxBits cache) (remain - 1) acc = Some y"
      by (simp add: Let_def)
    from step(1) [OF this] show ?thesis by auto
  qed
qed

lemma RandString_result:
  "RandString src d n = Some (s, d') \<Longrightarrow>
     length s = n \<and> set s \<subseteq> set letterBytes \<and> Suc d \<le> d'"
  unfolding RandString_def using rand_loop_result by fastforce

section \<open>When it returns\<close>

text \<open>
  A draw is usable when one of its ten pieces is a letter index. The loop returns whenever
  a usable draw always lies ahead, and only then for a positive length.
\<close>

definition usable_within :: "nat \<Rightarrow> 64 word \<Rightarrow> bool" where
  "usable_within k w \<longleftrightarrow> (\<exists>j<k. letter_index (drop_bit (letterIdxBits * j) w) < length letterBytes)"

definition usable :: "64 word \<Rightarrow> bool" where
  "usable w \<longleftrightarrow> usable_within letterIdxMax w"

lemma rand_loop_done [simp]: "rand_loop src d 0 cache remain acc = Some (acc, d)"
  by (subst rand_loop.simps) simp

lemma rand_loop_hit:
  "letter_index cache < length letterBytes \<Longrightarrow> rand_loop src d (Suc left) cache (Suc remain) acc
     = rand_loop src d left (drop_bit letterIdxBits cache) remain
         (letterBytes ! letter_index cache # acc)"
  by (subst rand_loop.simps) (simp add: Let_def)

lemma rand_loop_miss:
  "\<not> letter_index cache < length letterBytes \<Longrightarrow> rand_loop src d (Suc left) cache (Suc remain) acc
     = rand_loop src d (Suc left) (drop_bit letterIdxBits cache) remain acc"
  by (subst rand_loop.simps) (simp add: Let_def)

lemma rand_loop_draw:
  "rand_loop src d (Suc left) cache 0 acc = rand_loop src (Suc d) (Suc left) (src d) letterIdxMax acc"
proof -
  obtain k where k: "letterIdxMax = Suc k" by (simp add: letter_constants)
  show ?thesis
    by (subst rand_loop.simps) (simp add: k rand_loop_hit rand_loop_miss Let_def)
qed

lemma usable_within_Suc:
  "usable_within (Suc k) w \<longleftrightarrow>
     letter_index w < length letterBytes \<or> usable_within k (drop_bit letterIdxBits w)"
proof
  assume "usable_within (Suc k) w"
  then obtain j where j: "j < Suc k" "letter_index (drop_bit (letterIdxBits * j) w) < length letterBytes"
    by (auto simp: usable_within_def)
  then show "letter_index w < length letterBytes \<or> usable_within k (drop_bit letterIdxBits w)"
    by (cases j) (auto simp: usable_within_def drop_bit_drop_bit add.commute intro!: exI)
next
  assume "letter_index w < length letterBytes \<or> usable_within k (drop_bit letterIdxBits w)"
  then show "usable_within (Suc k) w"
  proof
    assume "letter_index w < length letterBytes"
    then show ?thesis unfolding usable_within_def by (intro exI [of _ 0]) simp
  next
    assume "usable_within k (drop_bit letterIdxBits w)"
    then obtain j where "j < k"
        "letter_index (drop_bit (letterIdxBits * j) (drop_bit letterIdxBits w)) < length letterBytes"
      by (auto simp: usable_within_def)
    then show ?thesis unfolding usable_within_def
      by (intro exI [of _ "Suc j"]) (simp add: drop_bit_drop_bit add.commute)
  qed
qed

text \<open>Within one draw the loop reaches the next letter, or uses the draw up.\<close>

lemma rand_loop_within:
  "if usable_within remain cache
   then \<exists>c r a. rand_loop src d (Suc left) cache remain acc = rand_loop src d left c r a
   else \<exists>c. rand_loop src d (Suc left) cache remain acc = rand_loop src d (Suc left) c 0 acc"
proof (induction remain arbitrary: cache)
  case 0
  then show ?case by (auto simp: usable_within_def)
next
  case (Suc remain)
  show ?case
  proof (cases "letter_index cache < length letterBytes")
    case True
    then show ?thesis by (simp add: usable_within_Suc rand_loop_hit) blast
  next
    case False
    then show ?thesis using Suc [of "drop_bit letterIdxBits cache"]
      by (simp add: usable_within_Suc rand_loop_miss)
  qed
qed

lemma rand_loop_next_usable:
  "usable (src (d + k)) \<Longrightarrow>
     \<exists>d' c r a. rand_loop src d (Suc left) cache 0 acc = rand_loop src d' left c r a"
proof (induction k arbitrary: d cache)
  case 0
  then show ?case
    using rand_loop_within [of letterIdxMax "src d" src "Suc d" left acc]
    by (simp add: rand_loop_draw usable_def) blast
next
  case (Suc k)
  show ?case
  proof (cases "usable_within letterIdxMax (src d)")
    case True
    then show ?thesis using rand_loop_within [of letterIdxMax "src d" src "Suc d" left acc]
      by (simp add: rand_loop_draw) blast
  next
    case False
    then obtain c where "rand_loop src (Suc d) (Suc left) (src d) letterIdxMax acc
        = rand_loop src (Suc d) (Suc left) c 0 acc"
      using rand_loop_within [of letterIdxMax "src d" src "Suc d" left acc] by auto
    then show ?thesis using Suc.IH [of "Suc d" c] Suc.prems by (simp add: rand_loop_draw)
  qed
qed

lemma rand_loop_returns:
  assumes "\<And>d. \<exists>k. usable (src (d + k))"
  shows "\<exists>y. rand_loop src d left cache remain acc = Some y"
proof (induction left arbitrary: d cache remain acc)
  case 0
  then show ?case by simp
next
  case (Suc left)
  have "\<exists>d' c r a. rand_loop src d (Suc left) cache remain acc = rand_loop src d' left c r a"
  proof (cases "usable_within remain cache")
    case True
    then show ?thesis using rand_loop_within [of remain cache src d left acc] by auto
  next
    case False
    then obtain c where "rand_loop src d (Suc left) cache remain acc
        = rand_loop src d (Suc left) c 0 acc"
      using rand_loop_within [of remain cache src d left acc] by auto
    moreover obtain k where "usable (src (d + k))" using assms by blast
    ultimately show ?thesis using rand_loop_next_usable by metis
  qed
  with Suc.IH show ?case by metis
qed

lemma RandString_returns:
  assumes "\<And>d. \<exists>k. usable (src (d + k))"
  shows "\<exists>s d'. RandString src d n = Some (s, d')"
  using rand_loop_returns [OF assms] by (fastforce simp: RandString_def)

text \<open>With no usable draw ahead the loop never produces even one letter.\<close>

lemma rand_loop_stuck:
  "rand_loop src d left cache remain acc = Some y \<Longrightarrow>
     \<not> usable_within remain cache \<longrightarrow> (\<forall>k. \<not> usable (src (d + k))) \<longrightarrow> left = 0"
proof (induction src d left cache remain acc y
    rule: rand_loop.raw_induct [rotated, consumes 1, case_names step])
  case (step loop src d left cache remain acc y)
  show ?case
  proof (intro impI)
    assume miss: "\<not> usable_within remain cache" and never: "\<forall>k. \<not> usable (src (d + k))"
    show "left = 0"
    proof (rule ccontr)
      assume left: "left \<noteq> 0"
      show False
      proof (cases remain)
        case 0
        have u: "\<not> usable_within (Suc (letterIdxMax - 1)) (src d)"
          using never [rule_format, of 0] by (simp add: usable_def letter_constants)
        then have "\<not> letter_index (src d) < length letterBytes"
            "\<not> usable_within (letterIdxMax - 1) (drop_bit letterIdxBits (src d))"
          by (simp_all add: usable_within_Suc)
        moreover have "\<forall>k. \<not> usable (src (Suc d + k))"
          using never by (metis add_Suc add_Suc_right)
        ultimately show False using step(1) [of src "Suc d" left _ _ acc y] step(2) left 0
          by (simp add: Let_def)
      next
        case (Suc r)
        then have "\<not> letter_index cache < length letterBytes"
            "\<not> usable_within r (drop_bit letterIdxBits cache)"
          using miss by (simp_all add: usable_within_Suc)
        then show False using step(1) [of src d left _ r acc y] step(2) left Suc never
          by (simp add: Let_def)
      qed
    qed
  qed
qed

lemma RandString_diverges:
  assumes "\<And>k. \<not> usable (src (d + k))" and "0 < n"
  shows "RandString src d n = None"
proof (rule ccontr)
  assume "RandString src d n \<noteq> None"
  then obtain y where "rand_loop src (Suc d) n (src d) letterIdxMax [] = Some y"
    by (auto simp: RandString_def)
  moreover have "\<not> usable_within letterIdxMax (src d)"
    using assms(1) [of 0] by (simp add: usable_def)
  moreover have "\<forall>k. \<not> usable (src (Suc d + k))"
    using assms(1) by (metis add_Suc add_Suc_right)
  ultimately show False using rand_loop_stuck assms(2) by blast
qed

end
