(* ===== verification/Communities.thy ===== *)
theory Communities
  imports Role_Effects Rand_String
begin

text \<open>
  The life of a community: \<^verbatim>\<open>handlers/create_community.go\<close>, \<^verbatim>\<open>edit_community.go\<close>,
  \<^verbatim>\<open>delete_community.go\<close>, \<^verbatim>\<open>edit_community_default_permissions.go\<close> and
  \<^verbatim>\<open>create_community_invite.go\<close>.
\<close>

section \<open>Statements\<close>

text \<open>The unique indexes on \<^verbatim>\<open>handle\<close> and \<^verbatim>\<open>fqn\<close>; a new row takes the defaults of migration 31.\<close>

definition insert_community :: "env \<Rightarrow> communities_row \<Rightarrow> database \<Rightarrow> db_err + database" where
  "insert_community E r d =
     (if too_long (c_name r) \<or> too_long (c_fqn r) \<or> too_long (c_handle r) then Inl ErrTooLong
      else if \<exists>c \<in> set (d_communities d). text_eq E (c_handle c) (c_handle r) \<or> text_eq E (c_fqn c) (c_fqn r)
      then Inl ErrDuplicate
      else Inr (d\<lparr>d_communities := d_communities d @ [r]\<rparr>))"

definition default_permissions :: permissions where
  "default_permissions = no_permissions
     \<lparr>p_view_channels := True, p_create_invite := True, p_send_messages := True,
      p_attach_media := True\<rparr>"

definition update_community :: "nat \<Rightarrow> nat \<Rightarrow> string \<Rightarrow> database \<Rightarrow> db_err + database" where
  "update_community i updatedAt name d =
     (if too_long name then Inl ErrTooLong
      else Inr (d\<lparr>d_communities := rows_update (\<lambda>c. c_id c = i)
             (\<lambda>c. c\<lparr>c_updated_at := Some updatedAt, c_name := name\<rparr>) (d_communities d)\<rparr>))"

definition update_defaults :: "nat \<Rightarrow> nat \<Rightarrow> permissions \<Rightarrow> database \<Rightarrow> db_err + database" where
  "update_defaults i updatedAt p d =
     Inr (d\<lparr>d_communities := rows_update (\<lambda>c. c_id c = i)
            (\<lambda>c. c\<lparr>c_updated_at := Some updatedAt, c_permissions := p\<rparr>) (d_communities d)\<rparr>)"

definition delete_communities :: "(communities_row \<Rightarrow> bool) \<Rightarrow> database \<Rightarrow> db_err + database" where
  "delete_communities P d = Inr (d\<lparr>d_communities := rows_delete P (d_communities d)\<rparr>)"

definition insert_invite :: "env \<Rightarrow> community_invites_row \<Rightarrow> database \<Rightarrow> db_err + database" where
  "insert_invite E r d =
     (if \<exists>i \<in> set (d_invites d). text_eq E (i_code i) (i_code r) then Inl ErrDuplicate
      else Inr (d\<lparr>d_invites := d_invites d @ [r]\<rparr>))"

definition community_by_id :: "nat \<Rightarrow> database \<Rightarrow> communities_row option" where
  "community_by_id i d = find (\<lambda>c. c_id c = i) (d_communities d)"

definition get_community_by_id :: "env \<Rightarrow> nat \<Rightarrow> communities_row call" where
  "get_community_by_id E i =
     db_get E \<lparr>st_table = ''communities'', st_holes = 1, st_args = 1\<rparr> (community_by_id i)"

definition member_ids :: "nat \<Rightarrow> database \<Rightarrow> nat list" where
  "member_ids c d = map cu_user_id (filter (\<lambda>r. cu_community_id r = c) (d_members d))"

lemma moves_get_community_by_id [shapes]: "moves s s s (get_community_by_id E i)"
  by (simp add: get_community_by_id_def shapes)

section \<open>Creating a community\<close>

record create_community_input =
  co_name :: string
  co_handle :: string
  co_private :: "bool option"

definition create_community_checks :: "env \<Rightarrow> create_community_input \<Rightarrow> json list" where
  "create_community_checks E input =
     check_string E ''Name'' [VRequired, VGte 3, VLte 50] (co_name input) @
     check_string E ''Handle'' [VRequired, VGte 3, VLte 32] (co_handle input) @
     check_present E ''Private'' (co_private input)"

text \<open>\<^verbatim>\<open>"[a-z-]+"\<close> is not anchored: one letter or dash anywhere satisfies it.\<close>

definition community_handle_errors :: "string \<Rightarrow> nat \<Rightarrow> json list" where
  "community_handle_errors lowerHandle handleCount =
     (if match_some lower_letter_or_dash lowerHandle then []
      else [JObj [(''field'', JStr ''handle''),
              (''message'', JStr ''Unique name must be letters and _ only.'')]]) @
     (if 0 < handleCount
      then [JObj [(''field'', JStr ''handle''), (''message'', JStr ''Unique name already taken'')]]
      else [])"

definition count_community_handles :: "env \<Rightarrow> string \<Rightarrow> database \<Rightarrow> nat" where
  "count_community_handles E h d = length (filter (\<lambda>c. text_eq E (c_handle c) h) (d_communities d))"

text \<open>The emoji is four bytes of UTF-8.\<close>

definition chit_chat :: string where
  "chit_chat = map byte [240, 159, 164, 173] @ '' chit chat''"

definition create_community_guards ::
  "env \<Rightarrow> users_row option \<Rightarrow> create_community_input option \<Rightarrow>
   (users_row \<times> create_community_input \<times> string) go" where
  "create_community_guards E viewer body =
     andThen (need_viewer viewer) (\<lambda>user.
     andThen (of_option body (quit (plain_error 500 ''Invalid input''))) (\<lambda>input.
     let lowerHandle = lower E (co_handle input) in
     andThen (on_err (db_select E \<lparr>st_table = ''communities'', st_holes = 1, st_args = 1\<rparr>
       (count_community_handles E lowerHandle))
       (\<lambda>_. quit (field_error 500 ''handle'' ''Unable to update profile.''))) (\<lambda>handleCount.
     let errors = create_community_checks E input @ community_handle_errors lowerHandle handleCount in
     andThen (need_valid 401 errors) (\<lambda>_.
     ret (user, input, lowerHandle)))))"

definition create_community_failed :: response where
  "create_community_failed = message_error 500 ''Unable to create community.''"

definition last_id :: "env \<Rightarrow> response \<Rightarrow> nat go" where
  "last_id E failed = on_err (tx_last_insert_id E) (\<lambda>_. rolling_back failed)"

definition CreateCommunity ::
  "env \<Rightarrow> users_row option \<Rightarrow> create_community_input option \<Rightarrow> response go" where
  "CreateCommunity E viewer body =
     (let failed = create_community_failed in
     andThen (create_community_guards E viewer body) (\<lambda>(user, input, lowerHandle).
     andThen (new_uuid E) (\<lambda>salt.
     andThen (time_now E) (\<lambda>createdAt.
     andThen (on_err (begin_tx E) (\<lambda>_. quit failed)) (\<lambda>_.
     let fqn = lowerHandle @ ''.'' @ env_getenv E ''EXOTIC_FQN'' in
     andThen (on_err (tx_insert E \<lparr>st_table = ''communities'', st_holes = 8, st_args = 8\<rparr>
       (\<lambda>i. insert_community E
          \<lparr>c_id = i, c_created_at = createdAt, c_updated_at = None,
           c_private = is_true (co_private input), c_self_hosted = False, c_owner_id = u_id user,
           c_salt = salt, c_name = co_name input, c_handle = lowerHandle, c_fqn = fqn,
           c_railway_service_id = None, c_railway_deploy_status = None, c_cf_record_id = None,
           c_ready = False, c_permissions = default_permissions\<rparr>))
       (\<lambda>_. rolling_back failed)) (\<lambda>_.
     andThen (last_id E failed) (\<lambda>communityId.
     andThen (on_err (tx_insert E \<lparr>st_table = ''channel_groups'', st_holes = 4, st_args = 4\<rparr>
       (\<lambda>i. insert_group \<lparr>g_id = i, g_created_at = createdAt, g_updated_at = None,
          g_community_id = communityId, g_salt = salt, g_name = ''Text channels''\<rparr>))
       (\<lambda>_. rolling_back failed)) (\<lambda>_.
     andThen (last_id E failed) (\<lambda>groupId.
     andThen (on_err (tx_insert E \<lparr>st_table = ''channels'', st_holes = 6, st_args = 6\<rparr>
       (\<lambda>i. insert_channel E \<lparr>ch_id = i, ch_created_at = createdAt, ch_updated_at = None,
          ch_community_id = communityId, ch_group_id = groupId, ch_salt = salt,
          ch_name = chit_chat, ch_handle = ''chit-chat''\<rparr>))
       (\<lambda>_. rolling_back failed)) (\<lambda>_.
     andThen (last_id E failed) (\<lambda>channelId.
     andThen (on_err (tx_exec E \<lparr>st_table = ''communities_users'', st_holes = 12, st_args = 12\<rparr>
       (insert_member createdAt communityId (u_id user) (Some channelId) (Some ServerOwnerPermissions)))
       (\<lambda>_. rolling_back failed)) (\<lambda>_.
     andThen (on_err (commit E) (\<lambda>_. quit failed)) (\<lambda>_.
     andThen (encode_id E communityId COMMUNITIES_TYPE salt) (\<lambda>i.
     ret (Resp 200 (JObj [(''id'', JStr i), (''created_at'', JStr (env_rfc3339 E createdAt)),
       (''name'', JStr (co_name input)), (''handle'', JStr lowerHandle)]))))))))))))))))"

section \<open>Editing a community\<close>

record edit_community_input =
  eo_name :: string

definition edit_community_checks :: "env \<Rightarrow> edit_community_input \<Rightarrow> json list" where
  "edit_community_checks E input =
     check_string E ''Name'' [VRequired, VGte 3, VLte 32] (eo_name input)"

definition EditCommunity ::
  "env \<Rightarrow> users_row option \<Rightarrow> string \<Rightarrow> edit_community_input option \<Rightarrow> response go" where
  "EditCommunity E viewer p body =
     (let failed = unique_error E ''Unable to edit channel.'' in
     andThen (admit E viewer body invalid_input (edit_community_checks E) (lower E (handle_param E p))
       ManageCommunity) (\<lambda>(user, input, community).
     andThen (on_err (begin_tx E) (\<lambda>e. quit (failed e))) (\<lambda>_.
     andThen (time_now E) (\<lambda>updatedAt.
     andThen (on_err (tx_exec E \<lparr>st_table = ''communities'', st_holes = 3, st_args = 3\<rparr>
       (update_community (c_id community) updatedAt (eo_name input)))
       (\<lambda>e. rolling_back (failed e))) (\<lambda>_.
     andThen (on_err (commit E) (\<lambda>e. quit (failed e))) (\<lambda>_.
     ret (Resp 200 (JObj []))))))))"

section \<open>Default permissions\<close>

record default_permissions_input =
  dp_view_channels :: "bool option"
  dp_manage_channels :: "bool option"
  dp_manage_community :: "bool option"
  dp_create_invite :: "bool option"
  dp_kick_members :: "bool option"
  dp_ban_members :: "bool option"
  dp_send_messages :: "bool option"
  dp_attach_media :: "bool option"

definition default_permissions_checks :: "env \<Rightarrow> default_permissions_input \<Rightarrow> json list" where
  "default_permissions_checks E f =
     check_present E ''ViewChannels'' (dp_view_channels f) @
     check_present E ''ManageChannels'' (dp_manage_channels f) @
     check_present E ''ManageCommunity'' (dp_manage_community f) @
     check_present E ''CreateInvite'' (dp_create_invite f) @
     check_present E ''KickMembers'' (dp_kick_members f) @
     check_present E ''BanMembers'' (dp_ban_members f) @
     check_present E ''SendMessages'' (dp_send_messages f) @
     check_present E ''AttachMedia'' (dp_attach_media f)"

definition dp_permissions :: "default_permissions_input \<Rightarrow> permissions" where
  "dp_permissions f =
     \<lparr>p_view_channels = is_true (dp_view_channels f),
      p_manage_channels = is_true (dp_manage_channels f),
      p_manage_community = is_true (dp_manage_community f),
      p_create_invite = is_true (dp_create_invite f),
      p_kick_members = is_true (dp_kick_members f),
      p_ban_members = is_true (dp_ban_members f),
      p_send_messages = is_true (dp_send_messages f),
      p_attach_media = is_true (dp_attach_media f)\<rparr>"

text \<open>
  The community is read again with \<^verbatim>\<open>db.Get\<close>, not \<^verbatim>\<open>tx.Get\<close>: outside the transaction
  that has just updated it.
\<close>

definition EditCommunityDefaultPermissions ::
  "env \<Rightarrow> users_row option \<Rightarrow> string \<Rightarrow> default_permissions_input option \<Rightarrow> response go" where
  "EditCommunityDefaultPermissions E viewer p body =
     (let failed = message_error 200 ''Unable to edit role.'' in
     andThen (admit E viewer body invalid_input (default_permissions_checks E) (handle_param E p)
       ManageCommunity) (\<lambda>(user, input, community).
     andThen (time_now E) (\<lambda>updatedAt.
     andThen (on_err (begin_tx E) (\<lambda>_. quit failed)) (\<lambda>_.
     andThen (on_err (tx_exec E \<lparr>st_table = ''communities'', st_holes = 10, st_args = 10\<rparr>
       (update_defaults (c_id community) updatedAt (dp_permissions input)))
       (\<lambda>_. rolling_back failed)) (\<lambda>_.
     andThen (on_err (tx_select E \<lparr>st_table = ''communities_users'', st_holes = 1, st_args = 1\<rparr>
       (member_ids (c_id community))) (\<lambda>_. rolling_back failed)) (\<lambda>rolesUserIds.
     andThen (on_err (get_community_by_id E (c_id community)) (\<lambda>_. rolling_back failed)) (\<lambda>community.
     andThen (on_err (RecalculateAndUpdatePermissionsForUsers E rolesUserIds community)
       (\<lambda>_. rolling_back failed)) (\<lambda>_.
     andThen (on_err (commit E) (\<lambda>_. quit failed)) (\<lambda>_.
     ret (Resp 200 (JObj (Permissions_ToFiberMap (c_permissions community)))))))))))))"

section \<open>Deleting a community\<close>

definition delete_where ::
  "env \<Rightarrow> response \<Rightarrow> string \<Rightarrow> (database \<Rightarrow> db_err + database) \<Rightarrow> unit go" where
  "delete_where E failed table f =
     on_err (tx_exec E \<lparr>st_table = table, st_holes = 1, st_args = 1\<rparr> f) (\<lambda>_. rolling_back failed)"

definition delete_rows_of_community :: "env \<Rightarrow> response \<Rightarrow> nat \<Rightarrow> unit go" where
  "delete_rows_of_community E failed c =
     andThen (delete_where E failed ''communities_users''
       (delete_members (\<lambda>r. cu_community_id r = c))) (\<lambda>_.
     andThen (delete_where E failed ''messages'' (delete_messages (\<lambda>r. m_community_id r = c))) (\<lambda>_.
     andThen (delete_where E failed ''community_roles_users''
       (delete_roles_users (\<lambda>r. ru_community_id r = c))) (\<lambda>_.
     andThen (delete_where E failed ''community_roles'' (delete_roles (\<lambda>r. r_community_id r = c))) (\<lambda>_.
     andThen (delete_where E failed ''channels'' (delete_channels (\<lambda>r. ch_community_id r = c))) (\<lambda>_.
     andThen (delete_where E failed ''channel_groups'' (delete_groups (\<lambda>r. g_community_id r = c))) (\<lambda>_.
     delete_where E failed ''communities'' (delete_communities (\<lambda>r. c_id r = c))))))))"

text \<open>The error of the commit is logged and the answer is \<^verbatim>\<open>deleted\<close> all the same.\<close>

definition DeleteCommunity :: "env \<Rightarrow> users_row option \<Rightarrow> string \<Rightarrow> response go" where
  "DeleteCommunity E viewer p =
     (let failed = message_error 500 ''Unable to delete community.'' in
     andThen (need_viewer viewer) (\<lambda>user.
     andThen (on_err (get_community E (handle_param E p))
       (\<lambda>_. quit (field_error 500 ''handle'' ''Unable to delete.''))) (\<lambda>community.
     andThen (ensure (u_id user = c_owner_id community) (quit not_allowed)) (\<lambda>_.
     andThen (on_err (begin_tx E) (\<lambda>_. quit failed)) (\<lambda>_.
     andThen (delete_rows_of_community E failed (c_id community)) (\<lambda>_.
     andThen (attempt (commit E)) (\<lambda>_.
     ret (Resp 200 (JObj [(''deleted'', JBool True)])))))))))"

section \<open>Inviting\<close>

record create_invite_input =
  iv_expires_on_use :: "bool option"

text \<open>The random source is drawn from until ten letters are found; it may never be.\<close>

definition rand_string :: "env \<Rightarrow> nat \<Rightarrow> string go" where
  "rand_string E n w =
     (case RandString (env_rand E) (w_tick w) n of
        None \<Rightarrow> (Inl Hang, w)
      | Some (s, d) \<Rightarrow> (Inr s, w\<lparr>w_tick := d\<rparr>))"

definition thirty_one_days :: nat where
  "thirty_one_days = 24 * one_hour * 31"

definition CreateCommunityInvite ::
  "env \<Rightarrow> users_row option \<Rightarrow> string \<Rightarrow> create_invite_input option \<Rightarrow> response go" where
  "CreateCommunityInvite E viewer p body =
     (let failed = message_error 200 ''Unable to create invite.'' in
     andThen (admit E viewer body invalid_input
       (\<lambda>f. check_present E ''ExpiresOnUse'' (iv_expires_on_use f)) (handle_param E p)
       CreateInvite) (\<lambda>(user, input, community).
     andThen (on_err (begin_tx E) (\<lambda>_. quit failed)) (\<lambda>_.
     andThen (rand_string E 10) (\<lambda>randString.
     andThen (time_now E) (\<lambda>createdAt.
     andThen (time_now E) (\<lambda>now.
     andThen (new_uuid E) (\<lambda>salt.
     andThen (on_err (tx_insert E \<lparr>st_table = ''community_invites'', st_holes = 7, st_args = 7\<rparr>
       (\<lambda>i. insert_invite E
          \<lparr>i_id = i, i_created_at = createdAt, i_updated_at = None,
           i_expires_at = now + thirty_one_days, i_expires_on_use = is_true (iv_expires_on_use input),
           i_salt = salt, i_code = randString, i_user_id = u_id user,
           i_community_id = c_id community\<rparr>))
       (\<lambda>_. rolling_back failed)) (\<lambda>_.
     andThen (on_err (commit E) (\<lambda>_. quit failed)) (\<lambda>_.
     ret (Resp 200 (JObj [(''code'', JStr randString)])))))))))))"

section \<open>Contracts\<close>

lemma create_community_failed_is_error [simp]: "is_error create_community_failed"
  by (simp add: create_community_failed_def)

lemma sound_last_id [sound_intro]: "sound Busy Busy (last_id E f)"
  unfolding last_id_def by (rule sound_intro shapes)+

lemma sound_delete_rows [sound_intro]:
  "sound Busy Busy (delete_where E f t g)" "sound Busy Busy (delete_rows_of_community E f c)"
  unfolding delete_rows_of_community_def delete_where_def by (rule sound_intro shapes)+

lemma sound_CreateCommunity:
  assumes "aes_configured (env_aes E)"
  shows "sound Idle Done (CreateCommunity E v b)"
  unfolding CreateCommunity_def create_community_guards_def Let_def
  by (rule sound_intro sound_ids shapes assms)+

lemma sound_EditCommunity: "sound Idle Done (EditCommunity E v p b)"
  unfolding EditCommunity_def Let_def by (rule sound_intro shapes)+

lemma sound_EditCommunityDefaultPermissions: "sound Idle Done (EditCommunityDefaultPermissions E v p b)"
  unfolding EditCommunityDefaultPermissions_def Let_def by (rule sound_intro shapes)+

lemma sound_DeleteCommunity: "sound Idle Done (DeleteCommunity E v p)"
  unfolding DeleteCommunity_def Let_def
  by (rule sound_intro sound_attempt [OF moves_commit_any] | rule shapes)+

text \<open>A random source that never stops giving letters lets every invite be answered.\<close>

definition lively :: "env \<Rightarrow> bool" where
  "lively E \<longleftrightarrow> (\<forall>d. \<exists>k. usable (env_rand E (d + k)))"

lemma rand_string_lively:
  assumes "lively E"
  obtains s d where "rand_string E n w = (Inr s, w\<lparr>w_tick := d\<rparr>)" and "length s = n"
    and "set s \<subseteq> set letterBytes" and "Suc (w_tick w) \<le> d"
proof -
  obtain s d where "RandString (env_rand E) (w_tick w) n = Some (s, d)"
    using RandString_returns [of "env_rand E"] assms unfolding lively_def by blast
  then show ?thesis using RandString_result that by (fastforce simp: rand_string_def)
qed

lemma sound_rand_string: "lively E \<Longrightarrow> sound Busy Busy (rand_string E n)"
  unfolding sound_def
proof (intro allI impI)
  fix d ts w assume "lively E" and "in_shape Busy d ts w"
  then show "case rand_string E n w of (Inl r, w') \<Rightarrow> atomic_post d ts r w'
      | (Inr x, w') \<Rightarrow> in_shape Busy d ts w'"
    by (elim rand_string_lively [of _ n w]) simp
qed

lemma sound_CreateCommunityInvite:
  assumes "lively E"
  shows "sound Idle Done (CreateCommunityInvite E v p b)"
  unfolding CreateCommunityInvite_def Let_def
  by (rule sound_intro sound_rand_string shapes assms)+

lemma alive_community_blocks [dead_intro]:
  "alive (create_community_guards E v b)" "alive (last_id E create_community_failed)"
  unfolding create_community_guards_def last_id_def Let_def
  by (rule dead_intro is_error_simps create_community_failed_is_error)+

lemma alive_delete_rows [dead_intro]:
  "is_error f \<Longrightarrow> alive (delete_rows_of_community E f c)"
  unfolding delete_rows_of_community_def delete_where_def by (rule dead_intro | assumption)+

lemma alive_rand_string [dead_intro]: "alive (rand_string E n)"
  by (simp add: alive_def wp_def rand_string_def split: option.split)

lemma alive_community_handlers [dead_intro]:
  "alive (CreateCommunity E v b1)" "alive (EditCommunity E v p b2)"
  "alive (EditCommunityDefaultPermissions E v p b3)" "alive (DeleteCommunity E v p)"
  "alive (CreateCommunityInvite E v p b4)"
  unfolding CreateCommunity_def EditCommunity_def EditCommunityDefaultPermissions_def
    DeleteCommunity_def CreateCommunityInvite_def Let_def case_prod_beta
  by (rule dead_intro is_error_simps create_community_failed_is_error unique_error_is_error
      alive_admit)+

lemma answers_community_handlers:
  "answers (CreateCommunity E v b1)" "answers (EditCommunity E v p b2)"
  "answers (EditCommunityDefaultPermissions E v p b3)" "answers (DeleteCommunity E v p)"
  "answers (CreateCommunityInvite E v p b4)"
  unfolding CreateCommunity_def EditCommunity_def EditCommunityDefaultPermissions_def
    DeleteCommunity_def CreateCommunityInvite_def Let_def case_prod_beta
  by (intro answers_andThen answers_rules; simp add: json_field_def Permissions_ToFiberMap_def)+

interpretation create_community: endpoint
  "\<lambda>q. run (case q of (E, v, b) \<Rightarrow> CreateCommunity E v b)" "\<lambda>q. aes_configured (env_aes (fst q))"
  by (rule endpointI) (auto intro: sound_CreateCommunity answers_community_handlers)

interpretation edit_community: guarded_endpoint
  "\<lambda>q. run (case q of (E, v, p, b) \<Rightarrow> EditCommunity E v p b)" "\<lambda>q. True"
  "\<lambda>q w. case q of (E, v, p, b) \<Rightarrow> permitted E v (lower E (handle_param E p)) ManageCommunity w"
  by (rule guarded_handler_validI [where valid = "\<lambda>_. True"], unfold EditCommunity_def Let_def,
      rule refl, fold EditCommunity_def [unfolded Let_def])
    (simp_all add: sound_EditCommunity answers_community_handlers)

interpretation edit_defaults: guarded_endpoint
  "\<lambda>q. run (case q of (E, v, p, b) \<Rightarrow> EditCommunityDefaultPermissions E v p b)" "\<lambda>q. True"
  "\<lambda>q w. case q of (E, v, p, b) \<Rightarrow> permitted E v (handle_param E p) ManageCommunity w"
  by (rule guarded_handler_validI [where valid = "\<lambda>_. True"],
      unfold EditCommunityDefaultPermissions_def Let_def,
      rule refl, fold EditCommunityDefaultPermissions_def [unfolded Let_def])
    (simp_all add: sound_EditCommunityDefaultPermissions answers_community_handlers)

interpretation create_invite: guarded_endpoint
  "\<lambda>q. run (case q of (E, v, p, b) \<Rightarrow> CreateCommunityInvite E v p b)" "\<lambda>q. lively (fst q)"
  "\<lambda>q w. case q of (E, v, p, b) \<Rightarrow> permitted E v (handle_param E p) CreateInvite w"
  by (rule guarded_handler_validI [where valid = lively], unfold CreateCommunityInvite_def Let_def,
      rule refl, fold CreateCommunityInvite_def [unfolded Let_def])
    (simp_all add: sound_CreateCommunityInvite answers_community_handlers)

definition owns :: "env \<Rightarrow> users_row option \<Rightarrow> string \<Rightarrow> world \<Rightarrow> bool" where
  "owns E viewer h w \<longleftrightarrow>
     (\<exists>u c. viewer = Some u \<and> community_by_handle E h (w_db w) = Some c \<and> u_id u = c_owner_id c)"

section \<open>What a successful request has done\<close>

definition community_wiped :: "nat \<Rightarrow> database \<Rightarrow> database" where
  "community_wiped c d = d
     \<lparr>d_members := rows_delete (\<lambda>r. cu_community_id r = c) (d_members d),
      d_messages := rows_delete (\<lambda>r. m_community_id r = c) (d_messages d),
      d_roles_users := rows_delete (\<lambda>r. ru_community_id r = c) (d_roles_users d),
      d_roles := rows_delete (\<lambda>r. r_community_id r = c) (d_roles d),
      d_channels := rows_delete (\<lambda>r. ch_community_id r = c) (d_channels d),
      d_groups := rows_delete (\<lambda>r. g_community_id r = c) (d_groups d),
      d_communities := rows_delete (\<lambda>r. c_id r = c) (d_communities d)\<rparr>"

lemma delete_where_InrD:
  "delete_where E f t g w = (Inr u, w') \<Longrightarrow>
   \<exists>d'. g (hd (w_txs w)) = Inr d' \<and> w' = (tick w)\<lparr>w_txs := d' # tl (w_txs w)\<rparr>"
  by (auto simp: delete_where_def dest!: inr_dest tx_exec_InrD)

lemma delete_where_thenD:
  "andThen (delete_where E f t g) k w = (Inr r, w') \<Longrightarrow>
   \<exists>d'. g (hd (w_txs w)) = Inr d' \<and> k () ((tick w)\<lparr>w_txs := d' # tl (w_txs w)\<rparr>) = (Inr r, w')"
  by (auto elim!: andThen_InrE dest!: delete_where_InrD)

lemma delete_rows_of_community_InrD:
  assumes "delete_rows_of_community E f c w = (Inr u, w')" and "w_txs w = d # ds"
  shows "w_txs w' = community_wiped c d # ds" and "w_db w' = w_db w" and "w_redis w' = w_redis w"
    and "w_jobs w' = w_jobs w"
proof -
  have "w_txs w' = community_wiped c d # ds \<and> w_db w' = w_db w \<and> w_redis w' = w_redis w
      \<and> w_jobs w' = w_jobs w"
    using assms(1) unfolding delete_rows_of_community_def
    by - ((drule delete_where_thenD, elim exE conjE)+, drule delete_where_InrD,
      auto simp: assms(2) community_wiped_def delete_members_def delete_messages_def
        delete_roles_users_def delete_roles_def delete_channels_def delete_groups_def
        delete_communities_def)
  then show "w_txs w' = community_wiped c d # ds" "w_db w' = w_db w" "w_redis w' = w_redis w"
    "w_jobs w' = w_jobs w" by blast+
qed

lemma DeleteCommunity_InrD:
  assumes "DeleteCommunity E v p w = (Inr r, w')"
  obtains user c w1 where "v = Some user"
    and "community_by_handle E (handle_param E p) (w_db w) = Some c" and "u_id user = c_owner_id c"
    and "w_txs w1 = community_wiped (c_id c) (w_db w) # w_txs w" and "w_db w1 = w_db w"
    and "w_redis w1 = w_redis w" and "w' = snd (commit E w1)"
    and "r = Resp 200 (JObj [(''deleted'', JBool True)])"
proof -
  obtain user c w3 x where *: "v = Some user"
    "community_by_handle E (handle_param E p) (w_db w) = Some c" "u_id user = c_owner_id c"
    and d: "delete_rows_of_community E (message_error 500 ''Unable to delete community.'') (c_id c)
        (tick (tick w)\<lparr>w_txs := w_db w # w_txs w\<rparr>) = (Inr (), w3)"
    and **: "commit E w3 = (x, w')" "r = Resp 200 (JObj [(''deleted'', JBool True)])"
    using assms unfolding DeleteCommunity_def Let_def need_viewer_def get_community_def
    by (auto elim!: andThen_InrE dest!: inr_dest db_get_InrD begin_tx_InrD intro: that)
  show ?thesis
    by (rule that [OF * _ _ _ _ **(2), of w3]) (use delete_rows_of_community_InrD [OF d] ** in auto)
qed

text \<open>The tables end without the community, or as they were when the commit failed.\<close>

lemma DeleteCommunity_done:
  assumes "run (DeleteCommunity E v p) w = (r, w')" and "\<not> is_error r"
  obtains user c where "v = Some user"
    and "community_by_handle E (handle_param E p) (w_db w) = Some c" and "u_id user = c_owner_id c"
    and "w_db w' = community_wiped (c_id c) (w_db w) \<or> w_db w' = w_db w \<and> \<not> healthy E"
    and "w_redis w' = w_redis w"
proof -
  have "DeleteCommunity E v p w = (Inr r, w')"
    using assms by (intro alive_run_ok alive_community_handlers)
  then obtain user c w1 where u: "v = Some user"
    "community_by_handle E (handle_param E p) (w_db w) = Some c" "u_id user = c_owner_id c"
    and w1: "w_txs w1 = community_wiped (c_id c) (w_db w) # w_txs w" "w_db w1 = w_db w"
      "w_redis w1 = w_redis w" "w' = snd (commit E w1)"
    by (elim DeleteCommunity_InrD)
  have "w_db w' = community_wiped (c_id c) (w_db w) \<or> w_db w' = w_db w \<and> \<not> healthy E"
    and "w_redis w' = w_redis w"
    using w1 by (auto simp: commit_def healthy_def split: option.splits)
  with u show ?thesis by (rule that)
qed

lemma create_community_guards_InrD:
  assumes "create_community_guards E v b w = (Inr (user, input, h), w1)"
  shows "v = Some user \<and> b = Some input \<and> h = lower E (co_handle input)
    \<and> create_community_checks E input = [] \<and> match_some lower_letter_or_dash h \<and> same_stores w w1"
  using assms unfolding create_community_guards_def Let_def need_viewer_def need_valid_def
  by (auto elim!: andThen_InrE dest!: inr_dest db_select_InrD
      simp: same_stores_def community_handle_errors_def split: if_splits)

lemma CreateCommunity_done:
  assumes "CreateCommunity E v b w = (Inr r, w')"
  obtains user input t salt where "v = Some user" and "b = Some input"
    and "create_community_checks E input = []"
    and "insert_community E
          \<lparr>c_id = w_auto w ''communities'', c_created_at = t, c_updated_at = None,
           c_private = is_true (co_private input), c_self_hosted = False, c_owner_id = u_id user,
           c_salt = salt, c_name = co_name input, c_handle = lower E (co_handle input),
           c_fqn = lower E (co_handle input) @ ''.'' @ env_getenv E ''EXOTIC_FQN'',
           c_railway_service_id = None, c_railway_deploy_status = None, c_cf_record_id = None,
           c_ready = False, c_permissions = default_permissions\<rparr> (w_db w)
        = Inr ((w_db w)\<lparr>d_communities := d_communities (w_db w')\<rparr>)"
    and "d_groups (w_db w') = d_groups (w_db w) @
          [\<lparr>g_id = w_auto w ''channel_groups'', g_created_at = t, g_updated_at = None,
            g_community_id = w_auto w ''communities'', g_salt = salt, g_name = ''Text channels''\<rparr>]"
    and "d_channels (w_db w') = d_channels (w_db w) @
          [\<lparr>ch_id = w_auto w ''channels'', ch_created_at = t, ch_updated_at = None,
            ch_community_id = w_auto w ''communities'', ch_group_id = w_auto w ''channel_groups'',
            ch_salt = salt, ch_name = chit_chat, ch_handle = ''chit-chat''\<rparr>]"
    and "d_members (w_db w') = d_members (w_db w) @
          [\<lparr>cu_created_at = t, cu_community_id = w_auto w ''communities'',
            cu_selected_channel_id = w_auto w ''channels'', cu_user_id = u_id user,
            cu_permissions = ServerOwnerPermissions\<rparr>]"
proof -
  let ?f = "create_community_failed"
  obtain user input h salt t ci gi hi w1 w2 w3 w4 w5 w6 w7 w8 w9 w10 w11 where
    g: "create_community_guards E v b w = (Inr (user, input, h), w1)" and
    u: "(new_uuid E :: string go) w1 = (Inr salt, w2)" and
    t: "(time_now E :: nat go) w2 = (Inr t, w3)" and bt: "begin_tx E w3 = (Inr (), w4)" and
    i1: "tx_insert E \<lparr>st_table = ''communities'', st_holes = 8, st_args = 8\<rparr>
       (\<lambda>i. insert_community E
          \<lparr>c_id = i, c_created_at = t, c_updated_at = None,
           c_private = is_true (co_private input), c_self_hosted = False, c_owner_id = u_id user,
           c_salt = salt, c_name = co_name input, c_handle = h,
           c_fqn = h @ ''.'' @ env_getenv E ''EXOTIC_FQN'',
           c_railway_service_id = None, c_railway_deploy_status = None, c_cf_record_id = None,
           c_ready = False, c_permissions = default_permissions\<rparr>) w4 = (Inr (), w5)" and
    l1: "last_id E ?f w5 = (Inr ci, w6)" and
    i2: "tx_insert E \<lparr>st_table = ''channel_groups'', st_holes = 4, st_args = 4\<rparr>
       (\<lambda>i. insert_group \<lparr>g_id = i, g_created_at = t, g_updated_at = None,
          g_community_id = ci, g_salt = salt, g_name = ''Text channels''\<rparr>) w6 = (Inr (), w7)" and
    l2: "last_id E ?f w7 = (Inr gi, w8)" and
    i3: "tx_insert E \<lparr>st_table = ''channels'', st_holes = 6, st_args = 6\<rparr>
       (\<lambda>i. insert_channel E \<lparr>ch_id = i, ch_created_at = t, ch_updated_at = None,
          ch_community_id = ci, ch_group_id = gi, ch_salt = salt,
          ch_name = chit_chat, ch_handle = ''chit-chat''\<rparr>) w8 = (Inr (), w9)" and
    l3: "last_id E ?f w9 = (Inr hi, w10)" and
    i4: "tx_exec E \<lparr>st_table = ''communities_users'', st_holes = 12, st_args = 12\<rparr>
       (insert_member t ci (u_id user) (Some hi) (Some ServerOwnerPermissions)) w10 = (Inr (), w11)" and
    cm: "commit E w11 = (Inr (), w')"
    using assms unfolding CreateCommunity_def Let_def
    by (auto elim!: andThen_InrE dest!: on_err_quit_InrD ret_InrD encode_id_InrD)
  have last: "j = w_last_id x \<and> y = tick x" if "last_id E ?f x = (Inr j, y)" for j x y
    using that unfolding last_id_def by (auto dest!: on_err_quit_InrD tx_last_insert_id_InrD)
  have w4: "w_txs w4 = w_db w # w_txs w" "w_auto w4 = w_auto w"
    and gd: "v = Some user" "b = Some input" "h = lower E (co_handle input)"
      "create_community_checks E input = []"
    using create_community_guards_InrD [OF g] new_uuid_InrD [OF u] time_now_InrD [OF t]
      begin_tx_InrD [OF bt] by (auto simp: same_stores_def)
  let ?c = "w_auto w ''communities''" and ?g = "w_auto w ''channel_groups''"
    and ?h = "w_auto w ''channels''"
  obtain d1 where d1: "insert_community E
          \<lparr>c_id = ?c, c_created_at = t, c_updated_at = None,
           c_private = is_true (co_private input), c_self_hosted = False, c_owner_id = u_id user,
           c_salt = salt, c_name = co_name input, c_handle = h,
           c_fqn = h @ ''.'' @ env_getenv E ''EXOTIC_FQN'',
           c_railway_service_id = None, c_railway_deploy_status = None, c_cf_record_id = None,
           c_ready = False, c_permissions = default_permissions\<rparr> (w_db w) = Inr d1"
    and w6: "w_txs w6 = d1 # w_txs w" "w_auto w6 = (w_auto w)(''communities'' := Suc ?c)" "ci = ?c"
    using tx_insert_InrD [OF i1] last [OF l1] w4 by auto
  have d1': "d1 = (w_db w)\<lparr>d_communities := d_communities d1\<rparr>"
    using d1 by (auto simp: insert_community_def split: if_splits)
  obtain d2 where d2: "d2 = d1\<lparr>d_groups := d_groups d1 @ [\<lparr>g_id = ?g, g_created_at = t,
        g_updated_at = None, g_community_id = ?c, g_salt = salt, g_name = ''Text channels''\<rparr>]\<rparr>"
    and w8: "w_txs w8 = d2 # w_txs w" "w_auto w8 ''channels'' = ?h" "gi = ?g"
    using tx_insert_InrD [OF i2] last [OF l2] w6 by (auto simp: insert_group_def split: if_splits)
  obtain d3 where d3: "d3 = d2\<lparr>d_channels := d_channels d2 @ [\<lparr>ch_id = ?h, ch_created_at = t,
        ch_updated_at = None, ch_community_id = ?c, ch_group_id = ?g, ch_salt = salt,
        ch_name = chit_chat, ch_handle = ''chit-chat''\<rparr>]\<rparr>"
    and w10: "w_txs w10 = d3 # w_txs w" "hi = ?h"
    using tx_insert_InrD [OF i3] last [OF l3] w8 w6(3)
    by (auto simp: insert_channel_def split: if_splits)
  have w': "w_db w' = d3\<lparr>d_members := d_members d3 @ [\<lparr>cu_created_at = t, cu_community_id = ?c,
            cu_selected_channel_id = ?h, cu_user_id = u_id user,
            cu_permissions = ServerOwnerPermissions\<rparr>]\<rparr>"
    using tx_exec_InrD [OF i4] commit_InrD [OF cm] w10 w6(3) by (auto simp: insert_member_def)
  have "d_communities (w_db w') = d_communities d1" by (simp add: w' d3 d2)
  moreover have "d_groups d1 = d_groups (w_db w)" "d_channels d1 = d_channels (w_db w)"
    "d_members d1 = d_members (w_db w)"
    by (subst d1', simp)+
  ultimately show ?thesis
    using gd d1 d1' by (intro that [of user input t salt]) (auto simp: w' d3 d2)
qed

lemma EditCommunity_done:
  assumes "EditCommunity E v p b w = (Inr r, w')"
  obtains user input c t where "v = Some user" and "b = Some input"
    and "community_by_handle E (lower E (handle_param E p)) (w_db w) = Some c"
    and "may (u_id user) (c_id c) ManageCommunity w"
    and "w_db w' = (w_db w)\<lparr>d_communities := rows_update (\<lambda>x. c_id x = c_id c)
           (\<lambda>x. x\<lparr>c_updated_at := Some t, c_name := eo_name input\<rparr>) (d_communities (w_db w))\<rparr>"
    and "w_redis w' = w_redis w"
  using assms unfolding EditCommunity_def Let_def
  by (auto elim!: andThen_InrE dest!: done_dest
      simp: same_stores_def update_community_def split: if_splits intro: that)

text \<open>
  The members get what the roles and the old defaults give, and the answer shows the old
  defaults: the community is read again from outside the transaction.
\<close>

lemma EditCommunityDefaultPermissions_done:
  assumes "EditCommunityDefaultPermissions E v p b w = (Inr r, w')"
  obtains user input c c_old t where "v = Some user" and "b = Some input"
    and "community_by_handle E (handle_param E p) (w_db w) = Some c"
    and "may (u_id user) (c_id c) ManageCommunity w"
    and "community_by_id (c_id c) (w_db w) = Some c_old"
    and "w_db w' = recalculated c_old (member_ids (c_id c) (w_db w))
           ((w_db w)\<lparr>d_communities := rows_update (\<lambda>x. c_id x = c_id c)
              (\<lambda>x. x\<lparr>c_updated_at := Some t, c_permissions := dp_permissions input\<rparr>)
              (d_communities (w_db w))\<rparr>)"
    and "r = Resp 200 (JObj (Permissions_ToFiberMap (c_permissions c_old)))"
proof -
  obtain user input c c_old t ids w1 w2 w3 w4 w5 w6 w7 where
    adm: "admit E v b invalid_input (default_permissions_checks E) (handle_param E p)
        ManageCommunity w = (Inr (user, input, c), w1)" and
    tm: "(time_now E :: nat go) w1 = (Inr t, w2)" and bt: "begin_tx E w2 = (Inr (), w3)" and
    ex: "tx_exec E \<lparr>st_table = ''communities'', st_holes = 10, st_args = 10\<rparr>
       (update_defaults (c_id c) t (dp_permissions input)) w3 = (Inr (), w4)" and
    sel: "tx_select E \<lparr>st_table = ''communities_users'', st_holes = 1, st_args = 1\<rparr>
       (member_ids (c_id c)) w4 = (Inr ids, w5)" and
    old: "get_community_by_id E (c_id c) w5 = (Inr c_old, w6)" and
    rc: "RecalculateAndUpdatePermissionsForUsers E ids c_old w6 = (Inr (), w7)" and
    cm: "commit E w7 = (Inr (), w')" and
    r: "r = Resp 200 (JObj (Permissions_ToFiberMap (c_permissions c_old)))"
    using assms unfolding EditCommunityDefaultPermissions_def Let_def
    by (auto elim!: andThen_InrE dest!: on_err_quit_InrD ret_InrD)
  have w6: "w_txs w6 = (w_db w)\<lparr>d_communities := rows_update (\<lambda>x. c_id x = c_id c)
              (\<lambda>x. x\<lparr>c_updated_at := Some t, c_permissions := dp_permissions input\<rparr>)
              (d_communities (w_db w))\<rparr> # w_txs w"
    and ids: "ids = member_ids (c_id c) (w_db w)" and c_old: "community_by_id (c_id c) (w_db w) = Some c_old"
    using admit_InrD [OF adm] time_now_InrD [OF tm] begin_tx_InrD [OF bt]
      tx_exec_InrD [OF ex] tx_select_InrD [OF sel] old
    by (auto simp: same_stores_def update_defaults_def member_ids_def get_community_by_id_def
        dest!: db_get_InrD)
  show ?thesis
    using admit_InrD [OF adm] c_old r RecalculateForUsers_InrD [OF rc w6] commit_InrD [OF cm] ids
    by (intro that) auto
qed

lemma rand_string_InrD:
  "rand_string E n w = (Inr s, w') \<Longrightarrow>
   length s = n \<and> set s \<subseteq> set letterBytes \<and> w' = w\<lparr>w_tick := w_tick w'\<rparr>"
  using RandString_result by (fastforce simp: rand_string_def split: option.splits)

lemma CreateCommunityInvite_done:
  assumes "CreateCommunityInvite E v p b w = (Inr r, w')"
  obtains user input c code t now salt where "v = Some user" and "b = Some input"
    and "community_by_handle E (handle_param E p) (w_db w) = Some c"
    and "may (u_id user) (c_id c) CreateInvite w"
    and "length code = 10" and "set code \<subseteq> set letterBytes"
    and "\<forall>i \<in> set (d_invites (w_db w)). \<not> text_eq E (i_code i) code"
    and "w_db w' = (w_db w)\<lparr>d_invites := d_invites (w_db w) @
          [\<lparr>i_id = w_auto w ''community_invites'', i_created_at = t, i_updated_at = None,
           i_expires_at = now + thirty_one_days, i_expires_on_use = is_true (iv_expires_on_use input),
           i_salt = salt, i_code = code, i_user_id = u_id user, i_community_id = c_id c\<rparr>]\<rparr>"
    and "r = Resp 200 (JObj [(''code'', JStr code)])"
proof -
  obtain user input c code t now salt w1 w2 w3 w4 w5 w6 w7 where
    adm: "admit E v b invalid_input
       (\<lambda>f. check_present E ''ExpiresOnUse'' (iv_expires_on_use f)) (handle_param E p)
       CreateInvite w = (Inr (user, input, c), w1)" and
    bt: "begin_tx E w1 = (Inr (), w2)" and rs: "rand_string E 10 w2 = (Inr code, w3)" and
    t: "(time_now E :: nat go) w3 = (Inr t, w4)" "(time_now E :: nat go) w4 = (Inr now, w5)" and
    u: "(new_uuid E :: string go) w5 = (Inr salt, w6)" and
    ins: "tx_insert E \<lparr>st_table = ''community_invites'', st_holes = 7, st_args = 7\<rparr>
       (\<lambda>i. insert_invite E
          \<lparr>i_id = i, i_created_at = t, i_updated_at = None,
           i_expires_at = now + thirty_one_days, i_expires_on_use = is_true (iv_expires_on_use input),
           i_salt = salt, i_code = code, i_user_id = u_id user,
           i_community_id = c_id c\<rparr>) w6 = (Inr (), w7)" and
    cm: "commit E w7 = (Inr (), w')" and r: "r = Resp 200 (JObj [(''code'', JStr code)])"
    using assms unfolding CreateCommunityInvite_def Let_def
    by (auto elim!: andThen_InrE dest!: on_err_quit_InrD ret_InrD)
  note st = rand_string_InrD [OF rs] time_now_InrD [OF t(1)] time_now_InrD [OF t(2)]
    new_uuid_InrD [OF u]
  have w6: "w_txs w6 = w_db w # w_txs w" "w_auto w6 = w_auto w"
    using admit_InrD [OF adm] begin_tx_InrD [OF bt] st
    by (auto simp: same_stores_def) (metis tick_simps(2,3) world.select_convs world.surjective world.update_convs(6) world.update_convs(2))+
  show ?thesis
    using admit_InrD [OF adm] r st tx_insert_InrD [OF ins] commit_InrD [OF cm] w6
    by (intro that [of user input c code t now salt]) (auto simp: insert_invite_def split: if_splits)
qed

text \<open>Only the owner deletes a community.\<close>

lemma DeleteCommunity_denied:
  assumes "\<not> owns E v (handle_param E p) w" and "run (DeleteCommunity E v p) w = (r, w')"
  shows "is_error r"
proof (rule ccontr)
  assume "\<not> is_error r"
  with assms(2) show False
    by (elim DeleteCommunity_done [rotated]) (use assms(1) in \<open>auto simp: owns_def\<close>)
qed

interpretation delete_community: guarded_endpoint
  "\<lambda>q. run (case q of (E, v, p) \<Rightarrow> DeleteCommunity E v p)" "\<lambda>q. True"
  "\<lambda>q w. case q of (E, v, p) \<Rightarrow> owns E v (handle_param E p) w"
  by (intro guarded_endpoint.intro guarded_endpoint_axioms.intro endpointI)
    (auto intro: sound_DeleteCommunity answers_community_handlers dest: DeleteCommunity_denied)

end
