(* ===== verification/Messages.thy ===== *)
theory Messages
  imports Communities "HOL-Library.AList"
begin

text \<open>
  Messages: \<^verbatim>\<open>handlers/create_message.go\<close>, \<^verbatim>\<open>edit_message.go\<close> and
  \<^verbatim>\<open>react_to_message.go\<close>. Multipart forms arrive parsed; the clients of Cloudflare and
  of the bucket are parameters of the environment.
\<close>

section \<open>Statements\<close>

text \<open>\<^verbatim>\<open>text VARCHAR(2000)\<close>.\<close>

definition text_too_long :: "string \<Rightarrow> bool" where
  "text_too_long s \<longleftrightarrow> 2000 < rune_count s"

definition insert_message :: "messages_row \<Rightarrow> database \<Rightarrow> db_err + database" where
  "insert_message r d =
     (if text_too_long (m_text r) then Inl ErrTooLong
      else Inr (d\<lparr>d_messages := d_messages d @ [r]\<rparr>))"

definition merge_message :: "nat \<Rightarrow> string \<Rightarrow> nat \<Rightarrow> database \<Rightarrow> db_err + database" where
  "merge_message i text updatedAt d =
     (if (\<exists>m \<in> set (d_messages d). m_id m = i) \<and> text_too_long text then Inl ErrTooLong
      else Inr (d\<lparr>d_messages := rows_update (\<lambda>m. m_id m = i)
             (\<lambda>m. m\<lparr>m_text := text, m_created_at := updatedAt, m_updated_at := Some updatedAt\<rparr>)
             (d_messages d)\<rparr>))"

definition update_message :: "nat \<Rightarrow> string \<Rightarrow> nat \<Rightarrow> database \<Rightarrow> db_err + database" where
  "update_message i text updatedAt d =
     (if (\<exists>m \<in> set (d_messages d). m_id m = i) \<and> text_too_long text then Inl ErrTooLong
      else Inr (d\<lparr>d_messages := rows_update (\<lambda>m. m_id m = i)
             (\<lambda>m. m\<lparr>m_text := text, m_updated_at := Some updatedAt, m_edited := True\<rparr>)
             (d_messages d)\<rparr>))"

text \<open>\<^verbatim>\<open>files.message_id\<close> is a signed column, and \<^verbatim>\<open>object_salt\<close> is unique.\<close>

definition max_int64 :: nat where
  "max_int64 = 2 ^ 63 - 1"

definition insert_file :: "env \<Rightarrow> files_row \<Rightarrow> database \<Rightarrow> db_err + database" where
  "insert_file E r d =
     (if list_ex too_long ([f_salt r, f_file_name r] @ map null_string [f_mime_type r,
           f_cf_images_id r, f_cf_video_stream_uid r, f_cf_video_stream_thumbnail r, f_cf_r2_id r])
      then Inl ErrTooLong
      else if (case f_message_id r of None \<Rightarrow> False | Some i \<Rightarrow> max_int64 < i) then Inl ErrOutOfRange
      else if \<exists>f \<in> set (d_files d). text_eq E (f_salt f) (f_salt r) then Inl ErrDuplicate
      else Inr (d\<lparr>d_files := d_files d @ [r]\<rparr>))"

definition message_by_id :: "nat \<Rightarrow> database \<Rightarrow> messages_row option" where
  "message_by_id i d = find (\<lambda>m. m_id m = i) (d_messages d)"

definition message_in :: "nat \<Rightarrow> nat \<Rightarrow> database \<Rightarrow> messages_row option" where
  "message_in i c d = find (\<lambda>m. m_id m = i \<and> m_community_id m = c) (d_messages d)"

definition own_message :: "nat \<Rightarrow> nat \<Rightarrow> nat \<Rightarrow> database \<Rightarrow> messages_row option" where
  "own_message i u c d =
     find (\<lambda>m. m_id m = i \<and> m_user_id m = u \<and> m_community_id m = c) (d_messages d)"

definition channel_in :: "nat \<Rightarrow> nat \<Rightarrow> database \<Rightarrow> channels_row option" where
  "channel_in i c d = find (\<lambda>r. ch_id r = i \<and> ch_community_id r = c) (d_channels d)"

text \<open>\<^verbatim>\<open>ORDER BY id DESC LIMIT 1\<close> and \<^verbatim>\<open>ORDER BY priority ASC LIMIT 1\<close>.\<close>

definition last_message :: "nat \<Rightarrow> database \<Rightarrow> messages_row option" where
  "last_message ch d =
     (case rev (sort_key m_id (filter (\<lambda>m. m_channel_id m = ch) (d_messages d))) of
        [] \<Rightarrow> None | m # _ \<Rightarrow> Some m)"

definition first_role :: "nat list \<Rightarrow> database \<Rightarrow> community_roles_row option" where
  "first_role ids d =
     (case sort_key r_priority (filter (\<lambda>r. r_id r \<in> set ids) (d_roles d)) of
        [] \<Rightarrow> None | r # _ \<Rightarrow> Some r)"

definition count_files :: "nat \<Rightarrow> nat \<Rightarrow> database \<Rightarrow> nat" where
  "count_files m u d = length (filter (\<lambda>f. f_message_id f = Some m \<and> f_user_id f = u) (d_files d))"

definition files_of :: "nat \<Rightarrow> database \<Rightarrow> files_row list" where
  "files_of m d = filter (\<lambda>f. f_message_id f = Some m) (d_files d)"

definition get_message :: "env \<Rightarrow> nat \<Rightarrow> messages_row call" where
  "get_message E i = db_get E \<lparr>st_table = ''messages'', st_holes = 1, st_args = 1\<rparr> (message_by_id i)"

definition zero_message :: messages_row where
  "zero_message = \<lparr>m_id = 0, m_created_at = 0, m_updated_at = None, m_text = [], m_salt = [],
     m_user_id = 0, m_channel_id = 0, m_community_id = 0, m_edited = False, m_parent_id = 0\<rparr>"

lemma moves_get_message [shapes]: "moves s s s (get_message E i)"
  by (simp add: get_message_def shapes)

section \<open>Sending a message\<close>

record file_part =
  fp_filename :: string
  fp_content_types :: "string list"
  fp_size :: nat

record message_form =
  mf_channel_id :: "string list"
  mf_text :: "string list"
  mf_parent_id :: "string list"
  mf_files :: "file_part list"

record message_request =
  mq_user :: users_row
  mq_text :: string
  mq_parent :: "string option"
  mq_files :: "file_part list"
  mq_community :: communities_row
  mq_channel :: channels_row

text \<open>The rules written on the input struct are not run: only the presence of the values is.\<close>

definition create_message_guards ::
  "env \<Rightarrow> users_row option \<Rightarrow> string \<Rightarrow> message_form option \<Rightarrow> message_request go" where
  "create_message_guards E viewer p body =
     andThen (need_viewer viewer) (\<lambda>user.
     andThen (ensure (env_cloudflare E) (quit not_allowed)) (\<lambda>_.
     andThen (of_option body (quit (message_error 200 ''Invalid input.''))) (\<lambda>form.
     andThen (ensure (mf_channel_id form \<noteq> [] \<and> mf_text form \<noteq> [])
       (quit (message_error 200 ''Invalid input.''))) (\<lambda>_.
     andThen (ensure (length (mf_files form) \<le> 5)
       (quit (message_error 200 ''To many files.''))) (\<lambda>_.
     andThen (on_err (get_community E (handle_param E p)) (\<lambda>_. quit not_found)) (\<lambda>community.
     andThen (need_permission E not_allowed (u_id user) (c_id community) SendMessages) (\<lambda>_.
     andThen (decode_id E (hd (mf_channel_id form))) (\<lambda>(channelId, channelOk).
     andThen (ensure (channelId \<noteq> 0 \<and> channelOk = CHANNELS_TYPE) (quit not_found)) (\<lambda>_.
     andThen (on_err (db_get E \<lparr>st_table = ''channels'', st_holes = 2, st_args = 2\<rparr>
       (channel_in channelId (c_id community))) (\<lambda>_. quit not_found)) (\<lambda>channel.
     ret \<lparr>mq_user = user, mq_text = hd (mf_text form),
          mq_parent = (case mf_parent_id form of [] \<Rightarrow> None | x # _ \<Rightarrow> Some x),
          mq_files = mf_files form, mq_community = community, mq_channel = channel\<rparr>))))))))))"

definition cant_create_message :: response where
  "cant_create_message = message_error 200 ''Unable to create message.''"

definition parent_of :: "env \<Rightarrow> message_request \<Rightarrow> nat go" where
  "parent_of E q =
     (case mq_parent q of
        None \<Rightarrow> ret 0
      | Some s \<Rightarrow>
          andThen (decode_id E s) (\<lambda>(pId, parentOk).
          andThen (ensure (pId \<noteq> 0 \<and> parentOk = MESSAGES_TYPE) (rolling_back not_found)) (\<lambda>_.
          andThen (on_err (tx_get E \<lparr>st_table = ''messages'', st_holes = 2, st_args = 2\<rparr>
            (message_in pId (c_id (mq_community q)))) (\<lambda>_. rolling_back cant_create_message)) (\<lambda>_.
          ret pId))))"

text \<open>
  The errors of the two reads are dropped: the message stays zero, the count stays 0. A
  message without files by the author of the last message of the channel is appended to it.
\<close>

definition last_in_channel :: "env \<Rightarrow> message_request \<Rightarrow> messages_row go" where
  "last_in_channel E q =
     andThen (attempt (tx_get E \<lparr>st_table = ''messages'', st_holes = 1, st_args = 1\<rparr>
       (last_message (ch_id (mq_channel q))))) (\<lambda>m.
     ret (case m of Inl _ \<Rightarrow> zero_message | Inr m \<Rightarrow> m))"

definition files_before :: "env \<Rightarrow> message_request \<Rightarrow> messages_row \<Rightarrow> nat go" where
  "files_before E q m =
     andThen (attempt (tx_get E \<lparr>st_table = ''files'', st_holes = 2, st_args = 2\<rparr>
       (\<lambda>d. Some (count_files (m_id m) (u_id (mq_user q)) d)))) (\<lambda>n.
     ret (case n of Inl _ \<Rightarrow> 0 | Inr n \<Rightarrow> n))"

definition newline :: string where
  "newline = [byte 10]"

definition place_message :: "env \<Rightarrow> message_request \<Rightarrow> string \<Rightarrow> nat \<Rightarrow> nat \<Rightarrow> nat go" where
  "place_message E q salt createdAt parentId =
     andThen (last_in_channel E q) (\<lambda>message.
     andThen (files_before E q message) (\<lambda>prevCount.
     if m_user_id message = u_id (mq_user q) \<and> parentId = 0 \<and> mq_files q = [] \<and> prevCount = 0
     then
       andThen (time_now E) (\<lambda>updatedAt.
       andThen (on_err (tx_exec E \<lparr>st_table = ''messages'', st_holes = 4, st_args = 4\<rparr>
         (merge_message (m_id message) (m_text message @ newline @ mq_text q) updatedAt))
         (\<lambda>_. rolling_back cant_create_message)) (\<lambda>_.
       ret (m_id message)))
     else
       andThen (on_err (tx_insert E \<lparr>st_table = ''messages'', st_holes = 7, st_args = 7\<rparr>
         (\<lambda>i. insert_message \<lparr>m_id = i, m_created_at = createdAt, m_updated_at = None,
            m_text = mq_text q, m_salt = salt, m_user_id = u_id (mq_user q),
            m_channel_id = ch_id (mq_channel q), m_community_id = c_id (mq_community q),
            m_edited = False, m_parent_id = parentId\<rparr>))
         (\<lambda>_. rolling_back cant_create_message)) (\<lambda>_.
       on_err (tx_last_insert_id E) (\<lambda>_. rolling_back cant_create_message))))"

text \<open>\<^verbatim>\<open>filepath.Ext\<close>: from the last dot of the last element of the path.\<close>

definition file_ext :: "string \<Rightarrow> string" where
  "file_ext s =
     (let r = rev s; e = takeWhile (\<lambda>c. c \<noteq> CHR ''.'' \<and> c \<noteq> slash) r in
      case drop (length e) r of
        [] \<Rightarrow> [] | c # _ \<Rightarrow> if c = slash then [] else CHR ''.'' # rev e)"

definition file_io :: "env \<Rightarrow> unit go \<Rightarrow> unit go" where
  "file_io E h w = (if env_file_io E (w_tick w) then (Inr (), tick w) else h (tick w))"

definition from_cloud :: "(nat \<Rightarrow> 'a) \<Rightarrow> ('e, 'a) prog" where
  "from_cloud f w = (Inr (f (w_tick w)), tick w)"

text \<open>
  One file of the form. Closing an image that could not be opened calls a method of a
  \<^verbatim>\<open>nil\<close> interface: the handler panics with its transaction open. The comparisons
  \<^verbatim>\<open>err != err\<close> are never true, so that a failed upload is stored with the id it returned.
\<close>

definition file_row :: "message_request \<Rightarrow> nat \<Rightarrow> string \<Rightarrow> nat \<Rightarrow> file_part \<Rightarrow> string \<Rightarrow> nat \<Rightarrow> files_row" where
  "file_row q messageId filename createdAt f contentType i =
     \<lparr>f_id = i, f_created_at = createdAt, f_salt = filename, f_file_name = fp_filename f,
      f_user_id = u_id (mq_user q), f_content_size = fp_size f, f_message_id = Some messageId,
      f_mime_type = Some contentType, f_cf_images_id = None, f_cf_video_stream_uid = None,
      f_cf_video_stream_thumbnail = None, f_cf_r2_id = None\<rparr>"

definition could_not_upload :: response where
  "could_not_upload = message_error 200 ''Couldn't upload file.''"

definition store_image :: "env \<Rightarrow> string \<Rightarrow> (nat \<Rightarrow> files_row) \<Rightarrow> unit go" where
  "store_image E filename row =
     andThen (file_io E (quit Panic)) (\<lambda>_.
     andThen (from_cloud (\<lambda>n. env_image_id E n filename)) (\<lambda>img.
     on_err (tx_insert E \<lparr>st_table = ''files'', st_holes = 8, st_args = 8\<rparr>
       (\<lambda>i. insert_file E ((row i)\<lparr>f_cf_images_id := Some img\<rparr>)))
       (\<lambda>_. rolling_back (message_error 200 ''Invalid input.''))))"

definition store_video :: "env \<Rightarrow> string \<Rightarrow> (nat \<Rightarrow> files_row) \<Rightarrow> unit go" where
  "store_video E filename row =
     andThen (file_io E (rolling_back could_not_upload)) (\<lambda>_.
     andThen (from_cloud (\<lambda>n. env_video E n filename)) (\<lambda>(uid, thumbnail).
     on_err (tx_insert E \<lparr>st_table = ''files'', st_holes = 9, st_args = 9\<rparr>
       (\<lambda>i. insert_file E ((row i)\<lparr>f_cf_video_stream_uid := Some uid,
          f_cf_video_stream_thumbnail := Some thumbnail\<rparr>)))
       (\<lambda>_. rolling_back (message_error 200 ''Invalid input.''))))"

definition store_other :: "env \<Rightarrow> string \<Rightarrow> (nat \<Rightarrow> files_row) \<Rightarrow> unit go" where
  "store_other E filename row =
     andThen (file_io E (rolling_back could_not_upload)) (\<lambda>_.
     andThen (from_cloud (\<lambda>n. env_r2_key E n filename)) (\<lambda>result.
     andThen (of_option result (rolling_back could_not_upload)) (\<lambda>key.
     on_err (tx_insert E \<lparr>st_table = ''files'', st_holes = 8, st_args = 8\<rparr>
       (\<lambda>i. insert_file E ((row i)\<lparr>f_cf_r2_id := Some key\<rparr>)))
       (\<lambda>_. rolling_back (message_error 200 ''Invalid input.'')))))"

definition store_file :: "env \<Rightarrow> message_request \<Rightarrow> nat \<Rightarrow> file_part \<Rightarrow> unit go" where
  "store_file E q messageId f =
     (let bad_type = message_error 200 ''Not an allowed type.'' in
     andThen (new_uuid E) (\<lambda>salt.
     let filename = salt @ file_ext (fp_filename f) in
     andThen (time_now E) (\<lambda>createdAt.
     andThen (ensure (fp_content_types f \<noteq> []) (rolling_back bad_type)) (\<lambda>_.
     let contentType = hd (fp_content_types f) in
     andThen (ensure (contentType \<noteq> []) (rolling_back bad_type)) (\<lambda>_.
     let row = file_row q messageId filename createdAt f contentType in
     if contains contentType ''image'' then store_image E filename row
     else if contains contentType ''video'' then store_video E filename row
     else store_other E filename row)))))"

definition create_message_tx :: "env \<Rightarrow> message_request \<Rightarrow> nat go" where
  "create_message_tx E q =
     andThen (new_uuid E) (\<lambda>salt.
     andThen (time_now E) (\<lambda>createdAt.
     andThen (on_err (begin_tx E) (\<lambda>_. quit cant_create_message)) (\<lambda>_.
     andThen (parent_of E q) (\<lambda>parentId.
     andThen (place_message E q salt createdAt parentId) (\<lambda>messageId.
     andThen (for_each (mq_files q) (store_file E q messageId)) (\<lambda>_.
     andThen (on_err (commit E) (\<lambda>_. quit cant_create_message)) (\<lambda>_.
     ret messageId)))))))"

text \<open>
  The answer is built after the commit: a read that fails here is answered with
  \<^verbatim>\<open>Not found\<close> although the message was sent.
\<close>

definition short_user :: "env \<Rightarrow> users_row \<Rightarrow> (string \<times> json) list" where
  "short_user E u =
     [(''name'', JStr (null_string (u_name u))), (''handle'', JStr (null_string (u_handle u))),
      (''avatar_url'', json_opt (avatar_url E u))]"

definition powerful_role :: "env \<Rightarrow> nat list \<Rightarrow> (string \<times> json) list go" where
  "powerful_role E cids =
     (if cids = [] then ret []
      else
        andThen (on_err (db_get E \<lparr>st_table = ''community_roles'', st_holes = length cids,
          st_args = length cids\<rparr> (first_role cids)) (\<lambda>_. quit not_found)) (\<lambda>role.
        ret [(''powerful_role'',
          JObj [(''name'', JStr (r_name role)), (''color'', JStr (r_color role))])]))"

definition show_parent :: "env \<Rightarrow> nat \<Rightarrow> (string \<times> json) list go" where
  "show_parent E parentId =
     (if parentId = 0 then ret []
      else
        andThen (on_err (get_message E parentId) (\<lambda>_. quit not_found)) (\<lambda>pMessage.
        andThen (attempt (get_user_by_id E (m_user_id pMessage))) (\<lambda>pUser.
        let pUser = (case pUser of Inl _ \<Rightarrow> GHOST_USER 0 | Inr u \<Rightarrow> u) in
        andThen (encode_id E (m_id pMessage) MESSAGES_TYPE (m_salt pMessage)) (\<lambda>i.
        ret [(''parent'', JObj
          [(''id'', JStr i), (''created_at'', JStr (env_rfc3339 E (m_created_at pMessage))),
           (''text'', JStr (m_text pMessage)), (''edited'', JBool (m_edited pMessage)),
           (''user'', JObj (short_user E pUser))])]))))"

definition show_files :: "env \<Rightarrow> files_row list \<Rightarrow> (string \<times> json) list go" where
  "show_files E fs =
     (if fs = [] then ret []
      else
        andThen (of_outcome (outcomes (map (Files_ToFiberMap E) fs))) (\<lambda>mfs.
        ret [(''files'', JArr mfs)]))"

definition show_new_message :: "env \<Rightarrow> message_request \<Rightarrow> nat \<Rightarrow> json go" where
  "show_new_message E q messageId =
     andThen (on_err (get_message E messageId) (\<lambda>_. quit not_found)) (\<lambda>newMessage.
     andThen (on_err (db_select E \<lparr>st_table = ''community_roles_users'', st_holes = 2, st_args = 2\<rparr>
       (role_ids_of (c_id (mq_community q)) (u_id (mq_user q)))) (\<lambda>_. quit not_found)) (\<lambda>cids.
     andThen (powerful_role E cids) (\<lambda>role.
     andThen (encode_id E messageId MESSAGES_TYPE (m_salt newMessage)) (\<lambda>i.
     andThen (on_err (db_select E \<lparr>st_table = ''files'', st_holes = 1, st_args = 1\<rparr>
       (files_of messageId)) (\<lambda>_. quit not_found)) (\<lambda>mfiles.
     andThen (show_files E mfiles) (\<lambda>files.
     andThen (show_parent E (m_parent_id newMessage)) (\<lambda>parent.
     ret (JObj ([(''id'', JStr i), (''created_at'', JStr (env_rfc3339 E (m_created_at newMessage))),
       (''text'', JStr (m_text newMessage)), (''edited'', JBool (m_edited newMessage)),
       (''user'', JObj (short_user E (mq_user q) @ role))] @
       (case m_updated_at newMessage of None \<Rightarrow> [] | Some t \<Rightarrow> [(''updated_at'', JStr (env_rfc3339 E t))])
       @ files @ parent)))))))))"

definition answer_message :: "env \<Rightarrow> message_request \<Rightarrow> nat \<Rightarrow> response go" where
  "answer_message E q messageId =
     andThen (spawn (JobRedisStamp (user_channel_key (u_id (mq_user q)) (ch_id (mq_channel q))))) (\<lambda>_.
     andThen (show_new_message E q messageId) (\<lambda>mappedMessage.
     andThen (encode_id E (ch_id (mq_channel q)) CHANNELS_TYPE (ch_salt (mq_channel q))) (\<lambda>topic.
     andThen (spawn (JobBroadcast topic mappedMessage)) (\<lambda>_.
     ret (Resp 200 mappedMessage)))))"

definition CreateMessage ::
  "env \<Rightarrow> users_row option \<Rightarrow> string \<Rightarrow> message_form option \<Rightarrow> response go" where
  "CreateMessage E viewer p body =
     andThen (create_message_guards E viewer p body) (\<lambda>q.
     andThen (create_message_tx E q) (\<lambda>messageId.
     answer_message E q messageId))"

section \<open>Editing a message\<close>

record edit_message_input =
  em_message_id :: string
  em_text :: string

definition edit_message_checks :: "env \<Rightarrow> edit_message_input \<Rightarrow> json list" where
  "edit_message_checks E input =
     check_string E ''MessageID'' [VRequired, VGte 3, VLte 255] (em_message_id input) @
     check_string E ''Text'' [VRequired, VLte 2000] (em_text input)"

text \<open>
  Without a viewer the status is 401, without the permission 200. The branch for a wrong id
  logs \<^verbatim>\<open>err.Error()\<close> on a \<^verbatim>\<open>nil\<close> error and panics.
\<close>

abbreviation refused :: response where
  "refused \<equiv> message_error 200 ''Not allowed.''"

definition need_message :: "env \<Rightarrow> string \<Rightarrow> nat go" where
  "need_message E s =
     andThen (decode_id E s) (\<lambda>(messageId, messageOk).
     andThen (ensure (messageId \<noteq> 0 \<and> messageOk = MESSAGES_TYPE) (quit Panic)) (\<lambda>_.
     ret messageId))"

definition EditMessage ::
  "env \<Rightarrow> users_row option \<Rightarrow> string \<Rightarrow> edit_message_input option \<Rightarrow> response go" where
  "EditMessage E viewer p body =
     (let failed = message_error 200 ''Unable to edit message.'' in
     andThen (need_viewer viewer) (\<lambda>_.
     andThen (admit_with refused not_found E viewer body invalid_input (edit_message_checks E)
       (handle_param E p) SendMessages) (\<lambda>(user, input, community).
     andThen (need_message E (em_message_id input)) (\<lambda>messageId.
     andThen (on_err (db_get E \<lparr>st_table = ''messages'', st_holes = 3, st_args = 3\<rparr>
       (own_message messageId (u_id user) (c_id community))) (\<lambda>_. quit not_found)) (\<lambda>message.
     andThen (on_err (begin_tx E) (\<lambda>_. quit failed)) (\<lambda>_.
     andThen (time_now E) (\<lambda>updatedAt.
     andThen (on_err (tx_exec E \<lparr>st_table = ''messages'', st_holes = 4, st_args = 4\<rparr>
       (update_message messageId (em_text input) updatedAt)) (\<lambda>_. rolling_back failed)) (\<lambda>_.
     andThen (on_err (commit E) (\<lambda>_. quit failed)) (\<lambda>_.
     ret (Resp 200 (JObj [(''id'', JStr (em_message_id input)),
       (''created_at'', JStr (env_rfc3339 E (m_created_at message))),
       (''update_at'', JStr (env_rfc3339 E updatedAt)), (''text'', JStr (em_text input)),
       (''edited'', JBool True)])))))))))))"

section \<open>Reacting\<close>

record react_input =
  rm_message_id :: string
  rm_reaction :: string

definition react_checks :: "env \<Rightarrow> react_input \<Rightarrow> json list" where
  "react_checks E input =
     check_string E ''MessageID'' [VRequired, VGte 3, VLte 255] (rm_message_id input) @
     check_string E ''Reaction'' [VRequired, VLte 255] (rm_reaction input)"

text \<open>The loop keeps the last index of the user.\<close>

definition reaction_index :: "nat \<Rightarrow> reaction_user list \<Rightarrow> nat option" where
  "reaction_index u r =
     fold (\<lambda>(i, ru) idx. if rx_user_id ru = u then Some i else idx) (enumerate 0 r) None"

definition toggle_user :: "users_row \<Rightarrow> reaction_user list option \<Rightarrow> reaction_user list outcome" where
  "toggle_user user r =
     (let me = \<lparr>rx_user_id = u_id user, rx_user_handle = null_string (u_handle user)\<rparr> in
      case r of
        None \<Rightarrow> Returned [me]
      | Some r \<Rightarrow>
          (case reaction_index (u_id user) r of
             None \<Rightarrow> Returned (r @ [me])
           | Some idx \<Rightarrow> RemoveReactionUser r idx))"

definition put_reaction :: "string \<Rightarrow> reaction_user list \<Rightarrow> reactions \<Rightarrow> reactions" where
  "put_reaction k r rs = (if r \<noteq> [] then AList.update k r rs else AList.delete k rs)"

text \<open>
  A Redis error other than a missing key reads as no reactions as well. A value that is not
  a set of reactions leaves the \<^verbatim>\<open>nil\<close> map, and writing to it panics.
\<close>

definition read_reactions :: "(db_err + rval) \<Rightarrow> reactions outcome" where
  "read_reactions v =
     (case v of Inl _ \<Rightarrow> Returned [] | Inr (RReactions m) \<Rightarrow> Returned (mr_reactions m)
      | Inr _ \<Rightarrow> Panicked)"

definition ReactToMessage ::
  "env \<Rightarrow> users_row option \<Rightarrow> string \<Rightarrow> react_input option \<Rightarrow> response go" where
  "ReactToMessage E viewer p body =
     andThen (need_viewer viewer) (\<lambda>_.
     andThen (admit_with refused not_found E viewer body invalid_input (react_checks E)
       (handle_param E p) SendMessages) (\<lambda>(user, input, community).
     andThen (need_message E (rm_message_id input)) (\<lambda>messageId.
     andThen (on_err (db_get E \<lparr>st_table = ''messages'', st_holes = 2, st_args = 2\<rparr>
       (message_in messageId (c_id community))) (\<lambda>_. quit not_found)) (\<lambda>message.
     andThen (attempt (redis_get E (reactions_key messageId))) (\<lambda>val.
     andThen (of_outcome (read_reactions val)) (\<lambda>rs.
     andThen (of_outcome (toggle_user user (map_of rs (rm_reaction input)))) (\<lambda>r.
     andThen (spawn (JobRedisSet (reactions_key messageId)
       (RReactions \<lparr>mr_message_id = messageId, mr_reactions = put_reaction (rm_reaction input) r rs\<rparr>)
       None)) (\<lambda>_.
     ret (Resp 200 (JObj [(''updated'', JBool True)]))))))))))"

section \<open>Contracts\<close>

lemma message_responses_are_errors [simp]: "is_error cant_create_message" "is_error could_not_upload"
  by (simp_all add: cant_create_message_def could_not_upload_def)

lemma sound_of_outcome_idle: "sound Idle Idle (of_outcome x)"
  by (simp add: of_outcome_def sound_quit sound_ret split: outcome.split)

lemma sound_need_message: "aes_configured (env_aes E) \<Longrightarrow> sound Idle Idle (need_message E s)"
  unfolding need_message_def by (rule sound_intro sound_ids | assumption)+

lemma sound_EditMessage:
  assumes "aes_configured (env_aes E)"
  shows "sound Idle Done (EditMessage E v p b)"
  unfolding EditMessage_def Let_def
  by (rule sound_intro sound_need_message shapes assms)+

lemma sound_ReactToMessage:
  assumes "aes_configured (env_aes E)"
  shows "sound Idle Idle (ReactToMessage E v p b)"
  unfolding ReactToMessage_def
  by (rule sound_intro sound_need_message sound_of_outcome_idle shapes assms)+

lemma answers_messages:
  "answers (EditMessage E v p b1)" "answers (ReactToMessage E v p b2)"
  unfolding EditMessage_def ReactToMessage_def Let_def case_prod_beta
  by (intro answers_andThen answers_rules; simp add: json_field_def)+

text \<open>A handler that checks the viewer once more before its guarded part.\<close>

lemma viewer_admit_denied:
  assumes "\<not> permitted E v h k w" and "list_all is_error [na, nf, bad]"
    and "run (andThen (need_viewer v) (\<lambda>_. andThen (admit_with na nf E v body bad checks h k) f)) w = (r, w')"
  shows "is_error r"
proof (cases v)
  case None
  with assms(3) show ?thesis
    by (auto simp: need_viewer_def of_option_def quit_def andThen_def run_def)
next
  case (Some u)
  with assms(3) have "run (andThen (admit_with na nf E v body bad checks h k) f) w = (r, w')"
    by (simp add: need_viewer_def of_option_def)
  with assms(1,2) show ?thesis by (rule admit_denied)
qed

lemma viewer_guarded_handlerI:
  assumes "\<And>E v p b. H E v p b = andThen (need_viewer v) (\<lambda>_.
      andThen (admit_with na nf E v b bad (checks E) (hdl E p) k) (f E v p b))"
    and "\<And>E v p b. aes_configured (env_aes E) \<Longrightarrow> sound Idle Done (H E v p b)"
    and "\<And>E v p b. answers (H E v p b)"
    and "list_all is_error [na, nf, bad]"
  shows "guarded_endpoint (\<lambda>q. run (case q of (E, v, p, b) \<Rightarrow> H E v p b))
     (\<lambda>q. aes_configured (env_aes (fst q)))
     (\<lambda>q w. case q of (E, v, p, b) \<Rightarrow> permitted E v (hdl E p) k w)"
  by (intro guarded_endpoint.intro guarded_endpoint_axioms.intro endpointI)
     (use assms(2,3) in auto, use assms(1,4) in \<open>auto dest: viewer_admit_denied\<close>)

interpretation edit_message: guarded_endpoint
  "\<lambda>q. run (case q of (E, v, p, b) \<Rightarrow> EditMessage E v p b)" "\<lambda>q. aes_configured (env_aes (fst q))"
  "\<lambda>q w. case q of (E, v, p, b) \<Rightarrow> permitted E v (handle_param E p) SendMessages w"
  by (rule viewer_guarded_handlerI, unfold EditMessage_def Let_def, rule refl,
      fold EditMessage_def [unfolded Let_def])
    (simp_all add: sound_EditMessage answers_messages)

interpretation react: guarded_endpoint
  "\<lambda>q. run (case q of (E, v, p, b) \<Rightarrow> ReactToMessage E v p b)" "\<lambda>q. aes_configured (env_aes (fst q))"
  "\<lambda>q w. case q of (E, v, p, b) \<Rightarrow> permitted E v (handle_param E p) SendMessages w"
  by (rule viewer_guarded_handlerI, unfold ReactToMessage_def, rule refl, fold ReactToMessage_def)
    (simp_all add: sound_ReactToMessage sound_Idle_Done answers_messages)

text \<open>
  Sending a message ends its transaction, unless a file of the form cannot be opened: then
  it panics in the middle. An answer that is an error does not tell that nothing was sent.
\<close>

lemma sound_create_message_guards [sound_intro]:
  "aes_configured (env_aes E) \<Longrightarrow> sound Idle Idle (create_message_guards E v p b)"
  unfolding create_message_guards_def by (rule sound_intro sound_ids shapes | assumption)+

lemma moves_file_io:
  "(\<And>n. env_file_io E n) \<Longrightarrow> sound Busy Busy (file_io E h)"
  by (simp add: sound_def file_io_def)

lemma sound_from_cloud [sound_intro]: "sound s s (from_cloud f)"
  by (simp add: sound_def from_cloud_def)

lemma sound_store_file:
  assumes "\<And>n. env_file_io E n"
  shows "sound Busy Busy (store_file E q i f)"
  unfolding store_file_def store_image_def store_video_def store_other_def Let_def case_prod_beta
  by (rule sound_intro moves_file_io shapes assms)+

lemma sound_create_message_tx:
  assumes "aes_configured (env_aes E)" and "\<And>n. env_file_io E n"
  shows "sound Idle Done (create_message_tx E q)"
  unfolding create_message_tx_def parent_of_def place_message_def last_in_channel_def files_before_def
  by (rule sound_intro sound_ids sound_store_file shapes assms)+

lemma moves_from_sound: "sound s t m \<Longrightarrow> moves s Done t m"
  by (rule movesI, drule (1) soundD, erule wp_mono) (auto simp: atomic_post_def)

lemma moves_ids [shapes]: "moves s s s (encode_id E i ty salt)" "moves s s s (decode_id E x)"
  unfolding encode_id_def decode_id_def by (rule shapes)+

lemma moves_show_new_message [shapes]: "moves Done Done Done (show_new_message E q i)"
  unfolding show_new_message_def powerful_role_def show_files_def show_parent_def Let_def
  by (rule shapes)+

lemma moves_CreateMessage:
  assumes "aes_configured (env_aes E)" and "\<And>n. env_file_io E n"
  shows "moves Idle Done Done (CreateMessage E v p b)"
  unfolding CreateMessage_def answer_message_def
  by (rule moves_andThen moves_from_sound [OF sound_create_message_guards]
      moves_from_sound [OF sound_create_message_tx] shapes assms)+

interpretation create_message: tidy_endpoint
  "\<lambda>q. run (case q of (E, v, p, b) \<Rightarrow> CreateMessage E v p b)"
  "\<lambda>q. aes_configured (env_aes (fst q)) \<and> (\<forall>n. env_file_io (fst q) n)"
  by (rule tidy_endpointI) (auto intro: moves_CreateMessage)

section \<open>What a successful request has done\<close>

text \<open>The message is a new row, or it is appended to the last message of its channel.\<close>

definition message_inserted :: "message_request \<Rightarrow> nat \<Rightarrow> database \<Rightarrow> database \<Rightarrow> bool" where
  "message_inserted q i d d' \<longleftrightarrow> (\<exists>t salt parent.
     d' = d\<lparr>d_messages := d_messages d @
       [\<lparr>m_id = i, m_created_at = t, m_updated_at = None, m_text = mq_text q, m_salt = salt,
         m_user_id = u_id (mq_user q), m_channel_id = ch_id (mq_channel q),
         m_community_id = c_id (mq_community q), m_edited = False, m_parent_id = parent\<rparr>]\<rparr>)"

definition message_merged :: "message_request \<Rightarrow> nat \<Rightarrow> database \<Rightarrow> database \<Rightarrow> bool" where
  "message_merged q i d d' \<longleftrightarrow> (\<exists>m t.
     last_message (ch_id (mq_channel q)) d = Some m \<and> m_user_id m = u_id (mq_user q) \<and> m_id m = i \<and>
     mq_files q = [] \<and>
     d' = d\<lparr>d_messages := rows_update (\<lambda>x. m_id x = i)
       (\<lambda>x. x\<lparr>m_text := m_text m @ newline @ mq_text q, m_created_at := t, m_updated_at := Some t\<rparr>)
       (d_messages d)\<rparr>)"

lemma last_message_SomeD:
  assumes "last_message ch d = Some m"
  shows "m \<in> set (d_messages d)" and "m_channel_id m = ch"
    and "\<forall>x \<in> set (d_messages d). m_channel_id x = ch \<longrightarrow> m_id x \<le> m_id m"
proof -
  let ?xs = "sort_key m_id (filter (\<lambda>m. m_channel_id m = ch) (d_messages d))"
  obtain ys where ys: "?xs = ys @ [m]"
    using assms by (auto simp: last_message_def rev_eq_Cons_iff split: list.splits)
  have set: "set ?xs = {x \<in> set (d_messages d). m_channel_id x = ch}" by auto
  then show "m \<in> set (d_messages d)" "m_channel_id m = ch"
    using ys by (auto dest: arg_cong [of _ _ set])
  have "sorted (map m_id ?xs)" by (rule sorted_sort_key)
  then have "\<forall>x \<in> set ?xs. m_id x \<le> m_id m"
    by (auto simp: ys sorted_append)
  then show "\<forall>x \<in> set (d_messages d). m_channel_id x = ch \<longrightarrow> m_id x \<le> m_id m"
    unfolding set by auto
qed

lemma last_in_channel_InrD:
  "last_in_channel E q w = (Inr m, w') \<Longrightarrow> w_txs w = d # ds \<Longrightarrow>
   (m = zero_message \<or> last_message (ch_id (mq_channel q)) d = Some m) \<and>
   w_txs w' = w_txs w \<and> w_db w' = w_db w \<and> w_auto w' = w_auto w"
  unfolding last_in_channel_def
  by (auto elim!: andThen_InrE dest!: attempt_InrD ret_InrD simp: call_defs select_in_def
      split: sum.splits option.splits)

lemma files_before_InrD:
  "files_before E q m w = (Inr n, w') \<Longrightarrow>
   w_txs w' = w_txs w \<and> w_db w' = w_db w \<and> w_auto w' = w_auto w"
  unfolding files_before_def
  by (auto elim!: andThen_InrE dest!: attempt_InrD ret_InrD simp: call_defs select_in_def
      split: sum.splits option.splits list.splits)

lemma parent_of_InrD:
  "parent_of E q w = (Inr i, w') \<Longrightarrow> w_txs w' = w_txs w \<and> w_db w' = w_db w \<and> w_auto w' = w_auto w"
  unfolding parent_of_def
  by (auto elim!: andThen_InrE dest!: inr_dest tx_get_InrD split: option.splits)

lemma place_message_InrD:
  assumes "place_message E q salt t parent w = (Inr i, w')" and "w_txs w = d # ds"
    and "u_id (mq_user q) \<noteq> 0"
  shows "\<exists>d'. w_txs w' = d' # ds \<and> w_db w' = w_db w \<and>
    (message_inserted q i d d' \<and> i = w_auto w ''messages'' \<or> message_merged q i d d')"
proof -
  obtain m n w1 w2 where lm: "last_in_channel E q w = (Inr m, w1)"
    and fb: "files_before E q m w1 = (Inr n, w2)"
    and rest: "(if m_user_id m = u_id (mq_user q) \<and> parent = 0 \<and> mq_files q = [] \<and> n = 0
     then andThen (time_now E) (\<lambda>updatedAt.
       andThen (on_err (tx_exec E \<lparr>st_table = ''messages'', st_holes = 4, st_args = 4\<rparr>
         (merge_message (m_id m) (m_text m @ newline @ mq_text q) updatedAt))
         (\<lambda>_. rolling_back cant_create_message)) (\<lambda>_.
       ret (m_id m)))
     else andThen (on_err (tx_insert E \<lparr>st_table = ''messages'', st_holes = 7, st_args = 7\<rparr>
         (\<lambda>i. insert_message \<lparr>m_id = i, m_created_at = t, m_updated_at = None,
            m_text = mq_text q, m_salt = salt, m_user_id = u_id (mq_user q),
            m_channel_id = ch_id (mq_channel q), m_community_id = c_id (mq_community q),
            m_edited = False, m_parent_id = parent\<rparr>))
         (\<lambda>_. rolling_back cant_create_message)) (\<lambda>_.
       on_err (tx_last_insert_id E) (\<lambda>_. rolling_back cant_create_message))) w2 = (Inr i, w')"
    using assms(1) unfolding place_message_def by (elim andThen_InrE) blast
  note l = last_in_channel_InrD [OF lm assms(2)] and f = files_before_InrD [OF fb]
  show ?thesis
  proof (cases "m_user_id m = u_id (mq_user q) \<and> parent = 0 \<and> mq_files q = [] \<and> n = 0")
    case True
    then have "last_message (ch_id (mq_channel q)) d = Some m"
      using l assms(3) by (auto simp: zero_message_def)
    moreover have "w_txs w' = d\<lparr>d_messages := rows_update (\<lambda>x. m_id x = m_id m)
          (\<lambda>x. x\<lparr>m_text := m_text m @ newline @ mq_text q, m_created_at := env_now E (w_tick w2),
             m_updated_at := Some (env_now E (w_tick w2))\<rparr>) (d_messages d)\<rparr> # ds \<and> w_db w' = w_db w \<and> i = m_id m"
      using rest True l f assms(2)
      by (auto elim!: andThen_InrE dest!: inr_dest tx_exec_InrD simp: merge_message_def split: if_splits)
    ultimately show ?thesis using True unfolding message_merged_def by blast
  next
    case False
    with rest have "andThen (on_err (tx_insert E \<lparr>st_table = ''messages'', st_holes = 7, st_args = 7\<rparr>
         (\<lambda>i. insert_message \<lparr>m_id = i, m_created_at = t, m_updated_at = None,
            m_text = mq_text q, m_salt = salt, m_user_id = u_id (mq_user q),
            m_channel_id = ch_id (mq_channel q), m_community_id = c_id (mq_community q),
            m_edited = False, m_parent_id = parent\<rparr>))
         (\<lambda>_. rolling_back cant_create_message)) (\<lambda>_.
       on_err (tx_last_insert_id E) (\<lambda>_. rolling_back cant_create_message)) w2 = (Inr i, w')"
      by auto
    then have "w_txs w' = d\<lparr>d_messages := d_messages d @
         [\<lparr>m_id = i, m_created_at = t, m_updated_at = None, m_text = mq_text q, m_salt = salt,
           m_user_id = u_id (mq_user q), m_channel_id = ch_id (mq_channel q),
           m_community_id = c_id (mq_community q), m_edited = False, m_parent_id = parent\<rparr>]\<rparr> # ds
       \<and> w_db w' = w_db w \<and> i = w_auto w ''messages''"
      using l f assms(2)
      by (auto elim!: andThen_InrE dest!: inr_dest tx_insert_InrD tx_last_insert_id_InrD
          simp: insert_message_def split: if_splits)
    then show ?thesis unfolding message_inserted_def by blast
  qed
qed

text \<open>Storing the files only adds rows to the table of files.\<close>

lemma store_file_InrD:
  assumes "store_file E q i f w = (Inr u, w')" and "w_txs w = d # ds"
  shows "\<exists>row. w_txs w' = d\<lparr>d_files := d_files d @ [row]\<rparr> # ds \<and> w_db w' = w_db w \<and>
    f_message_id row = Some i \<and> f_user_id row = u_id (mq_user q) \<and> f_file_name row = fp_filename f"
proof -
  have io: "file_io E (quit e) x = (Inr v, y) \<Longrightarrow> y = tick x"
    "file_io E (rolling_back e) x = (Inr v, y) \<Longrightarrow> y = tick x" for e x v y
    by (auto simp: file_io_def quit_def rolling_back_def split: if_splits)
  show ?thesis
    using assms unfolding store_file_def store_image_def store_video_def store_other_def Let_def
    by (auto elim!: andThen_InrE dest!: inr_dest tx_insert_InrD io
        simp: from_cloud_def insert_file_def file_row_def split: if_splits)
      (rule exI, rule conjI, rule refl, simp)+
qed

lemma store_files_InrD:
  assumes "for_each fs (store_file E q i) w = (Inr u, w')" and "w_txs w = d # ds"
  shows "\<exists>rows. w_txs w' = d\<lparr>d_files := d_files d @ rows\<rparr> # ds \<and> w_db w' = w_db w \<and>
    map f_file_name rows = map fp_filename fs \<and> list_all (\<lambda>r. f_message_id r = Some i) rows"
  using assms
proof (induction fs arbitrary: w d)
  case Nil
  then show ?case by (auto simp: ret_def)
next
  case (Cons f fs)
  obtain w1 where 1: "store_file E q i f w = (Inr (), w1)" and 2: "for_each fs (store_file E q i) w1 = (Inr u, w')"
    using Cons.prems(1) by (auto elim!: andThen_InrE)
  obtain row where row: "w_txs w1 = d\<lparr>d_files := d_files d @ [row]\<rparr> # ds" "w_db w1 = w_db w"
    "f_message_id row = Some i" "f_file_name row = fp_filename f"
    using store_file_InrD [OF 1 Cons.prems(2)] by auto
  obtain rows where "w_txs w' = d\<lparr>d_files := d_files d @ [row] @ rows\<rparr> # ds" "w_db w' = w_db w"
    "map f_file_name rows = map fp_filename fs" "list_all (\<lambda>r. f_message_id r = Some i) rows"
    using Cons.IH [OF 2 row(1)] row(2) by auto
  with row show ?case by (intro exI [of _ "row # rows"]) simp
qed

lemma need_permission_InrD:
  "need_permission E na u c k w = (Inr x, w') \<Longrightarrow> may u c k w \<and> same_stores w w'"
  using wp_need_permission [of E na u c k w] by (simp add: wp_def)

lemma stores_tick [simp]:
  "may u c k (tick w) = may u c k w" "same_stores (tick w) v = same_stores w v"
  "same_stores w (tick v) = same_stores w v"
  by (simp_all add: may_def same_stores_def)

lemma channel_in_SomeD:
  "channel_in i c d = Some ch \<Longrightarrow> ch \<in> set (d_channels d) \<and> ch_community_id ch = c"
  by (auto simp: channel_in_def dest: find_SomeD)

lemma create_message_guards_InrD:
  assumes "create_message_guards E v p b w = (Inr q, w')"
  shows "v = Some (mq_user q) \<and>
    community_by_handle E (handle_param E p) (w_db w) = Some (mq_community q) \<and>
    may (u_id (mq_user q)) (c_id (mq_community q)) SendMessages w \<and>
    mq_channel q \<in> set (d_channels (w_db w)) \<and> ch_community_id (mq_channel q) = c_id (mq_community q) \<and>
    (\<exists>form. b = Some form \<and> mq_text q = hd (mf_text form) \<and> mq_files q = mf_files form) \<and>
    length (mq_files q) \<le> 5 \<and> same_stores w w'"
  using assms unfolding create_message_guards_def need_viewer_def get_community_def
  by (auto elim!: andThen_InrE
      dest!: inr_dest db_get_InrD need_permission_InrD channel_in_SomeD simp: same_stores_def)

definition message_sent :: "message_request \<Rightarrow> nat \<Rightarrow> database \<Rightarrow> database \<Rightarrow> bool" where
  "message_sent q i d d' \<longleftrightarrow> (\<exists>d1 rows. (message_inserted q i d d1 \<or> message_merged q i d d1) \<and>
     d' = d1\<lparr>d_files := d_files d1 @ rows\<rparr> \<and> map f_file_name rows = map fp_filename (mq_files q) \<and>
     list_all (\<lambda>r. f_message_id r = Some i) rows)"

lemma create_message_tx_InrD:
  assumes "create_message_tx E q w = (Inr i, w')" and "u_id (mq_user q) \<noteq> 0"
  shows "message_sent q i (w_db w) (w_db w')"
proof -
  obtain salt t parent w1 w2 w3 w4 w5 w6 where
    pre: "(new_uuid E :: string go) w = (Inr salt, w1)" "(time_now E :: nat go) w1 = (Inr t, w2)" and
    bt: "begin_tx E w2 = (Inr (), w3)" and pa: "parent_of E q w3 = (Inr parent, w4)" and
    pl: "place_message E q salt t parent w4 = (Inr i, w5)" and
    fs: "for_each (mq_files q) (store_file E q i) w5 = (Inr (), w6)" and cm: "commit E w6 = (Inr (), w')"
    using assms(1) unfolding create_message_tx_def
    by (auto elim!: andThen_InrE dest!: on_err_quit_InrD ret_InrD)
  have w4: "w_txs w4 = w_db w # w_txs w"
    using new_uuid_InrD [OF pre(1)] time_now_InrD [OF pre(2)] begin_tx_InrD [OF bt] parent_of_InrD [OF pa]
    by auto
  obtain d1 where d1: "w_txs w5 = d1 # w_txs w" "message_inserted q i (w_db w) d1 \<or> message_merged q i (w_db w) d1"
    using place_message_InrD [OF pl w4 assms(2)] by blast
  obtain rows where "w_txs w6 = d1\<lparr>d_files := d_files d1 @ rows\<rparr> # w_txs w"
    "map f_file_name rows = map fp_filename (mq_files q)" "list_all (\<lambda>r. f_message_id r = Some i) rows"
    using store_files_InrD [OF fs d1(1)] by blast
  then show ?thesis
    using d1(2) commit_InrD [OF cm] unfolding message_sent_def by auto
qed

text \<open>The answer is built without changing a table.\<close>

lemma sound_answer_message:
  assumes "aes_configured (env_aes E)"
  shows "sound Idle Idle (answer_message E q i)"
  unfolding answer_message_def show_new_message_def powerful_role_def show_files_def show_parent_def Let_def
  by (rule sound_intro sound_of_outcome_idle sound_ids shapes assms)+

lemma alive_answer_message: "alive (answer_message E q i)"
  unfolding answer_message_def show_new_message_def powerful_role_def show_files_def show_parent_def Let_def
  by (rule dead_intro is_error_simps)+

lemma sound_Inl_keeps:
  assumes "sound Idle t m" and "alive m" and "m w = (Inl e, w')"
  shows "w_db w' = w_db w"
  using soundD [OF assms(1), of "w_db w" "w_txs w" w] assms(2,3)
  by (auto simp: wp_def alive_def atomic_post_def dest!: spec [of _ w])

lemma sound_run_keeps:
  assumes "sound Idle Idle m" and "alive m" and "run m w = (r, w')"
  shows "w_db w' = w_db w"
proof (cases "m w")
  case (Pair x w1)
  then show ?thesis
    using soundD [OF assms(1), of "w_db w" "w_txs w" w] sound_Inl_keeps [OF assms(1,2)] assms(3)
    by (cases x) (auto simp: run_def wp_def)
qed

lemma alive_create_message [dead_intro]:
  "alive (create_message_guards E v p b)" "alive (create_message_tx E q)"
proof -
  have io [dead_intro]: "alive (file_io E h)" if "alive h" for h
    using that by (simp add: alive_def wp_def file_io_def)
  have cl [dead_intro]: "alive (from_cloud f)" for f :: "nat \<Rightarrow> 'b"
    by (simp add: alive_def wp_def from_cloud_def)
  have fe [dead_intro]: "alive (for_each xs f)" if "\<And>x. alive (f x)" for xs and f :: "file_part \<Rightarrow> unit go"
    using that by (induction xs) (auto intro: dead_intro)
  show "alive (create_message_guards E v p b)"
    unfolding create_message_guards_def case_prod_beta by (rule dead_intro is_error_simps)+
  have sf: "alive (store_file E q i f)" for i f
    unfolding store_file_def store_image_def store_video_def store_other_def Let_def case_prod_beta
    by (rule dead_intro is_error_simps message_responses_are_errors | simp add: alive_def wp_def from_cloud_def)+
  show "alive (create_message_tx E q)"
    unfolding create_message_tx_def parent_of_def place_message_def last_in_channel_def
      files_before_def case_prod_beta
    by (cases "mq_parent q"; simp; (rule dead_intro sf is_error_simps message_responses_are_errors)+)
qed

lemma CreateMessage_effect:
  assumes "aes_configured (env_aes E)" and "\<And>n. env_file_io E n"
    and "run (CreateMessage E v p b) w = (r, w')" and "\<And>u. v = Some u \<Longrightarrow> u_id u \<noteq> 0"
  shows "w_db w' = w_db w \<or>
    (\<exists>q i w1. create_message_guards E v p b w = (Inr q, w1) \<and> message_sent q i (w_db w) (w_db w'))"
proof (cases "create_message_guards E v p b w")
  case (Pair x w1)
  show ?thesis
  proof (cases x)
    case (Inl e)
    then have "w' = w1" using Pair assms(3) by (auto simp: CreateMessage_def run_def andThen_def)
    then show ?thesis
      using sound_Inl_keeps [OF sound_create_message_guards alive_create_message(1)] assms(1) Pair Inl
      by blast
  next
    case (Inr q)
    note g = create_message_guards_InrD [OF Pair [unfolded Inr]]
    obtain y w2 where tx: "create_message_tx E q w1 = (y, w2)" by (cases "create_message_tx E q w1")
    show ?thesis
    proof (cases y)
      case (Inl e)
      then have "w' = w2" using tx Pair \<open>x = Inr q\<close> assms(3)
        by (auto simp: CreateMessage_def run_def andThen_def)
      then show ?thesis
        using sound_Inl_keeps [OF sound_create_message_tx [OF assms(1,2)] alive_create_message(2)] tx Inl g
        by (auto simp: same_stores_def)
    next
      case (Inr i)
      have "run (answer_message E q i) w2 = (r, w')"
        using tx Pair \<open>x = Inr q\<close> Inr assms(3)
        by (auto simp: CreateMessage_def run_def andThen_def split: prod.splits sum.splits)
      then have "w_db w' = w_db w2"
        by (rule sound_run_keeps [OF sound_answer_message [OF assms(1)] alive_answer_message])
      moreover have "message_sent q i (w_db w1) (w_db w2)"
        using create_message_tx_InrD tx Inr g assms(4) by blast
      ultimately show ?thesis
        using g Pair \<open>x = Inr q\<close> by (auto simp: same_stores_def)
    qed
  qed
qed

section \<open>Toggling a reaction\<close>

definition reacting :: "nat \<Rightarrow> string \<Rightarrow> reactions \<Rightarrow> bool" where
  "reacting u k rs \<longleftrightarrow>
     (case map_of rs k of None \<Rightarrow> False | Some r \<Rightarrow> u \<in> rx_user_id ` set r)"

text \<open>Every emoji once, with at least one user, each user once.\<close>

definition reactions_ok :: "reactions \<Rightarrow> bool" where
  "reactions_ok rs \<longleftrightarrow> distinct (map fst rs) \<and>
     list_all (\<lambda>(k, r). r \<noteq> [] \<and> distinct (map rx_user_id r)) rs"

lemma reaction_index_append:
  "reaction_index u (r @ [x]) = (if rx_user_id x = u then Some (length r) else reaction_index u r)"
  by (simp add: reaction_index_def enumerate_append_eq)

lemma reaction_index_None: "reaction_index u r = None \<longleftrightarrow> u \<notin> rx_user_id ` set r"
proof (induction r rule: rev_induct)
  case Nil
  then show ?case by (simp add: reaction_index_def)
next
  case (snoc x r)
  then show ?case by (auto simp: reaction_index_append)
qed

lemma reaction_index_Some: "reaction_index u r = Some i \<Longrightarrow> i < length r \<and> rx_user_id (r ! i) = u"
proof (induction r arbitrary: i rule: rev_induct)
  case Nil
  then show ?case by (simp add: reaction_index_def)
next
  case (snoc x r)
  then show ?case by (auto simp: reaction_index_append nth_append split: if_splits)
qed

lemma RemoveReactionUser_users:
  assumes "distinct (map rx_user_id r)" and "i < length r"
  shows "RemoveReactionUser r i = Returned (filter (\<lambda>x. rx_user_id x \<noteq> rx_user_id (r ! i)) r)"
proof -
  have d: "distinct (map rx_user_id (take i r @ r ! i # drop (Suc i) r))"
    using assms by (simp flip: id_take_nth_drop)
  have "filter (\<lambda>x. rx_user_id x \<noteq> rx_user_id (r ! i)) (take i r @ r ! i # drop (Suc i) r)
      = take i r @ drop (Suc i) r"
    using d by (simp, intro arg_cong2 [of _ _ _ _ append] filter_True ballI) (metis imageI)+
  then show ?thesis
    using assms(2) by (simp add: RemoveReactionUser_def flip: id_take_nth_drop)
qed

lemma toggle_user_Returned:
  assumes "distinct (map rx_user_id (case r of None \<Rightarrow> [] | Some r \<Rightarrow> r))"
  obtains r' where "toggle_user user r = Returned r'" and "distinct (map rx_user_id r')"
    and "\<And>u. u \<in> rx_user_id ` set r' \<longleftrightarrow>
      (u = u_id user) \<noteq> (u \<in> rx_user_id ` set (case r of None \<Rightarrow> [] | Some r \<Rightarrow> r))"
proof (cases r)
  case None
  then show ?thesis using that by (auto simp: toggle_user_def)
next
  case (Some xs)
  show ?thesis
  proof (cases "reaction_index (u_id user) xs")
    case None
    then have new: "u_id user \<notin> rx_user_id ` set xs" by (simp add: reaction_index_None)
    have t: "toggle_user user r = Returned (xs @
        [\<lparr>rx_user_id = u_id user, rx_user_handle = null_string (u_handle user)\<rparr>])"
      using Some None by (simp add: toggle_user_def)
    show ?thesis by (rule that [OF t]) (use new assms Some in \<open>auto simp: image_iff\<close>)
  next
    case (Some i)
    note i = reaction_index_Some [OF Some]
    let ?r = "filter (\<lambda>x. rx_user_id x \<noteq> u_id user) xs"
    have "toggle_user user r = Returned ?r"
      using RemoveReactionUser_users [of xs i] i assms \<open>r = Some xs\<close> Some
      by (simp add: toggle_user_def)
    moreover have "distinct (map rx_user_id ?r)"
      using assms \<open>r = Some xs\<close> by (simp add: distinct_map_filter)
    moreover have "u \<in> rx_user_id ` set ?r \<longleftrightarrow> (u = u_id user) \<noteq> (u \<in> rx_user_id ` set xs)" for u
    proof -
      have "u_id user \<in> rx_user_id ` set xs" using i by (metis imageI nth_mem)
      then show ?thesis by auto
    qed
    ultimately show ?thesis using that \<open>r = Some xs\<close> by simp
  qed
qed

lemma put_reaction_map: "map_of (put_reaction k r rs) k' =
   (if k' = k then (if r = [] then None else Some r) else map_of rs k')"
  by (simp add: put_reaction_def update_conv' delete_conv')

lemma reactions_ok_map:
  "reactions_ok rs \<longleftrightarrow> distinct (map fst rs) \<and>
     (\<forall>k r. map_of rs k = Some r \<longrightarrow> r \<noteq> [] \<and> distinct (map rx_user_id r))"
  unfolding reactions_ok_def list_all_iff
  by (rule conj_cong [OF refl]) (simp add: map_of_eq_Some_iff Ball_def)

lemma put_reaction_ok:
  "reactions_ok rs \<Longrightarrow> distinct (map rx_user_id r) \<Longrightarrow> reactions_ok (put_reaction k r rs)"
  unfolding reactions_ok_map put_reaction_map
  by (auto simp: put_reaction_def distinct_update distinct_delete split: if_splits)

text \<open>Reacting twice is not reacting; nobody else's reaction changes.\<close>

lemma toggle_reaction:
  assumes "reactions_ok rs"
  obtains r where "toggle_user user (map_of rs k) = Returned r"
    and "reactions_ok (put_reaction k r rs)"
    and "\<And>u k'. reacting u k' (put_reaction k r rs) \<longleftrightarrow>
      (k' = k \<and> u = u_id user) \<noteq> reacting u k' rs"
proof -
  have "distinct (map rx_user_id (case map_of rs k of None \<Rightarrow> [] | Some r \<Rightarrow> r))"
    using assms by (auto simp: reactions_ok_map split: option.split)
  then obtain r where r: "toggle_user user (map_of rs k) = Returned r" "distinct (map rx_user_id r)"
    "\<And>u. u \<in> rx_user_id ` set r \<longleftrightarrow>
      (u = u_id user) \<noteq> (u \<in> rx_user_id ` set (case map_of rs k of None \<Rightarrow> [] | Some r \<Rightarrow> r))"
    by (rule toggle_user_Returned) blast
  have "reacting u k rs \<longleftrightarrow> u \<in> rx_user_id ` set (case map_of rs k of None \<Rightarrow> [] | Some r \<Rightarrow> r)" for u
    by (simp add: reacting_def split: option.split)
  moreover have "reacting u k' (put_reaction k r rs) \<longleftrightarrow>
      (if k' = k then u \<in> rx_user_id ` set r else reacting u k' rs)" for u k'
    by (simp add: reacting_def put_reaction_map split: option.split)
  ultimately have "reacting u k' (put_reaction k r rs) \<longleftrightarrow>
      (k' = k \<and> u = u_id user) \<noteq> reacting u k' rs" for u k'
    using r(3) by simp
  with r(1) put_reaction_ok [OF assms r(2)] show ?thesis by (rule that)
qed

end
