(* ===== verification/Samples.thy ===== *)
theory Samples
  imports Messages "HOL-Library.Code_Target_Nat"
begin

text \<open>
  A small installation to evaluate the model on: a cipher that accepts 16 byte keys, a
  process environment in which no call fails, and tables with two users, one community
  with a role, a channel in a group, and a message.
\<close>

definition sample_aes :: aes where
  "sample_aes = \<lparr>aes_key = replicate 16 CHR ''k'', aes_iv = replicate 16 CHR ''v'',
     aes_encrypt = (\<lambda>_ b. b), aes_decrypt = (\<lambda>_ b. b)\<rparr>"

definition sample_env :: env where
  "sample_env =
     \<lparr>env_aes = sample_aes, env_getenv = (\<lambda>_. []), env_fault = (\<lambda>_. None), env_now = (\<lambda>n. n),
      env_uuid = (\<lambda>_. ''salt''), env_rand = (\<lambda>_. 0), env_lower = (\<lambda>n. n), env_collate = (\<lambda>s. s),
      env_rfc3339 = (\<lambda>_. ''t''), env_parse_time = (\<lambda>_. None), env_translate = (\<lambda>a b. b),
      env_email_ok = (\<lambda>_. True), env_parse_address = Some, env_bcrypt_hash = Some,
      env_bcrypt_check = (\<lambda>a b. a = b), env_sign = (\<lambda>s _. Some s), env_cloudflare = True,
      env_file_io = (\<lambda>_. True), env_image_id = (\<lambda>_ s. s), env_video = (\<lambda>_ s. (s, s)),
      env_r2_key = (\<lambda>_ s. Some s)\<rparr>"

text \<open>The same environment with one call to a store that fails.\<close>

definition failing_at :: "nat \<Rightarrow> env" where
  "failing_at n = sample_env\<lparr>env_fault := (\<lambda>i. if i = n then Some ''down'' else None)\<rparr>"

definition sample_user :: "nat \<Rightarrow> users_row" where
  "sample_user i =
     \<lparr>u_id = i, u_created_at = 0, u_updated_at = None, u_salt = ''salt'', u_password_hash = ''h'',
      u_email = ''e'', u_name = None, u_handle = Some ''u'', u_date_of_birth = None,
      u_about = None, u_community_owner_count = 0, u_community_participant_count = 0,
      u_verified = False, u_last_active_at = 0, u_cf_avatar_images_id = None,
      u_avatar_file_id = None\<rparr>"

definition sample_community :: communities_row where
  "sample_community =
     \<lparr>c_id = 5, c_created_at = 0, c_updated_at = None, c_private = False, c_self_hosted = False,
      c_owner_id = 1, c_salt = ''salt'', c_name = ''n'', c_handle = ''home'', c_fqn = ''home.x'',
      c_railway_service_id = None, c_railway_deploy_status = None, c_cf_record_id = None,
      c_ready = False, c_permissions = no_permissions\<rparr>"

definition sample_member :: "nat \<Rightarrow> permissions \<Rightarrow> communities_users_row" where
  "sample_member u p = \<lparr>cu_created_at = 0, cu_community_id = 5, cu_selected_channel_id = 3,
     cu_user_id = u, cu_permissions = p\<rparr>"

definition sample_role :: community_roles_row where
  "sample_role = \<lparr>r_id = 7, r_created_at = 0, r_updated_at = None, r_salt = ''salt'',
     r_color = ''red'', r_community_id = 5, r_name = ''mods'', r_show_online_differently = False,
     r_priority = 0, r_permissions = no_permissions\<lparr>p_kick_members := True\<rparr>\<rparr>"

definition sample_channel :: channels_row where
  "sample_channel = \<lparr>ch_id = 3, ch_created_at = 0, ch_updated_at = None, ch_community_id = 5,
     ch_group_id = 4, ch_salt = ''salt'', ch_name = ''chat'', ch_handle = ''chat''\<rparr>"

definition sample_group :: channel_groups_row where
  "sample_group = \<lparr>g_id = 4, g_created_at = 0, g_updated_at = None, g_community_id = 5,
     g_salt = ''salt'', g_name = ''text''\<rparr>"

definition sample_message :: messages_row where
  "sample_message = \<lparr>m_id = 9, m_created_at = 0, m_updated_at = None, m_text = ''hi'',
     m_salt = ''salt'', m_user_id = 1, m_channel_id = 3, m_community_id = 5, m_edited = False,
     m_parent_id = 0\<rparr>"

definition sample_db :: database where
  "sample_db =
     \<lparr>d_users = [sample_user 1, sample_user 2], d_communities = [sample_community],
      d_members = [sample_member 1 ServerOwnerPermissions,
        sample_member 2 (no_permissions\<lparr>p_kick_members := True\<rparr>)],
      d_roles = [sample_role],
      d_roles_users = [\<lparr>ru_created_at = 0, ru_community_role_id = 7, ru_user_id = 2,
        ru_community_id = 5\<rparr>],
      d_channels = [sample_channel], d_groups = [sample_group], d_messages = [sample_message],
      d_files = [], d_invites = [], d_banned = [], d_beta = []\<rparr>"

definition sample_world :: world where
  "sample_world = \<lparr>w_db = sample_db, w_txs = [], w_auto = (\<lambda>_. 10), w_last_id = 0,
     w_redis = (\<lambda>_. None), w_tick = 0, w_jobs = [], w_calls = []\<rparr>"

definition sample_id :: "nat \<Rightarrow> string \<Rightarrow> string" where
  "sample_id i ty = (case Encode sample_aes i ty ''salt'' of Returned s \<Rightarrow> s | _ \<Rightarrow> [])"

lemma sample_aes_configured [simp]: "aes_configured sample_aes"
  by (simp add: aes_configured_def sample_aes_def key_size_ok_def block_cipher_def block_size_def)

lemma env_aes_sample [simp]: "env_aes sample_env = sample_aes" "env_aes (failing_at n) = sample_aes"
  by (simp_all add: sample_env_def failing_at_def)

lemma sample_healthy [simp]: "healthy sample_env"
  by (simp add: healthy_def sample_env_def)

lemma sample_txs [simp]: "w_txs sample_world = []"
  by (simp add: sample_world_def)

text \<open>A request is run to its answer and the state it leaves.\<close>

lemma run_pair: "run m w = (fst (run m w), snd (run m w))"
  by simp

end
