(* ===== verification/Accounts.thy ===== *)
theory Accounts
  imports Messages
begin

text \<open>
  Accounts: \<^verbatim>\<open>handlers/sign_in.go\<close>, \<^verbatim>\<open>sign_up.go\<close>, \<^verbatim>\<open>join_beta.go\<close>, \<^verbatim>\<open>refresh_token.go\<close>,
  \<^verbatim>\<open>update_profile.go\<close>, \<^verbatim>\<open>edit_profile_picture.go\<close>, and the middleware that finds the
  viewer of a request, \<^verbatim>\<open>authorization_rest.go\<close>. Tokens are signed and verified by
  \<^verbatim>\<open>golang-jwt\<close>: a request carries the \<^verbatim>\<open>id\<close> claim of a token that was verified, or none.
\<close>

section \<open>Statements\<close>

definition has_email :: "env \<Rightarrow> string \<Rightarrow> users_row \<Rightarrow> bool" where
  "has_email E e u = text_eq E (u_email u) e"

definition has_handle :: "env \<Rightarrow> string \<Rightarrow> users_row \<Rightarrow> bool" where
  "has_handle E h u = (case u_handle u of None \<Rightarrow> False | Some x \<Rightarrow> text_eq E x h)"

definition count_users :: "env \<Rightarrow> nat \<Rightarrow> (users_row \<Rightarrow> bool) \<Rightarrow> nat call" where
  "count_users E n P =
     db_get E \<lparr>st_table = ''users'', st_holes = n, st_args = n\<rparr>
       (\<lambda>d. Some (length (filter P (d_users d))))"

definition user_by_email :: "env \<Rightarrow> string \<Rightarrow> database \<Rightarrow> users_row option" where
  "user_by_email E e d = find (has_email E e) (d_users d)"

text \<open>The unique indexes \<^verbatim>\<open>users_email_uq\<close> and \<^verbatim>\<open>users_handle_uq\<close>; a null handle is no clash.\<close>

definition insert_user :: "env \<Rightarrow> users_row \<Rightarrow> database \<Rightarrow> db_err + database" where
  "insert_user E r d =
     (if list_ex too_long [u_email r, null_string (u_handle r), u_salt r]
         \<or> 500 < rune_count (u_password_hash r) then Inl ErrTooLong
      else if \<exists>u \<in> set (d_users d). has_email E (u_email r) u
                \<or> (case u_handle r of None \<Rightarrow> False | Some h \<Rightarrow> has_handle E h u) then Inl ErrDuplicate
      else Inr (d\<lparr>d_users := d_users d @ [r]\<rparr>))"

definition update_profile :: "env \<Rightarrow> nat \<Rightarrow> nat \<Rightarrow> string \<Rightarrow> string \<Rightarrow> string \<Rightarrow> database \<Rightarrow> db_err + database" where
  "update_profile E i updatedAt name h about d =
     (if (\<forall>u \<in> set (d_users d). u_id u \<noteq> i) then Inr d
      else if too_long name \<or> too_long h then Inl ErrTooLong
      else if \<exists>u \<in> set (d_users d). u_id u \<noteq> i \<and> has_handle E h u then Inl ErrDuplicate
      else Inr (d\<lparr>d_users := rows_update (\<lambda>u. u_id u = i)
             (\<lambda>u. u\<lparr>u_updated_at := Some updatedAt, u_name := Some name, u_handle := Some h,
                    u_about := Some about\<rparr>) (d_users d)\<rparr>))"

text \<open>\<^verbatim>\<open>avatar_file_id\<close> is a signed column.\<close>

definition update_avatar :: "nat \<Rightarrow> nat \<Rightarrow> string \<Rightarrow> database \<Rightarrow> db_err + database" where
  "update_avatar i fileId img d =
     (if (\<forall>u \<in> set (d_users d). u_id u \<noteq> i) then Inr d
      else if max_int64 < fileId then Inl ErrOutOfRange
      else if too_long img then Inl ErrTooLong
      else Inr (d\<lparr>d_users := rows_update (\<lambda>u. u_id u = i)
             (\<lambda>u. u\<lparr>u_avatar_file_id := Some fileId, u_cf_avatar_images_id := Some img\<rparr>)
             (d_users d)\<rparr>))"

definition beta_count :: "env \<Rightarrow> nat \<Rightarrow> (beta_users_row \<Rightarrow> bool) \<Rightarrow> nat call" where
  "beta_count E n P =
     db_get E \<lparr>st_table = ''beta_users'', st_holes = n, st_args = n\<rparr>
       (\<lambda>d. Some (length (filter P (d_beta d))))"

definition redeem_beta :: "env \<Rightarrow> string \<Rightarrow> database \<Rightarrow> db_err + database" where
  "redeem_beta E email d =
     Inr (d\<lparr>d_beta := rows_update (\<lambda>b. text_eq E (bu_email b) email)
            (\<lambda>b. b\<lparr>bu_redeemed := True\<rparr>) (d_beta d)\<rparr>)"

definition insert_beta :: "env \<Rightarrow> beta_users_row \<Rightarrow> database \<Rightarrow> db_err + database" where
  "insert_beta E r d =
     (if too_long (bu_email r) then Inl ErrTooLong
      else if \<exists>b \<in> set (d_beta d). text_eq E (bu_email b) (bu_email r) then Inl ErrDuplicate
      else Inr (d\<lparr>d_beta := d_beta d @ [r]\<rparr>))"

section \<open>Passwords and tokens\<close>

definition CheckPasswordHash :: "env \<Rightarrow> string \<Rightarrow> string \<Rightarrow> bool" where
  "CheckPasswordHash E password h = env_bcrypt_check E h (password @ env_getenv E ''SALT'')"

definition HashPassword :: "env \<Rightarrow> string \<Rightarrow> string option" where
  "HashPassword E password = env_bcrypt_hash E (password @ env_getenv E ''SALT'')"

definition token_lifetime :: nat where
  "token_lifetime = 60 * 60 * 24 * 31"

definition issue_token :: "env \<Rightarrow> users_row \<Rightarrow> response \<Rightarrow> response go" where
  "issue_token E user failed =
     andThen (encode_id E (u_id user) USERS_TYPE (u_salt user)) (\<lambda>i.
     andThen (time_now E) (\<lambda>now.
     andThen (of_option (env_sign E i (now + token_lifetime)) (quit failed)) (\<lambda>t.
     ret (Resp 200 (JObj [(''token'', JStr t)])))))"

definition RefreshToken :: "env \<Rightarrow> users_row option \<Rightarrow> response go" where
  "RefreshToken E viewer =
     andThen (of_option viewer (quit Panic)) (\<lambda>user.
     issue_token E user (message_error 500 ''Unable to refresh token''))"

section \<open>Signing in\<close>

record sign_in_input =
  si_email :: string
  si_password :: string
  si_code :: "string option"

definition sign_in_checks :: "env \<Rightarrow> sign_in_input \<Rightarrow> json list" where
  "sign_in_checks E input =
     check_string E ''email'' [VRequired, VEmail, VLte 200] (si_email input) @
     check_string E ''password'' [VRequired, VGte 6, VLte 50] (si_password input) @
     check_opt_string E ''code'' [VLte 30] (si_code input)"

definition sign_in_user :: "env \<Rightarrow> sign_in_input \<Rightarrow> users_row go" where
  "sign_in_user E input =
     andThen (of_option (env_parse_address E (si_email input))
       (quit (field_error 200 ''email'' ''Not a not valid email''))) (\<lambda>addr.
     let email = lower E addr in
     andThen (on_err (count_users E 1 (has_email E email))
       (\<lambda>_. quit (message_error 200 ''Unable to login''))) (\<lambda>userCount.
     andThen (ensure (userCount \<noteq> 0) (quit (message_error 200 ''User does not exist''))) (\<lambda>_.
     andThen (on_err (db_get E \<lparr>st_table = ''users'', st_holes = 1, st_args = 1\<rparr>
       (user_by_email E email)) (\<lambda>_. quit (message_error 200 ''Unable to login.''))) (\<lambda>user.
     andThen (ensure (u_password_hash user \<noteq> [])
       (quit (message_error 200 ''User does not exist.''))) (\<lambda>_.
     andThen (ensure (CheckPasswordHash E (si_password input) (u_password_hash user))
       (quit (field_error 200 ''password'' ''Password invalid.''))) (\<lambda>_.
     ret user))))))"

text \<open>
  The query for bans has one placeholder and two arguments, as in \<open>JoinCommunity\<close>. A
  transaction that cannot be opened is a \<^verbatim>\<open>nil\<close> pointer, and its first use panics.
\<close>

definition accept_invite :: "env \<Rightarrow> users_row \<Rightarrow> string \<Rightarrow> unit go" where
  "accept_invite E user code =
     (let failed = message_error 200 ''Unable to sign in currently.'' in
     andThen (on_err (db_get E \<lparr>st_table = ''community_invites'', st_holes = 1, st_args = 1\<rparr>
       (invite_by_code E code)) (\<lambda>_. quit not_found)) (\<lambda>invite.
     andThen (on_err (begin_tx E) (\<lambda>_. quit Panic)) (\<lambda>_.
     andThen (time_now E) (\<lambda>createdAt.
     andThen (on_err (tx_exec E \<lparr>st_table = ''communities_users'', st_holes = 4, st_args = 4\<rparr>
       (insert_member createdAt (i_community_id invite) (u_id user) (Some 0) None))
       (\<lambda>_. rolling_back failed)) (\<lambda>_.
     andThen (on_err (get_community_by_id E (i_community_id invite))
       (\<lambda>_. rolling_back failed)) (\<lambda>community.
     andThen (on_err (db_get E
       \<lparr>st_table = ''communities_banned_users'', st_holes = 1, st_args = 2\<rparr>
       (\<lambda>d. Some (banned_count (u_id user) d))) (\<lambda>_. rolling_back not_found)) (\<lambda>banned.
     andThen (ensure (banned = 0)
       (rolling_back (message_error 200 ''You are banned from this community.''))) (\<lambda>_.
     andThen (RecalculateAndUpdatePermissionsForUser E (u_id user) community) (\<lambda>_.
     on_err (commit E) (\<lambda>_. quit failed))))))))))"

definition SignIn :: "env \<Rightarrow> sign_in_input option \<Rightarrow> response go" where
  "SignIn E body =
     andThen (of_option body (quit (message_error 200 ''Unable to login''))) (\<lambda>input.
     andThen (need_valid 200 (sign_in_checks E input)) (\<lambda>_.
     andThen (sign_in_user E input) (\<lambda>user.
     andThen (spawn (JobRedisSet (user_key (u_id user)) (RUser user) (Some one_hour))) (\<lambda>_.
     andThen (issue_token E user (message_error 200 ''Unable to login.'')) (\<lambda>answer.
     case si_code input of
       None \<Rightarrow> ret answer
     | Some code \<Rightarrow> andThen (accept_invite E user code) (\<lambda>_. ret answer))))))"

section \<open>Signing up\<close>

record sign_up_input =
  su_email :: string
  su_password :: string
  su_handle :: string
  su_code :: "string option"

definition sign_up_checks :: "env \<Rightarrow> sign_up_input \<Rightarrow> json list" where
  "sign_up_checks E input =
     check_string E ''Email'' [VRequired, VEmail, VLte 255] (su_email input) @
     check_string E ''Password'' [VRequired, VGte 6, VLte 50] (su_password input) @
     check_string E ''Handle'' [VRequired, VGte 3, VLte 30] (su_handle input) @
     check_opt_string E ''Code'' [VLte 30] (su_code input)"

definition cant_sign_up :: response where
  "cant_sign_up = message_error 200 ''Unable to signup currently.''"

definition cant_sign_up_email :: "string \<Rightarrow> response" where
  "cant_sign_up_email m = field_error 200 ''email'' m"

text \<open>
  \<^verbatim>\<open>regexp.MatchString("[a-z0-9-]+", h)\<close> is not anchored: one allowed character is enough.
\<close>

definition handle_matches :: "string \<Rightarrow> bool" where
  "handle_matches h = list_ex handle_char h"

definition sign_up_handle :: "env \<Rightarrow> sign_up_input \<Rightarrow> string go" where
  "sign_up_handle E input =
     (let lowerHandle = lower E (su_handle input) in
     andThen (on_err (count_users E 1 (has_handle E lowerHandle))
       (\<lambda>_. quit (cant_sign_up_email ''Unable to sign up currently.''))) (\<lambda>handleCount.
     andThen (ensure (handleCount = 0) (quit (field_error 200 ''handle'' ''Already taken.''))) (\<lambda>_.
     andThen (ensure (handle_matches lowerHandle)
       (quit (field_error 200 ''handle'' ''Handle must be must be letters, numbers and _ only.''))) (\<lambda>_.
     ret lowerHandle))))"

definition sign_up_email :: "env \<Rightarrow> sign_up_input \<Rightarrow> string go" where
  "sign_up_email E input =
     andThen (of_option (env_parse_address E (su_email input))
       (quit (field_error 401 ''email'' ''Not a not valid email.''))) (\<lambda>addr.
     let lowerEmail = lower E addr in
     andThen (on_err (count_users E 1 (has_email E lowerEmail))
       (\<lambda>_. quit (cant_sign_up_email ''Unable to signup currently.''))) (\<lambda>userCount.
     andThen (ensure (userCount = 0) (quit (cant_sign_up_email ''Already signed up.''))) (\<lambda>_.
     ret lowerEmail)))"

definition sign_up_invite :: "env \<Rightarrow> string option \<Rightarrow> community_invites_row option go" where
  "sign_up_invite E code =
     (case code of
        None \<Rightarrow> ret None
      | Some code \<Rightarrow>
          andThen (on_err (db_get E \<lparr>st_table = ''community_invites'', st_holes = 1, st_args = 1\<rparr>
            (invite_by_code E code)) (\<lambda>_. quit (message_error 404 ''Not found''))) (\<lambda>invite.
          ret (Some invite)))"

text \<open>Without an invite the address has to be on the beta list, enabled and not redeemed.\<close>

definition sign_up_beta :: "env \<Rightarrow> string \<Rightarrow> bool \<Rightarrow> unit go" where
  "sign_up_beta E lowerEmail validInviteCode =
     (let failed = cant_sign_up_email ''Unable to signup currently.'' in
     andThen (if validInviteCode then ret ()
       else andThen (on_err (beta_count E 2
              (\<lambda>b. \<not> bu_enabled b \<and> text_eq E (bu_email b) lowerEmail)) (\<lambda>_. quit failed)) (\<lambda>n.
            ensure (n = 0) (quit (cant_sign_up_email
              ''Hang tight, you are part of the waitlist, but your invitation has not been approved yet.''))))
       (\<lambda>_.
     andThen (on_err (beta_count E 3
       (\<lambda>b. \<not> bu_redeemed b \<and> bu_enabled b \<and> text_eq E (bu_email b) lowerEmail))
       (\<lambda>_. quit failed)) (\<lambda>betaCount.
     ensure (betaCount = 1 \<or> validInviteCode) (quit (cant_sign_up_email
       ''You are not part of the beta test. Reach out to the team to join.'')))))"

definition new_user :: "nat \<Rightarrow> nat \<Rightarrow> string \<Rightarrow> string \<Rightarrow> string \<Rightarrow> string \<Rightarrow> users_row" where
  "new_user i createdAt email h salt hash =
     \<lparr>u_id = i, u_created_at = createdAt, u_updated_at = None, u_salt = salt,
      u_password_hash = hash, u_email = email, u_name = None, u_handle = Some h,
      u_date_of_birth = None, u_about = None, u_community_owner_count = 0,
      u_community_participant_count = 0, u_verified = False, u_last_active_at = createdAt,
      u_cf_avatar_images_id = None, u_avatar_file_id = None\<rparr>"

definition join_invited :: "env \<Rightarrow> users_row \<Rightarrow> community_invites_row \<Rightarrow> unit go" where
  "join_invited E user invite =
     andThen (time_now E) (\<lambda>createdAt.
     andThen (on_err (tx_exec E \<lparr>st_table = ''communities_users'', st_holes = 4, st_args = 4\<rparr>
       (insert_member createdAt (i_community_id invite) (u_id user) (Some 0) None))
       (\<lambda>_. rolling_back cant_sign_up)) (\<lambda>_.
     andThen (on_err (get_community_by_id E (i_community_id invite))
       (\<lambda>_. rolling_back cant_sign_up)) (\<lambda>community.
     andThen (RecalculateAndUpdatePermissionsForUser E (u_id user) community) (\<lambda>_.
     ret ()))))"

definition sign_up_tx ::
  "env \<Rightarrow> string \<Rightarrow> string \<Rightarrow> string \<Rightarrow> community_invites_row option \<Rightarrow> users_row go" where
  "sign_up_tx E lowerEmail lowerHandle passwordHash invite =
     andThen (on_err (begin_tx E) (\<lambda>_. quit Panic)) (\<lambda>_.
     andThen (on_err (tx_exec E \<lparr>st_table = ''beta_users'', st_holes = 2, st_args = 2\<rparr>
       (redeem_beta E lowerEmail)) (\<lambda>_. rolling_back cant_sign_up)) (\<lambda>_.
     andThen (time_now E) (\<lambda>createdAt.
     andThen (new_uuid E) (\<lambda>salt.
     andThen (on_err (tx_insert E \<lparr>st_table = ''users'', st_holes = 5, st_args = 5\<rparr>
       (\<lambda>i. insert_user E (new_user i createdAt lowerEmail lowerHandle salt passwordHash)))
       (\<lambda>_. rolling_back cant_sign_up)) (\<lambda>_.
     andThen (on_err (tx_get E \<lparr>st_table = ''users'', st_holes = 1, st_args = 1\<rparr>
       (user_by_email E lowerEmail)) (\<lambda>_. rolling_back cant_sign_up)) (\<lambda>user.
     andThen (case invite of None \<Rightarrow> ret () | Some i \<Rightarrow> join_invited E user i) (\<lambda>_.
     andThen (on_err (commit E) (\<lambda>_. quit cant_sign_up)) (\<lambda>_.
     ret user))))))))"

definition SignUp :: "env \<Rightarrow> sign_up_input option \<Rightarrow> response go" where
  "SignUp E body =
     andThen (of_option body (quit (cant_sign_up_email ''Unable to sign up currently.''))) (\<lambda>input.
     andThen (need_valid 200 (sign_up_checks E input)) (\<lambda>_.
     andThen (sign_up_handle E input) (\<lambda>lowerHandle.
     andThen (sign_up_email E input) (\<lambda>lowerEmail.
     andThen (sign_up_invite E (su_code input)) (\<lambda>invite.
     andThen (sign_up_beta E lowerEmail (invite \<noteq> None)) (\<lambda>_.
     andThen (of_option (HashPassword E (su_password input))
       (quit (field_error 200 ''password'' ''Unable to signup currently.''))) (\<lambda>passwordHash.
     andThen (sign_up_tx E lowerEmail lowerHandle passwordHash invite) (\<lambda>user.
     andThen (spawn (JobRedisSet (user_key (u_id user)) (RUser user) (Some one_hour))) (\<lambda>_.
     issue_token E user (message_error 200 ''Unable to signup.''))))))))))"

section \<open>The beta list\<close>

definition JoinBeta :: "env \<Rightarrow> string option \<Rightarrow> response go" where
  "JoinBeta E body =
     (let failed = message_error 500 ''Unable to join beta currently.'' in
     andThen (of_option body (quit (field_error 401 ''email'' ''Unable to join beta currently.''))) (\<lambda>input.
     andThen (need_valid 401 (check_string E ''email'' [VRequired, VEmail] input)) (\<lambda>_.
     andThen (of_option (env_parse_address E input)
       (quit (field_error 401 ''email'' ''Not a not valid email.''))) (\<lambda>addr.
     let email = lower E addr in
     andThen (on_err (beta_count E 1 (\<lambda>b. text_eq E (bu_email b) email))
       (\<lambda>_. quit (field_error 500 ''email'' ''Unable to join beta currently.''))) (\<lambda>userCount.
     andThen (ensure (userCount = 0)
       (quit (field_error 401 ''email'' ''Already signed up to beta test.''))) (\<lambda>_.
     andThen (on_err (begin_tx E) (\<lambda>_. quit Panic)) (\<lambda>_.
     andThen (time_now E) (\<lambda>createdAt.
     andThen (on_err (tx_insert E \<lparr>st_table = ''beta_users'', st_holes = 2, st_args = 2\<rparr>
       (\<lambda>i. insert_beta E \<lparr>bu_id = i, bu_created_at = createdAt, bu_updated_at = None,
          bu_email = email, bu_redeemed = False, bu_enabled = False\<rparr>))
       (\<lambda>_. rolling_back failed)) (\<lambda>_.
     andThen (on_err (commit E) (\<lambda>_. quit failed)) (\<lambda>_.
     ret (Resp 200 (JObj [(''joined'', JBool True)]))))))))))))"

section \<open>The profile\<close>

record update_profile_input =
  up_name :: string
  up_handle :: string
  up_about :: string

definition update_profile_checks :: "env \<Rightarrow> update_profile_input \<Rightarrow> json list" where
  "update_profile_checks E input =
     check_string E ''Name'' [VLte 255] (up_name input) @
     check_string E ''Handle'' [VRequired, VGte 3, VLte 255] (up_handle input) @
     check_string E ''About'' [VLte 3000] (up_about input)"

text \<open>The answer shows the viewer as it was before the update.\<close>

definition show_viewer :: "env \<Rightarrow> users_row \<Rightarrow> (string \<times> json) list \<Rightarrow> response go" where
  "show_viewer E user extra =
     andThen (encode_id E (u_id user) USERS_TYPE (u_salt user)) (\<lambda>i.
     ret (Resp 200 (JObj ([(''id'', JStr i), (''created_at'', JStr (env_rfc3339 E (u_created_at user))),
       (''name'', JStr (null_string (u_name user))), (''handle'', JStr (null_string (u_handle user))),
       (''email'', JStr (u_email user)), (''user_count'', JNum (int (u_id user))),
       (''about'', JStr (null_string (u_about user)))] @ extra))))"

definition UpdateProfile ::
  "env \<Rightarrow> users_row option \<Rightarrow> update_profile_input option \<Rightarrow> response go" where
  "UpdateProfile E viewer body =
     (let failed = message_error 200 ''Unable to update profile.'' in
     andThen (need_viewer viewer) (\<lambda>user.
     andThen (of_option body (quit (message_error 200 ''Invalid input.''))) (\<lambda>input.
     andThen (need_valid 200 (update_profile_checks E input)) (\<lambda>_.
     let lowerHandle = lower E (up_handle input) in
     andThen (on_err (count_users E 2 (\<lambda>u. has_handle E lowerHandle u \<and> u_id u \<noteq> u_id user))
       (\<lambda>_. quit failed)) (\<lambda>handleCount.
     andThen (ensure (handleCount = 0) (quit (field_error 200 ''handle'' ''Already taken.''))) (\<lambda>_.
     andThen (on_err (begin_tx E) (\<lambda>_. quit Panic)) (\<lambda>_.
     andThen (time_now E) (\<lambda>updatedAt.
     andThen (on_err (tx_exec E \<lparr>st_table = ''users'', st_holes = 5, st_args = 5\<rparr>
       (update_profile E (u_id user) updatedAt (up_name input) lowerHandle (up_about input)))
       (\<lambda>_. rolling_back failed)) (\<lambda>_.
     andThen (on_err (tx_get E \<lparr>st_table = ''users'', st_holes = 1, st_args = 1\<rparr>
       (user_by_id (u_id user))) (\<lambda>_. rolling_back failed)) (\<lambda>updatedUser.
     andThen (on_err (commit E) (\<lambda>_. quit failed)) (\<lambda>_.
     andThen (on_err (redis_set E (user_key (u_id user)) (RUser updatedUser) (Some one_hour))
       (\<lambda>_. quit failed)) (\<lambda>_.
     show_viewer E user []))))))))))))"

text \<open>
  A file that cannot be opened is noticed when it is closed (\<^verbatim>\<open>err != err\<close> never holds): the
  handler panics with its transaction open, unless the Cloudflare client could not be made.
\<close>

definition upload_avatar :: "env \<Rightarrow> string \<Rightarrow> string go" where
  "upload_avatar E salt =
     andThen (attempt (file_io E (quit Panic))) (\<lambda>opener.
     andThen (ensure (env_cloudflare E) (rolling_back not_allowed)) (\<lambda>_.
     case opener of
       Inl r \<Rightarrow> quit r
     | Inr _ \<Rightarrow> from_cloud (\<lambda>n. env_image_id E n salt)))"

definition first_file :: "file_part list option \<Rightarrow> file_part go" where
  "first_file body =
     (let none = message_error 200 ''No files found.'' in
     andThen (of_option body (quit (message_error 200 ''Invalid input.''))) (\<lambda>files.
     andThen (ensure (files \<noteq> []) (quit none)) (\<lambda>_.
     andThen (ensure (fp_content_types (hd files) \<noteq> []) (quit none)) (\<lambda>_.
     andThen (ensure (hd (fp_content_types (hd files)) \<in> {''image/png'', ''image/jpeg''})
       (quit (message_error 200 ''Not an allowed type.''))) (\<lambda>_.
     ret (hd files))))))"

definition EditProfilePicture ::
  "env \<Rightarrow> users_row option \<Rightarrow> file_part list option \<Rightarrow> response go" where
  "EditProfilePicture E viewer body =
     (let failed = message_error 200 ''Invalid input.'' in
     andThen (need_viewer viewer) (\<lambda>user.
     andThen (first_file body) (\<lambda>file.
     andThen (new_uuid E) (\<lambda>uuid.
     let salt = uuid @ file_ext (fp_filename file) in
     andThen (time_now E) (\<lambda>createdAt.
     andThen (on_err (begin_tx E) (\<lambda>_. quit failed)) (\<lambda>_.
     andThen (upload_avatar E salt) (\<lambda>img.
     andThen (on_err (tx_insert E \<lparr>st_table = ''files'', st_holes = 6, st_args = 6\<rparr>
       (\<lambda>i. insert_file E \<lparr>f_id = i, f_created_at = createdAt, f_salt = salt,
          f_file_name = fp_filename file, f_user_id = u_id user, f_content_size = fp_size file,
          f_message_id = None, f_mime_type = None, f_cf_images_id = Some img,
          f_cf_video_stream_uid = None, f_cf_video_stream_thumbnail = None, f_cf_r2_id = None\<rparr>))
       (\<lambda>_. rolling_back failed)) (\<lambda>_.
     andThen (on_err (tx_last_insert_id E) (\<lambda>_. rolling_back failed)) (\<lambda>avatarFileId.
     andThen (on_err (tx_exec E \<lparr>st_table = ''users'', st_holes = 3, st_args = 3\<rparr>
       (update_avatar (u_id user) avatarFileId img)) (\<lambda>_. rolling_back failed)) (\<lambda>_.
     andThen (on_err (commit E) (\<lambda>_. quit failed)) (\<lambda>_.
     andThen (attempt (redis_del E (user_key (u_id user)))) (\<lambda>_.
     show_viewer E user [(''avatar_url'', JStr (env_getenv E ''CLOUDFLARE_IMAGES_PROXY''
       @ null_string (u_cf_avatar_images_id user) @ ''/public''))]))))))))))))"

section \<open>Who the viewer is\<close>

text \<open>The zero value of \<^verbatim>\<open>model.Users\<close>, left by a cache entry that is not a user.\<close>

definition zero_user :: users_row where
  "zero_user = new_user 0 0 [] [] [] []\<lparr>u_handle := None\<rparr>"

fun cached_user :: "rval \<Rightarrow> users_row" where
  "cached_user (RUser u) = u"
| "cached_user _ = zero_user"

definition claimed_id :: "env \<Rightarrow> json \<Rightarrow> nat go" where
  "claimed_id E claim =
     andThen (case claim of JStr s \<Rightarrow> ret s | _ \<Rightarrow> quit Panic) (\<lambda>id.
     andThen (decode_id E id) (\<lambda>(dbId, _).
     andThen (ensure (dbId \<noteq> 0) (quit (message_error 200 ''Unable to authorize''))) (\<lambda>_.
     ret dbId)))"

text \<open>
  A guest has no token and no viewer. The type tag of the id is not looked at. \<open>cache\<close> is what
  the two variants do with a user they read from the table.
\<close>

definition find_viewer :: "env \<Rightarrow> (users_row \<Rightarrow> unit go) \<Rightarrow> nat \<Rightarrow> users_row go" where
  "find_viewer E cache dbId =
     andThen (attempt (redis_get E (user_key dbId))) (\<lambda>val.
     case val of
       Inl _ \<Rightarrow>
         andThen (on_err (get_user_by_id E dbId) (\<lambda>_. quit (message_error 200 ''System error''))) (\<lambda>user.
         andThen (ensure (u_id user \<noteq> 0) (quit (message_error 200 ''System error''))) (\<lambda>_.
         andThen (cache user) (\<lambda>_. ret user)))
     | Inr v \<Rightarrow>
         (let viewer = cached_user v in
         andThen (ensure (u_id viewer \<noteq> 0) (quit (message_error 200 ''No user found''))) (\<lambda>_.
         andThen (spawn (JobLastActive (u_id viewer))) (\<lambda>_. ret viewer))))"

definition AuthorizationREST :: "env \<Rightarrow> json option \<Rightarrow> users_row option go" where
  "AuthorizationREST E jwtToken =
     (case jwtToken of
        None \<Rightarrow> ret None
      | Some claim \<Rightarrow>
          andThen (claimed_id E claim) (\<lambda>dbId.
          andThen (find_viewer E
            (\<lambda>user. spawn (JobRedisSet (user_key (u_id user)) (RUser user) (Some one_hour))) dbId) (\<lambda>user.
          ret (Some user))))"

text \<open>
  The variant of the chat server reads the token from the query and answers refusals as text;
  \<open>parse\<close> is \<^verbatim>\<open>jwt.Parse\<close> with a key function that accepts HMAC only: an error, or the \<^verbatim>\<open>id\<close> claim.
\<close>

definition AuthorizationWS :: "env \<Rightarrow> (string \<Rightarrow> string + json) \<Rightarrow> string \<Rightarrow> users_row go" where
  "AuthorizationWS E parse jwtToken =
     andThen (ensure (jwtToken \<noteq> []) (quit (Resp 401 (JStr ''Missing authorization token'')))) (\<lambda>_.
     andThen (case parse jwtToken of Inl e \<Rightarrow> quit (Resp 401 (JStr e)) | Inr claim \<Rightarrow> ret claim) (\<lambda>claim.
     andThen (claimed_id E claim) (\<lambda>dbId.
     find_viewer E (\<lambda>user. on_err (redis_set E (user_key (u_id user)) (RUser user) (Some one_hour))
       (\<lambda>_. quit (message_error 200 ''Unable to authorize''))) dbId)))"

section \<open>Contracts\<close>

text \<open>Signing a token with HMAC and a byte key does not fail; the handlers still check.\<close>

definition signs :: "env \<Rightarrow> bool" where
  "signs E \<longleftrightarrow> (\<forall>i t. env_sign E i t \<noteq> None)"

lemma account_responses_are_errors [simp]: "is_error cant_sign_up" "is_error (cant_sign_up_email m)"
  by (simp_all add: cant_sign_up_def cant_sign_up_email_def)

lemma moves_account_queries [shapes]:
  "moves s s s (count_users E n P)" "moves s s s (beta_count E n Q)"
  by (simp_all add: count_users_def beta_count_def shapes)

lemma sound_signed [sound_intro]:
  assumes "signs E"
  shows "sound s s (of_option (env_sign E i t) (quit r))"
proof -
  obtain y where "env_sign E i t = Some y" using assms unfolding signs_def by blast
  then show ?thesis by (simp add: of_option_def sound_ret)
qed

lemma sound_issue_token:
  assumes "aes_configured (env_aes E)" and "signs E"
  shows "sound s s (issue_token E u r)"
  unfolding issue_token_def by (rule sound_signed sound_intro sound_ids assms)+

lemma sound_account_guards [sound_intro]:
  "sound Idle Idle (sign_in_user E i1)" "sound Idle Idle (sign_up_handle E i2)"
  "sound Idle Idle (sign_up_email E i2)" "sound Idle Idle (sign_up_invite E code)"
  "sound Idle Idle (sign_up_beta E e b)" "sound Idle Idle (first_file fs)"
  unfolding sign_in_user_def sign_up_handle_def sign_up_email_def sign_up_invite_def
    sign_up_beta_def first_file_def Let_def by (rule sound_intro shapes)+

lemma sound_accept_invite [sound_intro]: "sound Idle Done (accept_invite E u code)"
  unfolding accept_invite_def Let_def by (rule sound_intro shapes)+

lemma sound_RefreshToken:
  assumes "aes_configured (env_aes E)" and "signs E"
  shows "sound Idle Done (RefreshToken E v)"
  unfolding RefreshToken_def by (rule sound_Idle_Done) (rule sound_intro sound_issue_token assms)+

lemma sound_SignIn:
  assumes "aes_configured (env_aes E)" and "signs E"
  shows "sound Idle Done (SignIn E b)"
proof -
  have "sound Idle Done (case code of None \<Rightarrow> ret a | Some c \<Rightarrow> andThen (accept_invite E u c) (\<lambda>_. ret a))"
    for code u and a :: response
    by (cases code) (auto intro!: sound_intro intro: sound_Idle_Done)
  note answer = this
  show ?thesis
    unfolding SignIn_def by (rule answer sound_issue_token [OF assms] sound_intro)+
qed

lemma sound_sign_up_tx [sound_intro]: "sound Idle Done (sign_up_tx E e h p i)"
  unfolding sign_up_tx_def join_invited_def by (rule sound_intro shapes)+

lemma sound_SignUp:
  assumes "aes_configured (env_aes E)" and "signs E"
  shows "sound Idle Done (SignUp E b)"
  unfolding SignUp_def by (rule sound_intro sound_issue_token assms)+

lemma sound_JoinBeta: "sound Idle Done (JoinBeta E b)"
  unfolding JoinBeta_def Let_def by (rule sound_intro shapes)+

lemma moves_show_viewer [shapes]: "moves s s s (show_viewer E u m)"
  unfolding show_viewer_def by (rule shapes)+

lemma moves_need_viewer [shapes]: "moves s s s (need_viewer v)" "moves s s s (need_valid c es)"
  "moves s s s (ensure b (quit e))"
  by (auto simp: need_viewer_def need_valid_def of_option_def ensure_def shapes split: option.split)

text \<open>
  Updating the profile may answer with an error after its commit, when the cache cannot be
  written: only the tidiness of its transaction is promised.
\<close>

lemma sound_tick: "sound s t m \<Longrightarrow> sound s t (\<lambda>w. m (tick w))"
  unfolding sound_def by (metis in_shape_simps(1))

lemma sound_upload_avatar:
  assumes "\<And>n. env_file_io E n"
  shows "sound Busy Busy (upload_avatar E salt)"
proof -
  have "(attempt (file_io E (quit Panic)) :: (response + unit) go) w = (Inr (Inr ()), tick w)" for w
    using assms by (simp add: attempt_def file_io_def)
  then have "upload_avatar E salt =
      (\<lambda>w. andThen (ensure (env_cloudflare E) (rolling_back not_allowed))
        (\<lambda>_. from_cloud (\<lambda>n. env_image_id E n salt)) (tick w))"
    unfolding upload_avatar_def by (simp add: andThen_def fun_eq_iff)
  moreover have "sound Busy Busy (andThen (ensure (env_cloudflare E) (rolling_back not_allowed))
        (\<lambda>_. from_cloud (\<lambda>n. env_image_id E n salt)))"
    by (rule sound_intro)+
  ultimately show ?thesis by (simp add: sound_tick)
qed

lemma moves_UpdateProfile: "moves Idle Done Done (UpdateProfile E v b)"
proof -
  have [shapes]: "moves Idle Done Idle (need_viewer v)" "moves Idle Done Idle (need_valid c es)"
    "moves Idle Done Idle (of_option x (quit e))" "moves Idle Done Idle (ensure q (quit e))" for c es x e q
    by (auto simp: need_viewer_def need_valid_def of_option_def ensure_def shapes split: option.split)
  show ?thesis
    unfolding UpdateProfile_def Let_def
    by (rule shapes)+
qed

lemma sound_EditProfilePicture_tx:
  assumes "\<And>n. env_file_io E n" and "aes_configured (env_aes E)"
  shows "sound Idle Done (EditProfilePicture E v b)"
  unfolding EditProfilePicture_def show_viewer_def Let_def
  by (rule sound_intro sound_upload_avatar sound_ids shapes assms)+

lemma sound_claimed_id:
  assumes "aes_configured (env_aes E)"
  shows "sound Idle Idle (claimed_id E claim)"
proof -
  have "sound Idle Idle (case claim of JStr s \<Rightarrow> ret s | _ \<Rightarrow> quit Panic)"
    by (simp add: sound_ret sound_quit split: json.split)
  then show ?thesis
    unfolding claimed_id_def by (intro sound_andThen) (rule sound_intro sound_ids assms | assumption)+
qed

lemma sound_find_viewer:
  assumes "\<And>u. sound Idle Idle (cache u)"
  shows "sound Idle Idle (find_viewer E cache i)"
  unfolding find_viewer_def Let_def by (rule sound_intro shapes assms)+

lemma sound_AuthorizationREST:
  assumes "aes_configured (env_aes E)"
  shows "sound Idle Idle (AuthorizationREST E t)"
  unfolding AuthorizationREST_def
  by (rule sound_intro sound_claimed_id sound_find_viewer assms)+

lemma sound_AuthorizationWS:
  assumes "aes_configured (env_aes E)"
  shows "sound Idle Idle (AuthorizationWS E parse t)"
  unfolding AuthorizationWS_def
  by (rule sound_intro sound_claimed_id sound_find_viewer shapes assms)+

lemma alive_case_option [dead_intro]:
  "alive m \<Longrightarrow> (\<And>a. alive (k a)) \<Longrightarrow> alive (case x of None \<Rightarrow> m | Some a \<Rightarrow> k a)"
  by (simp split: option.split)

lemma alive_ends [dead_intro]: "alive (from_cloud f)" "alive h \<Longrightarrow> alive (file_io E h)"
  by (simp_all add: alive_def wp_def from_cloud_def file_io_def)

lemma alive_RecalculateForUser [dead_intro]: "alive (RecalculateAndUpdatePermissionsForUser E i c)"
  unfolding RecalculateAndUpdatePermissionsForUser_def Let_def by (rule dead_intro)+

lemma alive_accounts [dead_intro]:
  "is_error r \<Longrightarrow> alive (issue_token E u r)" "alive (sign_in_user E i1)"
  "alive (sign_up_handle E i2)" "alive (sign_up_email E i2)" "alive (sign_up_invite E code)"
  "alive (sign_up_beta E e b)" "alive (first_file fs)" "alive (accept_invite E u c)"
  "alive (join_invited E u vite)" "alive (show_viewer E u extra)"
  unfolding issue_token_def sign_in_user_def sign_up_handle_def sign_up_email_def
    sign_up_invite_def sign_up_beta_def first_file_def accept_invite_def join_invited_def
    show_viewer_def Let_def
  by (rule dead_intro is_error_simps account_responses_are_errors | assumption)+

lemma alive_upload_avatar [dead_intro]: "alive (upload_avatar E salt)"
  by (auto simp: alive_def wp_def upload_avatar_def andThen_def attempt_def file_io_def quit_def
      ensure_def ret_def rolling_back_def from_cloud_def split: prod.splits sum.splits if_splits)

lemma alive_account_handlers [dead_intro]:
  "alive (SignIn E b1)" "alive (SignUp E b2)" "alive (JoinBeta E b3)" "alive (UpdateProfile E v b4)"
  "alive (EditProfilePicture E v b5)" "alive (RefreshToken E v)"
  unfolding SignIn_def SignUp_def sign_up_tx_def JoinBeta_def UpdateProfile_def
    EditProfilePicture_def RefreshToken_def Let_def
  by (rule dead_intro is_error_simps account_responses_are_errors)+

text \<open>An answer of these handlers is a success.\<close>

lemma answers_issue_token: "answers (issue_token E u r)"
  unfolding issue_token_def by (intro answers_andThen answers_rules) (simp add: json_field_def)

lemma answers_accounts:
  "answers (SignUp E b1)" "answers (JoinBeta E b2)" "answers (RefreshToken E v)"
  "answers (UpdateProfile E v b3)"
  unfolding SignUp_def JoinBeta_def RefreshToken_def UpdateProfile_def show_viewer_def Let_def
  by (intro answers_andThen answers_rules answers_issue_token; simp add: json_field_def)+

lemma answers_SignIn: "answers (SignIn E b)"
proof -
  have "\<not> is_error a" if "issue_token E u r w = (Inr a, w')" for E u r w a w'
    using answers_issue_token that unfolding answers_def by blast
  then show ?thesis
    unfolding answers_def SignIn_def
    by (auto elim!: andThen_InrE dest!: ret_InrD split: option.splits)
qed

lemma answers_EditProfilePicture: "answers (EditProfilePicture E v b)"
  unfolding EditProfilePicture_def show_viewer_def Let_def
  by (intro answers_andThen answers_rules) (simp add: json_field_def)

section \<open>Endpoints\<close>

interpretation sign_in: endpoint "\<lambda>q. run (case q of (E, b) \<Rightarrow> SignIn E b)"
  "\<lambda>q. aes_configured (env_aes (fst q)) \<and> signs (fst q)"
  by (rule endpointI) (auto intro: sound_SignIn answers_SignIn)

interpretation sign_up: endpoint "\<lambda>q. run (case q of (E, b) \<Rightarrow> SignUp E b)"
  "\<lambda>q. aes_configured (env_aes (fst q)) \<and> signs (fst q)"
  by (rule endpointI) (auto intro: sound_SignUp answers_accounts)

interpretation join_beta: endpoint "\<lambda>q. run (case q of (E, b) \<Rightarrow> JoinBeta E b)" "\<lambda>_. True"
  by (rule endpointI) (auto intro: sound_JoinBeta answers_accounts)

interpretation refresh_token: endpoint "\<lambda>q. run (case q of (E, v) \<Rightarrow> RefreshToken E v)"
  "\<lambda>q. aes_configured (env_aes (fst q)) \<and> signs (fst q)"
  by (rule endpointI) (auto intro: sound_RefreshToken answers_accounts)

interpretation update_profile: tidy_endpoint "\<lambda>q. run (case q of (E, v, b) \<Rightarrow> UpdateProfile E v b)"
  "\<lambda>_. True"
  by (rule tidy_endpointI) (auto intro: moves_UpdateProfile)

interpretation edit_picture: endpoint "\<lambda>q. run (case q of (E, v, b) \<Rightarrow> EditProfilePicture E v b)"
  "\<lambda>q. aes_configured (env_aes (fst q)) \<and> (\<forall>n. env_file_io (fst q) n)"
  by (rule endpointI) (auto intro: sound_EditProfilePicture_tx answers_EditProfilePicture)

section \<open>What a successful request has done\<close>

lemma issue_token_InrD:
  "issue_token E u e w = (Inr r, w') \<Longrightarrow>
   \<exists>i t exp. Encode (env_aes E) (u_id u) USERS_TYPE (u_salt u) = Returned i \<and>
     env_sign E i exp = Some t \<and> r = Resp 200 (JObj [(''token'', JStr t)]) \<and> w' = tick w"
  by (auto simp: issue_token_def elim!: andThen_InrE dest!: inr_dest)

lemma count_users_InrD:
  "count_users E n P w = (Inr k, w') \<Longrightarrow> k = length (filter P (d_users (w_db w))) \<and> w' = tick w"
  by (auto simp: count_users_def dest!: db_get_InrD)

lemma beta_count_InrD:
  "beta_count E n P w = (Inr k, w') \<Longrightarrow> k = length (filter P (d_beta (w_db w))) \<and> w' = tick w"
  by (auto simp: beta_count_def dest!: db_get_InrD)

lemma need_valid_InrD: "need_valid c es w = (Inr u, w') \<Longrightarrow> es = [] \<and> w' = w"
  unfolding need_valid_def by (drule ensure_InrD(1)) simp

lemma get_community_by_id_InrD:
  "get_community_by_id E i w = (Inr c, w') \<Longrightarrow>
   c \<in> set (d_communities (w_db w)) \<and> c_id c = i \<and> w' = tick w"
  by (auto simp: get_community_by_id_def community_by_id_def dest!: db_get_InrD dest: find_SomeD)

lemma accept_invite_fails: "accept_invite E u c w \<noteq> (Inr x, w')"
proof -
  have p: "prepare \<lparr>st_table = ''communities_banned_users'', st_holes = 1, st_args = 2\<rparr> \<noteq> None"
    by (simp add: prepare_def)
  have stuck: "db_get E \<lparr>st_table = ''communities_banned_users'', st_holes = Suc 0, st_args = 2\<rparr> f v \<noteq> (Inr y, v')"
    for f :: "database \<Rightarrow> nat option" and v y v'
    by (rule notI, drule db_get_InrD) (use p in simp)
  show ?thesis
    by (auto simp: accept_invite_def Let_def stuck elim!: andThen_InrE dest!: on_err_quit_InrD)
qed

lemma sign_in_user_InrD:
  "sign_in_user E i w = (Inr u, w') \<Longrightarrow>
   \<exists>addr. env_parse_address E (si_email i) = Some addr \<and>
     user_by_email E (lower E addr) (w_db w) = Some u \<and> u_password_hash u \<noteq> [] \<and>
     CheckPasswordHash E (si_password i) (u_password_hash u) \<and> same_stores w w' \<and> w_jobs w' = w_jobs w"
  by (auto simp: sign_in_user_def Let_def same_stores_def elim!: andThen_InrE
      dest!: inr_dest count_users_InrD db_get_InrD)

text \<open>
  Signing in proves the password of the user with that address; it changes no table. With an
  invite code it never succeeds.
\<close>

lemma SignIn_done:
  assumes "SignIn E b w = (Inr r, w')"
  obtains input addr u i t exp where "b = Some input" and "si_code input = None"
    and "env_parse_address E (si_email input) = Some addr"
    and "user_by_email E (lower E addr) (w_db w) = Some u"
    and "CheckPasswordHash E (si_password input) (u_password_hash u)"
    and "Encode (env_aes E) (u_id u) USERS_TYPE (u_salt u) = Returned i"
    and "env_sign E i exp = Some t" and "r = Resp 200 (JObj [(''token'', JStr t)])"
    and "same_stores w w'"
    and "w_jobs w' = w_jobs w @ [JobRedisSet (user_key (u_id u)) (RUser u) (Some one_hour)]"
proof -
  obtain input u w1 w2 w3 a where b: "b = Some input"
    and 1: "sign_in_user E input w = (Inr u, w1)"
    and 2: "(spawn (JobRedisSet (user_key (u_id u)) (RUser u) (Some one_hour)) :: unit go) w1 = (Inr (), w2)"
    and 3: "issue_token E u (message_error 200 ''Unable to login.'') w2 = (Inr a, w3)"
    and 4: "(case si_code input of None \<Rightarrow> ret a
      | Some code \<Rightarrow> andThen (accept_invite E u code) (\<lambda>_. ret a)) w3 = (Inr r, w')"
    using assms unfolding SignIn_def
    by (auto elim!: andThen_InrE dest!: of_option_InrD need_valid_InrD)
  have code: "si_code input = None" and r: "r = a" "w' = w3"
    using 4 accept_invite_fails
    by (auto split: option.splits elim!: andThen_InrE dest!: ret_InrD)
  show ?thesis
    using sign_in_user_InrD [OF 1] spawn_InrD [OF 2] issue_token_InrD [OF 3] b code r
    by (auto simp: same_stores_def intro: that)
qed

lemma RecalculateForUser_InrD:
  assumes "RecalculateAndUpdatePermissionsForUser E u c w = (Inr p, w')" and "w_txs w = d # ds"
  shows "(\<exists>d'. w_txs w' = d' # ds \<and> (d' = d \<or> d' = d\<lparr>d_members := rows_update
            (\<lambda>r. cu_user_id r = u \<and> cu_community_id r = c_id c) (\<lambda>r. r\<lparr>cu_permissions := p\<rparr>)
            (d_members d)\<rparr>)) \<and>
         w_db w' = w_db w \<and> w_auto w' = w_auto w"
proof -
  let ?set = "\<lambda>p. tx_exec E \<lparr>st_table = ''communities_users'', st_holes = 10, st_args = 10\<rparr>
      (set_member_permissions u (c_id c) p)"
  have set: "(\<exists>d'. w_txs y = d' # ds \<and> (d' = d \<or> d' = d\<lparr>d_members := rows_update
            (\<lambda>r. cu_user_id r = u \<and> cu_community_id r = c_id c) (\<lambda>r. r\<lparr>cu_permissions := p\<rparr>)
            (d_members d)\<rparr>)) \<and> w_db y = w_db x \<and> w_auto y = w_auto x"
    if "?set p x = (res, y)" "w_txs x = d # ds" for p x res y
    using that by (auto simp: call_defs set_member_permissions_def split: option.splits)
  have del: "w_txs y = w_txs x \<and> w_db y = w_db x \<and> w_auto y = w_auto x"
    if "redis_del E k x = (res, y)" for k x res y
    using that by (auto simp: call_defs split: option.splits)
  have roles: "w_txs y = w_txs x \<and> w_db y = w_db x \<and> w_auto y = w_auto x"
    if "user_roles E u c x = (res, y)" for x res y
    using that by (auto simp: user_roles_def andThen_def ret_def call_defs
        split: option.splits list.splits sum.splits prod.splits if_splits)
  have finish: ?thesis
    if 1: "?set p x = (res, y)" and 2: "redis_del E k y = (res', w')" and x: "w_txs x = d # ds"
      "w_db x = w_db w" "w_auto x = w_auto w" for x y k res res'
    using set [OF 1 x(1)] del [OF 2] x by auto
  show ?thesis
  proof (cases "u = c_owner_id c")
    case True
    then show ?thesis
      using assms finish
      by (auto simp: RecalculateAndUpdatePermissionsForUser_def Let_def elim!: andThen_InrE
          dest!: attempt_InrD ret_InrD)
  next
    case False
    obtain res x where r: "user_roles E u c w = (res, x)" by (cases "user_roles E u c w")
    show ?thesis
      using assms False finish roles [OF r] r
      by (auto simp: RecalculateAndUpdatePermissionsForUser_def Let_def elim!: andThen_InrE
          dest!: attempt_InrD ret_InrD split: sum.splits)
  qed
qed

text \<open>
  Signing up: the address and the handle are new, and the person was invited or is on the
  beta list. One user row is added, the beta entry is redeemed, and an invite makes the new
  user a member of the community it belongs to.
\<close>

definition admitted :: "env \<Rightarrow> string \<Rightarrow> string option \<Rightarrow> database \<Rightarrow> bool" where
  "admitted E email code d \<longleftrightarrow>
     (\<exists>c i. code = Some c \<and> invite_by_code E c d = Some i) \<or>
     (code = None \<and> (\<exists>b \<in> set (d_beta d). text_eq E (bu_email b) email \<and> bu_enabled b \<and> \<not> bu_redeemed b))"

lemma sign_up_guards_InrD:
  "sign_up_handle E i w = (Inr h, w') \<Longrightarrow> h = lower E (su_handle i) \<and>
     (\<forall>u \<in> set (d_users (w_db w)). \<not> has_handle E h u) \<and> handle_matches h \<and> same_stores w w'
     \<and> w_jobs w' = w_jobs w"
  "sign_up_email E i w = (Inr e, w') \<Longrightarrow>
     (\<exists>addr. env_parse_address E (su_email i) = Some addr \<and> e = lower E addr) \<and>
     (\<forall>u \<in> set (d_users (w_db w)). \<not> has_email E e u) \<and> same_stores w w' \<and> w_jobs w' = w_jobs w"
  "sign_up_invite E code w = (Inr vite, w') \<Longrightarrow>
     (case code of None \<Rightarrow> vite = None | Some c \<Rightarrow> vite \<noteq> None \<and> invite_by_code E c (w_db w) = vite)
     \<and> same_stores w w' \<and> w_jobs w' = w_jobs w"
  by (auto simp: sign_up_handle_def sign_up_email_def sign_up_invite_def Let_def same_stores_def
      filter_empty_conv elim!: andThen_InrE dest!: inr_dest count_users_InrD db_get_InrD
      split: option.splits)

lemma sign_up_beta_InrD:
  "sign_up_beta E e valid w = (Inr u, w') \<Longrightarrow>
   (valid \<or> (\<exists>b \<in> set (d_beta (w_db w)). text_eq E (bu_email b) e \<and> bu_enabled b \<and> \<not> bu_redeemed b))
   \<and> same_stores w w' \<and> w_jobs w' = w_jobs w"
proof -
  have one: "\<exists>x \<in> set xs. P x" if "Suc 0 = length (filter P xs)" for P and xs :: "beta_users_row list"
  proof (rule ccontr)
    assume "\<not> (\<exists>x \<in> set xs. P x)"
    then have "filter P xs = []" by (simp add: filter_empty_conv)
    with that show False by simp
  qed
  assume "sign_up_beta E e valid w = (Inr u, w')"
  then show ?thesis
    by (cases valid) (auto simp: sign_up_beta_def Let_def same_stores_def elim!: andThen_InrE
        dest!: inr_dest beta_count_InrD one)
qed

lemma join_invited_InrD:
  assumes "join_invited E u i w = (Inr x, w')" and "w_txs w = d # ds"
  shows "\<exists>d' t p. w_txs w' = d' # ds \<and> w_db w' = w_db w \<and> w_auto w' = w_auto w \<and>
    (let r = \<lparr>cu_created_at = t, cu_community_id = i_community_id i, cu_selected_channel_id = 0,
              cu_user_id = u_id u, cu_permissions = no_permissions\<rparr> in
     d' = d\<lparr>d_members := d_members d @ [r]\<rparr> \<or>
     d' = d\<lparr>d_members := rows_update
       (\<lambda>r. cu_user_id r = u_id u \<and> cu_community_id r = i_community_id i)
       (\<lambda>r. r\<lparr>cu_permissions := p\<rparr>) (d_members d @ [r])\<rparr>)"
proof -
  obtain t c p w1 w2 w3 where t: "(time_now E :: nat go) w = (Inr t, w1)"
    and 1: "tx_exec E \<lparr>st_table = ''communities_users'', st_holes = 4, st_args = 4\<rparr>
       (insert_member t (i_community_id i) (u_id u) (Some 0) None) w1 = (Inr (), w2)"
    and 2: "get_community_by_id E (i_community_id i) w2 = (Inr c, w3)"
    and 3: "(RecalculateAndUpdatePermissionsForUser E (u_id u) c :: permissions go) w3 = (Inr p, w')"
    using assms(1) unfolding join_invited_def
    by (auto elim!: andThen_InrE dest!: on_err_quit_InrD ret_InrD)
  have w2: "w_txs w2 = d\<lparr>d_members := d_members d @
      [\<lparr>cu_created_at = t, cu_community_id = i_community_id i, cu_selected_channel_id = 0,
        cu_user_id = u_id u, cu_permissions = no_permissions\<rparr>]\<rparr> # ds" "w_db w2 = w_db w"
    "w_auto w2 = w_auto w"
    using tx_exec_InrD [OF 1] assms(2) time_now_InrD [OF t] by (auto simp: insert_member_def)
  have w3: "w3 = tick w2" "c_id c = i_community_id i" using get_community_by_id_InrD [OF 2] by auto
  show ?thesis
    using RecalculateForUser_InrD [OF 3] w2 w3 by (fastforce simp: Let_def)
qed

lemma sign_up_tx_InrD:
  assumes "sign_up_tx E e h p vite w = (Inr u, w')"
  shows "\<exists>t salt ms. u = new_user (w_auto w ''users'') t e h salt p \<and> w_txs w' = w_txs w \<and>
    w_db w' = (w_db w)\<lparr>d_users := d_users (w_db w) @ [u],
      d_beta := rows_update (\<lambda>b. text_eq E (bu_email b) e) (\<lambda>b. b\<lparr>bu_redeemed := True\<rparr>) (d_beta (w_db w)),
      d_members := ms\<rparr> \<and>
    map (\<lambda>r. (cu_user_id r, cu_community_id r)) ms =
      map (\<lambda>r. (cu_user_id r, cu_community_id r)) (d_members (w_db w)) @
      (case vite of None \<Rightarrow> [] | Some i \<Rightarrow> [(u_id u, i_community_id i)])"
proof -
  obtain t salt w1 w2 w3 w4 w5 w6 w7 where
    1: "begin_tx E w = (Inr (), w1)"
    and 2: "tx_exec E \<lparr>st_table = ''beta_users'', st_holes = 2, st_args = 2\<rparr> (redeem_beta E e) w1 = (Inr (), w2)"
    and 3: "(time_now E :: nat go) w2 = (Inr t, w3)" and 4: "(new_uuid E :: string go) w3 = (Inr salt, w4)"
    and 5: "tx_insert E \<lparr>st_table = ''users'', st_holes = 5, st_args = 5\<rparr>
       (\<lambda>i. insert_user E (new_user i t e h salt p)) w4 = (Inr (), w5)"
    and 6: "tx_get E \<lparr>st_table = ''users'', st_holes = 1, st_args = 1\<rparr> (user_by_email E e) w5 = (Inr u, w6)"
    and 7: "(case vite of None \<Rightarrow> ret () | Some i \<Rightarrow> join_invited E u i) w6 = (Inr (), w7)"
    and 8: "commit E w7 = (Inr (), w')"
    using assms unfolding sign_up_tx_def
    by (auto elim!: andThen_InrE dest!: on_err_quit_InrD ret_InrD)
  let ?d = "w_db w"
  let ?b = "rows_update (\<lambda>b. text_eq E (bu_email b) e) (\<lambda>b. b\<lparr>bu_redeemed := True\<rparr>) (d_beta ?d)"
  let ?u = "new_user (w_auto w ''users'') t e h salt p"
  have w2: "w_txs w2 = ?d\<lparr>d_beta := ?b\<rparr> # w_txs w" "w_db w2 = ?d" "w_auto w2 = w_auto w"
    using begin_tx_InrD [OF 1] tx_exec_InrD [OF 2] by (auto simp: redeem_beta_def)
  have w4: "w_txs w4 = w_txs w2" "w_db w4 = ?d" "w_auto w4 = w_auto w"
    using time_now_InrD [OF 3] new_uuid_InrD [OF 4] w2 by auto
  have new: "\<not> has_email E e x" if "x \<in> set (d_users ?d)" for x
    using tx_insert_InrD [OF 5] w4 w2 that by (auto simp: insert_user_def new_user_def split: if_splits)
  have w5: "w_txs w5 = ?d\<lparr>d_beta := ?b, d_users := d_users ?d @ [?u]\<rparr> # w_txs w" "w_db w5 = ?d"
    using tx_insert_InrD [OF 5] w4 w2 by (auto simp: insert_user_def split: if_splits)
  have "find (has_email E e) (d_users ?d) = None" using new by (simp add: find_None_iff')
  then have u: "u = ?u" "w_txs w6 = w_txs w5" "w_db w6 = ?d"
    using tx_get_InrD [OF 6] w5
    by (auto simp: user_by_email_def find_append has_email_def new_user_def text_eq_def)
  obtain ms where w7: "w_txs w7 = ?d\<lparr>d_beta := ?b, d_users := d_users ?d @ [?u], d_members := ms\<rparr> # w_txs w"
    and ms: "map (\<lambda>r. (cu_user_id r, cu_community_id r)) ms =
      map (\<lambda>r. (cu_user_id r, cu_community_id r)) (d_members ?d) @
      (case vite of None \<Rightarrow> [] | Some i \<Rightarrow> [(u_id u, i_community_id i)])"
  proof (cases vite)
    case None
    show ?thesis
      by (rule that [of "d_members ?d"]) (use 7 None u w5 in \<open>auto dest!: ret_InrD\<close>)
  next
    case (Some i)
    then have "join_invited E u i w6 = (Inr (), w7)" using 7 by simp
    from join_invited_InrD [OF this u(2) [unfolded w5(1)]] show ?thesis
      using Some by (auto simp: Let_def map_rows_update_key intro: that)
  qed
  show ?thesis
    using commit_InrD [OF 8] w7 ms u(1) by (auto intro!: exI [of _ t] exI [of _ salt] exI [of _ ms])
qed

lemma SignUp_done:
  assumes "SignUp E b w = (Inr r, w')"
  obtains input addr hash t salt u ms i tok exp vite where "b = Some input"
    and "env_parse_address E (su_email input) = Some addr"
    and "HashPassword E (su_password input) = Some hash"
    and "u = new_user (w_auto w ''users'') t (lower E addr) (lower E (su_handle input)) salt hash"
    and "\<forall>x \<in> set (d_users (w_db w)). \<not> has_email E (u_email u) x \<and> \<not> has_handle E (lower E (su_handle input)) x"
    and "admitted E (u_email u) (su_code input) (w_db w)"
    and "vite = (case su_code input of None \<Rightarrow> None | Some c \<Rightarrow> invite_by_code E c (w_db w))"
    and "w_db w' = (w_db w)\<lparr>d_users := d_users (w_db w) @ [u],
      d_beta := rows_update (\<lambda>b. text_eq E (bu_email b) (u_email u)) (\<lambda>b. b\<lparr>bu_redeemed := True\<rparr>)
        (d_beta (w_db w)), d_members := ms\<rparr>"
    and "map (\<lambda>r. (cu_user_id r, cu_community_id r)) ms =
      map (\<lambda>r. (cu_user_id r, cu_community_id r)) (d_members (w_db w)) @
      (case vite of None \<Rightarrow> [] | Some i \<Rightarrow> [(u_id u, i_community_id i)])"
    and "Encode (env_aes E) (u_id u) USERS_TYPE (u_salt u) = Returned i"
    and "env_sign E i exp = Some tok" and "r = Resp 200 (JObj [(''token'', JStr tok)])"
proof -
  obtain input w1 w2 w3 w4 w5 w6 h e vite hash u where b: "b = Some input"
    and 1: "sign_up_handle E input w = (Inr h, w1)" and 2: "sign_up_email E input w1 = (Inr e, w2)"
    and 3: "sign_up_invite E (su_code input) w2 = (Inr vite, w3)"
    and 4: "sign_up_beta E e (vite \<noteq> None) w3 = (Inr (), w4)"
    and 5: "HashPassword E (su_password input) = Some hash"
    and 6: "sign_up_tx E e h hash vite w4 = (Inr u, w5)"
    and 7: "(spawn (JobRedisSet (user_key (u_id u)) (RUser u) (Some one_hour)) :: unit go) w5 = (Inr (), w6)"
    and 8: "issue_token E u (message_error 200 ''Unable to signup.'') w6 = (Inr r, w')"
    using assms unfolding SignUp_def
    by (auto elim!: andThen_InrE dest!: of_option_InrD need_valid_InrD)
  have s1: "same_stores w w1" and s2: "same_stores w w2" and s3: "same_stores w w3"
    and s4: "same_stores w w4"
    using sign_up_guards_InrD(1) [OF 1] sign_up_guards_InrD(2) [OF 2] sign_up_guards_InrD(3) [OF 3]
      sign_up_beta_InrD [OF 4] by (auto intro: same_stores_trans)
  have v: "vite = (case su_code input of None \<Rightarrow> None | Some c \<Rightarrow> invite_by_code E c (w_db w))"
    using sign_up_guards_InrD(3) [OF 3] s2 by (auto simp: same_stores_def split: option.splits)
  have adm: "admitted E e (su_code input) (w_db w)"
    using sign_up_beta_InrD [OF 4] sign_up_guards_InrD(3) [OF 3] s2 s3
    by (auto simp: admitted_def same_stores_def split: option.splits)
  obtain t salt ms where u: "u = new_user (w_auto w ''users'') t e h salt hash"
    and db: "w_db w5 = (w_db w)\<lparr>d_users := d_users (w_db w) @ [u],
      d_beta := rows_update (\<lambda>b. text_eq E (bu_email b) e) (\<lambda>b. b\<lparr>bu_redeemed := True\<rparr>) (d_beta (w_db w)),
      d_members := ms\<rparr>"
    and ms: "map (\<lambda>r. (cu_user_id r, cu_community_id r)) ms =
      map (\<lambda>r. (cu_user_id r, cu_community_id r)) (d_members (w_db w)) @
      (case vite of None \<Rightarrow> [] | Some i \<Rightarrow> [(u_id u, i_community_id i)])"
    using sign_up_tx_InrD [OF 6] s4 by (auto simp: same_stores_def)
  have email: "u_email u = e" by (simp add: u new_user_def)
  have fin: "w_db w' = w_db w5" using spawn_InrD [OF 7] issue_token_InrD [OF 8] by auto
  obtain addr where addr: "env_parse_address E (su_email input) = Some addr" and e: "e = lower E addr"
    using sign_up_guards_InrD(2) [OF 2] by blast
  have h: "h = lower E (su_handle input)" using sign_up_guards_InrD(1) [OF 1] by blast
  have "w_db w1 = w_db w" using s1 by (simp add: same_stores_def)
  then have new: "\<forall>x \<in> set (d_users (w_db w)). \<not> has_email E (u_email u) x \<and> \<not> has_handle E h x"
    using sign_up_guards_InrD(1) [OF 1] sign_up_guards_InrD(2) [OF 2] email by metis
  obtain i tok exp where tok: "Encode (env_aes E) (u_id u) USERS_TYPE (u_salt u) = Returned i"
    "env_sign E i exp = Some tok" "r = Resp 200 (JObj [(''token'', JStr tok)])"
    using issue_token_InrD [OF 8] by blast
  show ?thesis
    by (rule that [OF b addr 5 u [unfolded e h] new [unfolded h] adm [folded email] v
      fin [unfolded db, folded email] ms tok])
qed

lemma JoinBeta_done:
  assumes "JoinBeta E b w = (Inr r, w')"
  obtains input addr t where "b = Some input" and "env_parse_address E input = Some addr"
    and "\<forall>x \<in> set (d_beta (w_db w)). \<not> text_eq E (bu_email x) (lower E addr)"
    and "w_db w' = (w_db w)\<lparr>d_beta := d_beta (w_db w) @
      [\<lparr>bu_id = w_auto w ''beta_users'', bu_created_at = t, bu_updated_at = None,
        bu_email = lower E addr, bu_redeemed = False, bu_enabled = False\<rparr>]\<rparr>"
  using assms unfolding JoinBeta_def Let_def
  by (auto elim!: andThen_InrE dest!: inr_dest need_valid_InrD beta_count_InrD call_InrD
      simp: insert_beta_def filter_empty_conv split: if_splits intro: that)

lemma redis_set_InrD:
  "redis_set E k v ttl w = (Inr (), w') \<Longrightarrow>
   \<exists>x. w' = (tick w)\<lparr>w_redis := (w_redis w)(k \<mapsto> (v, x))\<rparr>"
  by (auto simp: call_defs split: option.splits)

lemma redis_del_attempt:
  "redis_del E k w = (res, w') \<Longrightarrow>
   w_db w' = w_db w \<and> w_txs w' = w_txs w \<and> w_redis w' \<in> {w_redis w, (w_redis w)(k := None)}"
  by (auto simp: call_defs split: option.splits)

lemma show_viewer_InrD:
  "show_viewer E u extra w = (Inr r, w') \<Longrightarrow> w' = w \<and>
   (\<exists>i. r = Resp 200 (JObj ([(''id'', JStr i), (''created_at'', JStr (env_rfc3339 E (u_created_at u))),
       (''name'', JStr (null_string (u_name u))), (''handle'', JStr (null_string (u_handle u))),
       (''email'', JStr (u_email u)), (''user_count'', JNum (int (u_id u))),
       (''about'', JStr (null_string (u_about u)))] @ extra)))"
  by (auto simp: show_viewer_def elim!: andThen_InrE dest!: inr_dest)

text \<open>
  An update of the profile changes the row of the viewer, puts that row into the cache, and
  answers with the old values.
\<close>

lemma UpdateProfile_done:
  assumes "UpdateProfile E v b w = (Inr r, w')"
  obtains user input t u ttl where "v = Some user" and "b = Some input"
    and "\<forall>x \<in> set (d_users (w_db w)). has_handle E (lower E (up_handle input)) x \<longrightarrow> u_id x = u_id user"
    and "w_db w' = (w_db w)\<lparr>d_users := rows_update (\<lambda>u. u_id u = u_id user)
             (\<lambda>u. u\<lparr>u_updated_at := Some t, u_name := Some (up_name input),
                    u_handle := Some (lower E (up_handle input)), u_about := Some (up_about input)\<rparr>)
             (d_users (w_db w))\<rparr>"
    and "user_by_id (u_id user) (w_db w') = Some u"
    and "w_redis w' = (w_redis w)(user_key (u_id user) \<mapsto> (RUser u, ttl))"
    and "\<exists>j. r = Resp 200 j \<and> json_field j ''name'' = Some (JStr (null_string (u_name user)))"
proof -
  obtain user input t u w1 w2 w3 w4 w5 w6 w7 where v: "v = Some user" and b: "b = Some input"
    and 1: "count_users E 2 (\<lambda>u. has_handle E (lower E (up_handle input)) u \<and> u_id u \<noteq> u_id user) w = (Inr 0, w1)"
    and 2: "begin_tx E w1 = (Inr (), w2)" and 3: "(time_now E :: nat go) w2 = (Inr t, w3)"
    and 4: "tx_exec E \<lparr>st_table = ''users'', st_holes = 5, st_args = 5\<rparr>
       (update_profile E (u_id user) t (up_name input) (lower E (up_handle input)) (up_about input)) w3 = (Inr (), w4)"
    and 5: "tx_get E \<lparr>st_table = ''users'', st_holes = 1, st_args = 1\<rparr> (user_by_id (u_id user)) w4 = (Inr u, w5)"
    and 6: "commit E w5 = (Inr (), w6)"
    and 7: "redis_set E (user_key (u_id user)) (RUser u) (Some one_hour) w6 = (Inr (), w7)"
    and 8: "show_viewer E user [] w7 = (Inr r, w')"
    using assms unfolding UpdateProfile_def Let_def need_viewer_def
    by (auto elim!: andThen_InrE dest!: on_err_quit_InrD of_option_InrD need_valid_InrD ensure_InrD)
  have w3: "w_txs w3 = w_db w # w_txs w" "w_redis w3 = w_redis w"
    using count_users_InrD [OF 1] begin_tx_InrD [OF 2] time_now_InrD [OF 3] by auto
  obtain d where d: "update_profile E (u_id user) t (up_name input) (lower E (up_handle input))
      (up_about input) (w_db w) = Inr d"
    and w4: "w_txs w4 = d # w_txs w" "w_redis w4 = w_redis w"
    using tx_exec_InrD [OF 4] w3 by auto
  have u: "user_by_id (u_id user) d = Some u" "w_txs w5 = d # w_txs w" "w_redis w5 = w_redis w"
    using tx_get_InrD [OF 5] w4 by auto
  have w6: "w_db w6 = d" "w_redis w6 = w_redis w" using commit_InrD [OF 6] u by auto
  have fin: "w_db w' = d" "\<exists>x. w_redis w' = (w_redis w)(user_key (u_id user) \<mapsto> (RUser u, x))"
    using redis_set_InrD [OF 7] show_viewer_InrD [OF 8] w6 by auto
  have found: "\<not> (\<forall>u \<in> set (d_users (w_db w)). u_id u \<noteq> u_id user)"
    using u(1) d by (auto simp: user_by_id_def update_profile_def dest!: find_SomeD split: if_splits)
  have upd: "d = (w_db w)\<lparr>d_users := rows_update (\<lambda>u. u_id u = u_id user)
             (\<lambda>u. u\<lparr>u_updated_at := Some t, u_name := Some (up_name input),
                    u_handle := Some (lower E (up_handle input)), u_about := Some (up_about input)\<rparr>)
             (d_users (w_db w))\<rparr>"
    using d found by (auto simp: update_profile_def split: if_splits)
  have ans: "\<exists>j. r = Resp 200 j \<and> json_field j ''name'' = Some (JStr (null_string (u_name user)))"
    using show_viewer_InrD [OF 8] by (auto simp: json_field_def)
  obtain x where x: "w_redis w' = (w_redis w)(user_key (u_id user) \<mapsto> (RUser u, x))"
    using fin(2) by blast
  show ?thesis
    by (rule that [OF v b _ fin(1) [unfolded upd] _ x ans])
      (use count_users_InrD [OF 1] u(1) fin(1) in \<open>auto simp: filter_empty_conv\<close>)
qed

lemma rows_update_none: "\<forall>r \<in> set rs. \<not> P r \<Longrightarrow> rows_update P f rs = rs"
  by (induction rs) simp_all

lemma upload_avatar_InrD: "upload_avatar E salt w = (Inr img, w') \<Longrightarrow> w' = tick (tick w)"
  by (auto simp: upload_avatar_def andThen_def attempt_def file_io_def quit_def ensure_def ret_def
      rolling_back_def from_cloud_def split: prod.splits sum.splits if_splits)

lemma first_file_InrD:
  "first_file b w = (Inr f, w') \<Longrightarrow>
   w' = w \<and> (\<exists>fs. b = Some (f # fs)) \<and> hd (fp_content_types f) \<in> {''image/png'', ''image/jpeg''}"
  by (auto simp: first_file_def Let_def neq_Nil_conv elim!: andThen_InrE dest!: inr_dest)

text \<open>A new picture is a new file, and the viewer's cached row is dropped if Redis answers.\<close>

lemma EditProfilePicture_done:
  assumes "EditProfilePicture E v b w = (Inr r, w')"
  obtains user f fs row where "v = Some user" and "b = Some (f # fs)"
    and "hd (fp_content_types f) \<in> {''image/png'', ''image/jpeg''}"
    and "f_id row = w_auto w ''files''" and "f_user_id row = u_id user"
    and "\<forall>x \<in> set (d_files (w_db w)). \<not> text_eq E (f_salt x) (f_salt row)"
    and "w_db w' = (w_db w)\<lparr>d_files := d_files (w_db w) @ [row],
      d_users := rows_update (\<lambda>u. u_id u = u_id user) (\<lambda>u. u\<lparr>u_avatar_file_id := Some (f_id row),
        u_cf_avatar_images_id := f_cf_images_id row\<rparr>) (d_users (w_db w))\<rparr>"
    and "w_redis w' \<in> {w_redis w, (w_redis w)(user_key (u_id user) := None)}"
proof -
  obtain user f x t img i w2 w3 w4 w5 w6 w7 w8 w9 w10 res u where v: "v = Some user"
    and 1: "first_file b w = (Inr f, w2)" and 2: "(new_uuid E :: string go) w2 = (Inr x, w3)"
    and 3: "(time_now E :: nat go) w3 = (Inr t, w4)" and 4: "begin_tx E w4 = (Inr (), w5)"
    and 5: "upload_avatar E (x @ file_ext (fp_filename f)) w5 = (Inr img, w6)"
    and 6: "tx_insert E \<lparr>st_table = ''files'', st_holes = 6, st_args = 6\<rparr>
       (\<lambda>i. insert_file E \<lparr>f_id = i, f_created_at = t, f_salt = x @ file_ext (fp_filename f),
          f_file_name = fp_filename f, f_user_id = u_id user, f_content_size = fp_size f,
          f_message_id = None, f_mime_type = None, f_cf_images_id = Some img,
          f_cf_video_stream_uid = None, f_cf_video_stream_thumbnail = None, f_cf_r2_id = None\<rparr>) w6 = (Inr (), w7)"
    and 7: "tx_last_insert_id E w7 = (Inr i, w8)"
    and 8: "tx_exec E \<lparr>st_table = ''users'', st_holes = 3, st_args = 3\<rparr> (update_avatar (u_id user) i img) w8 = (Inr (), w9)"
    and 9: "commit E w9 = (Inr (), w10)" and 10: "redis_del E (user_key (u_id user)) w10 = (res, u)"
    and 11: "show_viewer E user [(''avatar_url'', JStr (env_getenv E ''CLOUDFLARE_IMAGES_PROXY''
       @ null_string (u_cf_avatar_images_id user) @ ''/public''))] u = (Inr r, w')"
    using assms unfolding EditProfilePicture_def Let_def need_viewer_def
    by (auto elim!: andThen_InrE dest!: on_err_quit_InrD of_option_InrD attempt_InrD)
  let ?row = "\<lparr>f_id = w_auto w ''files'', f_created_at = t, f_salt = x @ file_ext (fp_filename f),
          f_file_name = fp_filename f, f_user_id = u_id user, f_content_size = fp_size f,
          f_message_id = None, f_mime_type = None, f_cf_images_id = Some img,
          f_cf_video_stream_uid = None, f_cf_video_stream_thumbnail = None, f_cf_r2_id = None\<rparr>"
  have w6: "w_txs w6 = w_db w # w_txs w" "w_auto w6 = w_auto w" "w_redis w6 = w_redis w"
    using first_file_InrD [OF 1] new_uuid_InrD [OF 2] time_now_InrD [OF 3] begin_tx_InrD [OF 4]
      upload_avatar_InrD [OF 5] by auto
  have w8: "w_txs w8 = (w_db w)\<lparr>d_files := d_files (w_db w) @ [?row]\<rparr> # w_txs w" "i = w_auto w ''files''"
      "w_redis w8 = w_redis w"
    and new: "\<forall>y \<in> set (d_files (w_db w)). \<not> text_eq E (f_salt y) (f_salt ?row)"
    using tx_insert_InrD [OF 6] tx_last_insert_id_InrD [OF 7] w6
    by (auto simp: insert_file_def split: if_splits)
  obtain d where d: "update_avatar (u_id user) i img ((w_db w)\<lparr>d_files := d_files (w_db w) @ [?row]\<rparr>) = Inr d"
    and w9: "w_txs w9 = d # w_txs w" "w_redis w9 = w_redis w"
    using tx_exec_InrD [OF 8] w8 by auto
  have fin: "w_db w' = d" "w_redis w' \<in> {w_redis w, (w_redis w)(user_key (u_id user) := None)}"
    using commit_InrD [OF 9] redis_del_attempt [OF 10] show_viewer_InrD [OF 11] w9 by auto
  have upd: "d = (w_db w)\<lparr>d_files := d_files (w_db w) @ [?row],
      d_users := rows_update (\<lambda>u. u_id u = u_id user) (\<lambda>u. u\<lparr>u_avatar_file_id := Some i,
        u_cf_avatar_images_id := Some img\<rparr>) (d_users (w_db w))\<rparr>"
    using d by (auto simp: update_avatar_def rows_update_none split: if_splits)
  show ?thesis
    using that [of user f _ ?row] v first_file_InrD [OF 1] new fin upd w8(2) by auto
qed

section \<open>Who the viewer is\<close>

text \<open>What every write to the cache of users keeps: the entry of a number is that user's row.\<close>

definition user_cache_ok :: "world \<Rightarrow> bool" where
  "user_cache_ok w \<longleftrightarrow> (\<forall>i u ttl. w_redis w (user_key i) = Some (RUser u, ttl) \<longrightarrow> u_id u = i)"

lemma user_cache_ok_update:
  "user_cache_ok w \<Longrightarrow> w_redis w' = (w_redis w)(user_key (u_id u) \<mapsto> (RUser u, x)) \<Longrightarrow> user_cache_ok w'"
  "user_cache_ok w \<Longrightarrow> w_redis w' = (w_redis w)(k := None) \<Longrightarrow> user_cache_ok w'"
  "user_cache_ok w \<Longrightarrow> w_redis w' = w_redis w \<Longrightarrow> user_cache_ok w'"
  by (auto simp: user_cache_ok_def split: if_splits)

lemma claimed_id_InrD:
  "claimed_id E claim w = (Inr i, w') \<Longrightarrow>
   0 < i \<and> w' = w \<and> (\<exists>s ty. claim = JStr s \<and> Decode (env_aes E) s = Returned (i, ty))"
  by (auto simp: claimed_id_def elim!: andThen_InrE dest!: inr_dest split: json.splits)

lemma find_viewer_InrD:
  assumes "find_viewer E cache i w = (Inr u, w')"
  shows "u_id u \<noteq> 0 \<and>
    ((\<exists>ttl. w_redis w (user_key i) = Some (RUser u, ttl)) \<or> user_by_id i (w_db w) = Some u)"
proof -
  obtain res w1 where r: "redis_get E (user_key i) w = (res, w1)" by (cases "redis_get E (user_key i) w")
  have w1: "w_db w1 = w_db w" and v: "\<And>x. res = Inr x \<Longrightarrow> \<exists>ttl. w_redis w (user_key i) = Some (x, ttl)"
    using r by (auto simp: call_defs split: option.splits dest: live_SomeD)
  show ?thesis
  proof (cases res)
    case (Inl e)
    then show ?thesis
      using assms r w1 by (auto simp: find_viewer_def Let_def get_user_by_id_def
          elim!: andThen_InrE dest!: inr_dest db_get_InrD)
  next
    case (Inr x)
    then show ?thesis
      using assms r v [OF Inr] by (cases x) (auto simp: find_viewer_def Let_def zero_user_def
          new_user_def elim!: andThen_InrE dest!: inr_dest)
  qed
qed

lemma AuthorizationREST_viewer:
  assumes "AuthorizationREST E t w = (Inr (Some u), w')" and "user_cache_ok w"
  shows "0 < u_id u \<and> (\<exists>s ty. t = Some (JStr s) \<and> Decode (env_aes E) s = Returned (u_id u, ty))"
proof -
  obtain claim i cache where t: "t = Some claim"
    and 1: "claimed_id E claim w = (Inr i, w)" and 2: "find_viewer E cache i w = (Inr u, w')"
    using assms(1) unfolding AuthorizationREST_def
    by (auto elim!: andThen_InrE dest!: ret_InrD dest: claimed_id_InrD split: option.splits)
  have "u_id u = i"
    using find_viewer_InrD [OF 2] assms(2)
    by (auto simp: user_cache_ok_def user_by_id_def dest: find_SomeD)
  then show ?thesis using claimed_id_InrD [OF 1] t by auto
qed

text \<open>The \<^verbatim>\<open>id\<close> of a token that was issued for a user is accepted, and finds that user.\<close>

lemma AuthorizationREST_accepts:
  assumes "healthy E" and "Decode (env_aes E) s = Returned (u_id u, ty)" and "0 < u_id u"
    and "user_by_id (u_id u) (w_db w) = Some u"
    and "case w_redis w (user_key (u_id u)) of None \<Rightarrow> True | Some (v, _) \<Rightarrow> \<exists>x. v = RUser x \<and> u_id x = u_id u"
  shows "\<exists>x w'. AuthorizationREST E (Some (JStr s)) w = (Inr (Some x), w') \<and> u_id x = u_id u"
proof -
  have ext: "external E f = (\<lambda>w. f (tick w))" for f :: "'a call"
    using assms(1) by (simp add: fun_eq_iff external_def healthy_def)
  have user: "(get_user_by_id E (u_id u) :: users_row call) x = (Inr u, tick x)" if "w_db x = w_db w" for x
    using assms(4) that
    by (simp add: get_user_by_id_def db_get_def statement_def ext prepare_def schema_tables_def select_in_def)
  have claim: "claimed_id E (JStr s) w = (Inr (u_id u), w)"
    using assms(2,3) by (simp add: claimed_id_def decode_id_def of_outcome_def ret_def andThen_def ensure_def)
  show ?thesis
  proof (cases "live E (tick w) (w_redis w (user_key (u_id u)))")
    case None
    then have "redis_get E (user_key (u_id u)) w = (Inl ErrRedisNil, tick w)"
      by (simp add: redis_get_def ext)
    then show ?thesis
      using assms(3) by (simp add: AuthorizationREST_def find_viewer_def andThen_def claim attempt_def
          on_err_def user ensure_def ret_def spawn_def)
  next
    case (Some v)
    then obtain x where x: "v = RUser x" "u_id x = u_id u"
      using assms(5) live_SomeD [OF Some] by auto
    have "redis_get E (user_key (u_id u)) w = (Inr v, tick w)"
      using Some by (simp add: redis_get_def ext)
    then show ?thesis
      using assms(3) x by (simp add: AuthorizationREST_def find_viewer_def andThen_def claim attempt_def
          ensure_def ret_def spawn_def)
  qed
qed

end
