(* ===== verification/Views.thy ===== *)
theory Views
  imports Accounts "HOL-Library.Option_ord"
begin

text \<open>
  The requests that only read: \<^verbatim>\<open>handlers/community.go\<close>, \<^verbatim>\<open>channel.go\<close>, \<^verbatim>\<open>me.go\<close>,
  \<^verbatim>\<open>get_user.go\<close>, \<^verbatim>\<open>community_users.go\<close>, \<^verbatim>\<open>community_role.go\<close>, \<^verbatim>\<open>community_roles.go\<close>,
  \<^verbatim>\<open>community_default_permissions.go\<close>, \<^verbatim>\<open>community_invite.go\<close> and
  \<^verbatim>\<open>internal_handlers/sitemap.go\<close>. The data is read by programs; what is shown of it is
  computed by functions of what was read. \<^verbatim>\<open>slices.SortFunc\<close> is read as a stable sort, which
  it is up to twelve elements; beyond that the order of equal keys is not specified.
\<close>

section \<open>Reading lists\<close>

primrec collect :: "('a \<Rightarrow> ('e, 'b) prog) \<Rightarrow> 'a list \<Rightarrow> ('e, 'b list) prog" where
  "collect f [] = ret []"
| "collect f (x # xs) = andThen (f x) (\<lambda>y. andThen (collect f xs) (\<lambda>ys. ret (y # ys)))"

lemma alive_collect [dead_intro]: "(\<And>x. alive (f x)) \<Longrightarrow> alive (collect f xs)"
  by (induction xs) (auto intro: dead_intro)

text \<open>\<^verbatim>\<open>sqlx.In\<close> refuses an empty list.\<close>

definition select_ids :: "env \<Rightarrow> string \<Rightarrow> nat \<Rightarrow> nat list \<Rightarrow> (database \<Rightarrow> 'a) \<Rightarrow> 'a call" where
  "select_ids E t extra ids f =
     (if ids = [] then quit ErrEmptyIn
      else db_select E \<lparr>st_table = t, st_holes = extra + length ids, st_args = extra + length ids\<rparr> f)"

lemma moves_select_ids [shapes]: "moves s s s (select_ids E t n ids f)"
  by (simp add: select_ids_def shapes)

abbreviation missing :: response where
  "missing \<equiv> message_error 404 ''Not found''"

abbreviation no_database :: response where
  "no_database \<equiv> message_error 500 ''Not found''"

definition viewer_id :: "users_row option \<Rightarrow> nat" where
  "viewer_id viewer = (case viewer of None \<Rightarrow> 0 | Some u \<Rightarrow> u_id u)"

section \<open>Unread messages\<close>

text \<open>Any failure on the way counts as nothing unread.\<close>

definition count_unread :: "nat \<Rightarrow> nat \<Rightarrow> nat \<Rightarrow> database \<Rightarrow> nat" where
  "count_unread ch u tm d =
     length (filter (\<lambda>m. m_channel_id m = ch \<and> m_user_id m \<noteq> u \<and> tm < m_created_at m) (d_messages d))"

definition unread_count :: "env \<Rightarrow> nat \<Rightarrow> nat \<Rightarrow> nat go" where
  "unread_count E u ch =
     andThen (attempt (redis_get E (user_channel_key u ch))) (\<lambda>val.
     case (case val of Inr (RText t) \<Rightarrow> env_parse_time E t | _ \<Rightarrow> None) of
       None \<Rightarrow> ret 0
     | Some tm \<Rightarrow>
         andThen (attempt (db_get E \<lparr>st_table = ''messages'', st_holes = 3, st_args = 3\<rparr>
           (\<lambda>d. Some (count_unread ch u tm d)))) (\<lambda>n.
         ret (case n of Inl _ \<Rightarrow> 0 | Inr n \<Rightarrow> n)))"

section \<open>A community\<close>

definition show_user :: "env \<Rightarrow> users_row \<Rightarrow> (string \<times> json) list go" where
  "show_user E u =
     andThen (encode_id E (u_id u) USERS_TYPE (u_salt u)) (\<lambda>i.
     ret [(''id'', JStr i), (''handle'', JStr (null_string (u_handle u))),
          (''name'', JStr (null_string (u_name u))), (''avatar_url'', json_opt (avatar_url E u))])"

definition show_channel_entry :: "env \<Rightarrow> nat \<Rightarrow> channels_row \<Rightarrow> json go" where
  "show_channel_entry E u ch =
     andThen (unread_count E u (ch_id ch)) (\<lambda>unreadMessages.
     andThen (encode_id E (ch_id ch) CHANNELS_TYPE (ch_salt ch)) (\<lambda>i.
     ret (JObj [(''id'', JStr i), (''name'', JStr (ch_name ch)), (''handle'', JStr (ch_handle ch)),
       (''unread_count'', JNum (int unreadMessages))])))"

definition show_group :: "env \<Rightarrow> nat \<Rightarrow> channel_groups_row \<Rightarrow> json go" where
  "show_group E u cg =
     andThen (on_err (db_select E \<lparr>st_table = ''channels'', st_holes = 1, st_args = 1\<rparr>
       (\<lambda>d. filter (\<lambda>ch. ch_group_id ch = g_id cg) (d_channels d))) (\<lambda>_. quit not_found)) (\<lambda>channels.
     andThen (collect (show_channel_entry E u) channels) (\<lambda>mgc.
     andThen (encode_id E (g_id cg) CHANNEL_GROUPS_TYPE (g_salt cg)) (\<lambda>i.
     ret (JObj [(''id'', JStr i), (''name'', JStr (g_name cg)), (''channels'', JArr mgc)]))))"

definition participates :: "env \<Rightarrow> users_row option \<Rightarrow> communities_row \<Rightarrow> bool go" where
  "participates E viewer community =
     (case viewer of
        None \<Rightarrow> ret False
      | Some user \<Rightarrow>
          andThen (on_err (db_get E \<lparr>st_table = ''communities_users'', st_holes = 2, st_args = 2\<rparr>
            (\<lambda>d. Some (length (filter (\<lambda>r. cu_user_id r = u_id user \<and> cu_community_id r = c_id community)
               (d_members d))))) (\<lambda>_. quit (message_error 200 ''Not found.''))) (\<lambda>rolesCount.
          ret (0 < rolesCount)))"

text \<open>The viewer as shown, and its permissions: a signed-in user who is no member is refused.\<close>

definition viewer_part ::
  "env \<Rightarrow> users_row option \<Rightarrow> communities_row \<Rightarrow> (json \<times> permissions) go" where
  "viewer_part E viewer community =
     (case viewer of
        None \<Rightarrow> ret (JNull, c_permissions community)
      | Some user \<Rightarrow>
          andThen (show_user E user) (\<lambda>mu.
          andThen (on_err (get_member E (u_id user) (c_id community)) (\<lambda>_. quit not_found)) (\<lambda>cu.
          ret (JObj mu, cu_permissions cu))))"

definition is_owner :: "users_row option \<Rightarrow> communities_row \<Rightarrow> bool" where
  "is_owner viewer community =
     (case viewer of None \<Rightarrow> False | Some user \<Rightarrow> u_id user = c_owner_id community)"

definition Community :: "env \<Rightarrow> users_row option \<Rightarrow> string \<Rightarrow> response go" where
  "Community E viewer p =
     (let u = viewer_id viewer in
     andThen (on_err (get_community E (handle_param E p)) (\<lambda>_. quit missing)) (\<lambda>community.
     andThen (participates E viewer community) (\<lambda>participant.
     andThen (on_err (db_select E \<lparr>st_table = ''community_roles'', st_holes = 1, st_args = 1\<rparr>
       (roles_of (c_id community))) (\<lambda>_. quit not_found)) (\<lambda>communityRoles.
     andThen (of_outcome (outcomes (map (\<lambda>r. CommunityRoles_ToFiberMap E r False) communityRoles))) (\<lambda>mcr.
     andThen (on_err (db_select E \<lparr>st_table = ''channels'', st_holes = 2, st_args = 2\<rparr>
       (\<lambda>d. filter (\<lambda>ch. ch_community_id ch = c_id community \<and> ch_group_id ch = 0) (d_channels d)))
       (\<lambda>_. quit not_found)) (\<lambda>topChannels.
     andThen (collect (show_channel_entry E u)
       (filter (\<lambda>ch. HasChannelPermission u (ch_id ch) ViewChannels) topChannels)) (\<lambda>mtc.
     andThen (on_err (db_select E \<lparr>st_table = ''channel_groups'', st_holes = 1, st_args = 1\<rparr>
       (\<lambda>d. filter (\<lambda>g. g_community_id g = c_id community) (d_groups d))) (\<lambda>_. quit not_found)) (\<lambda>channelGroups.
     andThen (collect (show_group E u) (filter (\<lambda>g. HasGroupPermission u (g_id g)) channelGroups)) (\<lambda>mg.
     andThen (viewer_part E viewer community) (\<lambda>(mu, permissions).
     andThen (encode_id E (c_id community) COMMUNITIES_TYPE (c_salt community)) (\<lambda>i.
     ret (Resp 200 (JObj [(''id'', JStr i), (''created_at'', JStr (env_rfc3339 E (c_created_at community))),
       (''name'', JStr (c_name community)), (''handle'', JStr (c_handle community)),
       (''top_channels'', JArr mtc), (''channel_groups'', JArr mg), (''user'', mu),
       (''private'', JBool (c_private community)),
       (''show_can_join'', JBool (\<not> participant \<and> \<not> c_private community)),
       (''permissions'', JObj (Permissions_ToFiberMap permissions)),
       (''server_owner'', JBool (is_owner viewer community))])))))))))))))"

section \<open>Small views\<close>

definition CommunityUsers :: "env \<Rightarrow> string \<Rightarrow> response go" where
  "CommunityUsers E p =
     andThen (on_err (get_community E (handle_param E p)) (\<lambda>_. quit missing)) (\<lambda>community.
     andThen (on_err (db_select E \<lparr>st_table = ''communities_users'', st_holes = 1, st_args = 1\<rparr>
       (\<lambda>d. filter (\<lambda>r. cu_community_id r = c_id community) (d_members d))) (\<lambda>_. quit missing)) (\<lambda>communityUsers.
     let uIds = map cu_user_id communityUsers in
     andThen (on_err (select_ids E ''users'' 0 uIds
       (\<lambda>d. sort_key (\<lambda>u. map_option (env_collate E) (u_name u)) (filter (\<lambda>u. u_id u \<in> set uIds) (d_users d))))
       (\<lambda>_. quit no_database)) (\<lambda>users.
     andThen (of_outcome (outcomes (map (Users_ToFiberMap E) users))) (\<lambda>channelUsers.
     ret (Resp 200 (JArr channelUsers))))))"

definition GetUser :: "env \<Rightarrow> string \<Rightarrow> response go" where
  "GetUser E p =
     andThen (decode_id E (Truncate p 255)) (\<lambda>(dbId, objectType).
     andThen (ensure (objectType = USERS_TYPE) (quit missing)) (\<lambda>_.
     andThen (on_err (get_user_by_id E dbId) (\<lambda>_. quit missing)) (\<lambda>user.
     andThen (ensure (u_id user \<noteq> 0) (quit missing)) (\<lambda>_.
     andThen (encode_id E (u_id user) USERS_TYPE (u_salt user)) (\<lambda>i.
     ret (Resp 200 (JObj [(''id'', JStr i), (''name'', JStr (null_string (u_name user))),
       (''handle'', JStr (null_string (u_handle user)))])))))))"

definition CommunityInvite :: "env \<Rightarrow> string \<Rightarrow> response go" where
  "CommunityInvite E query =
     (let code = Truncate query 255 in
     andThen (ensure (code \<noteq> []) (quit (message_error 200 ''Please provide a valid invite code.''))) (\<lambda>_.
     andThen (on_err (db_get E \<lparr>st_table = ''community_invites'', st_holes = 1, st_args = 1\<rparr>
       (invite_by_code E code)) (\<lambda>_. quit missing)) (\<lambda>invite.
     andThen (on_err (get_community_by_id E (i_community_id invite)) (\<lambda>_. quit missing)) (\<lambda>community.
     andThen (encode_id E (c_id community) COMMUNITIES_TYPE (c_salt community)) (\<lambda>i.
     ret (Resp 200 (JObj [(''id'', JStr i), (''created_at'', JStr (env_rfc3339 E (c_created_at community))),
       (''name'', JStr (c_name community)), (''handle'', JStr (c_handle community))])))))))"

text \<open>The three views of the settings ask for \<^verbatim>\<open>manage_community\<close>.\<close>

definition settings_admit ::
  "env \<Rightarrow> users_row option \<Rightarrow> string \<Rightarrow> communities_row go" where
  "settings_admit E viewer p =
     andThen (need_viewer viewer) (\<lambda>user.
     andThen (on_err (get_community E (handle_param E p)) (\<lambda>_. quit missing)) (\<lambda>community.
     andThen (need_permission E not_allowed (u_id user) (c_id community) ManageCommunity) (\<lambda>_.
     ret community)))"

definition CommunityDefaultPermissions :: "env \<Rightarrow> users_row option \<Rightarrow> string \<Rightarrow> response go" where
  "CommunityDefaultPermissions E viewer p =
     andThen (settings_admit E viewer p) (\<lambda>community.
     ret (Resp 200 (JObj (Permissions_ToFiberMap (c_permissions community)))))"

definition show_role_count :: "env \<Rightarrow> community_roles_row \<Rightarrow> json go" where
  "show_role_count E r =
     andThen (of_outcome (CommunityRoles_ToFiberMap E r True)) (\<lambda>mRole.
     andThen (on_err (db_get E \<lparr>st_table = ''community_roles_users'', st_holes = 1, st_args = 1\<rparr>
       (\<lambda>d. Some (length (filter (\<lambda>ru. ru_community_role_id ru = r_id r) (d_roles_users d)))))
       (\<lambda>_. quit not_found)) (\<lambda>rolesCount.
     ret (JObj (copy_fields mRole [(''members'', JNum (int rolesCount))]))))"

definition CommunityRoles :: "env \<Rightarrow> users_row option \<Rightarrow> string \<Rightarrow> response go" where
  "CommunityRoles E viewer p =
     andThen (settings_admit E viewer p) (\<lambda>community.
     andThen (on_err (db_select E \<lparr>st_table = ''community_roles'', st_holes = 1, st_args = 1\<rparr>
       (\<lambda>d. sort_key r_priority (roles_of (c_id community) d))) (\<lambda>_. quit not_found)) (\<lambda>roles.
     andThen (collect (show_role_count E) roles) (\<lambda>mr.
     ret (Resp 200 (JArr mr)))))"

text \<open>
  The slice of member ids has the length of the list of links; users that no longer exist
  leave empty strings at its end. A wrong id panics on a \<^verbatim>\<open>nil\<close> error.
\<close>

definition role_member_ids :: "env \<Rightarrow> nat list \<Rightarrow> json list go" where
  "role_member_ids E mIds =
     (if mIds = [] then ret []
      else
        andThen (on_err (select_ids E ''users'' 0 mIds
          (\<lambda>d. sort_key (\<lambda>u. map_option (env_collate E) (u_name u)) (filter (\<lambda>u. u_id u \<in> set mIds) (d_users d))))
          (\<lambda>_. quit no_database)) (\<lambda>users.
        andThen (collect (\<lambda>u. encode_id E (u_id u) USERS_TYPE (u_salt u)) users) (\<lambda>ids.
        if length mIds < length ids then quit Panic
        else ret (map JStr (ids @ replicate (length mIds - length ids) [])))))"

definition CommunityRole :: "env \<Rightarrow> users_row option \<Rightarrow> string \<Rightarrow> string \<Rightarrow> response go" where
  "CommunityRole E viewer p roleParam =
     andThen (settings_admit E viewer p) (\<lambda>community.
     andThen (decode_id E (Truncate roleParam 255)) (\<lambda>(roleId, roleOk).
     andThen (ensure (roleId \<noteq> 0 \<and> roleOk = COMMUNITY_ROLES_TYPE) (quit Panic)) (\<lambda>_.
     andThen (on_err (db_get E \<lparr>st_table = ''community_roles'', st_holes = 1, st_args = 1\<rparr>
       (\<lambda>d. find (\<lambda>r. r_id r = roleId) (d_roles d))) (\<lambda>_. quit missing)) (\<lambda>role.
     andThen (ensure (r_community_id role = c_id community) (quit not_allowed)) (\<lambda>_.
     andThen (on_err (db_select E \<lparr>st_table = ''community_roles_users'', st_holes = 1, st_args = 1\<rparr>
       (\<lambda>d. filter (\<lambda>ru. ru_community_role_id ru = r_id role) (d_roles_users d))) (\<lambda>_. quit missing)) (\<lambda>roleUsers.
     andThen (role_member_ids E (map ru_user_id roleUsers)) (\<lambda>sIds.
     andThen (of_outcome (CommunityRoles_ToFiberMap E role True)) (\<lambda>mRole.
     ret (Resp 200 (JObj (copy_fields mRole [(''members'', JArr sIds)])))))))))))"

definition Sitemap :: "env \<Rightarrow> response go" where
  "Sitemap E =
     (let failed = message_error 200 ''Sitemap error'' in
     andThen (on_err (db_select E \<lparr>st_table = ''communities'', st_holes = 1, st_args = 1\<rparr>
       (\<lambda>d. filter (\<lambda>c. \<not> c_private c) (d_communities d))) (\<lambda>_. quit failed)) (\<lambda>communities.
     let ids = map c_id communities in
     andThen (on_err (select_ids E ''channels'' 0 ids
       (\<lambda>d. filter (\<lambda>ch. ch_community_id ch \<in> set ids) (d_channels d))) (\<lambda>_. quit failed)) (\<lambda>channels.
     let own = (\<lambda>c. filter (\<lambda>ch. ch_community_id ch = c_id c) channels);
         entry = (\<lambda>c. JObj [(''handle'', JStr (c_handle c)), (''channels'',
           JArr (map (\<lambda>ch. JObj [(''handle'', JStr (ch_handle ch))]) (sort_key ch_handle (own c))))])
     in ret (Resp 200 (JObj [(''communities'',
          JArr (map entry (filter (\<lambda>c. own c \<noteq> []) (sort_key c_handle communities))))])))))"

section \<open>A channel\<close>

text \<open>
  \<^verbatim>\<open>pageNumber\<close> is a signed 64-bit integer: the offset and the number of messages left are
  computed with wrap-around, and the server refuses a negative offset.
\<close>

definition page_offset :: "64 word \<Rightarrow> 64 word" where
  "page_offset pageNumber = (if 0 <s pageNumber then pageNumber * 50 else 0)"

definition messages_page :: "nat \<Rightarrow> nat \<Rightarrow> database \<Rightarrow> messages_row list" where
  "messages_page ch offset d =
     take 50 (drop offset (rev (sort_key m_id (filter (\<lambda>m. m_channel_id m = ch) (d_messages d)))))"

definition select_page :: "env \<Rightarrow> nat \<Rightarrow> 64 word \<Rightarrow> messages_row list call" where
  "select_page E ch offset =
     statement E \<lparr>st_table = ''messages'', st_holes = 2, st_args = 2\<rparr> (\<lambda>w.
       if offset <s 0 then (Inl ErrOutOfRange, w)
       else (Inr (messages_page ch (unat offset) (w_db w)), w))"

definition remaining_after :: "64 word \<Rightarrow> 64 word \<Rightarrow> 64 word" where
  "remaining_after pageNumber remaining =
     (let nextPageAmount = (pageNumber + 1) * 50
      in if nextPageAmount < remaining then remaining - nextPageAmount else 0)"

definition count_messages :: "nat \<Rightarrow> database \<Rightarrow> nat" where
  "count_messages ch d = length (filter (\<lambda>m. m_channel_id m = ch) (d_messages d))"

record channel_page =
  cp_messages :: "messages_row list"
  cp_files :: "files_row list"
  cp_parents :: "messages_row list"
  cp_remaining :: "64 word"

definition page_files :: "env \<Rightarrow> nat list \<Rightarrow> files_row list go" where
  "page_files E messageIds =
     (if messageIds = [] then ret []
      else on_err (select_ids E ''files'' 0 messageIds
        (\<lambda>d. filter (\<lambda>f. \<exists>i \<in> set messageIds. f_message_id f = Some i) (d_files d))) (\<lambda>_. quit not_found))"

definition page_parents :: "env \<Rightarrow> nat list \<Rightarrow> messages_row list go" where
  "page_parents E parentIDs =
     (if parentIDs = [] then ret []
      else on_err (select_ids E ''messages'' 0 parentIDs
        (\<lambda>d. filter (\<lambda>m. m_id m \<in> set parentIDs) (d_messages d))) (\<lambda>_. quit not_found))"

definition read_page :: "env \<Rightarrow> channels_row \<Rightarrow> 64 word \<Rightarrow> channel_page go" where
  "read_page E channel pageNumber =
     andThen (on_err (select_page E (ch_id channel) (page_offset pageNumber)) (\<lambda>_. quit not_found)) (\<lambda>ms.
     let messages = rev ms in
     andThen (page_files E (map m_id messages)) (\<lambda>files.
     andThen (page_parents E (filter (\<lambda>i. 0 < i) (map m_parent_id messages))) (\<lambda>parents.
     andThen (on_err (db_get E \<lparr>st_table = ''messages'', st_holes = 1, st_args = 1\<rparr>
       (\<lambda>d. Some (count_messages (ch_id channel) d))) (\<lambda>_. quit not_found)) (\<lambda>remaining.
     ret \<lparr>cp_messages = messages, cp_files = files, cp_parents = parents,
          cp_remaining = remaining_after pageNumber (of_nat remaining)\<rparr>))))"

text \<open>
  The people of a page: the authors of its messages and the members of the community, with
  their roles. \<^verbatim>\<open>sqlx.In\<close> fails when there are none.
\<close>

record channel_people =
  pp_roles :: "community_roles_row list"
  pp_users :: "users_row list"
  pp_links :: "community_roles_users_row list"

definition page_user_ids :: "messages_row list \<Rightarrow> communities_users_row list \<Rightarrow> nat list" where
  "page_user_ids messages members = rev (remdups (rev (map m_user_id messages @ map cu_user_id members)))"

definition read_people ::
  "env \<Rightarrow> communities_row \<Rightarrow> community_roles_row list \<Rightarrow> messages_row list \<Rightarrow> communities_users_row list \<Rightarrow>
   channel_people go" where
  "read_people E community cr messages members =
     (let uIds = page_user_ids messages members in
     andThen (on_err (select_ids E ''users'' 0 uIds (\<lambda>d. filter (\<lambda>u. u_id u \<in> set uIds) (d_users d)))
       (\<lambda>_. quit not_found)) (\<lambda>users.
     andThen (on_err (select_ids E ''community_roles_users'' 1 uIds
       (\<lambda>d. filter (\<lambda>ru. ru_community_id ru = c_id community \<and> ru_user_id ru \<in> set uIds) (d_roles_users d)))
       (\<lambda>_. quit not_found)) (\<lambda>rolesUsers.
     ret \<lparr>pp_roles = cr, pp_users = users, pp_links = rolesUsers\<rparr>)))"

text \<open>\<^verbatim>\<open>crIdMap\<close>, \<^verbatim>\<open>urMap\<close>, \<^verbatim>\<open>urhMap\<close>, \<^verbatim>\<open>urVMap\<close> and the two groups of users, as functions.\<close>

definition user_roles_of :: "channel_people \<Rightarrow> nat \<Rightarrow> community_roles_row list" where
  "user_roles_of pp u =
     sort_key r_priority (List.map_filter (\<lambda>ru.
       if ru_user_id ru = u then find (\<lambda>r. r_id r = ru_community_role_id ru) (rev (pp_roles pp)) else None)
       (pp_links pp))"

definition shown_roles :: "channel_people \<Rightarrow> nat \<Rightarrow> community_roles_row list" where
  "shown_roles pp u = (if \<exists>x \<in> set (pp_users pp). u_id x = u then user_roles_of pp u else [])"

definition top_role :: "channel_people \<Rightarrow> nat \<Rightarrow> community_roles_row option" where
  "top_role pp u = (case shown_roles pp u of [] \<Rightarrow> None | r # _ \<Rightarrow> Some r)"

definition top_prominent_role :: "channel_people \<Rightarrow> nat \<Rightarrow> community_roles_row option" where
  "top_prominent_role pp u = find r_show_online_differently (shown_roles pp u)"

definition others_online :: "channel_people \<Rightarrow> users_row list" where
  "others_online pp =
     sort_key (\<lambda>u. null_string (u_handle u)) (filter (\<lambda>u. top_prominent_role pp (u_id u) = None) (pp_users pp))"

definition prominent_users :: "channel_people \<Rightarrow> community_roles_row \<Rightarrow> users_row list" where
  "prominent_users pp cr =
     filter (\<lambda>u. case top_prominent_role pp (u_id u) of None \<Rightarrow> False | Some r \<Rightarrow> r_id r = r_id cr) (pp_users pp)"

definition show_role_name :: "community_roles_row option \<Rightarrow> json" where
  "show_role_name r = (case r of None \<Rightarrow> JNull | Some r \<Rightarrow> JObj [(''name'', JStr (r_name r))])"

definition show_role_color :: "community_roles_row option \<Rightarrow> json" where
  "show_role_color r =
     (case r of None \<Rightarrow> JNull | Some r \<Rightarrow> JObj [(''name'', JStr (r_name r)), (''color'', JStr (r_color r))])"

definition show_other :: "env \<Rightarrow> users_row \<Rightarrow> json" where
  "show_other E u =
     JObj [(''handle'', JStr (null_string (u_handle u))), (''name'', JStr (null_string (u_name u))),
       (''avatar_url'', json_opt (avatar_url E u))]"

definition show_prominent :: "env \<Rightarrow> channel_people \<Rightarrow> community_roles_row \<Rightarrow> json go" where
  "show_prominent E pp cr =
     andThen (encode_id E (r_id cr) COMMUNITY_ROLES_TYPE (r_salt cr)) (\<lambda>i.
     ret (JObj [(''id'', JStr i), (''name'', JStr (r_name cr)), (''color'', JStr (r_color cr)),
       (''users'', JArr (map (\<lambda>u.
          JObj [(''handle'', JStr (null_string (u_handle u))), (''name'', JStr (null_string (u_name u))),
            (''powerful_role'', show_role_name (top_role pp (u_id u))),
            (''all_roles'', JArr (map (\<lambda>r. JObj [(''name'', JStr (r_name r))]) (shown_roles pp (u_id u)))),
            (''avatar_url'', json_opt (avatar_url E u))]) (prominent_users pp cr)))]))"

text \<open>An author who is not among the users is shown as the ghost.\<close>

definition author :: "channel_people \<Rightarrow> nat \<Rightarrow> users_row" where
  "author pp u = (case find (\<lambda>x. u_id x = u) (pp_users pp) of None \<Rightarrow> GHOST_USER 0 | Some x \<Rightarrow> x)"

definition show_author :: "env \<Rightarrow> channel_people \<Rightarrow> nat \<Rightarrow> json" where
  "show_author E pp u =
     (let mu = author pp u in
      JObj [(''name'', JStr (null_string (u_name mu))), (''handle'', JStr (null_string (u_handle mu))),
        (''powerful_role'', show_role_color (top_role pp u)), (''avatar_url'', json_opt (avatar_url E mu))])"

definition show_message :: "env \<Rightarrow> channel_people \<Rightarrow> messages_row \<Rightarrow> (string \<times> json) list go" where
  "show_message E pp m =
     andThen (encode_id E (m_id m) MESSAGES_TYPE (m_salt m)) (\<lambda>i.
     ret [(''id'', JStr i), (''created_at'', JStr (env_rfc3339 E (m_created_at m))),
       (''text'', JStr (m_text m)), (''edited'', JBool (m_edited m)),
       (''user'', show_author E pp (m_user_id m))])"

definition show_page_message ::
  "env \<Rightarrow> channel_people \<Rightarrow> channel_page \<Rightarrow> messages_row \<Rightarrow> json go" where
  "show_page_message E pp cp m =
     andThen (attempt (redis_get E (reactions_key (m_id m)))) (\<lambda>val.
     andThen (show_message E pp m) (\<lambda>shown.
     let updated = (case m_updated_at m of None \<Rightarrow> [] | Some t \<Rightarrow> [(''updated_at'', JStr (env_rfc3339 E t))]);
         reactions = (case val of
           Inr (RReactions rs) \<Rightarrow> if mr_message_id rs = m_id m then [(''reactions'', Reactions_ToFiberMap rs)] else []
         | _ \<Rightarrow> []) in
     andThen (show_files E (filter (\<lambda>f. f_message_id f = Some (m_id m)) (cp_files cp))) (\<lambda>files.
     andThen (case find (\<lambda>x. m_id x = m_parent_id m) (rev (cp_parents cp)) of
         None \<Rightarrow> ret []
       | Some parent \<Rightarrow> andThen (show_message E pp parent) (\<lambda>x. ret [(''parent'', JObj x)])) (\<lambda>parent.
     ret (JObj (shown @ updated @ reactions @ files @ parent))))))"

text \<open>
  The viewer of a channel and the channel to open by default. The selected channel of a
  member is looked up by its number alone, and when it is gone the answer is \<^verbatim>\<open>Not found\<close>.
\<close>

definition first_channel_handle :: "env \<Rightarrow> communities_row \<Rightarrow> string call" where
  "first_channel_handle E community =
     db_get E \<lparr>st_table = ''channels'', st_holes = 1, st_args = 1\<rparr>
       (\<lambda>d. map_option ch_handle (find (\<lambda>ch. ch_community_id ch = c_id community) (d_channels d)))"

definition channel_viewer ::
  "env \<Rightarrow> users_row option \<Rightarrow> communities_row \<Rightarrow> ((string \<times> json) list option \<times> permissions \<times> string) go" where
  "channel_viewer E viewer community =
     (case viewer of
        None \<Rightarrow>
          andThen (on_err (first_channel_handle E community) (\<lambda>_. quit not_found)) (\<lambda>h.
          ret (None, c_permissions community, h))
      | Some user \<Rightarrow>
          andThen (show_user E user) (\<lambda>mu.
          andThen (on_err (get_member E (u_id user) (c_id community)) (\<lambda>_. quit not_found)) (\<lambda>cu.
          andThen (on_err (if 0 < cu_selected_channel_id cu
              then db_get E \<lparr>st_table = ''channels'', st_holes = 1, st_args = 1\<rparr>
                (\<lambda>d. map_option ch_handle (channel_by_id (cu_selected_channel_id cu) d))
              else first_channel_handle E community) (\<lambda>_. quit not_found)) (\<lambda>h.
          ret (Some mu, cu_permissions cu, h)))))"

definition show_channel_viewer ::
  "channel_people \<Rightarrow> users_row option \<Rightarrow> (string \<times> json) list option \<Rightarrow> json" where
  "show_channel_viewer pp viewer mu =
     (case (mu, viewer) of
        (Some fs, Some user) \<Rightarrow>
          JObj (fs @ (case top_role pp (u_id user) of None \<Rightarrow> [] | r \<Rightarrow> [(''powerful_role'', show_role_color r)]))
      | _ \<Rightarrow> JNull)"

definition Channel ::
  "env \<Rightarrow> users_row option \<Rightarrow> string \<Rightarrow> string \<Rightarrow> 64 word \<Rightarrow> response go" where
  "Channel E viewer p chp pageNumber =
     andThen (on_err (get_community E (handle_param E p)) (\<lambda>_. quit missing)) (\<lambda>community.
     andThen (channel_viewer E viewer community) (\<lambda>(mu, permissions, defaultChannel).
     andThen (on_err (get_channel_by_handle E (handle_param E chp) (c_id community)) (\<lambda>_. quit missing)) (\<lambda>channel.
     andThen (ensure (ch_community_id channel = c_id community) (quit missing)) (\<lambda>_.
     andThen (on_err (db_select E \<lparr>st_table = ''communities_users'', st_holes = 1, st_args = 1\<rparr>
       (\<lambda>d. filter (\<lambda>r. cu_community_id r = c_id community) (d_members d))) (\<lambda>_. quit missing)) (\<lambda>communityUsers.
     andThen (on_err (db_select E \<lparr>st_table = ''community_roles'', st_holes = 1, st_args = 1\<rparr>
       (\<lambda>d. sort_key r_priority (roles_of (c_id community) d))) (\<lambda>_. quit not_found)) (\<lambda>cr.
     andThen (read_page E channel pageNumber) (\<lambda>cp.
     andThen (read_people E community cr (cp_messages cp) communityUsers) (\<lambda>pp.
     andThen (collect (show_prominent E pp) (filter r_show_online_differently cr)) (\<lambda>mvcr.
     andThen (collect (show_page_message E pp cp) (cp_messages cp)) (\<lambda>mm.
     andThen (encode_id E (ch_id channel) CHANNELS_TYPE (ch_salt channel)) (\<lambda>i.
     andThen (encode_id E (c_id community) COMMUNITIES_TYPE (c_salt community)) (\<lambda>ci.
     ret (Resp 200 (JObj [(''id'', JStr i), (''created_at'', JStr (env_rfc3339 E (ch_created_at channel))),
       (''name'', JStr (ch_name channel)), (''handle'', JStr (ch_handle channel)),
       (''community'', JObj [(''id'', JStr ci), (''created_at'', JStr (env_rfc3339 E (c_created_at community))),
          (''name'', JStr (c_name community)), (''handle'', JStr (c_handle community)),
          (''permissions'', JObj (Permissions_ToFiberMap permissions)),
          (''server_owner'', JBool (is_owner viewer community)), (''default_channel'', JStr defaultChannel)]),
       (''user'', show_channel_viewer pp viewer mu), (''prominent_roles'', JArr mvcr),
       (''others_online'', JArr (map (show_other E) (others_online pp))), (''others_offline'', JArr []),
       (''messages'', JArr mm), (''message_count'', JNum (int (length mm))),
       (''remaining_messages'', JNum (uint (cp_remaining cp)))]))))))))))))))"

section \<open>The viewer's own communities\<close>

text \<open>
  \<^verbatim>\<open>cIdChId\<close>: the handles of the selected channels that still exist, by community. A later
  membership of the same community overwrites an earlier one.
\<close>

definition selected_handles ::
  "communities_users_row list \<Rightarrow> channels_row list \<Rightarrow> nat \<Rightarrow> string option" where
  "selected_handles cus channels c =
     (case List.map_filter (\<lambda>v. if cu_community_id v = c
         then find (\<lambda>ch. ch_id ch = cu_selected_channel_id v) channels else None) (rev cus) of
        [] \<Rightarrow> None | ch # _ \<Rightarrow> Some (ch_handle ch))"

definition my_communities ::
  "env \<Rightarrow> users_row \<Rightarrow> (communities_row list \<times> (nat \<Rightarrow> string option)) go" where
  "my_communities E user =
     (let failed = message_error 200 ''Cannot fetch user.'' in
     andThen (on_err (db_select E \<lparr>st_table = ''communities_users'', st_holes = 1, st_args = 1\<rparr>
       (\<lambda>d. filter (\<lambda>r. cu_user_id r = u_id user) (d_members d))) (\<lambda>_. quit failed)) (\<lambda>cus.
     if cus = [] then ret ([], \<lambda>_. None)
     else
       let cids = map cu_community_id cus;
           selected = filter (\<lambda>i. 0 < i) (map cu_selected_channel_id cus) in
       andThen (on_err (select_ids E ''communities'' 0 cids
         (\<lambda>d. filter (\<lambda>c. c_id c \<in> set cids) (d_communities d))) (\<lambda>_. quit failed)) (\<lambda>communities.
       andThen (if selected = [] then ret []
         else on_err (select_ids E ''channels'' 0 selected
           (\<lambda>d. filter (\<lambda>ch. ch_id ch \<in> set selected) (d_channels d))) (\<lambda>_. quit failed)) (\<lambda>channels.
       ret (communities, selected_handles cus channels)))))"

text \<open>Here a missing default channel is not an error: its handle is empty.\<close>

definition default_channel ::
  "env \<Rightarrow> (nat \<Rightarrow> string option) \<Rightarrow> communities_row \<Rightarrow> string go" where
  "default_channel E handles community =
     (case handles (c_id community) of
        Some h \<Rightarrow> ret h
      | None \<Rightarrow>
          andThen (attempt (first_channel_handle E community)) (\<lambda>h.
          ret (case h of Inl _ \<Rightarrow> [] | Inr h \<Rightarrow> h)))"

definition show_my_community ::
  "env \<Rightarrow> users_row \<Rightarrow> (nat \<Rightarrow> string option) \<Rightarrow> communities_row \<Rightarrow> json go" where
  "show_my_community E user handles community =
     andThen (on_err (get_member E (u_id user) (c_id community)) (\<lambda>_. quit not_found)) (\<lambda>cu.
     andThen (default_channel E handles community) (\<lambda>defaultChannel.
     andThen (on_err (db_select E \<lparr>st_table = ''channels'', st_holes = 1, st_args = 1\<rparr>
       (\<lambda>d. map ch_id (filter (\<lambda>ch. ch_community_id ch = c_id community) (d_channels d))))
       (\<lambda>_. quit not_found)) (\<lambda>channels.
     andThen (collect (unread_count E (u_id user)) channels) (\<lambda>unread.
     andThen (encode_id E (c_id community) COMMUNITIES_TYPE (c_salt community)) (\<lambda>i.
     ret (JObj [(''id'', JStr i), (''name'', JStr (c_name community)), (''handle'', JStr (c_handle community)),
       (''permissions'', JObj (Permissions_ToFiberMap (cu_permissions cu))),
       (''server_owner'', JBool (u_id user = c_owner_id community)),
       (''default_channel'', JStr defaultChannel),
       (''unread_count'', JNum (int (sum_list unread)))]))))))"

definition Me :: "env \<Rightarrow> users_row option \<Rightarrow> response go" where
  "Me E viewer =
     andThen (need_viewer viewer) (\<lambda>user.
     andThen (my_communities E user) (\<lambda>(communities, handles).
     andThen (collect (show_my_community E user handles) communities) (\<lambda>mappedCommunities.
     show_viewer E user [(''communities'', JArr mappedCommunities),
       (''avatar_url'', json_opt (avatar_url E user))])))"

section \<open>Contracts\<close>

lemma moves_view_queries [shapes]:
  "moves s s s (select_page E ch offset)" "moves s s s (first_channel_handle E c)"
proof -
  show "moves s s s (first_channel_handle E c)" by (simp add: first_channel_handle_def shapes)
  show "moves s s s (select_page E ch offset)"
    by (auto simp: moves_def select_page_def statement_def external_def split: option.splits)
qed

text \<open>A view never changes a table, whatever it answers and whatever calls fail.\<close>

locale view_endpoint = tidy_endpoint serve valid
  for serve :: "'req \<Rightarrow> world \<Rightarrow> response \<times> world" and valid :: "'req \<Rightarrow> bool" +
  assumes read_only: "valid q \<Longrightarrow> serve q w = (r, w') \<Longrightarrow> w_db w' = w_db w"
begin

lemma serve_all_read_only:
  "list_all valid qs \<Longrightarrow> serve_all qs w = (rs, w') \<Longrightarrow> w_db w' = w_db w"
  by (induction qs arbitrary: w rs) (auto split: prod.splits dest: read_only)

lemma keeps: "valid q \<Longrightarrow> w_db (snd (serve q w)) = w_db w \<and> w_txs (snd (serve q w)) = w_txs w"
  using read_only [of q w] no_leak [of q w] by (simp add: prod_eq_iff)

end

lemma moves_Idle_run:
  assumes "moves Idle Idle Idle m" and "run m w = (r, w')"
  shows "w_db w' = w_db w" and "w_txs w' = w_txs w"
proof -
  have "in_shape Idle (w_db w) (w_txs w) w" by simp
  from movesD [OF assms(1) this] show "w_db w' = w_db w" and "w_txs w' = w_txs w"
    using assms(2) by (auto simp: wp_def run_def split: prod.splits sum.splits)
qed

lemma view_endpointI:
  assumes "\<And>q. moves Idle Idle Idle (h q)"
  shows "view_endpoint (\<lambda>q. run (h q)) (\<lambda>_. True)"
  by unfold_locales (auto dest: moves_Idle_run [OF assms])

lemma moves_collect [shapes]: "(\<And>x. moves s f s (g x)) \<Longrightarrow> moves s f s (collect g xs)"
  by (induction xs) (auto intro: moves_ret moves_andThen)

lemma moves_HasCommunityPermission [shapes]: "moves s s s (HasCommunityPermission E u c k)"
  unfolding HasCommunityPermission_cases by (rule shapes)+

lemma moves_need_permission [shapes]: "moves s s s (need_permission E na u c k)"
  unfolding need_permission_def by (rule shapes)+

lemma moves_view_blocks [shapes]:
  "moves s s s (unread_count E u ch)" "moves s s s (participates E v c)"
  "moves s s s (default_channel E hs c)" "moves s s s (my_communities E user)"
  "moves s s s (read_page E chan pn)" "moves s s s (read_people E c cr ms mem)"
  "moves s s s (settings_admit E v p)" "moves s s s (show_user E user)"
  "moves s s s (show_files E fs)"
  unfolding unread_count_def participates_def default_channel_def my_communities_def
    read_page_def page_files_def page_parents_def read_people_def settings_admit_def show_user_def
    show_files_def Let_def
  by (rule shapes)+

lemma moves_views:
  "moves Idle Idle Idle (Community E v p)" "moves Idle Idle Idle (CommunityUsers E p)"
  "moves Idle Idle Idle (GetUser E p)" "moves Idle Idle Idle (CommunityInvite E p)"
  "moves Idle Idle Idle (CommunityDefaultPermissions E v p)"
  "moves Idle Idle Idle (CommunityRoles E v p)" "moves Idle Idle Idle (CommunityRole E v p rp)"
  "moves Idle Idle Idle (Sitemap E)" "moves Idle Idle Idle (Channel E v p cp pn)"
  "moves Idle Idle Idle (Me E v)"
  unfolding Community_def CommunityUsers_def GetUser_def CommunityInvite_def
    CommunityDefaultPermissions_def CommunityRoles_def CommunityRole_def Sitemap_def Channel_def
    Me_def show_channel_entry_def show_group_def viewer_part_def show_role_count_def
    role_member_ids_def show_prominent_def show_message_def show_page_message_def
    channel_viewer_def show_my_community_def Let_def
  by (rule shapes)+

interpretation community_view: view_endpoint "\<lambda>q. run (case q of (E, v, p) \<Rightarrow> Community E v p)" "\<lambda>_. True"
  by (rule view_endpointI) (auto intro: moves_views)

interpretation users_view: view_endpoint "\<lambda>q. run (case q of (E, p) \<Rightarrow> CommunityUsers E p)" "\<lambda>_. True"
  by (rule view_endpointI) (auto intro: moves_views)

interpretation user_view: view_endpoint "\<lambda>q. run (case q of (E, p) \<Rightarrow> GetUser E p)" "\<lambda>_. True"
  by (rule view_endpointI) (auto intro: moves_views)

interpretation invite_view: view_endpoint "\<lambda>q. run (case q of (E, p) \<Rightarrow> CommunityInvite E p)" "\<lambda>_. True"
  by (rule view_endpointI) (auto intro: moves_views)

interpretation channel_view: view_endpoint
  "\<lambda>q. run (case q of (E, v, p, c, n) \<Rightarrow> Channel E v p c n)" "\<lambda>_. True"
  by (rule view_endpointI) (auto intro: moves_views)

interpretation me_view: view_endpoint "\<lambda>q. run (case q of (E, v) \<Rightarrow> Me E v)" "\<lambda>_. True"
  by (rule view_endpointI) (auto intro: moves_views)

interpretation sitemap_view: view_endpoint "\<lambda>E. run (Sitemap E)" "\<lambda>_. True"
  by (rule view_endpointI) (auto intro: moves_views)

text \<open>The settings are shown to members with \<^verbatim>\<open>manage_community\<close> only.\<close>

lemma settings_admit_InrD:
  "settings_admit E v p w = (Inr c, w') \<Longrightarrow>
   permitted E v (handle_param E p) ManageCommunity w \<and> community_by_handle E (handle_param E p) (w_db w) = Some c"
  by (auto simp: settings_admit_def permitted_def get_community_def need_viewer_def may_def same_stores_def
      elim!: andThen_InrE dest!: inr_dest need_permission_InrD db_get_InrD)

lemma alive_settings_admit [dead_intro]: "alive (settings_admit E v p)"
  unfolding settings_admit_def by (rule dead_intro is_error_simps)+

lemma settings_denied:
  assumes "\<not> permitted E v (handle_param E p) ManageCommunity w"
    and "run (andThen (settings_admit E v p) f) w = (r, w')"
  shows "is_error r"
proof -
  have "wp (settings_admit E v p) (\<lambda>_ _. True) (\<lambda>r _. is_error r) w"
    using alive_settings_admit by (simp add: alive_def)
  then show ?thesis
    using assms settings_admit_InrD [of E v p w]
    by (auto simp: run_def andThen_def wp_def split: prod.splits sum.splits)
qed

locale settings_endpoint = view_endpoint serve valid
  for serve :: "'req \<Rightarrow> world \<Rightarrow> response \<times> world" and valid :: "'req \<Rightarrow> bool" +
  fixes allowed :: "'req \<Rightarrow> world \<Rightarrow> bool"
  assumes refused_unless: "\<not> allowed q w \<Longrightarrow> serve q w = (r, w') \<Longrightarrow> is_error r"
begin

lemma shown_allowed: "serve q w = (r, w') \<Longrightarrow> \<not> is_error r \<Longrightarrow> allowed q w"
  using refused_unless by blast

lemma refuses: "\<not> allowed q w \<Longrightarrow> is_error (fst (serve q w))"
  using refused_unless [of q w] by (simp add: prod_eq_iff)

end

lemma settings_endpointI:
  assumes "\<And>q. moves Idle Idle Idle (h q)"
    and "\<And>q. h q = andThen (settings_admit (E q) (v q) (p q)) (f q)"
  shows "settings_endpoint (\<lambda>q. run (h q)) (\<lambda>_. True)
     (\<lambda>q w. permitted (E q) (v q) (handle_param (E q) (p q)) ManageCommunity w)"
  by (intro settings_endpoint.intro view_endpointI assms(1) settings_endpoint_axioms.intro)
    (simp add: assms(2) settings_denied)

interpretation default_permissions_view: settings_endpoint
  "\<lambda>q. run (CommunityDefaultPermissions (fst q) (fst (snd q)) (snd (snd q)))" "\<lambda>_. True"
  "\<lambda>q w. permitted (fst q) (fst (snd q)) (handle_param (fst q) (snd (snd q))) ManageCommunity w"
  by (rule settings_endpointI [OF moves_views(5)], rule CommunityDefaultPermissions_def)

interpretation roles_view: settings_endpoint
  "\<lambda>q. run (CommunityRoles (fst q) (fst (snd q)) (snd (snd q)))" "\<lambda>_. True"
  "\<lambda>q w. permitted (fst q) (fst (snd q)) (handle_param (fst q) (snd (snd q))) ManageCommunity w"
  by (rule settings_endpointI [OF moves_views(6)], rule CommunityRoles_def)

interpretation role_view: settings_endpoint
  "\<lambda>q. run (CommunityRole (fst q) (fst (snd q)) (fst (snd (snd q))) (snd (snd (snd q))))" "\<lambda>_. True"
  "\<lambda>q w. permitted (fst q) (fst (snd q)) (handle_param (fst q) (fst (snd (snd q)))) ManageCommunity w"
  by (rule settings_endpointI [OF moves_views(7)], rule CommunityRole_def)

end
