(* ===== verification/View_Facts.thy ===== *)
theory View_Facts
  imports Views
begin

text \<open>
  What the views show: the pages of a channel, who is listed under which role, who is let in
  and who is locked out.
\<close>

section \<open>Pages\<close>

definition channel_history :: "nat \<Rightarrow> database \<Rightarrow> messages_row list" where
  "channel_history ch d = sort_key m_id (filter (\<lambda>m. m_channel_id m = ch) (d_messages d))"

lemma messages_page_alt: "messages_page ch offset d = take 50 (drop offset (rev (channel_history ch d)))"
  by (simp add: messages_page_def channel_history_def)

text \<open>Consecutive pages are consecutive pieces of the history, newest first.\<close>

lemma pages_cover:
  "concat (map (\<lambda>k. messages_page ch (50 * k) d) [0..<n]) = take (50 * n) (rev (channel_history ch d))"
proof (induction n)
  case (Suc n)
  have "50 * Suc n = 50 * n + 50" by simp
  then show ?case using Suc by (simp only: take_add) (simp add: messages_page_alt)
qed simp

lemma page_in_channel:
  assumes "m \<in> set (messages_page ch k d)"
  shows "m \<in> set (d_messages d)" and "m_channel_id m = ch"
proof -
  have "m \<in> set (channel_history ch d)"
    using assms unfolding messages_page_alt by (metis in_set_dropD in_set_takeD set_rev)
  then show "m \<in> set (d_messages d)" and "m_channel_id m = ch"
    by (simp_all add: channel_history_def)
qed

lemma page_ascending: "sorted (map m_id (rev (messages_page ch k d)))"
proof -
  let ?h = "channel_history ch d"
  have "rev (messages_page ch k d) = drop (length ?h - k - 50) (take (length ?h - k) ?h)"
    by (simp add: messages_page_alt rev_take rev_drop diff_right_commute)
  moreover have "sorted (map m_id ?h)" by (simp add: channel_history_def)
  ultimately show ?thesis by (simp add: drop_map [symmetric] take_map [symmetric] sorted_wrt_drop sorted_wrt_take)
qed

lemma sint_small: "n < 2 ^ 63 \<Longrightarrow> sint (of_nat n :: 64 word) = int n"
proof -
  assume n: "n < 2 ^ 63"
  have "sint (of_nat n :: 64 word) = sint (word_of_int (int n) :: 64 word)" by simp
  also have "\<dots> = (int n + 2 ^ 63) mod 2 ^ 64 - 2 ^ 63" by (simp only: int_word_sint) simp
  also have "\<dots> = int n" using n by (simp add: mod_pos_pos_trivial)
  finally show ?thesis .
qed

lemma unat_small: "n < 2 ^ 64 \<Longrightarrow> unat (of_nat n :: 64 word) = n"
  by (simp add: unat_of_nat)

lemma page_offset_exact:
  assumes "50 * n < 2 ^ 63"
  shows "unat (page_offset (of_nat n)) = 50 * n" and "\<not> page_offset (of_nat n) <s 0"
proof -
  have "(0 <s (of_nat n :: 64 word)) = (0 < n)"
    using assms by (simp add: word_sless_alt sint_small)
  then have p: "page_offset (of_nat n) = of_nat (50 * n)"
    by (auto simp: page_offset_def mult.commute)
  show "unat (page_offset (of_nat n)) = 50 * n"
    unfolding p using assms by (intro unat_small) simp
  show "\<not> page_offset (of_nat n) <s 0"
    unfolding p word_sless_alt using assms by (simp only: sint_small) simp
qed

lemma remaining_exact:
  assumes "50 * (n + 1) < (2 :: nat) ^ 64" and "k < (2 :: nat) ^ 64"
  shows "unat (remaining_after (of_nat n) (of_nat k)) = k - 50 * (n + 1)"
proof -
  have step: "(of_nat n + 1) * 50 = (of_nat (50 * (n + 1)) :: 64 word)" by simp
  have "remaining_after (of_nat n) (of_nat k) =
      (if 50 * (n + 1) < k then of_nat k - of_nat (50 * (n + 1)) else 0)"
    unfolding remaining_after_def Let_def step word_less_nat_alt
    using unat_small [OF assms(1)] unat_small [OF assms(2)] by simp
  then show ?thesis
    using unat_small [OF assms(1)] unat_small [OF assms(2)] by (simp add: unat_sub_if')
qed

text \<open>A negative page is the first page, with all messages counted as still to come.\<close>

lemma negative_page: "page_offset (- 1) = 0" "remaining_after (- 1) k = k"
  by (auto simp: page_offset_def remaining_after_def word_sless_alt word_gt_0)

section \<open>Reading does not change what is read\<close>

lemma collect_InrD:
  "collect f xs w = (Inr ys, w') \<Longrightarrow> list_all2 (\<lambda>x y. \<exists>v v'. f x v = (Inr y, v')) xs ys"
proof (induction xs arbitrary: w ys w')
  case Nil
  then show ?case by (auto dest!: ret_InrD)
next
  case (Cons x xs)
  then obtain y zs w1 w2 where "f x w = (Inr y, w1)" and "collect f xs w1 = (Inr zs, w2)"
    and "ys = y # zs"
    by (auto elim!: andThen_InrE dest!: ret_InrD)
  then show ?case using Cons.IH by auto
qed

lemma select_page_InrD:
  "select_page E ch offset w = (Inr ms, w') \<Longrightarrow>
   ms = messages_page ch (unat offset) (w_db w) \<and> \<not> offset <s 0"
  by (auto simp: select_page_def statement_def external_def split: option.splits if_splits)

lemma read_page_InrD:
  assumes "read_page E channel pn w = (Inr cp, w')"
  shows "cp_messages cp = rev (messages_page (ch_id channel) (unat (page_offset pn)) (w_db w))"
    and "cp_remaining cp = remaining_after pn (of_nat (count_messages (ch_id channel) (w_db w)))"
proof -
  obtain ms files parents n w1 w2 w3 where
    1: "select_page E (ch_id channel) (page_offset pn) w = (Inr ms, w1)"
    and 2: "page_files E (map m_id (rev ms)) w1 = (Inr files, w2)"
    and 3: "page_parents E (filter (\<lambda>i. 0 < i) (map m_parent_id (rev ms))) w2 = (Inr parents, w3)"
    and 4: "db_get E \<lparr>st_table = ''messages'', st_holes = 1, st_args = 1\<rparr>
       (\<lambda>d. Some (count_messages (ch_id channel) d)) w3 = (Inr n, w')"
    and cp: "cp = \<lparr>cp_messages = rev ms, cp_files = files, cp_parents = parents,
          cp_remaining = remaining_after pn (of_nat n)\<rparr>"
    using assms unfolding read_page_def Let_def
    by (auto elim!: andThen_InrE dest!: on_err_quit_InrD ret_InrD)
  have m: "moves Idle Idle Idle (select_page E (ch_id channel) (page_offset pn))"
    "moves Idle Idle Idle (page_files E (map m_id (rev ms)))"
    "moves Idle Idle Idle (page_parents E (filter (\<lambda>i. 0 < i) (map m_parent_id (rev ms))))"
    unfolding page_files_def page_parents_def by (rule shapes)+
  have "w_db w3 = w_db w" "w_db w1 = w_db w"
    using moves_Idle_db [OF m(1) 1] moves_Idle_db [OF m(2) 2] moves_Idle_db [OF m(3) 3] by simp_all
  then show "cp_messages cp = rev (messages_page (ch_id channel) (unat (page_offset pn)) (w_db w))"
    and "cp_remaining cp = remaining_after pn (of_nat (count_messages (ch_id channel) (w_db w)))"
    using select_page_InrD [OF 1] db_get_InrD [OF 4] cp by auto
qed

section \<open>Who may look at a channel\<close>

lemma show_user_InrD: "show_user E u w = (Inr x, w') \<Longrightarrow> w' = w"
  by (auto simp: show_user_def elim!: andThen_InrE dest!: inr_dest)

lemma first_channel_handle_InrD:
  "first_channel_handle E c w = (Inr h, w') \<Longrightarrow> w' = tick w \<and>
   (\<exists>ch \<in> set (d_channels (w_db w)). ch_community_id ch = c_id c \<and> h = ch_handle ch)"
  by (auto simp: first_channel_handle_def dest!: db_get_InrD dest: find_SomeD)

text \<open>
  A guest needs nothing. A signed-in user needs a member row, and the channel selected there
  has to exist.
\<close>

lemma channel_viewer_InrD:
  "channel_viewer E v c w = (Inr (mu, p, h), w') \<Longrightarrow>
   (case v of
      None \<Rightarrow> p = c_permissions c
    | Some u \<Rightarrow> \<exists>cu. member_row (u_id u) (c_id c) (w_db w) = Some cu \<and> p = cu_permissions cu \<and>
        (0 < cu_selected_channel_id cu \<longrightarrow>
           (\<exists>ch \<in> set (d_channels (w_db w)). ch_id ch = cu_selected_channel_id cu)))
   \<and> w_db w' = w_db w"
  by (auto simp: channel_viewer_def get_member_def channel_by_id_def elim!: andThen_InrE
      dest!: inr_dest db_get_InrD show_user_InrD first_channel_handle_InrD find_SomeD
      split: option.splits if_splits) blast+

lemma alive_case_prod [dead_intro]:
  "(\<And>a b. alive (f a b)) \<Longrightarrow> alive (case x of (a, b) \<Rightarrow> f a b)"
  by (simp split: prod.split)

lemma alive_channel_blocks' [dead_intro]:
  "alive (channel_viewer E v c)" "alive (read_page E ch pn)" "alive (read_people E c cr ms mem)"
  "alive (show_prominent E pp r)" "alive (show_page_message E pp cp m)"
  unfolding channel_viewer_def show_user_def read_page_def page_files_def page_parents_def
    read_people_def show_prominent_def
    show_page_message_def show_message_def show_files_def Let_def
  by (rule dead_intro is_error_simps)+

lemma alive_Channel: "alive (Channel E v p chp pn)"
  unfolding Channel_def by (rule dead_intro is_error_simps)+

lemma show_message_text:
  "show_page_message E pp cp m w = (Inr j, w') \<Longrightarrow> json_field j ''text'' = Some (JStr (m_text m))"
  by (auto simp: show_page_message_def show_message_def Let_def json_field_def
      elim!: andThen_InrE dest!: inr_dest)

lemma Channel_done:
  assumes "run (Channel E v p chp pn) w = (r, w')" and "\<not> is_error r"
  obtains c ch j mm where "community_by_handle E (handle_param E p) (w_db w) = Some c"
    and "channel_by_handle E (handle_param E chp) (c_id c) (w_db w) = Some ch"
    and "\<And>u. v = Some u \<Longrightarrow> \<exists>cu. member_row (u_id u) (c_id c) (w_db w) = Some cu \<and>
           (0 < cu_selected_channel_id cu \<longrightarrow>
             (\<exists>ch \<in> set (d_channels (w_db w)). ch_id ch = cu_selected_channel_id cu))"
    and "r = Resp 200 j" and "json_field j ''messages'' = Some (JArr mm)"
    and "list_all2 (\<lambda>m x. json_field x ''text'' = Some (JStr (m_text m)))
           (rev (messages_page (ch_id ch) (unat (page_offset pn)) (w_db w))) mm"
    and "json_field j ''remaining_messages'' =
           Some (JNum (uint (remaining_after pn (of_nat (count_messages (ch_id ch) (w_db w))))))"
proof -
  have "Channel E v p chp pn w = (Inr r, w')" by (rule alive_run_ok [OF alive_Channel assms])
  then obtain c mu perms h ch mem cr cp pp mvcr mm i ci w1 w2 w3 w4 w5 w6 w7 w8 w9 where
    1: "get_community E (handle_param E p) w = (Inr c, w1)"
    and 2: "channel_viewer E v c w1 = (Inr (mu, perms, h), w2)"
    and 3: "get_channel_by_handle E (handle_param E chp) (c_id c) w2 = (Inr ch, w3)"
    and 4: "db_select E \<lparr>st_table = ''communities_users'', st_holes = 1, st_args = 1\<rparr>
       (\<lambda>d. filter (\<lambda>r. cu_community_id r = c_id c) (d_members d)) w3 = (Inr mem, w4)"
    and 5: "db_select E \<lparr>st_table = ''community_roles'', st_holes = 1, st_args = 1\<rparr>
       (\<lambda>d. sort_key r_priority (roles_of (c_id c) d)) w4 = (Inr cr, w5)"
    and 6: "read_page E ch pn w5 = (Inr cp, w6)"
    and 7: "collect (show_page_message E pp cp) (cp_messages cp) w8 = (Inr mm, w9)"
    and r: "r = Resp 200 (JObj [(''id'', JStr i), (''created_at'', JStr (env_rfc3339 E (ch_created_at ch))),
       (''name'', JStr (ch_name ch)), (''handle'', JStr (ch_handle ch)),
       (''community'', JObj [(''id'', JStr ci), (''created_at'', JStr (env_rfc3339 E (c_created_at c))),
          (''name'', JStr (c_name c)), (''handle'', JStr (c_handle c)),
          (''permissions'', JObj (Permissions_ToFiberMap perms)),
          (''server_owner'', JBool (is_owner v c)), (''default_channel'', JStr h)]),
       (''user'', show_channel_viewer pp v mu), (''prominent_roles'', JArr mvcr),
       (''others_online'', JArr (map (show_other E) (others_online pp))), (''others_offline'', JArr []),
       (''messages'', JArr mm), (''message_count'', JNum (int (length mm))),
       (''remaining_messages'', JNum (uint (cp_remaining cp)))])"
    unfolding Channel_def by (auto elim!: andThen_InrE dest!: on_err_quit_InrD ensure_InrD ret_InrD)
  have d: "w_db w1 = w_db w" "w_db w2 = w_db w" "w_db w3 = w_db w" "w_db w5 = w_db w"
    using db_get_InrD [OF 1 [unfolded get_community_def]] channel_viewer_InrD [OF 2]
      db_get_InrD [OF 3 [unfolded get_channel_by_handle_def]] db_select_InrD [OF 4] db_select_InrD [OF 5]
    by auto
  have shown: "list_all2 (\<lambda>m x. json_field x ''text'' = Some (JStr (m_text m)))
           (rev (messages_page (ch_id ch) (unat (page_offset pn)) (w_db w))) mm"
    using collect_InrD [OF 7] read_page_InrD(1) [OF 6] d
    by (auto elim!: list_all2_mono dest: show_message_text)
  have member: "\<exists>cu. member_row (u_id u) (c_id c) (w_db w) = Some cu \<and>
      (0 < cu_selected_channel_id cu \<longrightarrow>
        (\<exists>ch \<in> set (d_channels (w_db w)). ch_id ch = cu_selected_channel_id cu))" if "v = Some u" for u
    using channel_viewer_InrD [OF 2] d(1) that by auto
  show ?thesis
    by (rule that [OF _ _ member r _ shown])
      (use db_get_InrD [OF 1 [unfolded get_community_def]] db_get_InrD [OF 3 [unfolded get_channel_by_handle_def]]
        read_page_InrD(2) [OF 6] d in \<open>auto simp: json_field_def\<close>)
qed

text \<open>A member whose selected channel is gone cannot open any channel of the community.\<close>

lemma Channel_locked_out:
  assumes "member_row (u_id u) (c_id c) (w_db w) = Some cu" and "0 < cu_selected_channel_id cu"
    and "\<forall>ch \<in> set (d_channels (w_db w)). ch_id ch \<noteq> cu_selected_channel_id cu"
    and "community_by_handle E (handle_param E p) (w_db w) = Some c"
    and "run (Channel E (Some u) p chp pn) w = (r, w')"
  shows "is_error r"
proof (rule ccontr)
  assume "\<not> is_error r"
  from Channel_done [OF assms(5) this] show False using assms(1-4) by (metis option.inject)
qed

section \<open>Who is listed where\<close>

lemma in_user_roles_of:
  "r \<in> set (user_roles_of pp u) \<longleftrightarrow>
   (\<exists>ru \<in> set (pp_links pp). ru_user_id ru = u \<and>
      find (\<lambda>x. r_id x = ru_community_role_id ru) (rev (pp_roles pp)) = Some r)"
  by (auto simp: user_roles_of_def map_filter_def split: if_splits)
    (force split: if_splits)+

lemma shown_roles_known: "r \<in> set (shown_roles pp u) \<Longrightarrow> r \<in> set (pp_roles pp)"
  by (auto simp: shown_roles_def in_user_roles_of dest!: find_SomeD split: if_splits)

lemma sorted_roles: "sorted (map r_priority (shown_roles pp u))"
  by (simp add: shown_roles_def user_roles_of_def)

text \<open>The role shown next to a user is the one with the least priority number.\<close>

lemma top_role_least:
  assumes "top_role pp u = Some r"
  shows "r \<in> set (shown_roles pp u)" and "s \<in> set (shown_roles pp u) \<Longrightarrow> r_priority r \<le> r_priority s"
  using assms sorted_roles [of pp u] by (auto simp: top_role_def split: list.splits)

lemma top_prominent_least:
  assumes "top_prominent_role pp u = Some r"
  shows "r \<in> set (shown_roles pp u)" and "r_show_online_differently r"
    and "s \<in> set (shown_roles pp u) \<Longrightarrow> r_show_online_differently s \<Longrightarrow> r_priority r \<le> r_priority s"
proof -
  show "r \<in> set (shown_roles pp u)" "r_show_online_differently r"
    using assms by (auto simp: top_prominent_role_def dest: find_SomeD)
  have "find P xs = Some x \<Longrightarrow> sorted (map r_priority xs) \<Longrightarrow> y \<in> set xs \<Longrightarrow> P y \<Longrightarrow> r_priority x \<le> r_priority y"
    for P x y and xs :: "community_roles_row list"
    by (induction xs) (auto split: if_splits dest: find_SomeD)
  then show "s \<in> set (shown_roles pp u) \<Longrightarrow> r_show_online_differently s \<Longrightarrow> r_priority r \<le> r_priority s"
    using assms sorted_roles unfolding top_prominent_role_def by blast
qed

text \<open>Every user of the page is listed exactly once: under one prominent role, or among the others.\<close>

lemma listed_once:
  assumes "u \<in> set (pp_users pp)" and "distinct (map r_id (pp_roles pp))"
  shows "(u \<in> set (others_online pp) \<and>
            (\<forall>r \<in> set (pp_roles pp). r_show_online_differently r \<longrightarrow> u \<notin> set (prominent_users pp r))) \<or>
         (u \<notin> set (others_online pp) \<and>
            (\<exists>!r. r \<in> set (pp_roles pp) \<and> r_show_online_differently r \<and> u \<in> set (prominent_users pp r)))"
proof (cases "top_prominent_role pp (u_id u)")
  case None
  then show ?thesis using assms(1) by (auto simp: others_online_def prominent_users_def)
next
  case (Some t)
  have t: "t \<in> set (pp_roles pp)" "r_show_online_differently t"
    using top_prominent_least(1,2) [OF Some] shown_roles_known by auto
  have "u \<in> set (prominent_users pp r) \<longleftrightarrow> r_id r = r_id t" for r
    using assms(1) Some by (auto simp: prominent_users_def)
  then have "\<exists>!r. r \<in> set (pp_roles pp) \<and> r_show_online_differently r \<and> u \<in> set (prominent_users pp r)"
    using t same_key [OF assms(2)] by (intro ex1I [of _ t]) auto
  moreover have "u \<notin> set (others_online pp)" using Some by (simp add: others_online_def)
  ultimately show ?thesis by blast
qed

section \<open>The views that need something to list\<close>

text \<open>A signed-in user who is no member sees less than a guest: nothing.\<close>

lemma alive_Community: "alive (Community E v p)"
  unfolding Community_def participates_def show_channel_entry_def show_group_def viewer_part_def
    unread_count_def show_user_def Let_def
  by (rule dead_intro is_error_simps)+

lemma Community_needs_member:
  assumes "run (Community E (Some u) p) w = (r, w')" and "\<not> is_error r"
    and "community_by_handle E (handle_param E p) (w_db w) = Some c"
  shows "member_row (u_id u) (c_id c) (w_db w) \<noteq> None"
proof -
  have "Community E (Some u) p w = (Inr r, w')" by (rule alive_run_ok [OF alive_Community assms(1,2)])
  then obtain c' part roles mcr top mtc gs mg x w1 w2 w3 w4 w5 w6 w7 w8 where
    1: "get_community E (handle_param E p) w = (Inr c', w1)"
    and 2: "participates E (Some u) c' w1 = (Inr part, w2)"
    and 3: "db_select E \<lparr>st_table = ''community_roles'', st_holes = 1, st_args = 1\<rparr>
       (roles_of (c_id c')) w2 = (Inr roles, w3)"
    and 4: "of_outcome (outcomes (map (\<lambda>r. CommunityRoles_ToFiberMap E r False) roles)) w3 = (Inr mcr, w4)"
    and 5: "db_select E \<lparr>st_table = ''channels'', st_holes = 2, st_args = 2\<rparr>
       (\<lambda>d. filter (\<lambda>ch. ch_community_id ch = c_id c' \<and> ch_group_id ch = 0) (d_channels d)) w4 = (Inr top, w5)"
    and 6: "collect (show_channel_entry E (u_id u))
       (filter (\<lambda>ch. HasChannelPermission (u_id u) (ch_id ch) ViewChannels) top) w5 = (Inr mtc, w6)"
    and 7: "db_select E \<lparr>st_table = ''channel_groups'', st_holes = 1, st_args = 1\<rparr>
       (\<lambda>d. filter (\<lambda>g. g_community_id g = c_id c') (d_groups d)) w6 = (Inr gs, w7)"
    and 8: "collect (show_group E (u_id u)) (filter (\<lambda>g. HasGroupPermission (u_id u) (g_id g)) gs) w7 = (Inr mg, w8)"
    and 9: "\<exists>w9. viewer_part E (Some u) c' w8 = (Inr x, w9)"
    unfolding Community_def Let_def viewer_id_def
    by (auto elim!: andThen_InrE dest!: on_err_quit_InrD)
  have m: "moves Idle Idle Idle (participates E (Some u) c')"
    "moves Idle Idle Idle (collect (show_channel_entry E (u_id u))
       (filter (\<lambda>ch. HasChannelPermission (u_id u) (ch_id ch) ViewChannels) top))"
    "moves Idle Idle Idle (collect (show_group E (u_id u)) (filter (\<lambda>g. HasGroupPermission (u_id u) (g_id g)) gs))"
    unfolding show_channel_entry_def show_group_def by (rule shapes)+
  have "w_db w8 = w_db w" and "c' = c"
    using db_get_InrD [OF 1 [unfolded get_community_def]] moves_Idle_db [OF m(1) 2] db_select_InrD [OF 3]
      of_outcome_InrD [OF 4] db_select_InrD [OF 5] moves_Idle_db [OF m(2) 6] db_select_InrD [OF 7]
      moves_Idle_db [OF m(3) 8] assms(3) by auto
  then show ?thesis
    using 9 by (auto simp: viewer_part_def get_member_def elim!: andThen_InrE
        dest!: inr_dest db_get_InrD show_user_InrD)
qed

text \<open>The sitemap lists the channels of public communities only, and fails when there is none.\<close>

lemma Sitemap_needs_public:
  assumes "\<forall>c \<in> set (d_communities (w_db w)). c_private c" and "run (Sitemap E) w = (r, w')"
  shows "is_error r"
proof -
  have "wp (Sitemap E) (\<lambda>_ _. False) (\<lambda>r _. is_error r) w"
    using assms(1)
    by (auto simp: Sitemap_def wp_def andThen_def on_err_def call_defs select_ids_def quit_def
        filter_empty_conv split: option.splits)
  then show ?thesis using assms(2) by (auto simp: wp_def run_def split: prod.splits sum.splits)
qed

lemma Sitemap_done:
  assumes "Sitemap E w = (Inr r, w')"
  obtains entries where "r = Resp 200 (JObj [(''communities'', JArr entries)])"
    and "\<forall>e \<in> set entries. \<exists>c \<in> set (d_communities (w_db w)). \<not> c_private c \<and>
           json_field e ''handle'' = Some (JStr (c_handle c)) \<and>
           (\<exists>ch \<in> set (d_channels (w_db w)). ch_community_id ch = c_id c)"
  using assms unfolding Sitemap_def select_ids_def
  by (auto simp: Let_def json_field_def elim!: andThen_InrE dest!: inr_dest db_select_InrD
      simp: filter_empty_conv split: if_splits intro!: that) blast

end
