(* ===== verification/Chat_Server.thy ===== *)
theory Chat_Server
  imports Handler
begin

text \<open>
  The websocket server: the hub of \<^verbatim>\<open>api_ws/api_ws.go\<close> (\<open>runChatServer\<close>) with the types of
  \<^verbatim>\<open>chat_server/server.go\<close>, the loop that reads the frames of one connection, and
  \<^verbatim>\<open>internal_handlers/broadcast_message.go\<close>, which feeds the hub.

  The channels of the hub are not buffered and its loop takes one message at a time; what it
  does with a message it mostly leaves to goroutines, which run later, in any order, each
  holding the mutex of one client. A goroutine whose write fails keeps that mutex until the
  hub has taken its \<^verbatim>\<open>Unregister\<close>.
\<close>

section \<open>State\<close>

type_synonym conn = nat
type_synonym client_ref = nat

text \<open>\<open>cl_locked\<close>: the mutex is held by a goroutine that waits for the hub.\<close>

record client =
  cl_closing :: bool
  cl_lp :: nat
  cl_topics :: "string set"
  cl_locked :: bool

text \<open>What goes through the channels of the hub.\<close>

datatype hub_event =
    Subscribe conn string
  | Unsubscribe conn string
  | Register conn
  | Echo conn string
  | Broadcast string string
  | Unregister conn

text \<open>The goroutines the hub starts; each holds the pointer of its client.\<close>

datatype task =
    TSubscribe client_ref string
  | TUnsubscribe client_ref string
  | TEcho client_ref conn string
  | TBroadcast client_ref conn string string

datatype frame = EchoFrame string | BroadcastFrame string string

fun task_client :: "task \<Rightarrow> client_ref" where
  "task_client (TSubscribe r t) = r"
| "task_client (TUnsubscribe r t) = r"
| "task_client (TEcho r c m) = r"
| "task_client (TBroadcast r c t m) = r"

text \<open>
  \<open>h_clients\<close> is \<^verbatim>\<open>server.Clients\<close>, a map to pointers into \<open>h_heap\<close>; \<open>h_tasks\<close> are the
  goroutines that have not run, \<open>h_waiting\<close> those that failed to write and wait for the hub,
  \<open>h_sent\<close> the frames that were written, newest first.
\<close>

record hub =
  h_clients :: "conn \<Rightarrow> client_ref option"
  h_heap :: "client list"
  h_tasks :: "task list"
  h_waiting :: "(conn \<times> client_ref) list"
  h_sent :: "(conn \<times> client_ref \<times> frame) list"

definition empty_hub :: hub where
  "empty_hub = \<lparr>h_clients = (\<lambda>_. None), h_heap = [], h_tasks = [], h_waiting = [], h_sent = []\<rparr>"

definition new_client :: "nat \<Rightarrow> client" where
  "new_client now = \<lparr>cl_closing = False, cl_lp = now, cl_topics = {}, cl_locked = False\<rparr>"

definition set_client :: "client_ref \<Rightarrow> (client \<Rightarrow> client) \<Rightarrow> hub \<Rightarrow> hub" where
  "set_client r f h = h\<lparr>h_heap := (h_heap h)[r := f (h_heap h ! r)]\<rparr>"

section \<open>The hub\<close>

definition to_client :: "hub \<Rightarrow> conn \<Rightarrow> (client_ref \<Rightarrow> task) \<Rightarrow> hub" where
  "to_client h c t =
     (case h_clients h c of None \<Rightarrow> h | Some r \<Rightarrow> h\<lparr>h_tasks := h_tasks h @ [t r]\<rparr>)"

text \<open>
  One turn of the \<^verbatim>\<open>select\<close> loop. \<open>conns\<close> lists the keys of the client map in the order of the
  iteration, which Go leaves open.
\<close>

fun hub_receive :: "nat \<Rightarrow> conn list \<Rightarrow> hub_event \<Rightarrow> hub \<Rightarrow> hub" where
  "hub_receive now conns (Subscribe c t) h = to_client h c (\<lambda>r. TSubscribe r t)"
| "hub_receive now conns (Unsubscribe c t) h = to_client h c (\<lambda>r. TUnsubscribe r t)"
| "hub_receive now conns (Register c) h =
     h\<lparr>h_clients := (h_clients h)(c \<mapsto> length (h_heap h)), h_heap := h_heap h @ [new_client now]\<rparr>"
| "hub_receive now conns (Echo c m) h = to_client h c (\<lambda>r. TEcho r c m)"
| "hub_receive now conns (Broadcast t m) h =
     h\<lparr>h_tasks := h_tasks h @ List.map_filter
        (\<lambda>c. map_option (\<lambda>r. TBroadcast r c t m) (h_clients h c)) conns\<rparr>"
| "hub_receive now conns (Unregister c) h = h\<lparr>h_clients := (h_clients h)(c := None)\<rparr>"

section \<open>The goroutines\<close>

definition write_frame :: "bool \<Rightarrow> client_ref \<Rightarrow> conn \<Rightarrow> frame \<Rightarrow> hub \<Rightarrow> hub" where
  "write_frame ok r c f h =
     (if ok then h\<lparr>h_sent := (c, r, f) # h_sent h\<rparr>
      else (set_client r (\<lambda>x. x\<lparr>cl_closing := True, cl_locked := True\<rparr>) h)
             \<lparr>h_waiting := h_waiting h @ [(c, r)]\<rparr>)"

text \<open>The body of a goroutine that has got the mutex; \<open>ok\<close> tells whether a write succeeds.\<close>

fun run_task :: "bool \<Rightarrow> task \<Rightarrow> hub \<Rightarrow> hub" where
  "run_task ok (TSubscribe r t) h = set_client r (\<lambda>x. x\<lparr>cl_topics := insert t (cl_topics x)\<rparr>) h"
| "run_task ok (TUnsubscribe r t) h = set_client r (\<lambda>x. x\<lparr>cl_topics := cl_topics x - {t}\<rparr>) h"
| "run_task ok (TEcho r c m) h =
     (if cl_closing (h_heap h ! r) then h else write_frame ok r c (EchoFrame m) h)"
| "run_task ok (TBroadcast r c t m) h =
     (if cl_closing (h_heap h ! r) then h
      else if t \<in> cl_topics (h_heap h ! r) then write_frame ok r c (BroadcastFrame t m) h
      else h)"

definition keys_listed :: "hub \<Rightarrow> conn list \<Rightarrow> bool" where
  "keys_listed h conns \<longleftrightarrow> distinct conns \<and> set conns = dom (h_clients h)"

text \<open>The steps of the server; the label is the event the hub took, if any.\<close>

inductive hub_step :: "hub \<Rightarrow> hub_event option \<Rightarrow> hub \<Rightarrow> bool" where
  Receive: "keys_listed h conns \<Longrightarrow> hub_step h (Some e) (hub_receive now conns e h)"
| Run: "i < length (h_tasks h) \<Longrightarrow> t = h_tasks h ! i \<Longrightarrow> \<not> cl_locked (h_heap h ! task_client t) \<Longrightarrow>
    hub_step h None (run_task ok t (h\<lparr>h_tasks := take i (h_tasks h) @ drop (Suc i) (h_tasks h)\<rparr>))"
| Give_up: "h_waiting h = ws @ (c, r) # ws' \<Longrightarrow>
    hub_step h (Some (Unregister c))
      (set_client r (\<lambda>x. x\<lparr>cl_locked := False\<rparr>) (hub_receive now [] (Unregister c) (h\<lparr>h_waiting := ws @ ws'\<rparr>)))"
| Ping: "h_clients h c = Some r \<Longrightarrow> \<not> cl_locked (h_heap h ! r) \<Longrightarrow>
    hub_step h None (set_client r (\<lambda>x. x\<lparr>cl_lp := now\<rparr>) h)"

text \<open>A run of the server from its start, with the events the hub has taken, newest first.\<close>

inductive hub_run :: "hub_event list \<Rightarrow> hub \<Rightarrow> bool" where
  Start: "hub_run [] empty_hub"
| Silent: "hub_run es h \<Longrightarrow> hub_step h None h' \<Longrightarrow> hub_run es h'"
| Event: "hub_run es h \<Longrightarrow> hub_step h (Some e) h' \<Longrightarrow> hub_run (e # es) h'"

inductive_cases silent_stepE: "hub_step h None h'"
inductive_cases event_stepE: "hub_step h (Some e) h'"
inductive_simps hub_run_empty: "hub_run [] h"

section \<open>Reading a connection\<close>

text \<open>
  What the loop does with one frame: it sends the hub an event, or it returns, which
  unregisters and closes the connection. A text that is not \<^verbatim>\<open>ping\<close> has to be a JSON object of
  strings: \<open>parse\<close> is \<^verbatim>\<open>json.Unmarshal\<close> into \<^verbatim>\<open>map[string]string\<close>. Frames that are not text
  are ignored. The topic is not checked.
\<close>

datatype ws_frame = TextFrame string | OtherFrame | ReadError

definition read_frame ::
  "(string \<Rightarrow> (string \<times> string) list option) \<Rightarrow> bool \<Rightarrow> conn \<Rightarrow> ws_frame \<Rightarrow> hub_event list option" where
  "read_frame parse viewerOk c f =
     (case f of
        ReadError \<Rightarrow> None
      | OtherFrame \<Rightarrow> if viewerOk then Some [] else None
      | TextFrame m \<Rightarrow>
          if \<not> viewerOk then None
          else if m = ''ping'' then Some [Echo c m]
          else (case parse m of
                  None \<Rightarrow> None
                | Some data \<Rightarrow>
                    (case map_of data ''type'' of
                       None \<Rightarrow> None
                     | Some ty \<Rightarrow>
                         if ty = ''subscribe''
                         then map_option (\<lambda>t. [Subscribe c t]) (map_of data ''topic'')
                         else if ty = ''unsubscribe''
                         then map_option (\<lambda>t. [Unsubscribe c t]) (map_of data ''topic'')
                         else None)))"

text \<open>The events of a connection from its registration; \<open>None\<close> for a frame ends the loop.\<close>

fun read_loop ::
  "(string \<Rightarrow> (string \<times> string) list option) \<Rightarrow> bool \<Rightarrow> conn \<Rightarrow> ws_frame list \<Rightarrow> hub_event list" where
  "read_loop parse viewerOk c [] = []"
| "read_loop parse viewerOk c (f # fs) =
     (case read_frame parse viewerOk c f of
        None \<Rightarrow> [Unregister c]
      | Some es \<Rightarrow> es @ read_loop parse viewerOk c fs)"

definition connection_events ::
  "(string \<Rightarrow> (string \<times> string) list option) \<Rightarrow> bool \<Rightarrow> conn \<Rightarrow> ws_frame list \<Rightarrow> hub_event list" where
  "connection_events parse viewerOk c fs = Register c # read_loop parse viewerOk c fs"

section \<open>Feeding the hub\<close>

record broadcast_input =
  bi_message :: string
  bi_topic :: string

text \<open>The input has no rules, so that validation accepts every body that parses.\<close>

definition BroadcastMessage :: "broadcast_input option \<Rightarrow> response \<times> hub_event list" where
  "BroadcastMessage body =
     (case body of
        None \<Rightarrow> (plain_error 200 ''Invalid input.'', [])
      | Some input \<Rightarrow>
          (Resp 200 (JObj [(''ok'', JBool True)]), [Broadcast (bi_topic input) (bi_message input)]))"

section \<open>Invariants of the hub\<close>

text \<open>The connections in the order of their registration: the owner of a pointer is its entry.\<close>

fun registered_conn :: "hub_event \<Rightarrow> conn option" where
  "registered_conn (Register c) = Some c"
| "registered_conn _ = None"

definition registered :: "hub_event list \<Rightarrow> conn list" where
  "registered es = List.map_filter registered_conn (rev es)"

lemma registered_Nil [simp]: "registered [] = []"
  by (simp add: registered_def map_filter_def)

lemma registered_Cons [simp]:
  "registered (e # es) = registered es @ (case registered_conn e of None \<Rightarrow> [] | Some c \<Rightarrow> [c])"
  by (simp add: registered_def map_filter_def split: option.split)

definition owns :: "hub_event list \<Rightarrow> conn \<Rightarrow> client_ref \<Rightarrow> bool" where
  "owns es c r \<longleftrightarrow> r < length (registered es) \<and> registered es ! r = c"

lemma owns_Cons: "owns es c r \<Longrightarrow> owns (e # es) c r"
  by (simp add: owns_def nth_append split: option.split)

lemma owns_unique: "owns es c r \<Longrightarrow> owns es d r \<Longrightarrow> c = d"
  by (simp add: owns_def)

fun task_ok :: "hub_event list \<Rightarrow> task \<Rightarrow> bool" where
  "task_ok es (TSubscribe r t) = (\<exists>c. owns es c r \<and> Subscribe c t \<in> set es)"
| "task_ok es (TUnsubscribe r t) = (\<exists>c. owns es c r)"
| "task_ok es (TEcho r c m) = (owns es c r \<and> Echo c m \<in> set es)"
| "task_ok es (TBroadcast r c t m) = (owns es c r \<and> Broadcast t m \<in> set es)"

fun sent_ok :: "hub_event list \<Rightarrow> conn \<times> client_ref \<times> frame \<Rightarrow> bool" where
  "sent_ok es (c, r, EchoFrame m) = (owns es c r \<and> Echo c m \<in> set es)"
| "sent_ok es (c, r, BroadcastFrame t m) =
     (owns es c r \<and> Broadcast t m \<in> set es \<and> Subscribe c t \<in> set es)"

definition hub_ok :: "hub_event list \<Rightarrow> hub \<Rightarrow> bool" where
  "hub_ok es h \<longleftrightarrow>
     length (h_heap h) = length (registered es) \<and>
     (\<forall>c r. h_clients h c = Some r \<longrightarrow> owns es c r) \<and>
     (\<forall>t \<in> set (h_tasks h). task_ok es t) \<and>
     (\<forall>(c, r) \<in> set (h_waiting h). owns es c r) \<and>
     (\<forall>s \<in> set (h_sent h). sent_ok es s) \<and>
     (\<forall>r t. r < length (h_heap h) \<longrightarrow> t \<in> cl_topics (h_heap h ! r) \<longrightarrow>
        Subscribe (registered es ! r) t \<in> set es)"

lemma task_ok_Cons: "task_ok es t \<Longrightarrow> task_ok (e # es) t"
  by (cases t) (auto intro: owns_Cons)

lemma sent_ok_Cons: "sent_ok es s \<Longrightarrow> sent_ok (e # es) s"
  by (cases "(es, s)" rule: sent_ok.cases) (auto intro: owns_Cons)

lemma task_ok_client: "task_ok es t \<Longrightarrow> task_client t < length (registered es)"
  by (cases t) (auto simp: owns_def)

lemma hub_okI:
  assumes "length (h_heap h) = length (registered es)"
    and "\<And>c r. h_clients h c = Some r \<Longrightarrow> owns es c r"
    and "\<And>t. t \<in> set (h_tasks h) \<Longrightarrow> task_ok es t"
    and "\<And>c r. (c, r) \<in> set (h_waiting h) \<Longrightarrow> owns es c r"
    and "\<And>s. s \<in> set (h_sent h) \<Longrightarrow> sent_ok es s"
    and "\<And>r t. r < length (h_heap h) \<Longrightarrow> t \<in> cl_topics (h_heap h ! r) \<Longrightarrow>
       Subscribe (registered es ! r) t \<in> set es"
  shows "hub_ok es h"
  using assms by (auto simp: hub_ok_def)

lemma hub_okD:
  assumes "hub_ok es h"
  shows "length (h_heap h) = length (registered es)"
    and "h_clients h c = Some r \<Longrightarrow> owns es c r"
    and "t \<in> set (h_tasks h) \<Longrightarrow> task_ok es t"
    and "(c, r) \<in> set (h_waiting h) \<Longrightarrow> owns es c r"
    and "s \<in> set (h_sent h) \<Longrightarrow> sent_ok es s"
    and "r < length (h_heap h) \<Longrightarrow> tp \<in> cl_topics (h_heap h ! r) \<Longrightarrow>
       Subscribe (registered es ! r) tp \<in> set es"
  using assms by (auto simp: hub_ok_def)

lemma hub_ok_Cons:
  assumes "hub_ok es h" and "registered_conn e = None"
  shows "hub_ok (e # es) h"
  by (rule hub_okI) (use hub_okD [OF assms(1)] assms(2) in
    \<open>auto intro: owns_Cons task_ok_Cons sent_ok_Cons\<close>)

lemma hub_ok_change:
  assumes "hub_ok es h" and "h_heap h' = h_heap h" and "h_sent h' = h_sent h"
    and "set (h_waiting h') \<subseteq> set (h_waiting h)"
    and "\<And>c r. h_clients h' c = Some r \<Longrightarrow> h_clients h c = Some r"
    and "\<And>t. t \<in> set (h_tasks h') \<Longrightarrow> t \<in> set (h_tasks h) \<or> task_ok es t"
  shows "hub_ok es h'"
proof (rule hub_okI)
  show "task_ok es t" if "t \<in> set (h_tasks h')" for t
    using assms(6) [OF that] hub_okD(3) [OF assms(1)] by blast
qed (use hub_okD [OF assms(1)] assms(2-5) in auto)

lemma hub_ok_receive:
  assumes "hub_ok es h"
  shows "hub_ok (e # es) (hub_receive now conns e h)"
proof (cases "registered_conn e")
  case None
  have ok: "hub_ok (e # es) h" by (rule hub_ok_Cons [OF assms None])
  have client: "\<forall>c r. h_clients h c = Some r \<longrightarrow> owns (e # es) c r"
    using hub_okD(2) [OF ok] by blast
  show ?thesis
  proof (rule hub_ok_change [OF ok])
    fix t assume t: "t \<in> set (h_tasks (hub_receive now conns e h))"
    show "t \<in> set (h_tasks h) \<or> task_ok (e # es) t"
      using t client None
      by (cases e) (auto simp: to_client_def map_filter_def split: option.splits, blast+)
  next
    fix c r assume "h_clients (hub_receive now conns e h) c = Some r"
    then show "h_clients h c = Some r"
      using None by (cases e) (auto simp: to_client_def split: option.splits if_splits)
  qed (use None in \<open>cases e; auto simp: to_client_def split: option.splits\<close>)+
next
  case (Some c)
  then have e: "e = Register c" by (cases e) auto
  note h = hub_okD [OF assms]
  have "owns (e # es) c (length (h_heap h))"
    using h(1) e by (simp add: owns_def)
  moreover have "Subscribe (registered (e # es) ! r) t \<in> set (e # es)"
    if "r < length (h_heap h)" "t \<in> cl_topics (h_heap h ! r)" for r t
    using h(1) h(6) [OF that] that e by (simp add: nth_append)
  ultimately show ?thesis
    by (intro hub_okI) (use h(1-5) e in
      \<open>auto intro: owns_Cons task_ok_Cons sent_ok_Cons simp: nth_append new_client_def less_Suc_eq
         split: if_splits\<close>)
qed

lemma set_client_simps [simp]:
  "h_clients (set_client r f h) = h_clients h" "h_tasks (set_client r f h) = h_tasks h"
  "h_waiting (set_client r f h) = h_waiting h" "h_sent (set_client r f h) = h_sent h"
  "length (h_heap (set_client r f h)) = length (h_heap h)"
  by (simp_all add: set_client_def)

lemma set_client_nth:
  "q < length (h_heap h) \<Longrightarrow>
   h_heap (set_client r f h) ! q = (if q = r then f (h_heap h ! r) else h_heap h ! q)"
  by (simp add: set_client_def nth_list_update_eq nth_list_update_neq)

lemma hub_ok_set_client:
  assumes "hub_ok es h"
    and "\<And>t. r < length (h_heap h) \<Longrightarrow> t \<in> cl_topics (f (h_heap h ! r)) \<Longrightarrow>
       Subscribe (registered es ! r) t \<in> set es"
  shows "hub_ok es (set_client r f h)"
proof (rule hub_okI)
  fix q t assume "q < length (h_heap (set_client r f h))" "t \<in> cl_topics (h_heap (set_client r f h) ! q)"
  then show "Subscribe (registered es ! q) t \<in> set es"
    using hub_okD(6) [OF assms(1)] assms(2) by (auto simp: set_client_nth split: if_splits)
qed (use hub_okD [OF assms(1)] in auto)

lemma hub_ok_wait:
  "hub_ok es h \<Longrightarrow> owns es c r \<Longrightarrow> hub_ok es (h\<lparr>h_waiting := h_waiting h @ [(c, r)]\<rparr>)"
  by (auto simp: hub_ok_def)

lemma hub_ok_write:
  assumes "hub_ok es h" and "owns es c r" and "sent_ok es (c, r, f)"
  shows "hub_ok es (write_frame ok r c f h)"
proof (cases ok)
  case True
  then show ?thesis
    by (intro hub_okI) (use hub_okD [OF assms(1)] assms(3) in \<open>auto simp: write_frame_def\<close>)
next
  case False
  have "hub_ok es (set_client r (\<lambda>x. x\<lparr>cl_closing := True, cl_locked := True\<rparr>) h)"
    by (rule hub_ok_set_client [OF assms(1)]) (simp add: hub_okD(6) [OF assms(1)])
  from hub_ok_wait [OF this assms(2)] show ?thesis using False by (simp add: write_frame_def)
qed

lemma hub_ok_run_task:
  assumes "hub_ok es h" and "task_ok es t"
  shows "hub_ok es (run_task ok t h)"
proof (cases t)
  case (TSubscribe r tp)
  then show ?thesis
    using assms hub_okD(6) [OF assms(1)]
    by (auto intro!: hub_ok_set_client simp: owns_def)
next
  case (TUnsubscribe r tp)
  then show ?thesis
    using assms hub_okD(6) [OF assms(1)] by (auto intro!: hub_ok_set_client)
next
  case (TEcho r c m)
  then show ?thesis using assms by (auto intro!: hub_ok_write)
next
  case (TBroadcast r c tp m)
  have "Subscribe c tp \<in> set es" if "tp \<in> cl_topics (h_heap h ! r)"
    using hub_okD(6) [OF assms(1) _ that] hub_okD(1) [OF assms(1)] assms(2) TBroadcast
    by (auto simp: owns_def)
  then show ?thesis using assms TBroadcast by (auto intro!: hub_ok_write)
qed

lemma hub_ok_step:
  assumes "hub_step h l h'" and "hub_ok es h"
  shows "hub_ok (case l of None \<Rightarrow> es | Some e \<Rightarrow> e # es) h'"
  using assms
proof cases
  case (Receive conns e now)
  then show ?thesis using hub_ok_receive [OF assms(2)] by simp
next
  case (Run i t ok)
  let ?h = "h\<lparr>h_tasks := take i (h_tasks h) @ drop (Suc i) (h_tasks h)\<rparr>"
  have "hub_ok es ?h"
    by (rule hub_ok_change [OF assms(2)]) (auto dest: in_set_takeD in_set_dropD)
  moreover have "task_ok es t" using hub_okD(3) [OF assms(2)] Run by simp
  ultimately show ?thesis using hub_ok_run_task Run by simp
next
  case (Give_up ws c r ws' now)
  have "hub_ok es (h\<lparr>h_waiting := ws @ ws'\<rparr>)"
    by (rule hub_ok_change [OF assms(2)]) (auto simp: Give_up)
  from hub_ok_receive [OF this, of "Unregister c" now "[]"] show ?thesis
    unfolding Give_up by (auto intro!: hub_ok_set_client dest: hub_okD(6))
next
  case (Ping c r now)
  then show ?thesis using assms(2) by (auto intro!: hub_ok_set_client dest: hub_okD(6))
qed

lemma hub_run_ok: "hub_run es h \<Longrightarrow> hub_ok es h"
proof (induction rule: hub_run.induct)
  case Start
  show ?case by (rule hub_okI) (simp_all add: empty_hub_def)
next
  case (Silent es h h')
  then show ?case using hub_ok_step [of h None h'] by simp
next
  case (Event es h e h')
  then show ?case using hub_ok_step [of h "Some e" h'] by simp
qed

section \<open>Mutexes\<close>

text \<open>
  A mutex is kept after its goroutine has run only while that goroutine waits for the hub,
  and only by one goroutine.
\<close>

definition locks_ok :: "hub \<Rightarrow> bool" where
  "locks_ok h \<longleftrightarrow> distinct (map snd (h_waiting h)) \<and>
     (\<forall>r < length (h_heap h). cl_locked (h_heap h ! r) \<longleftrightarrow> r \<in> snd ` set (h_waiting h)) \<and>
     (\<forall>r < length (h_heap h). cl_locked (h_heap h ! r) \<longrightarrow> cl_closing (h_heap h ! r)) \<and>
     (\<forall>r \<in> snd ` set (h_waiting h). r < length (h_heap h))"

lemma locks_ok_same:
  assumes "locks_ok h" and "h_waiting h' = h_waiting h" and "length (h_heap h') = length (h_heap h)"
    and "\<And>r. r < length (h_heap h) \<Longrightarrow> cl_locked (h_heap h' ! r) = cl_locked (h_heap h ! r)
       \<and> (cl_closing (h_heap h ! r) \<longrightarrow> cl_closing (h_heap h' ! r))"
  shows "locks_ok h'"
  using assms unfolding locks_ok_def by auto

lemma locks_ok_receive: "locks_ok h \<Longrightarrow> locks_ok (hub_receive now conns e h)"
proof (cases "registered_conn e")
  case None
  assume "locks_ok h"
  then show ?thesis
    by (rule locks_ok_same) (use None in \<open>cases e; auto simp: to_client_def split: option.splits\<close>)+
next
  case (Some c)
  assume "locks_ok h"
  moreover have "e = Register c" using Some by (cases e) auto
  ultimately show ?thesis
    by (auto simp: locks_ok_def new_client_def nth_append less_Suc_eq)
qed

lemma locks_ok_write:
  assumes "locks_ok h" and "r < length (h_heap h)" and "\<not> cl_locked (h_heap h ! r)"
  shows "locks_ok (write_frame ok r c f h)"
proof (cases ok)
  case True
  then show ?thesis
    using assms(1) by (intro locks_ok_same [OF assms(1)]) (auto simp: write_frame_def)
next
  case False
  have "r \<notin> snd ` set (h_waiting h)" using assms by (auto simp: locks_ok_def)
  then show ?thesis
    using False assms by (auto simp: locks_ok_def write_frame_def set_client_nth)
qed

lemma locks_ok_run_task:
  assumes "locks_ok h" and "task_client t < length (h_heap h)" and "\<not> cl_locked (h_heap h ! task_client t)"
  shows "locks_ok (run_task ok t h)"
proof (cases t)
  case (TSubscribe r tp)
  then show ?thesis by (intro locks_ok_same [OF assms(1)]) (auto simp: set_client_nth)
next
  case (TUnsubscribe r tp)
  then show ?thesis by (intro locks_ok_same [OF assms(1)]) (auto simp: set_client_nth)
qed (use assms in \<open>auto intro: locks_ok_write\<close>)

lemma locks_ok_step:
  assumes "hub_step h l h'" and "hub_ok es h" and "locks_ok h"
  shows "locks_ok h'"
  using assms(1)
proof cases
  case (Receive conns e now)
  then show ?thesis using locks_ok_receive assms(3) by simp
next
  case (Run i t ok)
  let ?h = "h\<lparr>h_tasks := take i (h_tasks h) @ drop (Suc i) (h_tasks h)\<rparr>"
  have "locks_ok ?h" by (rule locks_ok_same [OF assms(3)]) auto
  moreover have "task_client t < length (h_heap h)"
    using hub_okD(3) [OF assms(2), of t] hub_okD(1) [OF assms(2)] Run task_ok_client by simp
  ultimately show ?thesis using Run by (simp add: locks_ok_run_task)
next
  case (Give_up ws c r ws' now)
  then show ?thesis using assms(3) by (auto simp: locks_ok_def set_client_nth)
next
  case (Ping c r now)
  then show ?thesis by (intro locks_ok_same [OF assms(3)]) (auto simp: set_client_nth)
qed

lemma hub_run_locks: "hub_run es h \<Longrightarrow> locks_ok h"
proof (induction rule: hub_run.induct)
  case Start
  show ?case by (simp add: locks_ok_def empty_hub_def)
qed (auto intro: locks_ok_step hub_run_ok)

section \<open>The server comes to rest\<close>

definition pending :: "hub \<Rightarrow> nat" where
  "pending h = 2 * length (h_tasks h) + length (h_waiting h)"

lemma pending_run_task: "pending (run_task ok t h) \<le> Suc (pending h)"
  by (cases t) (auto simp: pending_def write_frame_def)

text \<open>
  As long as a goroutine has not finished, one of them can go on, without any new message;
  so the server cannot deadlock, and left alone it finishes all of them.
\<close>

lemma hub_progress:
  assumes "hub_run es h" and "0 < pending h"
  shows "\<exists>es' h'. hub_run (es' @ es) h' \<and> pending h' < pending h \<and>
    (\<forall>e \<in> set es'. \<exists>c. e = Unregister c)"
proof (cases "h_waiting h")
  case (Cons w ws)
  obtain c r where w: "w = (c, r)" by (cases w)
  let ?h = "set_client r (\<lambda>x. x\<lparr>cl_locked := False\<rparr>)
      (hub_receive 0 [] (Unregister c) (h\<lparr>h_waiting := [] @ ws\<rparr>))"
  have "hub_step h (Some (Unregister c)) ?h"
    by (rule hub_step.Give_up) (simp add: Cons w)
  then have "hub_run ([Unregister c] @ es) ?h" using assms(1) hub_run.Event by simp
  moreover have "pending ?h < pending h" by (simp add: pending_def Cons)
  ultimately show ?thesis by (intro exI [of _ "[Unregister c]"] exI [of _ ?h]) auto
next
  case Nil
  then obtain t ts where t: "h_tasks h = t # ts"
    using assms(2) by (cases "h_tasks h") (auto simp: pending_def)
  have "task_client t < length (h_heap h)"
    using hub_okD(3) [OF hub_run_ok [OF assms(1)], of t] hub_okD(1) [OF hub_run_ok [OF assms(1)]] t
      task_ok_client by simp
  then have "\<not> cl_locked (h_heap h ! task_client t)"
    using hub_run_locks [OF assms(1)] Nil by (simp add: locks_ok_def)
  then have "hub_step h None (run_task True t (h\<lparr>h_tasks := take 0 (h_tasks h) @ drop (Suc 0) (h_tasks h)\<rparr>))"
    by (intro hub_step.Run) (simp_all add: t)
  then have "hub_run es (run_task True t (h\<lparr>h_tasks := ts\<rparr>))"
    using assms(1) hub_run.Silent by (simp add: t)
  moreover have "pending (run_task True t (h\<lparr>h_tasks := ts\<rparr>)) < pending h"
    using pending_run_task [of True t "h\<lparr>h_tasks := ts\<rparr>"] t by (simp add: pending_def)
  ultimately show ?thesis by (intro exI [of _ "[]"]) auto
qed

lemma hub_comes_to_rest:
  "hub_run es h \<Longrightarrow> \<exists>es' h'. hub_run (es' @ es) h' \<and> h_tasks h' = [] \<and> h_waiting h' = [] \<and>
     (\<forall>e \<in> set es'. \<exists>c. e = Unregister c)"
proof (induction "pending h" arbitrary: es h rule: less_induct)
  case less
  show ?case
  proof (cases "pending h = 0")
    case True
    then show ?thesis using less.prems by (intro exI [of _ "[]"] exI [of _ h]) (simp add: pending_def)
  next
    case False
    then obtain es1 h1 where 1: "hub_run (es1 @ es) h1" "pending h1 < pending h"
      "\<forall>e \<in> set es1. \<exists>c. e = Unregister c"
      using hub_progress [OF less.prems] by blast
    from less.hyps [OF 1(2,1)] obtain es2 h2 where "hub_run (es2 @ es1 @ es) h2"
      "h_tasks h2 = []" "h_waiting h2 = []" "\<forall>e \<in> set es2. \<exists>c. e = Unregister c" by blast
    then show ?thesis using 1(3) by (intro exI [of _ "es2 @ es1"] exI [of _ h2]) auto
  qed
qed

section \<open>Closing\<close>

definition sent_to :: "client_ref \<Rightarrow> hub \<Rightarrow> (conn \<times> client_ref \<times> frame) list" where
  "sent_to r h = filter (\<lambda>(c, q, f). q = r) (h_sent h)"

lemma run_task_closing:
  assumes "q < length (h_heap h)" and "cl_closing (h_heap h ! q)" and "task_client t < length (h_heap h)"
  shows "sent_to q (run_task ok t h) = sent_to q h"
    and "length (h_heap (run_task ok t h)) = length (h_heap h)"
    and "cl_closing (h_heap (run_task ok t h) ! q)"
  using assms by (cases t; auto simp: sent_to_def write_frame_def set_client_nth)+

text \<open>A client whose write has failed once is never written to again.\<close>

lemma closing_is_final:
  assumes "hub_step h l h'" and "hub_ok es h" and "r < length (h_heap h)" and "cl_closing (h_heap h ! r)"
  shows "sent_to r h' = sent_to r h \<and> r < length (h_heap h') \<and> cl_closing (h_heap h' ! r)"
  using assms(1)
proof cases
  case (Receive conns e now)
  then show ?thesis
    using assms(3,4) by (cases e) (auto simp: to_client_def sent_to_def nth_append split: option.splits)
next
  case (Run i t ok)
  let ?h = "h\<lparr>h_tasks := take i (h_tasks h) @ drop (Suc i) (h_tasks h)\<rparr>"
  have "task_client t < length (h_heap ?h)"
    using hub_okD(3) [OF assms(2), of t] hub_okD(1) [OF assms(2)] Run task_ok_client by simp
  from run_task_closing [of r ?h, OF _ _ this] show ?thesis
    using Run assms(3,4) by (simp add: sent_to_def)
qed (use assms(3,4) in \<open>auto simp: sent_to_def set_client_nth\<close>)

section \<open>Every message once\<close>

definition copies :: "conn \<Rightarrow> client_ref \<Rightarrow> string \<Rightarrow> string \<Rightarrow> hub \<Rightarrow> nat" where
  "copies c r t m h =
     count_list (h_tasks h) (TBroadcast r c t m) + count_list (h_sent h) (c, r, BroadcastFrame t m)"

lemma count_list_distinct: "distinct xs \<Longrightarrow> count_list xs x \<le> Suc 0"
  by (induction xs) (auto simp: count_list_0_iff)

lemma count_list_remove_nth:
  "i < length xs \<Longrightarrow> count_list xs x = count_list (take i xs @ drop (Suc i) xs) x + of_bool (xs ! i = x)"
  by (subst id_take_nth_drop [of i xs]) auto

lemma copies_to_client:
  assumes "\<And>r. tk r \<noteq> TBroadcast q c t m"
  shows "copies c q t m (to_client h d tk) = copies c q t m h"
  using assms by (auto simp: to_client_def copies_def split: option.split)

lemma broadcast_tasks_once:
  assumes "distinct conns"
  shows "count_list (List.map_filter (\<lambda>c. map_option (\<lambda>r. TBroadcast r c t m) (f c)) conns)
           (TBroadcast q d u n) \<le> of_bool (t = u \<and> m = n)"
  using assms
proof (induction conns)
  case (Cons c cs)
  have "TBroadcast q d u n \<notin> set (List.map_filter (\<lambda>c. map_option (\<lambda>r. TBroadcast r c t m) (f c)) cs)"
    if "d = c" using that Cons.prems by (auto simp: map_filter_def)
  then show ?case using Cons
    by (cases "f c") (auto simp: map_filter_def count_list_0_iff split: option.split)
qed (simp add: map_filter_def)

lemma copies_receive:
  assumes "distinct conns"
  shows "copies c r t m (hub_receive now conns e h) \<le> copies c r t m h + of_bool (e = Broadcast t m)"
proof (cases e)
  case (Broadcast u n)
  then show ?thesis
    using broadcast_tasks_once [OF assms, of u n "h_clients h" r c t m]
    by (auto simp: copies_def split: if_splits)
qed (simp_all add: copies_to_client, simp_all add: copies_def)

lemma copies_write:
  "copies c r t m (write_frame ok q d f h) \<le> copies c r t m h + of_bool ((d, q, f) = (c, r, BroadcastFrame t m))"
  by (simp add: copies_def write_frame_def)

lemma copies_run_task:
  "copies c r t m (run_task ok tk h) \<le> copies c r t m h + of_bool (tk = TBroadcast r c t m)"
proof (cases tk)
  case (TEcho q d n)
  then show ?thesis using copies_write [of c r t m ok q d "EchoFrame n" h] by simp
next
  case (TBroadcast q d u n)
  then show ?thesis using copies_write [of c r t m ok q d "BroadcastFrame u n" h] by (simp add: conj_ac)
qed (simp_all add: copies_def)

lemma copies_step:
  assumes "hub_step h l h'"
  shows "copies c r t m h' \<le> copies c r t m h + of_bool (l = Some (Broadcast t m))"
  using assms
proof cases
  case (Receive conns e now)
  then show ?thesis using copies_receive [of conns c r t m now e h] by (simp add: keys_listed_def)
next
  case (Run i tk ok)
  let ?h = "h\<lparr>h_tasks := take i (h_tasks h) @ drop (Suc i) (h_tasks h)\<rparr>"
  have "copies c r t m (run_task ok tk ?h) \<le> copies c r t m ?h + of_bool (tk = TBroadcast r c t m)"
    by (rule copies_run_task)
  moreover have "copies c r t m h = copies c r t m ?h + of_bool (tk = TBroadcast r c t m)"
    using count_list_remove_nth [OF Run(3), of "TBroadcast r c t m"] Run(4) by (simp add: copies_def)
  ultimately show ?thesis using Run by simp
qed (simp_all add: copies_def)

lemma broadcast_once:
  "hub_run es h \<Longrightarrow> copies c r t m h \<le> count_list es (Broadcast t m)"
proof (induction rule: hub_run.induct)
  case Start
  show ?case by (simp add: copies_def empty_hub_def)
next
  case (Silent es h h')
  then show ?case using copies_step [of h None h' c r t m] by simp
next
  case (Event es h e h')
  then show ?case using copies_step [of h "Some e" h' c r t m] by auto
qed

section \<open>Events of a connection\<close>

fun event_conn :: "hub_event \<Rightarrow> conn option" where
  "event_conn (Subscribe c t) = Some c"
| "event_conn (Unsubscribe c t) = Some c"
| "event_conn (Register c) = Some c"
| "event_conn (Echo c m) = Some c"
| "event_conn (Broadcast t m) = None"
| "event_conn (Unregister c) = Some c"

lemma read_frame_own:
  "read_frame parse v c f = Some es \<Longrightarrow> e \<in> set es \<Longrightarrow>
   v \<and> ((\<exists>t. e = Subscribe c t) \<or> (\<exists>t. e = Unsubscribe c t) \<or> e = Echo c ''ping'')"
  by (auto simp: read_frame_def split: ws_frame.splits if_splits option.splits)

lemma read_loop_own:
  "e \<in> set (read_loop parse v c fs) \<Longrightarrow>
   e = Unregister c \<or> v \<and> ((\<exists>t. e = Subscribe c t) \<or> (\<exists>t. e = Unsubscribe c t) \<or> e = Echo c ''ping'')"
  by (induction fs) (auto split: option.splits dest: read_frame_own)

lemma read_loop_end:
  "\<exists>es. read_loop parse v c fs = es @ (if \<exists>f \<in> set fs. read_frame parse v c f = None then [Unregister c] else [])
     \<and> Unregister c \<notin> set es"
proof (induction fs)
  case (Cons f fs)
  show ?case
  proof (cases "read_frame parse v c f")
    case None
    then show ?thesis by (auto intro!: exI [of _ "[]"])
  next
    case (Some es)
    then have "Unregister c \<notin> set es" by (auto dest: read_frame_own)
    moreover obtain es' where "read_loop parse v c fs = es' @
        (if \<exists>f \<in> set fs. read_frame parse v c f = None then [Unregister c] else [])"
      "Unregister c \<notin> set es'" using Cons by blast
    ultimately show ?thesis using Some by (auto intro!: exI [of _ "es @ es'"])
  qed
qed simp

text \<open>
  The goroutines of one client need not run in the order of its frames: after a subscription
  and its withdrawal the client can stay subscribed.
\<close>

lemma hub_run_race:
  "hub_run [Unsubscribe c t, Subscribe c t, Register c]
     \<lparr>h_clients = [c \<mapsto> 0], h_heap = [(new_client now)\<lparr>cl_topics := {t}\<rparr>], h_tasks = [],
      h_waiting = [], h_sent = []\<rparr>" (is "hub_run _ ?h4")
proof -
  define h1 where "h1 = hub_receive now [] (Register c) empty_hub"
  define h2 where "h2 = hub_receive now [c] (Subscribe c t) h1"
  define h3 where "h3 = hub_receive now [c] (Unsubscribe c t) h2"
  note d = h1_def h2_def h3_def empty_hub_def to_client_def keys_listed_def
  have "hub_run [Register c] h1"
    using hub_run.Event [OF hub_run.Start hub_step.Receive [of empty_hub "[]" "Register c" now]]
    by (simp add: d)
  from hub_run.Event [OF this hub_step.Receive [of h1 "[c]" "Subscribe c t" now]]
  have "hub_run [Subscribe c t, Register c] h2" by (simp add: d)
  from hub_run.Event [OF this hub_step.Receive [of h2 "[c]" "Unsubscribe c t" now]]
  have 3: "hub_run [Unsubscribe c t, Subscribe c t, Register c] h3" by (simp add: d)
  from hub_run.Silent [OF 3 hub_step.Run [of 1 h3 _ True]]
  have 4: "hub_run [Unsubscribe c t, Subscribe c t, Register c]
    (run_task True (TUnsubscribe 0 t) (h3\<lparr>h_tasks := [TSubscribe 0 t]\<rparr>))" (is "hub_run _ ?h")
    by (simp add: d new_client_def)
  from hub_run.Silent [OF 4 hub_step.Run [of 0 ?h _ True]]
  have "hub_run [Unsubscribe c t, Subscribe c t, Register c]
    (run_task True (TSubscribe 0 t) (?h\<lparr>h_tasks := []\<rparr>))"
    by (simp add: d new_client_def set_client_def)
  moreover have "run_task True (TSubscribe 0 t) (?h\<lparr>h_tasks := []\<rparr>) = ?h4"
    by (simp add: d new_client_def set_client_def)
  ultimately show ?thesis by simp
qed

end
