(* ===== verification/Community_Laws.thy ===== *)
theory Community_Laws
  imports Samples
begin

text \<open>
  What the handlers of communities, roles and members guarantee, with a concrete run for each
  claim. The claims follow from the effects proved in the theories of the components.
\<close>

section \<open>Permissions\<close>

text \<open>Who holds a permission in a community: the owner, everybody, or the holders of a role.\<close>

definition entitled :: "communities_row \<Rightarrow> database \<Rightarrow> nat \<Rightarrow> permission \<Rightarrow> bool" where
  "entitled c d u k \<longleftrightarrow>
     u = c_owner_id c \<or> has_perm (c_permissions c) k \<or>
     (\<exists>role \<in> set (d_roles d). r_community_id role = c_id c \<and> has_perm (r_permissions role) k \<and>
        (\<exists>ru \<in> set (d_roles_users d). ru_community_id ru = c_id c \<and>
           ru_community_role_id ru = r_id role \<and> ru_user_id ru = u))"

text \<open>C2: the recalculation gives each listed member exactly the permissions of the owner, the
  defaults and the roles, drops the cached permissions of these members, and touches no other row,
  table or key.\<close>

theorem recalculation_refines:
  assumes "RecalculateAndUpdatePermissionsForUsers E us c w = (Inr (), w')" and "w_txs w = d # ds"
  shows "\<exists>d'. w_txs w' = d' # ds \<and> w_db w' = w_db w \<and> d' = d\<lparr>d_members := d_members d'\<rparr> \<and>
    list_all2 (\<lambda>m m'. if cu_community_id m = c_id c \<and> cu_user_id m \<in> set us
        then m' = m\<lparr>cu_permissions := cu_permissions m'\<rparr> \<and>
             (\<forall>k. has_perm (cu_permissions m') k = entitled c d (cu_user_id m) k)
        else m' = m) (d_members d) (d_members d') \<and>
    (\<forall>k. w_redis w' k = (if \<exists>u \<in> set us. k = PermissionRedisKey u (c_id c) then None else w_redis w k))"
proof -
  note eff = RecalculateForUsers_InrD [OF assms]
  let ?d' = "recalculated c us d"
  have "list_all2 (\<lambda>m m'. if cu_community_id m = c_id c \<and> cu_user_id m \<in> set us
        then m' = m\<lparr>cu_permissions := cu_permissions m'\<rparr> \<and>
             (\<forall>k. has_perm (cu_permissions m') k = entitled c d (cu_user_id m) k)
        else m' = m) (d_members d) (d_members ?d')"
    by (auto simp: recalculated_def rows_update_def list_all2_map2 list_all2_same effective_has_perm
        entitled_def)
  then show ?thesis using eff
    by (intro exI [of _ ?d']) (auto simp: recalculated_def image_iff)
qed

definition recalculate_sample :: "(db_err + unit) \<times> world" where
  "recalculate_sample = RecalculateAndUpdatePermissionsForUsers sample_env [1, 2] sample_community
     (sample_world\<lparr>w_txs := [sample_db]\<rparr>)"

theorem recalculation_refines_witness:
  "\<exists>d'. w_txs (snd recalculate_sample) = [d'] \<and> w_db (snd recalculate_sample) = sample_db \<and>
    list_all2 (\<lambda>m m'. if cu_community_id m = c_id sample_community \<and> cu_user_id m \<in> set [1, 2]
        then m' = m\<lparr>cu_permissions := cu_permissions m'\<rparr> \<and>
             (\<forall>k. has_perm (cu_permissions m') k = entitled sample_community sample_db (cu_user_id m) k)
        else m' = m) (d_members sample_db) (d_members d')"
proof -
  have "fst recalculate_sample = Inr ()" by code_simp
  then have *: "recalculate_sample = (Inr (), snd recalculate_sample)" by (metis prod.collapse)
  from recalculation_refines [OF * [unfolded recalculate_sample_def]] show ?thesis
    unfolding recalculate_sample_def [symmetric]
    by (auto simp: sample_world_def split del: if_split)
qed



section \<open>Who may change what\<close>

text \<open>C8: whoever may not manage the channels of a community gets an error from the six
  handlers of channels and groups and changes no table with them, whatever the input and
  whatever calls fail.\<close>

theorem channels_gated:
  assumes "aes_configured (env_aes E)"
    and "\<not> permitted E v (handle_param E p) ManageChannels w"
    and "\<not> permitted E v (lower E (handle_param E p)) ManageChannels w"
  shows "list_all (\<lambda>m. is_error (fst (run m w)) \<and> w_db (snd (run m w)) = w_db w)
    [CreateChannel E v p b1, EditChannel E v p b2, DeleteChannel E v p b3,
     CreateGroup E v p b4, EditGroup E v p b5, DeleteGroup E v p b6]"
  using create_channel.denied_keeps [where q = "(E, v, p, b1)" and w = w] edit_channel.denied_keeps [where q = "(E, v, p, b2)" and w = w]
    delete_channel.denied_keeps [where q = "(E, v, p, b3)" and w = w] create_group.denied_keeps [where q = "(E, v, p, b4)" and w = w]
    edit_group.denied_keeps [where q = "(E, v, p, b5)" and w = w] delete_group.denied_keeps [where q = "(E, v, p, b6)" and w = w] assms
  by simp (metis prod.collapse)

theorem channels_gated_witness:
  "list_all (\<lambda>m. is_error (fst (run m sample_world)) \<and> w_db (snd (run m sample_world)) = sample_db)
    [CreateChannel sample_env (Some (sample_user 2)) ''Home'' None,
     EditChannel sample_env (Some (sample_user 2)) ''Home'' None,
     DeleteChannel sample_env (Some (sample_user 2)) ''Home'' (Some \<lparr>dc_channel_id = sample_id 3 CHANNELS_TYPE\<rparr>),
     CreateGroup sample_env (Some (sample_user 2)) ''Home'' None,
     EditGroup sample_env (Some (sample_user 2)) ''Home'' None,
     DeleteGroup sample_env (Some (sample_user 2)) ''Home'' None]"
proof -
  have "community_by_handle sample_env (handle_param sample_env ''Home'') sample_db = Some sample_community"
    "community_by_handle sample_env (lower sample_env (handle_param sample_env ''Home'')) sample_db
       = Some sample_community"
    by code_simp+
  moreover have "member_row 2 5 sample_db = Some (sample_member 2 (no_permissions\<lparr>p_kick_members := True\<rparr>))"
    by code_simp
  ultimately show ?thesis
    using channels_gated [of sample_env "Some (sample_user 2)" "''Home''" sample_world]
    by (simp add: permitted_def may_def sample_world_def sample_user_def sample_community_def
        sample_member_def no_permissions_def)
qed



text \<open>C36: nobody leaves, is kicked or is banned: the three handlers always answer an error and
  change no table, whoever asks and whatever calls fail.\<close>

theorem nobody_leaves:
  assumes "aes_configured (env_aes E)"
  shows "list_all (\<lambda>m. is_error (fst (run m w)) \<and> w_db (snd (run m w)) = w_db w \<and>
      w_txs (snd (run m w)) = w_txs w)
    [LeaveCommunity E v p, KickUser E v p b1, BanUser E v p b2]"
  using leave.always_fails [of "(E, v, p)" w] kick.always_fails [of "(E, v, p, b1)" w]
    ban.always_fails [of "(E, v, p, b2)" w] leave.no_leak [of "(E, v, p)" w]
    kick.no_leak [of "(E, v, p, b1)" w] ban.no_leak [of "(E, v, p, b2)" w] assms
  by simp (metis prod.collapse)

theorem nobody_leaves_witness:
  "list_all (\<lambda>m. is_error (fst (run m sample_world)) \<and> w_db (snd (run m sample_world)) = sample_db \<and>
      w_txs (snd (run m sample_world)) = [])
    [LeaveCommunity sample_env (Some (sample_user 2)) ''Home'',
     KickUser sample_env (Some (sample_user 2)) ''Home'' (Some \<lparr>ku_user_id = sample_id 1 USERS_TYPE\<rparr>),
     BanUser sample_env (Some (sample_user 2)) ''Home'' (Some \<lparr>ku_user_id = sample_id 1 USERS_TYPE\<rparr>)]"
  using nobody_leaves [of sample_env sample_world] by (simp add: sample_world_def)

text \<open>C37: nobody joins a community either: the handler answers an error to every request and
  changes no table; a request that gets as far as the look-up of the ban leaves its transaction
  open for ever.\<close>

theorem nobody_joins:
  assumes "run (JoinCommunity E v p b) w = (r, w')"
  shows "is_error r \<and> w_db w' = w_db w \<and> (w_txs w' = w_txs w \<or> (\<exists>d. w_txs w' = d # w_txs w))"
  using dead_run [OF dead_JoinCommunity assms] JoinCommunity_keeps [OF assms] by blast

definition join_request :: "response \<times> world" where
  "join_request = run (JoinCommunity sample_env (Some (sample_user 2)) ''Home''
     (Some \<lparr>jc_code = None\<rparr>)) sample_world"

theorem nobody_joins_witness:
  "is_error (fst join_request) \<and> w_db (snd join_request) = sample_db \<and> length (w_txs (snd join_request)) = 1"
proof -
  have "length (w_txs (snd join_request)) = 1" by code_simp
  then show ?thesis
    using nobody_joins [OF run_pair, of sample_env "Some (sample_user 2)" "''Home''" "Some \<lparr>jc_code = None\<rparr>" sample_world]
    by (simp add: join_request_def sample_world_def)
qed

section \<open>Roles\<close>




text \<open>C16: deleting a role keeps the permissions of all members those of the owner, the defaults
  and the remaining roles.\<close>

theorem delete_role_keeps_permissions:
  assumes "run (DeleteCommunityRole E v p b) w = (r, w')" and "\<not> is_error r"
    and "perms_ok (w_db w)" and "roles_keyed (w_db w)"
  shows "perms_ok (w_db w') \<and> (\<exists>role \<in> set (d_roles (w_db w)).
    d_roles (w_db w') = filter (\<lambda>x. r_id x \<noteq> r_id role) (d_roles (w_db w)))"
proof -
  have "DeleteCommunityRole E v p b w = (Inr r, w')"
    by (rule alive_run_ok [OF alive_role_handlers(3) assms(1,2)])
  then show ?thesis
  proof (rule DeleteCommunityRole_done)
    fix user input c role
    assume c: "community_by_handle E (lower E (handle_param E p)) (w_db w) = Some c"
      and role: "role \<in> set (d_roles (w_db w))" "r_community_id role = c_id c"
      and w': "w_db w' = recalculated c (role_user_ids (c_id c) (w_db w))
           (role_deleted (r_id role) (role_user_ids (c_id c) (w_db w)) (w_db w))"
    have "c \<in> set (d_communities (w_db w))" using community_by_handle_SomeD [OF c] by blast
    then have "perms_ok (w_db w')"
      unfolding w' by (rule role_deleted_keeps_perms [OF assms(3,4) _ role refl])
    moreover have "d_roles (w_db w') = filter (\<lambda>x. r_id x \<noteq> r_id role) (d_roles (w_db w))"
      by (simp add: w' recalculated_def role_deleted_def rows_delete_def)
    ultimately show ?thesis using role(1) by blast
  qed
qed

definition delete_role_request :: "response \<times> world" where
  "delete_role_request = run (DeleteCommunityRole sample_env (Some (sample_user 1)) ''Home''
     (Some \<lparr>dr_id = sample_id 7 COMMUNITY_ROLES_TYPE\<rparr>)) sample_world"

theorem delete_role_keeps_permissions_witness:
  "perms_ok (w_db (snd delete_role_request)) \<and> d_roles (w_db (snd delete_role_request)) = [] \<and>
   list_all (\<lambda>m. cu_user_id m = 1 \<or> cu_permissions m = no_permissions) (d_members (w_db (snd delete_role_request)))"
proof -
  have "case delete_role_request of (r, w) \<Rightarrow> \<not> is_error r \<and>
      list_all (\<lambda>m. cu_user_id m = 1 \<or> cu_permissions m = no_permissions) (d_members (w_db w))"
    by code_simp
  then have ok: "\<not> is_error (fst delete_role_request)" and
    "list_all (\<lambda>m. cu_user_id m = 1 \<or> cu_permissions m = no_permissions) (d_members (w_db (snd delete_role_request)))"
    by (simp_all add: case_prod_beta)
  note this(2)
  moreover have "perms_ok sample_db" "roles_keyed sample_db" by code_simp+
  moreover have "d_roles sample_db = [sample_role]" by (simp add: sample_db_def)
  ultimately show ?thesis
    using delete_role_keeps_permissions [OF run_pair ok [unfolded delete_role_request_def]]
    unfolding delete_role_request_def by (auto simp: sample_world_def)
qed

text \<open>The edit of a role recalculates only the members who held a role before it: their
  permissions are right again, but a member who gets a first role by the edit keeps the old
  permissions.\<close>

theorem edit_role_misses_new_members:
  assumes "run_edit_role E i c input w = (Inr u, w')"
    and "m \<in> set (d_members (w_db w))" and "cu_user_id m \<notin> set (role_user_ids (c_id c) (w_db w))"
  shows "m \<in> set (d_members (w_db w')) \<and>
    list_all (\<lambda>x. cu_community_id x \<noteq> c_id c \<or> cu_user_id x \<notin> set (role_user_ids (c_id c) (w_db w)) \<or>
       cu_permissions x = effective_permissions c (w_db w') (cu_user_id x)) (d_members (w_db w'))"
proof -
  obtain w1 where 1: "edit_role_row E i input w = (Inr (), w1)" and
    2: "edit_role_members E i c input w1 = (Inr u, w')"
    using assms(1) unfolding run_edit_role_def by (auto elim: andThen_InrE)
  obtain t where "update_role i t input (w_db w) = Inr (w_db w1)"
    using edit_role_row_InrD [OF 1] by blast
  then have d: "w_db w1 = (w_db w)\<lparr>d_roles := d_roles (w_db w1)\<rparr>"
    by (auto simp: update_role_def split: if_splits option.splits dest: sym)
  have "d_roles_users (w_db w1) = d_roles_users (w_db w)" and "d_members (w_db w1) = d_members (w_db w)"
    by (subst d, simp)+
  then have "role_user_ids (c_id c) (w_db w1) = role_user_ids (c_id c) (w_db w)"
    and "d_members (w_db w1) = d_members (w_db w)"
    by (simp_all add: role_user_ids_def roles_users_of_def)
  then show ?thesis
    using edit_role_members_missed [OF 2, of m] edit_role_members_effective [OF 2] assms(2,3)
    by (auto simp: list_all_iff)
qed

definition mods_input :: role_input where
  "mods_input = \<lparr>ri_name = ''mods'', ri_color = ''red'', ri_show_online_differently = False,
     ri_permissions = no_permissions\<lparr>p_kick_members := True\<rparr>,
     ri_members = [sample_id 2 USERS_TYPE, sample_id 3 USERS_TYPE]\<rparr>"

text \<open>A third member, without a role, becomes a moderator by the edit.\<close>

definition three_members :: world where
  "three_members = sample_world\<lparr>w_db := sample_db
     \<lparr>d_users := d_users sample_db @ [sample_user 3],
      d_members := d_members sample_db @ [sample_member 3 no_permissions]\<rparr>\<rparr>"

theorem edit_role_misses_new_members_witness:
  "\<exists>w'. run_edit_role sample_env 7 sample_community mods_input three_members = (Inr (), w') \<and>
     sample_member 3 no_permissions \<in> set (d_members (w_db w')) \<and>
     list_ex (\<lambda>ru. ru_user_id ru = 3 \<and> ru_community_role_id ru = 7) (d_roles_users (w_db w'))"
proof -
  let ?r = "run_edit_role sample_env 7 sample_community mods_input three_members"
  have "case ?r of (r, w) \<Rightarrow> r = Inr () \<and>
      list_ex (\<lambda>ru. ru_user_id ru = 3 \<and> ru_community_role_id ru = 7) (d_roles_users (w_db w))"
    by code_simp
  then have r: "?r = (Inr (), snd ?r)" and
    ex: "list_ex (\<lambda>ru. ru_user_id ru = 3 \<and> ru_community_role_id ru = 7) (d_roles_users (w_db (snd ?r)))"
    by (auto simp: case_prod_beta intro: prod_eqI)
  have "sample_member 3 no_permissions \<in> set (d_members (w_db three_members))"
    by (simp add: three_members_def)
  moreover have "cu_user_id (sample_member 3 no_permissions) \<notin> set (role_user_ids (c_id sample_community) (w_db three_members))"
    by code_simp
  ultimately have "sample_member 3 no_permissions \<in> set (d_members (w_db (snd ?r)))"
    using edit_role_misses_new_members [OF r] by blast
  then show ?thesis using r ex by (intro exI [of _ "snd ?r"]) blast
qed

text \<open>C38: an edit of the default permissions stores the new defaults, but it recalculates every
  member, and answers, with the defaults that were there before.\<close>

theorem edit_defaults_use_old:
  assumes "run (EditCommunityDefaultPermissions E v p b) w = (r, w')" and "\<not> is_error r"
  shows "\<exists>input c old t. b = Some input \<and> community_by_handle E (handle_param E p) (w_db w) = Some c \<and>
    community_by_id (c_id c) (w_db w) = Some old \<and>
    r = Resp 200 (JObj (Permissions_ToFiberMap (c_permissions old))) \<and>
    d_communities (w_db w') = map (\<lambda>x. if c_id x = c_id c
      then x\<lparr>c_updated_at := Some t, c_permissions := dp_permissions input\<rparr> else x) (d_communities (w_db w)) \<and>
    list_all (\<lambda>m. cu_community_id m \<noteq> c_id c \<or>
      (\<forall>k. has_perm (cu_permissions m) k = entitled old (w_db w) (cu_user_id m) k)) (d_members (w_db w'))"
proof -
  have "EditCommunityDefaultPermissions E v p b w = (Inr r, w')"
    by (rule alive_run_ok [OF alive_community_handlers(3) assms])
  then show ?thesis
  proof (rule EditCommunityDefaultPermissions_done)
    fix user input t and c old :: communities_row
    let ?d = "(w_db w)\<lparr>d_communities := rows_update (\<lambda>x. c_id x = c_id c)
              (\<lambda>x. x\<lparr>c_updated_at := Some t, c_permissions := dp_permissions input\<rparr>)
              (d_communities (w_db w))\<rparr>"
    assume 1: "b = Some input" "community_by_handle E (handle_param E p) (w_db w) = Some c"
      and old: "community_by_id (c_id c) (w_db w) = Some old"
      and w': "w_db w' = recalculated old (member_ids (c_id c) (w_db w)) ?d"
      and r: "r = Resp 200 (JObj (Permissions_ToFiberMap (c_permissions old)))"
    have id: "c_id old = c_id c" using old by (auto simp: community_by_id_def dest: find_SomeD)
    have all: "has_perm (cu_permissions m) k = entitled old (w_db w) (cu_user_id m) k"
      if "m \<in> set (d_members (w_db w'))" "cu_community_id m = c_id c" for m k
    proof -
      from that(1) obtain x where x: "x \<in> set (d_members (w_db w))" and
        m: "m = (if cu_community_id x = c_id old \<and> cu_user_id x \<in> set (member_ids (c_id c) (w_db w))
          then x\<lparr>cu_permissions := effective_permissions old ?d (cu_user_id x)\<rparr> else x)"
        unfolding w' in_recalculated by auto
      then have "cu_community_id x = c_id c" using that(2) by (simp split: if_splits)
      then have "m = x\<lparr>cu_permissions := effective_permissions old ?d (cu_user_id x)\<rparr>"
        using x m id by (auto simp: member_ids_def)
      then show ?thesis using id by (simp add: effective_has_perm entitled_def)
    qed
    have "d_communities (w_db w') = map (\<lambda>x. if c_id x = c_id c
      then x\<lparr>c_updated_at := Some t, c_permissions := dp_permissions input\<rparr> else x) (d_communities (w_db w))"
      by (simp add: w' recalculated_def rows_update_def)
    then show ?thesis using 1 old r all
      by (intro exI [of _ input] exI [of _ c] exI [of _ old] exI [of _ t]) (auto simp: list_all_iff)
  qed
qed

definition defaults_request :: "response \<times> world" where
  "defaults_request = run (EditCommunityDefaultPermissions sample_env (Some (sample_user 1)) ''home''
     (Some \<lparr>dp_view_channels = Some True, dp_manage_channels = Some False,
       dp_manage_community = Some False, dp_create_invite = Some False, dp_kick_members = Some False,
       dp_ban_members = Some False, dp_send_messages = Some True, dp_attach_media = Some False\<rparr>)) sample_world"

theorem edit_defaults_use_old_witness:
  "fst defaults_request = Resp 200 (JObj (Permissions_ToFiberMap no_permissions)) \<and>
   list_ex (\<lambda>m. cu_user_id m = 2 \<and> \<not> p_view_channels (cu_permissions m)) (d_members (w_db (snd defaults_request)))"
proof -
  have "case defaults_request of (r, w) \<Rightarrow> \<not> is_error r \<and>
     list_ex (\<lambda>m. cu_user_id m = 2 \<and> \<not> p_view_channels (cu_permissions m)) (d_members (w_db w))"
    by code_simp
  then have ok: "\<not> is_error (fst defaults_request)" and
    "list_ex (\<lambda>m. cu_user_id m = 2 \<and> \<not> p_view_channels (cu_permissions m)) (d_members (w_db (snd defaults_request)))"
    by (simp_all add: case_prod_beta)
  note this(2)
  moreover have "community_by_id i sample_db = Some c \<Longrightarrow> c_permissions c = no_permissions" for i c
    by (auto simp: community_by_id_def sample_db_def sample_community_def split: if_splits)
  moreover have "w_db sample_world = sample_db" by (simp add: sample_world_def)
  ultimately show ?thesis
    using edit_defaults_use_old [OF run_pair ok [unfolded defaults_request_def]]
    unfolding defaults_request_def by metis
qed

section \<open>Communities\<close>

text \<open>C21: only the owner deletes a community; when no call fails, a deletion that is answered
  with success removes the community and exactly its members, roles, links, channels, groups and
  messages; its invites and bans stay.\<close>

theorem delete_community_effect:
  assumes "run (DeleteCommunity E v p) w = (r, w')" and "\<not> is_error r" and "healthy E"
  shows "\<exists>user c. v = Some user \<and> community_by_handle E (handle_param E p) (w_db w) = Some c \<and>
    u_id user = c_owner_id c \<and> w_redis w' = w_redis w \<and>
    w_db w' = (w_db w)
      \<lparr>d_members := filter (\<lambda>x. cu_community_id x \<noteq> c_id c) (d_members (w_db w)),
       d_messages := filter (\<lambda>x. m_community_id x \<noteq> c_id c) (d_messages (w_db w)),
       d_roles_users := filter (\<lambda>x. ru_community_id x \<noteq> c_id c) (d_roles_users (w_db w)),
       d_roles := filter (\<lambda>x. r_community_id x \<noteq> c_id c) (d_roles (w_db w)),
       d_channels := filter (\<lambda>x. ch_community_id x \<noteq> c_id c) (d_channels (w_db w)),
       d_groups := filter (\<lambda>x. g_community_id x \<noteq> c_id c) (d_groups (w_db w)),
       d_communities := filter (\<lambda>x. c_id x \<noteq> c_id c) (d_communities (w_db w))\<rparr>"
  by (rule DeleteCommunity_done [OF assms(1,2)])
    (use assms(3) in \<open>auto simp: community_wiped_def rows_delete_def\<close>)

definition delete_community_request :: "env \<Rightarrow> response \<times> world" where
  "delete_community_request E = run (DeleteCommunity E (Some (sample_user 1)) ''Home'') sample_world"

theorem delete_community_effect_witness:
  "d_communities (w_db (snd (delete_community_request sample_env))) = [] \<and>
   d_users (w_db (snd (delete_community_request sample_env))) = d_users sample_db"
proof -
  have ok: "\<not> is_error (fst (delete_community_request sample_env))" by code_simp
  have "community_by_handle sample_env (handle_param sample_env ''Home'') sample_db = Some sample_community"
    by code_simp
  moreover have "d_communities sample_db = [sample_community]" by (simp add: sample_db_def)
  ultimately show ?thesis
    using delete_community_effect [OF run_pair ok [unfolded delete_community_request_def] sample_healthy]
    unfolding delete_community_request_def by (auto simp: sample_world_def)
qed

text \<open>When the commit of a deletion fails, the owner is told that the community is deleted
  although every table is as before.\<close>

theorem delete_community_false_success:
  "\<not> is_error (fst (delete_community_request (failing_at 9))) \<and>
   w_db (snd (delete_community_request (failing_at 9))) = sample_db"
proof -
  have "case delete_community_request (failing_at 9) of (r, w) \<Rightarrow>
      \<not> is_error r \<and> d_communities (w_db w) \<noteq> []"
    by code_simp
  then have ok: "\<not> is_error (fst (delete_community_request (failing_at 9)))"
    and "d_communities (w_db (snd (delete_community_request (failing_at 9)))) \<noteq> []"
    by (simp_all add: case_prod_beta)
  note this(2)
  moreover have "d_communities (community_wiped (c_id c) sample_db) = []"
    if "community_by_handle E h sample_db = Some c" for E h c
    using community_by_handle_SomeD [OF that]
    by (auto simp: sample_db_def community_wiped_def)
  ultimately have "w_db (snd (delete_community_request (failing_at 9))) = sample_db"
    by (rule_tac DeleteCommunity_done [OF run_pair ok [unfolded delete_community_request_def]])
      (auto simp: sample_world_def delete_community_request_def)
  then show ?thesis using ok by blast
qed

text \<open>C22: a new community belongs to its creator, has a handle nobody else has, one group with one
  channel in it, and its creator as the only new member, with every permission and that channel
  selected.\<close>

theorem create_community_effect:
  assumes "run (CreateCommunity E v b) w = (r, w')" and "\<not> is_error r"
  shows "\<exists>user input c g ch m. v = Some user \<and> b = Some input \<and>
    d_communities (w_db w') = d_communities (w_db w) @ [c] \<and>
    d_groups (w_db w') = d_groups (w_db w) @ [g] \<and> d_channels (w_db w') = d_channels (w_db w) @ [ch] \<and>
    d_members (w_db w') = d_members (w_db w) @ [m] \<and>
    c_owner_id c = u_id user \<and> c_handle c = lower E (co_handle input) \<and>
    (\<forall>x \<in> set (d_communities (w_db w)). \<not> text_eq E (c_handle x) (c_handle c)) \<and>
    g_community_id g = c_id c \<and> ch_community_id ch = c_id c \<and> ch_group_id ch = g_id g \<and>
    cu_community_id m = c_id c \<and> cu_user_id m = u_id user \<and> cu_selected_channel_id m = ch_id ch \<and>
    (\<forall>k. has_perm (cu_permissions m) k)"
proof -
  have "CreateCommunity E v b w = (Inr r, w')"
    by (rule alive_run_ok [OF alive_community_handlers(1) assms])
  then show ?thesis
    by (rule CreateCommunity_done)
      (auto simp: insert_community_def has_perm_owner split: if_splits dest!: sym [of _ "d_communities (w_db w')"]
        arg_cong [of _ _ d_communities])
qed

definition community_request :: "response \<times> world" where
  "community_request = run (CreateCommunity sample_env (Some (sample_user 2))
     (Some \<lparr>co_name = ''Dev'', co_handle = ''dev'', co_private = Some False\<rparr>)) sample_world"

theorem create_community_effect_witness:
  "\<exists>c m. d_communities (w_db (snd community_request)) = [sample_community, c] \<and> c_owner_id c = 2 \<and>
     m \<in> set (d_members (w_db (snd community_request))) \<and> cu_user_id m = 2 \<and> p_ban_members (cu_permissions m)"
proof -
  have ok: "\<not> is_error (fst community_request)" by code_simp
  from create_community_effect [OF run_pair ok [unfolded community_request_def]]
  obtain user c m where u: "Some (sample_user 2) = Some user" and
    c: "d_communities (w_db (snd community_request)) = d_communities (w_db sample_world) @ [c]" and
    m: "d_members (w_db (snd community_request)) = d_members (w_db sample_world) @ [m]" and
    k: "c_owner_id c = u_id user" "cu_user_id m = u_id user" "\<forall>k. has_perm (cu_permissions m) k"
    unfolding community_request_def by blast
  have "u_id user = 2" using u by (auto simp: sample_user_def)
  moreover have "p_ban_members (cu_permissions m)" using k(3) has_perm.simps by blast
  ultimately show ?thesis using c m k
    by (intro exI [of _ c] exI [of _ m]) (simp add: sample_world_def sample_db_def)
qed

text \<open>An invite is made only by a member who may make one, for the community of the route,
  with a new code of ten letters.\<close>

theorem create_invite_effect:
  assumes "run (CreateCommunityInvite E v p b) w = (r, w')" and "\<not> is_error r"
  shows "\<exists>user c i. v = Some user \<and> community_by_handle E (handle_param E p) (w_db w) = Some c \<and>
    may (u_id user) (c_id c) CreateInvite w \<and>
    w_db w' = (w_db w)\<lparr>d_invites := d_invites (w_db w) @ [i]\<rparr> \<and>
    i_community_id i = c_id c \<and> i_user_id i = u_id user \<and>
    length (i_code i) = 10 \<and> set (i_code i) \<subseteq> set letterBytes \<and>
    (\<forall>x \<in> set (d_invites (w_db w)). \<not> text_eq E (i_code x) (i_code i)) \<and>
    r = Resp 200 (JObj [(''code'', JStr (i_code i))])"
proof -
  have "CreateCommunityInvite E v p b w = (Inr r, w')"
    by (rule alive_run_ok [OF alive_community_handlers(5) assms])
  then show ?thesis
  proof (rule CreateCommunityInvite_done)
    fix user :: users_row and c :: communities_row and input code t now salt
    let ?i = "\<lparr>i_id = w_auto w ''community_invites'', i_created_at = t, i_updated_at = None,
           i_expires_at = now + thirty_one_days, i_expires_on_use = is_true (iv_expires_on_use input),
           i_salt = salt, i_code = code, i_user_id = u_id user, i_community_id = c_id c\<rparr>"
    assume "v = Some user" "community_by_handle E (handle_param E p) (w_db w) = Some c"
      "may (u_id user) (c_id c) CreateInvite w" "length code = 10" "set code \<subseteq> set letterBytes"
      "\<forall>i \<in> set (d_invites (w_db w)). \<not> text_eq E (i_code i) code"
      "w_db w' = (w_db w)\<lparr>d_invites := d_invites (w_db w) @ [?i]\<rparr>"
      "r = Resp 200 (JObj [(''code'', JStr code)])"
    then show ?thesis by (intro exI [of _ user] exI [of _ c] exI [of _ ?i]) simp
  qed
qed

end
