(* ===== verification/Message_Laws.thy ===== *)
theory Message_Laws
  imports Samples
begin

text \<open>
  What sending, editing and reacting to messages guarantees, with a concrete run for each
  claim.
\<close>

section \<open>The effects of editing and reacting\<close>

lemma need_message_InrD:
  "need_message E s w = (Inr i, w') \<Longrightarrow>
   Decode (env_aes E) s = Returned (i, MESSAGES_TYPE) \<and> 0 < i \<and> w' = w"
  unfolding need_message_def by (auto elim!: andThen_InrE dest!: decode_id_InrD ensure_InrD ret_InrD)

lemma EditMessage_done:
  assumes "EditMessage E v p b w = (Inr r, w')"
  obtains user input c m t where "v = Some user" and "b = Some input"
    and "community_by_handle E (handle_param E p) (w_db w) = Some c"
    and "may (u_id user) (c_id c) SendMessages w"
    and "Decode (env_aes E) (em_message_id input) = Returned (m_id m, MESSAGES_TYPE)"
    and "m \<in> set (d_messages (w_db w))" and "m_user_id m = u_id user" and "m_community_id m = c_id c"
    and "\<not> text_too_long (em_text input)"
    and "w_db w' = (w_db w)\<lparr>d_messages := rows_update (\<lambda>x. m_id x = m_id m)
           (\<lambda>x. x\<lparr>m_text := em_text input, m_updated_at := Some t, m_edited := True\<rparr>)
           (d_messages (w_db w))\<rparr>"
    and "w_redis w' = w_redis w"
proof -
  note steps = inr_dest call_InrD need_message_InrD
  show thesis
    using assms unfolding EditMessage_def Let_def need_viewer_def
    apply (auto elim!: andThen_InrE dest!: steps find_SomeD
        simp: same_stores_def own_message_def update_message_def split: if_splits)
    subgoal by blast
    subgoal by (rule that, assumption, assumption) auto
    done
qed

lemma ReactToMessage_done:
  assumes "ReactToMessage E v p b w = (Inr r, w')"
  obtains user input c m rs r' where "v = Some user" and "b = Some input"
    and "community_by_handle E (handle_param E p) (w_db w) = Some c"
    and "may (u_id user) (c_id c) SendMessages w"
    and "Decode (env_aes E) (rm_message_id input) = Returned (m_id m, MESSAGES_TYPE)"
    and "m \<in> set (d_messages (w_db w))" and "m_community_id m = c_id c"
    and "rs = [] \<or> (\<exists>x ttl. w_redis w (reactions_key (m_id m)) = Some (RReactions x, ttl) \<and> rs = mr_reactions x)"
    and "\<And>x. healthy E \<Longrightarrow> w_redis w (reactions_key (m_id m)) = Some (RReactions x, None) \<Longrightarrow> rs = mr_reactions x"
    and "toggle_user user (map_of rs (rm_reaction input)) = Returned r'"
    and "w_db w' = w_db w" and "w_redis w' = w_redis w"
    and "\<exists>js. w_jobs w' = js @ [JobRedisSet (reactions_key (m_id m)) (RReactions
           \<lparr>mr_message_id = m_id m, mr_reactions = put_reaction (rm_reaction input) r' rs\<rparr>) None]"
proof -
  obtain user input c i m val rs r' w1 w2 w3 w4 where
    1: "admit_with refused not_found E v b invalid_input (react_checks E) (handle_param E p)
          SendMessages w = (Inr (user, input, c), w1)" and
    2: "need_message E (rm_message_id input) w1 = (Inr i, w2)" and
    3: "db_get E \<lparr>st_table = ''messages'', st_holes = 2, st_args = 2\<rparr> (message_in i (c_id c)) w2 = (Inr m, w3)" and
    4: "redis_get E (reactions_key i) w3 = (val, w4)" and
    5: "read_reactions val = Returned rs" "toggle_user user (map_of rs (rm_reaction input)) = Returned r'" and
    6: "w' = w4\<lparr>w_jobs := w_jobs w4 @ [JobRedisSet (reactions_key i) (RReactions
           \<lparr>mr_message_id = i, mr_reactions = put_reaction (rm_reaction input) r' rs\<rparr>) None]\<rparr>"
    using assms unfolding ReactToMessage_def
    by (auto elim!: andThen_InrE dest!: on_err_quit_InrD ret_InrD of_option_InrD attempt_InrD
        of_outcome_InrD spawn_InrD simp: need_viewer_def)
  have m: "m_id m = i" "m \<in> set (d_messages (w_db w))" "m_community_id m = c_id c" and
    same: "w_redis w3 = w_redis w" "w_db w3 = w_db w"
    using admit_InrD [OF 1] need_message_InrD [OF 2] db_get_InrD [OF 3]
    by (auto simp: same_stores_def message_in_def dest!: find_SomeD)
  have get: "w_redis w4 = w_redis w" "w_db w4 = w_db w"
    "rs = [] \<or> (\<exists>x ttl. w_redis w (reactions_key i) = Some (RReactions x, ttl) \<and> rs = mr_reactions x)"
    using 4 5(1) same
    by (auto simp: call_defs live_def read_reactions_def split: option.splits if_splits rval.splits)
  have healthy: "rs = mr_reactions x"
    if "healthy E" "w_redis w (reactions_key i) = Some (RReactions x, None)" for x
    using that 4 5(1) same
    by (auto simp: call_defs live_def read_reactions_def healthy_def split: option.splits rval.splits)
  show thesis
    using admit_InrD [OF 1] need_message_InrD [OF 2] m get healthy 5(2) 6
    by (intro that [of user input c m rs r']) auto
qed

section \<open>Samples\<close>

text \<open>Both users may talk, and user 1 has reacted to the message.\<close>

definition old_reactions :: messages_reactions where
  "old_reactions = \<lparr>mr_message_id = 9,
     mr_reactions = [(''x'', [\<lparr>rx_user_id = 1, rx_user_handle = ''u''\<rparr>])]\<rparr>"

definition talkers :: world where
  "talkers = sample_world
     \<lparr>w_db := sample_db\<lparr>d_members := [sample_member 1 ServerOwnerPermissions,
        sample_member 2 (no_permissions\<lparr>p_send_messages := True\<rparr>)]\<rparr>,
      w_redis := [''message-reactions-9'' \<mapsto> (RReactions old_reactions, None)]\<rparr>"

lemma talkers_simps [simp]:
  "d_messages (w_db talkers) = [sample_message]" "d_files (w_db talkers) = []" "w_txs talkers = []"
  by (simp_all add: talkers_def sample_db_def)

lemma reactions_key_9: "reactions_key 9 = ''message-reactions-9''"
  by code_simp

section \<open>The claims\<close>





text \<open>C23: a message is edited only by its author, while the author may send messages; only its
  text, its time of update and its mark change, in this row only.\<close>

theorem edit_message_effect:
  assumes "run (EditMessage E v p b) w = (r, w')" and "\<not> is_error r"
  shows "\<exists>user input c m t. v = Some user \<and> b = Some input \<and>
    community_by_handle E (handle_param E p) (w_db w) = Some c \<and> may (u_id user) (c_id c) SendMessages w \<and>
    m \<in> set (d_messages (w_db w)) \<and> m_user_id m = u_id user \<and> m_community_id m = c_id c \<and>
    rune_count (em_text input) \<le> 2000 \<and>
    w_db w' = (w_db w)\<lparr>d_messages := map (\<lambda>x. if m_id x = m_id m
       then x\<lparr>m_text := em_text input, m_updated_at := Some t, m_edited := True\<rparr> else x)
       (d_messages (w_db w))\<rparr>"
proof -
  have "alive (EditMessage E v p b)"
    unfolding EditMessage_def Let_def need_message_def need_viewer_def case_prod_beta
    by (rule dead_intro is_error_simps alive_admit)+
  from alive_run_ok [OF this assms] show ?thesis
    by (rule EditMessage_done) (auto simp: rows_update_def text_too_long_def)
qed

definition edit_request :: "response \<times> world" where
  "edit_request = run (EditMessage sample_env (Some (sample_user 1)) ''Home''
     (Some \<lparr>em_message_id = sample_id 9 MESSAGES_TYPE, em_text = ''ho''\<rparr>)) talkers"

theorem edit_message_effect_witness:
  "\<exists>t. w_db (snd edit_request) = (w_db talkers)\<lparr>d_messages :=
     [sample_message\<lparr>m_text := ''ho'', m_updated_at := Some t, m_edited := True\<rparr>]\<rparr>"
proof -
  have ok: "\<not> is_error (fst edit_request)" by code_simp
  show ?thesis
    using edit_message_effect [OF run_pair ok [unfolded edit_request_def]]
    unfolding edit_request_def by auto
qed

text \<open>C24: a reaction turns exactly the viewer's own reaction with this text on or off, and keeps
  everybody else's: the value that goes to Redis differs from the stored one in nothing else.\<close>

theorem react_toggles:
  assumes "run (ReactToMessage E v p (Some input)) w = (r, w')" and "\<not> is_error r" and "healthy E"
    and "Decode (env_aes E) (rm_message_id input) = Returned (i, MESSAGES_TYPE)"
    and "w_redis w (reactions_key i) = Some (RReactions old, None)" and "reactions_ok (mr_reactions old)"
  shows "\<exists>user new js. v = Some user \<and> w_db w' = w_db w \<and>
    w_jobs w' = js @ [JobRedisSet (reactions_key i) (RReactions new) None] \<and>
    mr_message_id new = i \<and> reactions_ok (mr_reactions new) \<and>
    (\<forall>u k. reacting u k (mr_reactions new) =
       ((k = rm_reaction input \<and> u = u_id user) \<noteq> reacting u k (mr_reactions old)))"
proof -
  have "alive (ReactToMessage E v p (Some input))"
    unfolding ReactToMessage_def need_message_def need_viewer_def case_prod_beta
    by (rule dead_intro is_error_simps alive_admit)+
  from alive_run_ok [OF this assms(1,2)] show ?thesis
  proof (rule ReactToMessage_done)
    fix user :: users_row and inp c rs r' and m :: messages_row
    assume u: "v = Some user" "Some input = Some inp"
      and m: "Decode (env_aes E) (rm_message_id inp) = Returned (m_id m, MESSAGES_TYPE)"
      and rs: "\<And>x. healthy E \<Longrightarrow> w_redis w (reactions_key (m_id m)) = Some (RReactions x, None) \<Longrightarrow> rs = mr_reactions x"
      and t: "toggle_user user (map_of rs (rm_reaction inp)) = Returned r'" and db: "w_db w' = w_db w"
      and job: "\<exists>js. w_jobs w' = js @ [JobRedisSet (reactions_key (m_id m)) (RReactions
           \<lparr>mr_message_id = m_id m, mr_reactions = put_reaction (rm_reaction inp) r' rs\<rparr>) None]"
    have i: "m_id m = i" using m u(2) assms(4) by simp
    then have rs': "rs = mr_reactions old" using rs assms(3,5) by simp
    obtain r where r: "toggle_user user (map_of rs (rm_reaction input)) = Returned r"
      "reactions_ok (put_reaction (rm_reaction input) r rs)"
      "\<And>u k'. reacting u k' (put_reaction (rm_reaction input) r rs) \<longleftrightarrow>
        (k' = rm_reaction input \<and> u = u_id user) \<noteq> reacting u k' rs"
      using toggle_reaction [of rs user "rm_reaction input"] assms(6) unfolding rs' by blast
    from job obtain js where "w_jobs w' = js @ [JobRedisSet (reactions_key i) (RReactions
           \<lparr>mr_message_id = i, mr_reactions = put_reaction (rm_reaction input) r rs\<rparr>) None]"
      using t r(1) u(2) i by auto
    then show ?thesis
      using u(1) db r(2,3) rs'
      by (intro exI [of _ user] exI [of _ js]
          exI [of _ "\<lparr>mr_message_id = i, mr_reactions = put_reaction (rm_reaction input) r rs\<rparr>"]) simp
  qed
qed

definition react_input_x :: react_input where
  "react_input_x = \<lparr>rm_message_id = sample_id 9 MESSAGES_TYPE, rm_reaction = ''x''\<rparr>"

definition react_request :: "env \<Rightarrow> response \<times> world" where
  "react_request E = run (ReactToMessage E (Some (sample_user 2)) ''Home'' (Some react_input_x)) talkers"

theorem react_toggles_witness:
  "\<exists>new js. w_jobs (snd (react_request sample_env)) =
       js @ [JobRedisSet ''message-reactions-9'' (RReactions new) None] \<and>
     reacting 1 ''x'' (mr_reactions new) \<and> reacting 2 ''x'' (mr_reactions new)"
proof -
  have ok: "\<not> is_error (fst (react_request sample_env))" by code_simp
  have dec: "Decode (env_aes sample_env) (rm_message_id react_input_x) = Returned (9, MESSAGES_TYPE)"
    by code_simp
  have old: "w_redis talkers (reactions_key 9) = Some (RReactions old_reactions, None)"
    by (simp add: reactions_key_9 talkers_def)
  have "reactions_ok (mr_reactions old_reactions)" by code_simp
  moreover have "reacting 1 ''x'' (mr_reactions old_reactions)" "\<not> reacting 2 ''x'' (mr_reactions old_reactions)"
    by code_simp+
  ultimately show ?thesis
    using react_toggles [OF run_pair ok [unfolded react_request_def] sample_healthy dec old]
    unfolding react_request_def reactions_key_9
    by (auto simp: react_input_x_def sample_user_def)
qed

text \<open>When Redis cannot be read, the answer is still a success, and the value that goes to
  Redis has forgotten the reactions of everybody else.\<close>

theorem react_forgets_on_fault:
  "\<not> is_error (fst (react_request (failing_at 4))) \<and>
   (\<exists>js new. w_jobs (snd (react_request (failing_at 4))) =
      js @ [JobRedisSet ''message-reactions-9'' (RReactions new) None] \<and>
    \<not> reacting 1 ''x'' (mr_reactions new) \<and> reacting 1 ''x'' (mr_reactions old_reactions))"
proof -
  let ?new = "\<lparr>mr_message_id = 9, mr_reactions = [(''x'', [\<lparr>rx_user_id = 2, rx_user_handle = ''u''\<rparr>])]\<rparr>"
  have "case react_request (failing_at 4) of (r, w) \<Rightarrow> \<not> is_error r \<and>
      last (w_jobs w) = JobRedisSet ''message-reactions-9'' (RReactions ?new) None \<and> w_jobs w \<noteq> []"
    by code_simp
  then have "\<not> is_error (fst (react_request (failing_at 4)))"
    "\<exists>js. w_jobs (snd (react_request (failing_at 4))) =
      js @ [JobRedisSet ''message-reactions-9'' (RReactions ?new) None]"
    by (auto simp: case_prod_beta) (metis append_butlast_last_id)
  moreover have "\<not> reacting 1 ''x'' (mr_reactions ?new)" "reacting 1 ''x'' (mr_reactions old_reactions)"
    by code_simp+
  ultimately show ?thesis by blast
qed

end
