(* ===== verification/View_Laws.thy ===== *)
theory View_Laws
  imports Samples View_Facts
begin

text \<open>
  What the views guarantee: they change nothing, the pages of a channel are the pieces of its
  history, and who is let in. A view is composed with the handler that deletes a channel.
\<close>

text \<open>No view changes a table or leaves a transaction open, whatever it answers and whatever
  calls fail.\<close>

theorem views_read_only:
  "list_all (\<lambda>m. w_db (snd (run m w)) = w_db w \<and> w_txs (snd (run m w)) = w_txs w)
    [Community E v p, Channel E v p chp pn, Me E v, CommunityUsers E p, GetUser E p,
     CommunityInvite E p, CommunityDefaultPermissions E v p, CommunityRoles E v p,
     CommunityRole E v p rp, Sitemap E]"
  using community_view.keeps [of "(E, v, p)" w] channel_view.keeps [of "(E, v, p, chp, pn)" w]
    me_view.keeps [of "(E, v)" w] users_view.keeps [of "(E, p)" w] user_view.keeps [of "(E, p)" w]
    invite_view.keeps [of "(E, p)" w] default_permissions_view.keeps [of "(E, v, p)" w]
    roles_view.keeps [of "(E, v, p)" w] role_view.keeps [of "(E, v, p, rp)" w]
    sitemap_view.keeps [of E w]
  by simp



section \<open>Pages\<close>

text \<open>The texts of the messages an answer lists, oldest first.\<close>

definition page_texts :: "json \<Rightarrow> string list" where
  "page_texts j = (case json_field j ''messages'' of
     Some (JArr mm) \<Rightarrow> map (\<lambda>x. case json_field x ''text'' of Some (JStr s) \<Rightarrow> s | _ \<Rightarrow> []) mm
   | _ \<Rightarrow> [])"

lemma texts_shown:
  "list_all2 (\<lambda>m x. json_field x ''text'' = Some (JStr (m_text m))) ms mm \<Longrightarrow>
   map (\<lambda>x. case json_field x ''text'' of Some (JStr s) \<Rightarrow> s | _ \<Rightarrow> []) mm = map m_text ms"
  by (induction rule: list_all2_induct) simp_all

lemma count_messages_history: "count_messages ch d = length (channel_history ch d)"
  by (simp add: count_messages_def channel_history_def)

lemma Channel_page:
  assumes "run (Channel E v p chp (of_nat k)) w = (Resp 200 j, w')" and "\<not> is_error (Resp 200 j)"
    and "50 * (k + 1) < 2 ^ 63" and "length (d_messages (w_db w)) < 2 ^ 64"
  obtains c ch where "community_by_handle E (handle_param E p) (w_db w) = Some c"
    and "channel_by_handle E (handle_param E chp) (c_id c) (w_db w) = Some ch"
    and "rev (page_texts j) = map m_text (messages_page (ch_id ch) (50 * k) (w_db w))"
    and "json_field j ''remaining_messages'' =
      Some (JNum (int (length (channel_history (ch_id ch) (w_db w)) - 50 * (k + 1))))"
  using assms(1,2)
proof (rule Channel_done)
  fix c ch j' mm
  assume c: "community_by_handle E (handle_param E p) (w_db w) = Some c"
    and ch: "channel_by_handle E (handle_param E chp) (c_id c) (w_db w) = Some ch"
    and j: "Resp 200 j = Resp 200 j'" "json_field j' ''messages'' = Some (JArr mm)"
    and shown: "list_all2 (\<lambda>m x. json_field x ''text'' = Some (JStr (m_text m)))
           (rev (messages_page (ch_id ch) (unat (page_offset (of_nat k))) (w_db w))) mm"
    and rest: "json_field j' ''remaining_messages'' = Some (JNum (uint
           (remaining_after (of_nat k) (of_nat (count_messages (ch_id ch) (w_db w))))))"
  have "length (channel_history (ch_id ch) (w_db w)) < 2 ^ 64"
    using assms(4) by (auto simp: channel_history_def intro: le_less_trans length_filter_le)
  then have r: "uint (remaining_after (of_nat k) (of_nat (count_messages (ch_id ch) (w_db w)))) =
      int (length (channel_history (ch_id ch) (w_db w)) - 50 * (k + 1))"
    using remaining_exact [of k "length (channel_history (ch_id ch) (w_db w))"] assms(3)
    unfolding count_messages_history uint_nat by simp
  have "unat (page_offset (of_nat k)) = 50 * k" using page_offset_exact(1) [of k] assms(3) by simp
  then have "page_texts j = map m_text (rev (messages_page (ch_id ch) (50 * k) (w_db w)))"
    using texts_shown [OF shown] j by (simp add: page_texts_def)
  then show thesis using that [OF c ch] j(1) rest r by (simp add: rev_map)
qed

text \<open>C14: the pages 0, 1, ... of a channel, read one after the other, are its whole history from
  the newest message to the oldest, without a gap or a repetition, and each page tells exactly how
  many messages are still to come.\<close>

theorem channel_pages_are_the_history:
  assumes "\<And>k. k \<le> n \<Longrightarrow> fst (run (Channel E v p chp (of_nat k)) w) = Resp 200 (j k)"
    and "\<And>k. k \<le> n \<Longrightarrow> \<not> is_error (Resp 200 (j k))"
    and "50 * (n + 1) < 2 ^ 63" and "length (d_messages (w_db w)) < 2 ^ 64"
  shows "\<exists>c ch. community_by_handle E (handle_param E p) (w_db w) = Some c \<and>
    channel_by_handle E (handle_param E chp) (c_id c) (w_db w) = Some ch \<and>
    concat (map (\<lambda>k. rev (page_texts (j k))) [0..<Suc n]) =
      map m_text (take (50 * Suc n) (rev (channel_history (ch_id ch) (w_db w)))) \<and>
    json_field (j n) ''remaining_messages'' =
      Some (JNum (int (length (channel_history (ch_id ch) (w_db w)) - 50 * Suc n)))"
proof -
  have page: "\<exists>c ch. community_by_handle E (handle_param E p) (w_db w) = Some c \<and>
      channel_by_handle E (handle_param E chp) (c_id c) (w_db w) = Some ch \<and>
      rev (page_texts (j k)) = map m_text (messages_page (ch_id ch) (50 * k) (w_db w)) \<and>
      json_field (j k) ''remaining_messages'' =
        Some (JNum (int (length (channel_history (ch_id ch) (w_db w)) - 50 * (k + 1))))" if "k \<le> n" for k
  proof -
    have "run (Channel E v p chp (of_nat k)) w = (Resp 200 (j k), snd (run (Channel E v p chp (of_nat k)) w))"
      using assms(1) [OF that] by (simp add: prod_eq_iff)
    then show ?thesis
      by (rule Channel_page [OF _ assms(2) [OF that]]) (use assms(3,4) that in auto)
  qed
  obtain c ch where c: "community_by_handle E (handle_param E p) (w_db w) = Some c"
    and ch: "channel_by_handle E (handle_param E chp) (c_id c) (w_db w) = Some ch"
    using page [of n] by auto
  have "concat (map (\<lambda>k. rev (page_texts (j k))) [0..<Suc n]) =
      map m_text (concat (map (\<lambda>k. messages_page (ch_id ch) (50 * k) (w_db w)) [0..<Suc n]))"
    unfolding map_concat map_map comp_def
    by (intro arg_cong [where f = concat] map_cong refl) (use page c ch in fastforce)
  then show ?thesis using page [of n] c ch unfolding pages_cover by auto
qed

lemma served:
  "case r of Resp s j \<Rightarrow> s = 200 \<and> \<not> is_error (Resp s j) | _ \<Rightarrow> False \<Longrightarrow>
   \<exists>j. r = Resp 200 j \<and> \<not> is_error (Resp 200 j)"
  by (cases r) auto

definition page_request :: "response" where
  "page_request = fst (run (Channel sample_env (Some (sample_user 2)) ''Home'' ''chat'' 0) sample_world)"

theorem channel_pages_are_the_history_witness:
  "\<exists>j. page_request = Resp 200 j \<and> rev (page_texts j) = [''hi''] \<and>
     json_field j ''remaining_messages'' = Some (JNum 0)"
proof -
  have "case page_request of Resp s j \<Rightarrow> s = 200 \<and> \<not> is_error (Resp s j) | _ \<Rightarrow> False" by code_simp
  from served [OF this] obtain j where j: "page_request = Resp 200 j" and ok: "\<not> is_error (Resp 200 j)"
    by (elim exE conjE)
  have pages: "\<exists>c ch. community_by_handle sample_env (handle_param sample_env ''Home'') (w_db sample_world) = Some c \<and>
    channel_by_handle sample_env (handle_param sample_env ''chat'') (c_id c) (w_db sample_world) = Some ch \<and>
    concat (map (\<lambda>k. rev (page_texts ((\<lambda>_. j) k))) [0..<Suc 0]) =
      map m_text (take (50 * Suc 0) (rev (channel_history (ch_id ch) (w_db sample_world)))) \<and>
    json_field j ''remaining_messages'' =
      Some (JNum (int (length (channel_history (ch_id ch) (w_db sample_world)) - 50 * Suc 0)))"
  proof (rule channel_pages_are_the_history [of 0 sample_env "Some (sample_user 2)"])
    fix k :: nat
    assume "k \<le> 0"
    then have "k = 0" and "(of_nat 0 :: 64 word) = 0" by simp_all
    then show "fst (run (Channel sample_env (Some (sample_user 2)) ''Home'' ''chat'' (of_nat k)) sample_world) =
        Resp 200 ((\<lambda>_. j) k)" using j unfolding page_request_def by (simp only:)
    show "\<not> is_error (Resp 200 ((\<lambda>_. j) k))" by (rule ok)
  next
    show "50 * (0 + 1) < (2 :: nat) ^ 63" by simp
    show "length (d_messages (w_db sample_world)) < 2 ^ 64" by (simp add: sample_world_def sample_db_def)
  qed
  then obtain c :: communities_row and ch :: channels_row where
    ch: "channel_by_handle sample_env (handle_param sample_env ''chat'') (c_id c) (w_db sample_world) = Some ch"
    and t: "concat (map (\<lambda>k. rev (page_texts j)) [0..<Suc 0]) =
      map m_text (take (50 * Suc 0) (rev (channel_history (ch_id ch) (w_db sample_world))))"
    and m: "json_field j ''remaining_messages'' =
      Some (JNum (int (length (channel_history (ch_id ch) (w_db sample_world)) - 50 * Suc 0)))"
    by (elim exE conjE) (erule (2) that)
  have "ch_id ch = 3"
    using ch by (auto simp: channel_by_handle_def sample_world_def sample_db_def sample_channel_def split: if_splits)
  then have "channel_history (ch_id ch) (w_db sample_world) = [sample_message]"
    by (simp add: channel_history_def sample_world_def sample_db_def sample_message_def)
  moreover have "m_text sample_message = ''hi''" by (simp add: sample_message_def)
  ultimately show ?thesis using j t m by (intro exI [of _ j]) simp
qed

section \<open>Who is let in\<close>

text \<open>C34: When a channel is deleted, every member who had selected it is locked out: no channel of
  the community opens for that member any more.\<close>

theorem deleted_channel_locks_out:
  assumes "run (DeleteChannel E v p (Some input)) w = (r, w')" and "\<not> is_error r"
    and "Decode (env_aes E) (dc_channel_id input) = Returned (i, CHANNELS_TYPE)"
    and "community_by_handle E (handle_param E p) (w_db w) = Some c"
    and "member_row (u_id u) (c_id c) (w_db w) = Some cu" and "cu_selected_channel_id cu = i"
    and "\<And>ch. ch \<in> set (d_channels (w_db w)) \<Longrightarrow> ch_id ch = i \<Longrightarrow> ch_community_id ch = c_id c"
  shows "is_error (fst (run (Channel E (Some u) p chp pn) w'))"
proof -
  have "DeleteChannel E v p (Some input) w = (Inr r, w')"
    by (rule alive_run_ok [OF alive_channel_handlers(3) assms(1,2)])
  then obtain k where "community_by_handle E (handle_param E p) (w_db w) = Some c" and "0 < i"
    and d: "w_db w' = (w_db w)
      \<lparr>d_channels := rows_delete (\<lambda>x. ch_id x = i \<and> ch_community_id x = c_id c) (d_channels (w_db w)), d_messages := k\<rparr>"
    using assms(3,4) by (rule_tac DeleteChannel_done) auto
  have "member_row (u_id u) (c_id c) (w_db w') = Some cu"
    and "community_by_handle E (handle_param E p) (w_db w') = Some c"
    using assms(4,5) by (simp_all add: d member_row_def community_by_handle_def)
  moreover have "\<forall>ch \<in> set (d_channels (w_db w')). ch_id ch \<noteq> cu_selected_channel_id cu"
    using assms(6,7) by (auto simp: d)
  ultimately show ?thesis
    using Channel_locked_out [OF _ _ _ _ run_pair] \<open>0 < i\<close> assms(6) by blast
qed


definition delete_channel_request :: "response \<times> world" where
  "delete_channel_request = run (DeleteChannel sample_env (Some (sample_user 1)) ''Home''
     (Some \<lparr>dc_channel_id = sample_id 3 CHANNELS_TYPE\<rparr>)) sample_world"

theorem deleted_channel_locks_out_witness:
  "is_error (fst (run (Channel sample_env (Some (sample_user 2)) ''Home'' ''chat'' 0)
     (snd delete_channel_request)))"
proof -
  have ok: "\<not> is_error (fst delete_channel_request)" by code_simp
  have id: "Decode sample_aes (sample_id 3 CHANNELS_TYPE) = Returned (3, CHANNELS_TYPE)" by code_simp
  have c: "community_by_handle sample_env (handle_param sample_env ''Home'') (w_db sample_world) = Some sample_community"
    by code_simp
  have m: "member_row (u_id (sample_user 2)) (c_id sample_community) (w_db sample_world) =
      Some (sample_member 2 (no_permissions\<lparr>p_kick_members := True\<rparr>))"
    by code_simp
  show ?thesis
    unfolding delete_channel_request_def
    by (rule deleted_channel_locks_out [OF run_pair ok [unfolded delete_channel_request_def] _ c m])
      (use id in \<open>auto simp: sample_member_def sample_world_def sample_db_def sample_channel_def
         sample_community_def\<close>)
qed

text \<open>A signed-in user sees a community and its channels only as a member of it.\<close>

theorem users_see_their_communities:
  assumes "community_by_handle E (handle_param E p) (w_db w) = Some c"
    and "member_row (u_id u) (c_id c) (w_db w) = None"
  shows "is_error (fst (run (Community E (Some u) p) w)) \<and>
    is_error (fst (run (Channel E (Some u) p chp pn) w))"
proof -
  have "is_error (fst (run (Community E (Some u) p) w))"
    using Community_needs_member [OF run_pair _ assms(1)] assms(2) by blast
  moreover have "is_error (fst (run (Channel E (Some u) p chp pn) w))"
  proof (rule ccontr)
    assume "\<not> is_error (fst (run (Channel E (Some u) p chp pn) w))"
    from Channel_done [OF run_pair this] show False using assms by (metis option.inject option.distinct(1))
  qed
  ultimately show ?thesis by blast
qed

theorem users_see_their_communities_witness:
  "is_error (fst (run (Community sample_env (Some (sample_user 3)) ''Home'') sample_world)) \<and>
   is_error (fst (run (Channel sample_env (Some (sample_user 3)) ''Home'' ''chat'' 0) sample_world))"
proof (rule users_see_their_communities)
  show "community_by_handle sample_env (handle_param sample_env ''Home'') (w_db sample_world) = Some sample_community"
    by code_simp
  show "member_row (u_id (sample_user 3)) (c_id sample_community) (w_db sample_world) = None" by code_simp
qed

text \<open>A private community with one member, who wrote a message.\<close>

definition private_world :: world where
  "private_world = sample_world\<lparr>w_db := sample_db
     \<lparr>d_communities := [sample_community\<lparr>c_private := True\<rparr>]\<rparr>\<rparr>"

text \<open>A guest without any token reads the messages of a private community, which are refused
  to a signed-in user who is no member, and whose members do not have the permission to view
  channels.\<close>

theorem guests_read_private_channels:
  "(case fst (run (Channel sample_env None ''Home'' ''chat'' 0) private_world) of
      Resp s j \<Rightarrow> s = 200 \<and> \<not> is_error (Resp s j) \<and> page_texts j = [''hi'']
    | _ \<Rightarrow> False) \<and>
   is_error (fst (run (Channel sample_env (Some (sample_user 3)) ''Home'' ''chat'' 0) private_world))"
proof -
  have "case fst (run (Channel sample_env None ''Home'' ''chat'' 0) private_world) of
      Resp s j \<Rightarrow> s = 200 \<and> \<not> is_error (Resp s j) \<and> page_texts j = [''hi'']
    | _ \<Rightarrow> False" by code_simp
  moreover have "is_error (fst (run (Channel sample_env (Some (sample_user 3)) ''Home'' ''chat'' 0) private_world))"
    by code_simp
  ultimately show ?thesis by blast
qed

text \<open>The sitemap lists public communities that have a channel, and nothing else; when every
  community is private, it answers an error.\<close>

theorem sitemap_lists_public:
  assumes "run (Sitemap E) w = (r, w')"
  shows "is_error r \<or> (\<exists>c \<in> set (d_communities (w_db w)). \<not> c_private c) \<and>
    (\<exists>entries. r = Resp 200 (JObj [(''communities'', JArr entries)]) \<and>
      list_all (\<lambda>e. \<exists>c \<in> set (d_communities (w_db w)). \<not> c_private c \<and>
        json_field e ''handle'' = Some (JStr (c_handle c)) \<and>
        (\<exists>ch \<in> set (d_channels (w_db w)). ch_community_id ch = c_id c)) entries)"
proof (cases "is_error r")
  case False
  have "alive (Sitemap E)" unfolding Sitemap_def select_ids_def Let_def by (rule dead_intro is_error_simps)+
  then have "Sitemap E w = (Inr r, w')" using alive_run_ok assms False by blast
  then show ?thesis
    using Sitemap_needs_public [OF _ assms] False by (rule_tac Sitemap_done) (auto simp: list_all_iff)
qed simp

theorem sitemap_lists_public_witness:
  "\<exists>entries. fst (run (Sitemap sample_env) sample_world) = Resp 200 (JObj [(''communities'', JArr entries)])"
proof -
  have "\<not> is_error (fst (run (Sitemap sample_env) sample_world))" by code_simp
  then show ?thesis using sitemap_lists_public [OF run_pair, of sample_env sample_world] by blast
qed

end
