(* ===== verification/Hub_Laws.thy ===== *)
theory Hub_Laws
  imports Chat_Server
begin

text \<open>
  What the chat server guarantees in every interleaving of its hub and goroutines, from its
  start, and the one guarantee it does not give.
\<close>

text \<open>A run in which one client registers, subscribes, and gets a broadcast.\<close>

definition hub1 :: hub where "hub1 = hub_receive 0 [] (Register 7) empty_hub"
definition hub2 :: hub where "hub2 = hub_receive 0 [7] (Subscribe 7 ''t'') hub1"
definition hub3 :: hub where "hub3 = run_task True (TSubscribe 0 ''t'') (hub2\<lparr>h_tasks := []\<rparr>)"
definition hub4 :: hub where "hub4 = hub_receive 0 [7] (Broadcast ''t'' ''hi'') hub3"
definition hub5 :: "bool \<Rightarrow> hub" where
  "hub5 ok = run_task ok (TBroadcast 0 7 ''t'' ''hi'') (hub4\<lparr>h_tasks := []\<rparr>)"

definition sample_events :: "hub_event list" where
  "sample_events = [Broadcast ''t'' ''hi'', Subscribe 7 ''t'', Register 7]"

lemmas hub_samples = hub1_def hub2_def hub3_def hub4_def hub5_def empty_hub_def to_client_def
  new_client_def set_client_def keys_listed_def write_frame_def map_filter_def

lemma hub_tasks: "h_tasks hub2 = [TSubscribe 0 ''t'']" "h_tasks hub4 = [TBroadcast 0 7 ''t'' ''hi'']"
  "\<not> cl_locked (h_heap hub2 ! 0)" "\<not> cl_locked (h_heap hub4 ! 0)"
  by (simp_all add: hub_samples)

lemma hub_run_head:
  assumes "hub_run es h" and "h_tasks h = t # ts" and "\<not> cl_locked (h_heap h ! task_client t)"
  shows "hub_run es (run_task ok t (h\<lparr>h_tasks := ts\<rparr>))"
proof -
  have "hub_step h None (run_task ok t (h\<lparr>h_tasks := take 0 (h_tasks h) @ drop (Suc 0) (h_tasks h)\<rparr>))"
    by (rule hub_step.Run) (use assms(2,3) in simp_all)
  then show ?thesis using hub_run.Silent [OF assms(1)] assms(2) by (simp del: run_task.simps)
qed

lemma sample_run2: "hub_run [Subscribe 7 ''t'', Register 7] hub2"
proof -
  have "hub_step empty_hub (Some (Register 7)) hub1"
    unfolding hub1_def by (rule hub_step.Receive) (simp add: hub_samples)
  then have 1: "hub_run [Register 7] hub1" by (rule hub_run.Event [OF hub_run.Start])
  have "hub_step hub1 (Some (Subscribe 7 ''t'')) hub2"
    unfolding hub2_def by (rule hub_step.Receive) (simp add: hub_samples)
  then show ?thesis by (rule hub_run.Event [OF 1])
qed

lemma sample_run3: "hub_run [Subscribe 7 ''t'', Register 7] hub3"
  unfolding hub3_def by (rule hub_run_head [OF sample_run2 hub_tasks(1)]) (use hub_tasks(3) in simp)

lemma sample_run4: "hub_run sample_events hub4"
proof -
  have "hub_step hub3 (Some (Broadcast ''t'' ''hi'')) hub4"
    unfolding hub4_def by (rule hub_step.Receive) (simp add: hub_samples)
  then show ?thesis unfolding sample_events_def by (rule hub_run.Event [OF sample_run3])
qed

lemma sample_run5: "hub_run sample_events (hub5 ok)"
  unfolding hub5_def by (rule hub_run_head [OF sample_run4 hub_tasks(2)]) (use hub_tasks(4) in simp)

text \<open>C12: in every run of the chat server, a client is written only what was meant for it: the echo
  of its own message, or a message that was broadcast to a topic the client has subscribed to.\<close>

theorem deliveries_were_wanted:
  assumes "hub_run es h" and "(c, r, f) \<in> set (h_sent h)"
  shows "(\<exists>m. f = EchoFrame m \<and> Echo c m \<in> set es) \<or>
    (\<exists>t m. f = BroadcastFrame t m \<and> Broadcast t m \<in> set es \<and> Subscribe c t \<in> set es)"
  using hub_okD(5) [OF hub_run_ok [OF assms(1)] assms(2)] by (cases f) auto

theorem deliveries_were_wanted_witness:
  "Broadcast ''t'' ''hi'' \<in> set sample_events \<and> Subscribe 7 ''t'' \<in> set sample_events"
proof -
  have "(7, 0, BroadcastFrame ''t'' ''hi'') \<in> set (h_sent (hub5 True))" by (simp add: hub_samples)
  from deliveries_were_wanted [OF sample_run5 this] show ?thesis by simp
qed

text \<open>C28: a broadcast reaches each registered client at most once: a client is not written more
  frames with a message on a topic than this message was broadcast on it.\<close>

theorem broadcast_at_most_once:
  assumes "hub_run es h"
  shows "count_list (h_sent h) (c, r, BroadcastFrame t m) \<le> count_list es (Broadcast t m)"
  using broadcast_once [OF assms, of c r t m] by (simp add: copies_def)

theorem broadcast_at_most_once_witness:
  "count_list (h_sent (hub5 True)) (7, 0, BroadcastFrame ''t'' ''hi'') \<le> 1 \<and>
   count_list (h_sent (hub5 True)) (7, 0, BroadcastFrame ''t'' ''hi'') = 1"
  using broadcast_at_most_once [OF sample_run5, of True 7 0 "''t''" "''hi''"]
  by (simp add: sample_events_def) (simp add: hub_samples)



lemma hub_run_steps:
  "rtranclp (\<lambda>a b. \<exists>l. hub_step a l b) h h' \<Longrightarrow> hub_run es h \<Longrightarrow> \<exists>es'. hub_run (es' @ es) h'"
proof (induction rule: rtranclp_induct)
  case base
  then show ?case by (intro exI [of _ "[]"]) simp
next
  case (step a b)
  then obtain es' l where r: "hub_run (es' @ es) a" and s: "hub_step a l b" by blast
  show ?case
  proof (cases l)
    case None
    then show ?thesis using hub_run.Silent [OF r] s by blast
  next
    case (Some e)
    then have "hub_run ((e # es') @ es) b" using hub_run.Event [OF r] s by simp
    then show ?thesis by blast
  qed
qed

text \<open>C29: after one failed write a client is written to never again, whatever the server does.\<close>

theorem closed_clients_stay_closed:
  assumes "hub_run es h" and "r < length (h_heap h)" and "cl_closing (h_heap h ! r)"
    and "rtranclp (\<lambda>a b. \<exists>l. hub_step a l b) h h'"
  shows "sent_to r h' = sent_to r h \<and> cl_closing (h_heap h' ! r)"
proof -
  have "sent_to r h' = sent_to r h \<and> r < length (h_heap h') \<and> cl_closing (h_heap h' ! r)"
    using assms(4)
  proof (induction rule: rtranclp_induct)
    case base
    then show ?case using assms(2,3) by simp
  next
    case (step a b)
    then obtain l where "hub_step a l b" by blast
    moreover obtain es' where "hub_ok es' a"
      using hub_run_steps [OF step.hyps(1) assms(1)] hub_run_ok by blast
    ultimately show ?case using closing_is_final [of a l b es'] step.IH by fastforce
  qed
  then show ?thesis by blast
qed

theorem closed_clients_stay_closed_witness:
  "\<exists>h'. (\<exists>l. hub_step (hub5 False) l h') \<and> sent_to 0 h' = []"
proof -
  let ?h = "set_client 0 (\<lambda>x. x\<lparr>cl_locked := False\<rparr>)
    (hub_receive 0 [] (Unregister 7) ((hub5 False)\<lparr>h_waiting := [] @ []\<rparr>))"
  have "hub_step (hub5 False) (Some (Unregister 7)) ?h"
    by (rule hub_step.Give_up) (simp add: hub_samples)
  then have s: "\<exists>l. hub_step (hub5 False) l ?h" ..
  have "sent_to 0 ?h = sent_to 0 (hub5 False) \<and> cl_closing (h_heap ?h ! 0)"
    by (rule closed_clients_stay_closed [OF sample_run5 [of False]])
      (use s in \<open>auto simp: hub_samples\<close>)
  moreover have "sent_to 0 (hub5 False) = []" by (simp add: sent_to_def hub_samples)
  ultimately show ?thesis using s by auto
qed










text \<open>A client that subscribes to a topic and then withdraws can stay subscribed for ever: the
  two goroutines may run in the other order.\<close>

theorem withdrawal_can_be_lost:
  "\<exists>h. hub_run [Unsubscribe c t, Subscribe c t, Register c] h \<and>
     h_tasks h = [] \<and> h_waiting h = [] \<and> h_clients h c = Some 0 \<and> cl_topics (h_heap h ! 0) = {t}"
  by (intro exI conjI, rule hub_run_race [of c t 0]) simp_all

text \<open>Whatever frames a client sends, its reader speaks to the hub for its own connection only,
  never broadcasts, says nothing but the end for a client without a user, and nothing after the
  end.\<close>

theorem readers_speak_for_themselves:
  "list_all (\<lambda>e. event_conn e = Some c) (connection_events parse viewerOk c fs) \<and>
   count_list (connection_events parse viewerOk c fs) (Unregister c) \<le> 1 \<and>
   set (connection_events parse False c fs) \<subseteq> {Register c, Unregister c}"
proof -
  have "event_conn e = Some c" if "e \<in> set (read_loop parse viewerOk c fs)" for e
    using read_loop_own [OF that] by auto
  moreover have "count_list (read_loop parse viewerOk c fs) (Unregister c) \<le> 1"
    using read_loop_end [of parse viewerOk c fs] by (auto simp: count_list_0_iff split: if_splits)
  moreover have "set (read_loop parse False c fs) \<subseteq> {Unregister c}"
    using read_loop_own [of _ parse False c fs] by blast
  ultimately show ?thesis by (auto simp: connection_events_def list_all_iff)
qed

end
