(* ===== verification/Invariants.thy ===== *)
theory Invariants
  imports Accounts Views
begin

text \<open>
  What every handler keeps, however its calls fail: the identifiers of each table are distinct,
  below the counter that hands out the next one and within 64 bits, the unique columns of the
  schema hold no value twice, and every Redis key holds a value of its kind, a user or a member
  under the own key. The rules at the start are
  directed by the syntax of the handlers, as the ones for shapes are.
\<close>

section \<open>The invariant\<close>

definition keyed :: "(string \<Rightarrow> nat) \<Rightarrow> string \<Rightarrow> ('r \<Rightarrow> nat) \<Rightarrow> 'r list \<Rightarrow> bool" where
  "keyed a t k rs \<longleftrightarrow> distinct (map k rs) \<and> (\<forall>r \<in> set rs. 0 < k r \<and> k r \<le> max_uint64 \<and> k r < a t)"

text \<open>\<^verbatim>\<open>uuid.NewString\<close> gives hexadecimal digits and dashes.\<close>

definition plain_uuids :: "env \<Rightarrow> bool" where
  "plain_uuids E \<longleftrightarrow> (\<forall>n. slash \<notin> set (env_uuid E n))"

definition plain_salts :: "env \<Rightarrow> users_row list \<Rightarrow> bool" where
  "plain_salts E us \<longleftrightarrow> (plain_uuids E \<longrightarrow> list_all (\<lambda>u. slash \<notin> set (u_salt u)) us)"

definition counting :: "(string \<Rightarrow> nat) \<Rightarrow> bool" where
  "counting a \<longleftrightarrow> (\<forall>t. 0 < a t)"

definition tables_ok :: "env \<Rightarrow> (string \<Rightarrow> nat) \<Rightarrow> database \<Rightarrow> bool" where
  "tables_ok E a d \<longleftrightarrow>
     counting a \<and> plain_salts E (d_users d) \<and>
     keyed a ''users'' u_id (d_users d) \<and>
     keyed a ''communities'' c_id (d_communities d) \<and>
     keyed a ''community_roles'' r_id (d_roles d) \<and>
     keyed a ''channels'' ch_id (d_channels d) \<and>
     keyed a ''channel_groups'' g_id (d_groups d) \<and>
     keyed a ''messages'' m_id (d_messages d) \<and>
     keyed a ''files'' f_id (d_files d) \<and>
     keyed a ''community_invites'' i_id (d_invites d) \<and>
     keyed a ''beta_users'' bu_id (d_beta d) \<and>
     distinct (map (\<lambda>u. env_collate E (u_email u)) (d_users d)) \<and>
     distinct (map (\<lambda>c. env_collate E (c_handle c)) (d_communities d)) \<and>
     distinct (map (\<lambda>ch. (ch_community_id ch, env_collate E (ch_handle ch))) (d_channels d)) \<and>
     distinct (map (\<lambda>i. env_collate E (i_code i)) (d_invites d))"

text \<open>
  The values of Redis are texts, and the key decides what type the program parses them as: each
  key holds a value of its type, and a cached user or membership is the one the key names.
\<close>

definition entry_ok :: "string \<Rightarrow> rval \<Rightarrow> bool" where
  "entry_ok k v \<longleftrightarrow>
     (\<forall>i. k = user_key i \<longrightarrow> (\<exists>u. v = RUser u \<and> u_id u = i)) \<and>
     (\<forall>u c. k = PermissionRedisKey u c \<longrightarrow>
        (\<exists>r. v = RPerm r \<and> cu_user_id r = u \<and> cu_community_id r = c)) \<and>
     (\<forall>m. k = reactions_key m \<longrightarrow> (\<exists>x. v = RReactions x)) \<and>
     (\<forall>u c. k = user_channel_key u c \<longrightarrow> (\<exists>t. v = RText t))"

fun job_ok :: "job \<Rightarrow> bool" where
  "job_ok (JobRedisSet k v ttl) = entry_ok k v"
| "job_ok (JobRedisStamp k) = (\<forall>t. entry_ok k (RText t))"
| "job_ok (JobLastActive u) = True"
| "job_ok (JobEditRole i c r) = True"
| "job_ok (JobBroadcast t j) = True"

definition world_ok :: "env \<Rightarrow> world \<Rightarrow> bool" where
  "world_ok E w \<longleftrightarrow> tables_ok E (w_auto w) (w_db w) \<and> list_all (tables_ok E (w_auto w)) (w_txs w) \<and>
     (\<forall>k v ttl. w_redis w k = Some (v, ttl) \<longrightarrow> entry_ok k v) \<and> list_all job_ok (w_jobs w)"

definition keeps_ok :: "env \<Rightarrow> ('e, 'a) prog \<Rightarrow> bool" where
  "keeps_ok E m \<longleftrightarrow> (\<forall>w. world_ok E w \<longrightarrow> world_ok E (snd (m w)))"

lemma keeps_okD: "keeps_ok E m \<Longrightarrow> world_ok E w \<Longrightarrow> m w = (x, w') \<Longrightarrow> world_ok E w'"
  unfolding keeps_ok_def by (metis snd_conv)

section \<open>Rules\<close>

named_theorems keeps_intro \<open>one rule per construct, for what every handler keeps\<close>

lemma world_ok_simps [simp]:
  "world_ok E (tick w) = world_ok E w"
  "world_ok E (w\<lparr>w_jobs := w_jobs w @ [j]\<rparr>) = (world_ok E w \<and> job_ok j)"
  "world_ok E (w\<lparr>w_tick := n\<rparr>) = world_ok E w"
  by (auto simp: world_ok_def)

lemma world_ok_rollback: "world_ok E w \<Longrightarrow> world_ok E (rollback w)"
  by (cases "w_txs w") (auto simp: rollback_def world_ok_def)

lemma keeps_basic [keeps_intro]:
  "keeps_ok E (ret x)" "keeps_ok E (quit e)" "keeps_ok E (rolling_back e)" "keeps_ok E (time_now E)"
  "keeps_ok E (new_uuid E)" "keeps_ok E (of_outcome y)" "keeps_ok E (from_cloud g)"
  by (auto simp: keeps_ok_def ret_def quit_def rolling_back_def time_now_def new_uuid_def
      of_outcome_def from_cloud_def world_ok_rollback split: outcome.split)

lemma keeps_ids [keeps_intro]: "keeps_ok E (decode_id E s)" "keeps_ok E (encode_id E i ty salt)"
  by (simp_all add: decode_id_def encode_id_def keeps_basic)

lemma keeps_spawn [keeps_intro]: "job_ok j \<Longrightarrow> keeps_ok E (spawn j)"
  by (simp add: keeps_ok_def spawn_def)

lemma keeps_andThen [keeps_intro]:
  assumes "keeps_ok E m" and "\<And>x. keeps_ok E (k x)"
  shows "keeps_ok E (andThen m k)"
  unfolding keeps_ok_def andThen_def
  by (auto split: prod.split sum.split dest: keeps_okD [OF assms(1)] keeps_okD [OF assms(2)]
      simp: assms(2) [unfolded keeps_ok_def])

lemma keeps_on_err [keeps_intro]:
  assumes "keeps_ok E m" and "\<And>e. keeps_ok E (h e)"
  shows "keeps_ok E (on_err m h)"
  unfolding keeps_ok_def on_err_def
  by (auto split: prod.split sum.split dest: keeps_okD [OF assms(1)] simp: assms(2) [unfolded keeps_ok_def])

lemma keeps_attempt [keeps_intro]: "keeps_ok E m \<Longrightarrow> keeps_ok E (attempt m)"
  unfolding keeps_ok_def attempt_def by (auto split: prod.split)

lemma keeps_if [keeps_intro]: "keeps_ok E m \<Longrightarrow> keeps_ok E n \<Longrightarrow> keeps_ok E (if b then m else n)"
  by simp

lemma keeps_ensure [keeps_intro]: "keeps_ok E h \<Longrightarrow> keeps_ok E (ensure b h)"
  by (simp add: ensure_def keeps_basic)

lemma keeps_of_option [keeps_intro]: "keeps_ok E h \<Longrightarrow> keeps_ok E (of_option x h)"
  by (simp add: of_option_def keeps_basic split: option.split)

lemma keeps_cases [keeps_intro]:
  "(\<And>a b. keeps_ok E (f a b)) \<Longrightarrow> keeps_ok E (case p of (a, b) \<Rightarrow> f a b)"
  "keeps_ok E m \<Longrightarrow> (\<And>a. keeps_ok E (k a)) \<Longrightarrow> keeps_ok E (case x of None \<Rightarrow> m | Some a \<Rightarrow> k a)"
  "(\<And>e. keeps_ok E (g e)) \<Longrightarrow> (\<And>a. keeps_ok E (k a)) \<Longrightarrow>
   keeps_ok E (case s of Inl e \<Rightarrow> g e | Inr a \<Rightarrow> k a)"
  by (simp_all split: prod.split option.split sum.split)

lemma keeps_for_each [keeps_intro]: "(\<And>x. keeps_ok E (f x)) \<Longrightarrow> keeps_ok E (for_each xs f)"
  by (induction xs) (auto intro: keeps_intro)

lemma keeps_collect [keeps_intro]: "(\<And>x. keeps_ok E (f x)) \<Longrightarrow> keeps_ok E (collect f xs)"
  by (induction xs) (auto intro: keeps_intro)

lemma keeps_reads [keeps_intro]:
  "keeps_ok E (db_select E s f)" "keeps_ok E (db_get E s g)" "keeps_ok E (tx_select E s f)"
  "keeps_ok E (tx_get E s g)" "keeps_ok E (tx_last_insert_id E)" "keeps_ok E (redis_get E k)"
  by (auto simp: keeps_ok_def call_defs split: option.splits list.splits)

lemma keeps_redis_del [keeps_intro]: "keeps_ok E (redis_del E k)"
  by (auto simp: keeps_ok_def call_defs world_ok_def split: option.splits)

lemma keeps_redis_set [keeps_intro]: "entry_ok k v \<Longrightarrow> keeps_ok E (redis_set E k v ttl)"
  by (auto simp: keeps_ok_def call_defs world_ok_def split: option.splits)

lemma keeps_begin [keeps_intro]: "keeps_ok E (begin_tx E)"
  by (auto simp: keeps_ok_def begin_tx_def external_def world_ok_def split: option.splits)

lemma keeps_commit [keeps_intro]: "keeps_ok E (commit E)"
  by (auto simp: keeps_ok_def commit_def world_ok_def split: option.splits list.splits)

text \<open>A statement that changes rows, and one that adds the row with the next identifier.\<close>

definition preserves :: "env \<Rightarrow> (database \<Rightarrow> db_err + database) \<Rightarrow> bool" where
  "preserves E f \<longleftrightarrow> (\<forall>a d d'. tables_ok E a d \<longrightarrow> f d = Inr d' \<longrightarrow> tables_ok E a d')"

definition extends :: "env \<Rightarrow> string \<Rightarrow> (nat \<Rightarrow> database \<Rightarrow> db_err + database) \<Rightarrow> bool" where
  "extends E t f \<longleftrightarrow> (\<forall>a d d'. tables_ok E a d \<longrightarrow> a t \<le> max_uint64 \<longrightarrow>
     f (a t) d = Inr d' \<longrightarrow> tables_ok E (a(t := Suc (a t))) d')"

lemma keyed_spend: "keyed a t k rs \<Longrightarrow> keyed (a(t' := Suc (a t'))) t k rs"
  unfolding keyed_def by (cases "t' = t") (auto simp: less_SucI)

lemma counting_simps [simp]: "counting a \<Longrightarrow> 0 < a t" "counting a \<Longrightarrow> counting (a(t := Suc (a t)))"
  by (simp_all add: counting_def)

lemma plain_salts_simps [simp]:
  "(\<And>u. u_salt (f u) = u_salt u) \<Longrightarrow> plain_salts E (rows_update P f us) = plain_salts E us"
  "plain_salts E (us @ [u]) = (plain_salts E us \<and> (plain_uuids E \<longrightarrow> slash \<notin> set (u_salt u)))"
  unfolding plain_salts_def by (induction us) auto

lemma tables_ok_spend: "tables_ok E a d \<Longrightarrow> tables_ok E (a(t := Suc (a t))) d"
  unfolding tables_ok_def by (elim conjE) (intro conjI keyed_spend counting_simps)

lemma preservesD: "preserves E f \<Longrightarrow> tables_ok E a d \<Longrightarrow> f d = Inr d' \<Longrightarrow> tables_ok E a d'"
  unfolding preserves_def by blast

lemma extendsD:
  "extends E t f \<Longrightarrow> tables_ok E a d \<Longrightarrow> a t \<le> max_uint64 \<Longrightarrow> f (a t) d = Inr d' \<Longrightarrow> tables_ok E (a(t := Suc (a t))) d'"
  unfolding extends_def by blast

lemma tx_exec_cases:
  obtains e where "tx_exec E s f w = (Inl e, tick w)"
  | d ds d' where "w_txs w = d # ds" and "f d = Inr d'"
      and "tx_exec E s f w = (Inr (), (tick w)\<lparr>w_txs := d' # ds\<rparr>)"
  by (cases "env_fault E (w_tick w)"; cases "prepare s"; cases "w_txs w"; cases "f (hd (w_txs w))")
    (auto simp: call_defs)

lemma db_exec_cases:
  obtains e where "db_exec E s f w = (Inl e, tick w)"
  | d' where "f (w_db w) = Inr d'" and "db_exec E s f w = (Inr (), (tick w)\<lparr>w_db := d'\<rparr>)"
  by (cases "env_fault E (w_tick w)"; cases "prepare s"; cases "f (w_db w)") (auto simp: call_defs)

lemma tx_insert_cases:
  obtains e where "tx_insert E s f w = (Inl e, tick w)"
  | e where "tx_insert E s f w = (Inl e, spend_id (st_table s) (tick w))"
  | d ds d' where "w_txs w = d # ds" and "f (w_auto w (st_table s)) d = Inr d'"
      and "w_auto w (st_table s) \<le> max_uint64"
      and "tx_insert E s f w = (Inr (), (spend_id (st_table s) (tick w))
        \<lparr>w_txs := d' # ds, w_last_id := w_auto w (st_table s)\<rparr>)"
  by (cases "env_fault E (w_tick w)"; cases "prepare s"; cases "w_txs w";
      cases "f (w_auto w (st_table s)) (hd (w_txs w))"; cases "max_uint64 < w_auto w (st_table s)")
    (auto simp: call_defs)

lemma keeps_tx_exec [keeps_intro]:
  assumes "preserves E f"
  shows "keeps_ok E (tx_exec E s f)"
  unfolding keeps_ok_def
proof (intro allI impI)
  fix w assume w: "world_ok E w"
  show "world_ok E (snd (tx_exec E s f w))"
  proof (cases rule: tx_exec_cases [of E s f w])
    case (2 d ds d')
    then show ?thesis using w preservesD [OF assms _ 2(2), of "w_auto w"] by (simp add: world_ok_def)
  qed (use w in simp)
qed

lemma keeps_db_exec [keeps_intro]:
  assumes "preserves E f"
  shows "keeps_ok E (db_exec E s f)"
  unfolding keeps_ok_def
proof (intro allI impI)
  fix w assume w: "world_ok E w"
  show "world_ok E (snd (db_exec E s f w))"
  proof (cases rule: db_exec_cases [of E s f w])
    case (2 d')
    then show ?thesis using w preservesD [OF assms _ 2(1), of "w_auto w"] by (simp add: world_ok_def)
  qed (use w in simp)
qed

lemma list_all_spend: "list_all (tables_ok E a) ds \<Longrightarrow> list_all (tables_ok E (a(t := Suc (a t)))) ds"
  by (induction ds) (simp_all add: tables_ok_spend)

lemma world_ok_spend: "world_ok E w \<Longrightarrow> world_ok E (spend_id t w)"
  by (simp add: world_ok_def tables_ok_spend list_all_spend)

lemma keeps_tx_insert [keeps_intro]:
  assumes "extends E t f"
  shows "keeps_ok E (tx_insert E \<lparr>st_table = t, st_holes = n, st_args = k\<rparr> f)" (is "keeps_ok E (tx_insert E ?s f)")
  unfolding keeps_ok_def
proof (intro allI impI)
  fix w assume w: "world_ok E w"
  show "world_ok E (snd (tx_insert E ?s f w))"
  proof (cases rule: tx_insert_cases [of E ?s f w])
    case (3 d ds d')
    then have "tables_ok E ((w_auto w)(t := Suc (w_auto w t))) d'"
      using w extendsD [OF assms, of "w_auto w" d d'] by (simp add: world_ok_def)
    then show ?thesis
      using w 3 list_all_spend [of E "w_auto w" ds t] by (simp add: world_ok_def tables_ok_spend)
  qed (use w world_ok_spend [of E "tick w" t] in simp_all)
qed

lemma keeps_new_salt:
  assumes "\<And>s. (plain_uuids E \<Longrightarrow> slash \<notin> set s) \<Longrightarrow> keeps_ok E (k s)"
  shows "keeps_ok E (andThen (new_uuid E) k)"
proof -
  have "keeps_ok E (k (env_uuid E n))" for n by (rule assms) (simp add: plain_uuids_def)
  then show ?thesis by (simp add: keeps_ok_def andThen_def new_uuid_def)
qed

section \<open>Statements\<close>

text \<open>A change of rows that keeps a column keeps what is known of the column.\<close>

lemma keyed_rows [simp]:
  "(\<And>r. k (f r) = k r) \<Longrightarrow> keyed a t k (rows_update P f rs) = keyed a t k rs"
  "keyed a t k rs \<Longrightarrow> keyed a t k (rows_delete P rs)"
proof -
  have "(\<forall>r \<in> set rs. 0 < k r \<and> k r \<le> m \<and> k r < n) = (\<forall>x \<in> set (map k rs). 0 < x \<and> x \<le> m \<and> x < n)"
    for rs m n by simp
  then show "keyed a t k (rows_update P f rs) = keyed a t k rs" if "\<And>r. k (f r) = k r"
    using that by (simp only: keyed_def map_rows_update_key)
  show "keyed a t k rs \<Longrightarrow> keyed a t k (rows_delete P rs)"
    by (simp add: keyed_def distinct_map_rows_delete)
qed

lemma keyed_snoc: "keyed a t k rs \<Longrightarrow> k r = a t \<Longrightarrow> 0 < a t \<Longrightarrow> a t \<le> max_uint64 \<Longrightarrow> keyed (a(t := Suc (a t))) t k (rs @ [r])"
  by (auto simp: keyed_def less_SucI)

lemma preservesI:
  "(\<And>a d d'. tables_ok E a d \<Longrightarrow> f d = Inr d' \<Longrightarrow> tables_ok E a d') \<Longrightarrow> preserves E f"
  by (simp add: preserves_def)

lemma extendsI:
  "(\<And>a d d'. tables_ok E a d \<Longrightarrow> a t \<le> max_uint64 \<Longrightarrow> f (a t) d = Inr d' \<Longrightarrow> tables_ok E (a(t := Suc (a t))) d') \<Longrightarrow> extends E t f"
  by (simp add: extends_def)

lemma tables_ok_deletes:
  "tables_ok E a d \<Longrightarrow> tables_ok E a (d\<lparr>d_channels := rows_delete P1 (d_channels d)\<rparr>)"
  "tables_ok E a d \<Longrightarrow> tables_ok E a (d\<lparr>d_messages := rows_delete P2 (d_messages d)\<rparr>)"
  "tables_ok E a d \<Longrightarrow> tables_ok E a (d\<lparr>d_groups := rows_delete P3 (d_groups d)\<rparr>)"
  "tables_ok E a d \<Longrightarrow> tables_ok E a (d\<lparr>d_invites := rows_delete P4 (d_invites d)\<rparr>)"
  "tables_ok E a d \<Longrightarrow> tables_ok E a (d\<lparr>d_roles := rows_delete P5 (d_roles d)\<rparr>)"
  "tables_ok E a d \<Longrightarrow> tables_ok E a (d\<lparr>d_communities := rows_delete P6 (d_communities d)\<rparr>)"
  by (simp_all add: tables_ok_def distinct_map_rows_delete)

lemma tables_ok_updates:
  "(\<And>r. g_id (f1 r) = g_id r) \<Longrightarrow>
   tables_ok E a (d\<lparr>d_groups := rows_update P1 f1 (d_groups d)\<rparr>) = tables_ok E a d"
  "(\<And>r. r_id (f2 r) = r_id r) \<Longrightarrow>
   tables_ok E a (d\<lparr>d_roles := rows_update P2 f2 (d_roles d)\<rparr>) = tables_ok E a d"
  "(\<And>r. m_id (f3 r) = m_id r) \<Longrightarrow>
   tables_ok E a (d\<lparr>d_messages := rows_update P3 f3 (d_messages d)\<rparr>) = tables_ok E a d"
  "(\<And>r. bu_id (f4 r) = bu_id r) \<Longrightarrow>
   tables_ok E a (d\<lparr>d_beta := rows_update P4 f4 (d_beta d)\<rparr>) = tables_ok E a d"
  "(\<And>r. c_id (f5 r) = c_id r) \<Longrightarrow> (\<And>r. c_handle (f5 r) = c_handle r) \<Longrightarrow>
   tables_ok E a (d\<lparr>d_communities := rows_update P5 f5 (d_communities d)\<rparr>) = tables_ok E a d"
  "(\<And>r. u_id (f6 r) = u_id r) \<Longrightarrow> (\<And>r. u_email (f6 r) = u_email r) \<Longrightarrow> (\<And>r. u_salt (f6 r) = u_salt r) \<Longrightarrow>
   tables_ok E a (d\<lparr>d_users := rows_update P6 f6 (d_users d)\<rparr>) = tables_ok E a d"
  by (simp_all add: tables_ok_def map_rows_update_key)

lemma tables_ok_untouched [simp]:
  "tables_ok E a (d\<lparr>d_members := ms\<rparr>) = tables_ok E a d"
  "tables_ok E a (d\<lparr>d_roles_users := rus\<rparr>) = tables_ok E a d"
  "tables_ok E a (d\<lparr>d_banned := bs\<rparr>) = tables_ok E a d"
  by (simp_all add: tables_ok_def)

lemma preserves_deletes [keeps_intro]:
  "preserves E (delete_channels P1)" "preserves E (delete_messages P2)" "preserves E (delete_groups P3)"
  "preserves E (delete_members P4)" "preserves E (delete_roles_users P5)" "preserves E (delete_invites P6)"
  "preserves E (delete_roles P7)" "preserves E (delete_communities P8)"
  by (auto intro!: preservesI simp: delete_channels_def delete_messages_def delete_groups_def
      delete_members_def delete_roles_users_def delete_invites_def delete_roles_def
      delete_communities_def intro: tables_ok_deletes)

lemma preserves_untouched [keeps_intro]:
  "preserves E (insert_banned b)" "preserves E (insert_member t c u ch p)" "preserves E (insert_role_user ru)"
  "preserves E (select_channel u c i)" "preserves E (grant_member k u c)" "preserves E (set_member_permissions u c q)"
  by (auto intro!: preservesI simp: insert_banned_def insert_member_def insert_role_user_def
      select_channel_def grant_member_def set_member_permissions_def split: option.splits)

lemma preserves_updates [keeps_intro]:
  "preserves E (update_group i n t)" "preserves E (update_role i t ri)" "preserves E (update_priority k i c)"
  "preserves E (update_community i t n)" "preserves E (update_defaults i t q)"
  "preserves E (merge_message i x t)" "preserves E (update_message i x t)"
  "preserves E (update_avatar i fi img)" "preserves E (redeem_beta E e)"
  "preserves E (update_profile E i t n h ab)"
  by (auto intro!: preservesI simp: update_group_def update_role_def update_priority_def
      update_community_def update_defaults_def merge_message_def update_message_def update_avatar_def
      redeem_beta_def update_profile_def tables_ok_updates
      split: if_splits)

text \<open>A new name of a channel is checked against the other channels of its community.\<close>

lemma distinct_update_one:
  assumes "distinct (map k rs)" and "distinct (map g rs)"
    and "\<And>r s. r \<in> set rs \<Longrightarrow> k r = i \<Longrightarrow> s \<in> set rs \<Longrightarrow> k s \<noteq> i \<Longrightarrow> g s \<noteq> g (f r)"
  shows "distinct (map g (rows_update (\<lambda>r. k r = i) f rs))"
  using assms
proof (induction rs)
  case (Cons r rs)
  have IH: "distinct (map g (rows_update (\<lambda>r. k r = i) f rs))"
    using Cons.prems(1,2) by (intro Cons.IH) (simp_all add: Cons.prems(3))
  show ?case
  proof (cases "k r = i")
    case True
    then have "s \<in> set rs \<Longrightarrow> k s \<noteq> i" for s using Cons.prems(1) by (auto simp: image_iff)
    then have "rows_update (\<lambda>r. k r = i) f rs = rs"
      unfolding rows_update_def by (intro map_idI) auto
    moreover have "g (f r) \<notin> g ` set rs"
      using Cons.prems(3) [of r] True \<open>\<And>s. s \<in> set rs \<Longrightarrow> k s \<noteq> i\<close> by fastforce
    ultimately show ?thesis using True Cons.prems(2) by simp
  next
    case False
    have "g r \<notin> g ` set (rows_update (\<lambda>r. k r = i) f rs)"
    proof
      assume "g r \<in> g ` set (rows_update (\<lambda>r. k r = i) f rs)"
      then obtain s where "s \<in> set rs" "g r = g (if k s = i then f s else s)"
        by (auto simp: in_rows_update)
      then show False using Cons.prems(2,3) False by (auto split: if_splits)
    qed
    then show ?thesis using False IH by simp
  qed
qed simp

lemma preserves_update_channel [keeps_intro]: "preserves E (update_channel E i t n h g)"
proof (rule preservesI)
  fix a d d'
  assume ok: "tables_ok E a d" and up: "update_channel E i t n h g d = Inr d'"
  show "tables_ok E a d'"
  proof (cases "find (\<lambda>r. ch_id r = i) (d_channels d)")
    case None
    then show ?thesis using ok up by (simp add: update_channel_def)
  next
    case (Some r0)
    let ?f = "\<lambda>r. r\<lparr>ch_updated_at := Some t, ch_name := n, ch_handle := h, ch_group_id := g\<rparr>"
    let ?g = "\<lambda>ch. (ch_community_id ch, env_collate E (ch_handle ch))"
    have free: "\<not> channel_taken E (\<lambda>r. ch_id r \<noteq> i) (ch_community_id r0) h d"
      and d': "d' = d\<lparr>d_channels := rows_update (\<lambda>r. ch_id r = i) ?f (d_channels d)\<rparr>"
      using up Some by (auto simp: update_channel_def split: if_splits)
    have k: "distinct (map ch_id (d_channels d))" "distinct (map ?g (d_channels d))"
      using ok by (simp_all add: tables_ok_def keyed_def)
    have "distinct (map ?g (rows_update (\<lambda>r. ch_id r = i) ?f (d_channels d)))"
    proof (rule distinct_update_one [OF k])
      fix r s assume rs: "r \<in> set (d_channels d)" "ch_id r = i" "s \<in> set (d_channels d)" "ch_id s \<noteq> i"
      then have "r = r0" using same_key [OF k(1)] find_SomeD [OF Some] by blast
      then show "?g s \<noteq> ?g (?f r)" using free rs by (auto simp: channel_taken_def text_eq_def)
    qed
    then show ?thesis using ok by (simp add: d' tables_ok_def)
  qed
qed

lemma extends_inserts [keeps_intro]:
  "(\<And>i. ch_id (q1 i) = i) \<Longrightarrow> extends E ''channels'' (\<lambda>i. insert_channel E (q1 i))"
  "(\<And>i. g_id (q2 i) = i) \<Longrightarrow> extends E ''channel_groups'' (\<lambda>i. insert_group (q2 i))"
  "(\<And>i. r_id (q3 i) = i) \<Longrightarrow> extends E ''community_roles'' (\<lambda>i. insert_role (q3 i))"
  "(\<And>i. c_id (q4 i) = i) \<Longrightarrow> extends E ''communities'' (\<lambda>i. insert_community E (q4 i))"
  "(\<And>i. i_id (q5 i) = i) \<Longrightarrow> extends E ''community_invites'' (\<lambda>i. insert_invite E (q5 i))"
  "(\<And>i. m_id (q6 i) = i) \<Longrightarrow> extends E ''messages'' (\<lambda>i. insert_message (q6 i))"
  "(\<And>i. f_id (q7 i) = i) \<Longrightarrow> extends E ''files'' (\<lambda>i. insert_file E (q7 i))"
  "(\<And>i. u_id (q8 i) = i) \<Longrightarrow> (\<And>i. plain_uuids E \<Longrightarrow> slash \<notin> set (u_salt (q8 i))) \<Longrightarrow>
   extends E ''users'' (\<lambda>i. insert_user E (q8 i))"
  "(\<And>i. bu_id (q9 i) = i) \<Longrightarrow> extends E ''beta_users'' (\<lambda>i. insert_beta E (q9 i))"
proof -
  note keyed = keyed_spend keyed_snoc tables_ok_def
  show "(\<And>i. ch_id (q1 i) = i) \<Longrightarrow> extends E ''channels'' (\<lambda>i. insert_channel E (q1 i))"
    by (rule extendsI) (force simp: insert_channel_def keyed channel_taken_def text_eq_def split: if_splits)
  show "(\<And>i. g_id (q2 i) = i) \<Longrightarrow> extends E ''channel_groups'' (\<lambda>i. insert_group (q2 i))"
    by (rule extendsI) (auto simp: insert_group_def keyed split: if_splits)
  show "(\<And>i. r_id (q3 i) = i) \<Longrightarrow> extends E ''community_roles'' (\<lambda>i. insert_role (q3 i))"
    by (rule extendsI) (auto simp: insert_role_def keyed split: if_splits)
  show "(\<And>i. c_id (q4 i) = i) \<Longrightarrow> extends E ''communities'' (\<lambda>i. insert_community E (q4 i))"
    by (rule extendsI) (force simp: insert_community_def keyed text_eq_def split: if_splits)
  show "(\<And>i. i_id (q5 i) = i) \<Longrightarrow> extends E ''community_invites'' (\<lambda>i. insert_invite E (q5 i))"
    by (rule extendsI) (force simp: insert_invite_def keyed text_eq_def split: if_splits)
  show "(\<And>i. m_id (q6 i) = i) \<Longrightarrow> extends E ''messages'' (\<lambda>i. insert_message (q6 i))"
    by (rule extendsI) (auto simp: insert_message_def keyed split: if_splits)
  show "(\<And>i. f_id (q7 i) = i) \<Longrightarrow> extends E ''files'' (\<lambda>i. insert_file E (q7 i))"
    by (rule extendsI) (auto simp: insert_file_def keyed split: if_splits)
  show "(\<And>i. u_id (q8 i) = i) \<Longrightarrow> (\<And>i. plain_uuids E \<Longrightarrow> slash \<notin> set (u_salt (q8 i))) \<Longrightarrow>
   extends E ''users'' (\<lambda>i. insert_user E (q8 i))"
  proof (rule extendsI)
    fix a d d'
    assume q: "\<And>i. u_id (q8 i) = i" "\<And>i. plain_uuids E \<Longrightarrow> slash \<notin> set (u_salt (q8 i))"
      and a: "tables_ok E a d" "a ''users'' \<le> max_uint64" and ins: "insert_user E (q8 (a ''users'')) d = Inr d'"
    have "d' = d\<lparr>d_users := d_users d @ [q8 (a ''users'')]\<rparr>"
      and "env_collate E (u_email (q8 (a ''users''))) \<notin> (\<lambda>u. env_collate E (u_email u)) ` set (d_users d)"
      using ins by (auto simp: insert_user_def has_email_def text_eq_def split: if_splits)
    then show "tables_ok E (a(''users'' := Suc (a ''users''))) d'"
      using a q by (simp add: keyed)
  qed
  show "(\<And>i. bu_id (q9 i) = i) \<Longrightarrow> extends E ''beta_users'' (\<lambda>i. insert_beta E (q9 i))"
    by (rule extendsI) (auto simp: insert_beta_def keyed split: if_splits)
qed

end
