(* ===== verification/Provisioning.thy ===== *)
theory Provisioning
  imports Communities
begin

text \<open>
  The workers of the queue (\<^verbatim>\<open>tasks/*.go\<close>, dispatched by \<^verbatim>\<open>scheduler/scheduler.go\<close>) and the
  webhook of \<^verbatim>\<open>handlers/railway_service_webhook.go\<close>. Creating a community in the hosting
  environment is a sequence of calls to two providers inside one transaction, with a
  clean-up on every error. The answers of the providers are parameters, indexed by the number
  of the call; what was asked of them is kept in \<open>w_calls\<close>.
\<close>

section \<open>The providers\<close>

record providers =
  pv_service_create :: "nat \<Rightarrow> string \<Rightarrow> string option"
  pv_domain_create :: "nat \<Rightarrow> string \<Rightarrow> string \<Rightarrow> dns_record list option"
  pv_variables :: "nat \<Rightarrow> string \<Rightarrow> bool"
  pv_dns_create :: "nat \<Rightarrow> string \<Rightarrow> string \<Rightarrow> string option"
  pv_instance_update :: "nat \<Rightarrow> string \<Rightarrow> bool"
  pv_connect :: "nat \<Rightarrow> string \<Rightarrow> bool"
  pv_service_delete :: "nat \<Rightarrow> string \<Rightarrow> bool"
  pv_dns_delete :: "nat \<Rightarrow> string \<Rightarrow> bool"
  pv_email :: "nat \<Rightarrow> string \<Rightarrow> bool"

text \<open>\<open>asynq.SkipRetry\<close> wraps every error of a task: a task that failed is not tried again. A panic is
  recovered by the queue, which does not close the transaction of the task.\<close>

datatype task_error = SkipRetry | TaskPanic

type_synonym 'a job_prog = "(task_error, 'a) prog"

definition ask :: "(nat \<Rightarrow> 'a option) \<Rightarrow> ('a option \<Rightarrow> provider_call) \<Rightarrow> (unit, 'a) prog" where
  "ask f c w =
     (let r = f (w_tick w); w' = tick (w\<lparr>w_calls := w_calls w @ [c r]\<rparr>) in
      case r of None \<Rightarrow> (Inl (), w') | Some x \<Rightarrow> (Inr x, w'))"

definition tell :: "(nat \<Rightarrow> bool) \<Rightarrow> (bool \<Rightarrow> provider_call) \<Rightarrow> (unit, unit) prog" where
  "tell f c = ask (\<lambda>n. if f n then Some () else None) (\<lambda>r. c (r \<noteq> None))"

section \<open>Creating a community\<close>

definition has_text :: "env \<Rightarrow> string option \<Rightarrow> string \<Rightarrow> bool" where
  "has_text E v s = (case v of None \<Rightarrow> False | Some x \<Rightarrow> text_eq E x s)"

definition has_service :: "env \<Rightarrow> string \<Rightarrow> communities_row \<Rightarrow> bool" where
  "has_service E sid c = has_text E (c_railway_service_id c) sid"

text \<open>The unique indexes are on \<^verbatim>\<open>cf_fqn_zone_id\<close> and \<^verbatim>\<open>railway_service_id\<close>; nulls are not equal.\<close>

definition update_provisioned :: "env \<Rightarrow> nat \<Rightarrow> string \<Rightarrow> string \<Rightarrow> database \<Rightarrow> db_err + database" where
  "update_provisioned E i rid sid d =
     (if (\<exists>c \<in> set (d_communities d). c_id c = i) \<and> (too_long rid \<or> too_long sid) then Inl ErrTooLong
      else if (\<exists>c \<in> set (d_communities d). c_id c = i) \<and>
        (\<exists>c \<in> set (d_communities d). c_id c \<noteq> i \<and>
          (has_text E (c_cf_record_id c) rid \<or> has_service E sid c))
      then Inl ErrDuplicate
      else Inr (d\<lparr>d_communities := rows_update (\<lambda>c. c_id c = i)
             (\<lambda>c. c\<lparr>c_cf_record_id := Some rid, c_railway_service_id := Some sid\<rparr>) (d_communities d)\<rparr>))"

text \<open>The address the custom domain has to point to: the first record of the right type.\<close>

fun cname_of :: "dns_record list \<Rightarrow> string" where
  "cname_of [] = []"
| "cname_of (v # vs) =
     (if dr_record_type v = ''DNS_RECORD_TYPE_CNAME'' then dr_required_value v else cname_of vs)"

definition service_variables :: "env \<Rightarrow> communities_row \<Rightarrow> string \<Rightarrow> (string \<times> string) list" where
  "service_variables E co communityID =
     [(''RAILWAY_DOCKERFILE_PATH'', ''Dockerfile.hot''),
      (''COMMUNITY_ID'', communityID),
      (''FQN'', c_fqn co),
      (''HANDLE'', c_handle co),
      (''DATABASE_URL'', env_getenv E ''DATABASE_URL''),
      (''WRITE_REDIS_URL'', env_getenv E ''WRITE_REDIS_URL''),
      (''AES_IV'', env_getenv E ''AES_IV''),
      (''AES_KEY'', env_getenv E ''AES_KEY''),
      (''JWT_SECRET'', env_getenv E ''JWT_SECRET''),
      (''SALT'', env_getenv E ''SALT''),
      (''PORT'', ''3000'')]"

text \<open>
  \<^verbatim>\<open>cf.DeleteDNSRecord(ctx, rc, id)\<close> of the vendored client: it dereferences the container
  before anything else, and asks nothing when an identifier is empty.
\<close>

definition delete_dns_record :: "env \<Rightarrow> providers \<Rightarrow> string option \<Rightarrow> string \<Rightarrow> unit job_prog" where
  "delete_dns_record E P zone rid =
     (case zone of
        None \<Rightarrow> quit TaskPanic
      | Some z \<Rightarrow>
          if z = [] \<or> rid = [] then ret ()
          else if \<not> env_cloudflare E then quit TaskPanic
          else andThen (attempt (tell (\<lambda>n. pv_dns_delete P n rid) (DeleteDNSRecord z rid))) (\<lambda>_. ret ()))"

definition delete_service :: "providers \<Rightarrow> string \<Rightarrow> unit job_prog" where
  "delete_service P sid =
     andThen (attempt (tell (\<lambda>n. pv_service_delete P n sid) (ServiceDelete sid))) (\<lambda>_. ret ())"

definition roll_back :: "('e, unit) prog" where
  "roll_back w = (Inr (), rollback w)"

text \<open>
  \<^verbatim>\<open>cleanupAndReturn\<close>. The container it passes is nil. It ends in \<^verbatim>\<open>handleTxError\<close>, whose second
  \<^verbatim>\<open>Rollback\<close> finds the transaction closed and does nothing.
\<close>

definition cleanup_and_return ::
  "env \<Rightarrow> providers \<Rightarrow> bool \<Rightarrow> string option \<Rightarrow> string option \<Rightarrow> 'a job_prog" where
  "cleanup_and_return E P undo removeRecordId removeServiceId =
     andThen (if undo then roll_back else ret ()) (\<lambda>_.
     andThen (case removeRecordId of None \<Rightarrow> ret () | Some rid \<Rightarrow> delete_dns_record E P None rid) (\<lambda>_.
     andThen (case removeServiceId of None \<Rightarrow> ret () | Some sid \<Rightarrow> delete_service P sid) (\<lambda>_.
     quit SkipRetry)))"

definition tx_community :: "env \<Rightarrow> nat \<Rightarrow> communities_row call" where
  "tx_community E i =
     tx_get E \<lparr>st_table = ''communities'', st_holes = 1, st_args = 1\<rparr> (community_by_id i)"

text \<open>From the new service to its variables: the steps that only Railway takes part in.\<close>

definition create_service :: "env \<Rightarrow> providers \<Rightarrow> communities_row \<Rightarrow> (string \<times> dns_record list) job_prog" where
  "create_service E P co =
     andThen (on_err (ask (\<lambda>n. pv_service_create P n (c_handle co)) (ServiceCreate (c_handle co)))
       (\<lambda>_. cleanup_and_return E P True None None)) (\<lambda>sid.
     andThen (on_err (ask (\<lambda>n. pv_domain_create P n (c_fqn co) sid) (CustomDomainCreate (c_fqn co) sid))
       (\<lambda>_. cleanup_and_return E P True None (Some sid))) (\<lambda>rwr.
     andThen (case Encode (env_aes E) (c_id co) COMMUNITIES_TYPE (c_salt co) of
         Returned s \<Rightarrow> ret s | _ \<Rightarrow> quit TaskPanic) (\<lambda>communityID.
     andThen (on_err (tell (\<lambda>n. pv_variables P n sid)
         (VariableCollectionUpsert sid (service_variables E co communityID)))
       (\<lambda>_. cleanup_and_return E P True None (Some sid))) (\<lambda>_.
     ret (sid, rwr)))))"

definition connect_service :: "env \<Rightarrow> providers \<Rightarrow> string \<Rightarrow> unit job_prog" where
  "connect_service E P sid =
     andThen (on_err (tell (\<lambda>n. pv_instance_update P n sid) (ServiceInstanceUpdate sid ''/health''))
       (\<lambda>_. cleanup_and_return E P True None (Some sid))) (\<lambda>_.
     on_err (tell (\<lambda>n. pv_connect P n sid) (ServiceConnect sid ''mattsrobot/exotic-auth'' ''main''))
       (\<lambda>_. cleanup_and_return E P True None (Some sid)))"

definition provision :: "env \<Rightarrow> providers \<Rightarrow> communities_row \<Rightarrow> unit job_prog" where
  "provision E P co =
     andThen (create_service E P co) (\<lambda>(sid, rwr).
     let fail = cleanup_and_return E P True None (Some sid); rwAddress = cname_of rwr in
     andThen (ensure (rwr \<noteq> []) fail) (\<lambda>_.
     andThen (ensure (rwAddress \<noteq> []) fail) (\<lambda>_.
     andThen (on_err (ask (\<lambda>n. pv_dns_create P n (c_handle co) rwAddress)
         (CreateDNSRecord (env_getenv E ''CLOUDFLARE_ZONE_ID'') (c_handle co) rwAddress))
       (\<lambda>_. cleanup_and_return E P True None (Some sid))) (\<lambda>rid.
     andThen (on_err (tx_exec E \<lparr>st_table = ''communities'', st_holes = 3, st_args = 3\<rparr>
         (update_provisioned E (c_id co) rid sid))
       (\<lambda>_. fail)) (\<lambda>_.
     andThen (connect_service E P sid) (\<lambda>_.
     on_err (commit E) (\<lambda>_. cleanup_and_return E P False (Some rid) (Some sid))))))))"

text \<open>The payload is \<open>None\<close> when it does not parse.\<close>

definition HandleCreateCommunityTask :: "env \<Rightarrow> providers \<Rightarrow> nat option \<Rightarrow> unit job_prog" where
  "HandleCreateCommunityTask E P payload =
     andThen (of_option payload (quit SkipRetry)) (\<lambda>communityId.
     andThen (on_err (begin_tx E) (\<lambda>_. quit SkipRetry)) (\<lambda>_.
     andThen (on_err (tx_community E communityId) (\<lambda>_. rolling_back SkipRetry)) (\<lambda>co.
     andThen (ensure (env_cloudflare E) (rolling_back SkipRetry)) (\<lambda>_.
     provision E P co))))"

section \<open>The other tasks\<close>

record delete_community_payload =
  dp_cf_record_id :: string
  dp_railway_service_id :: string

text \<open>All errors are dropped. Without credentials the client is nil.\<close>

definition HandleDeleteCommunityTask ::
  "env \<Rightarrow> providers \<Rightarrow> delete_community_payload option \<Rightarrow> unit job_prog" where
  "HandleDeleteCommunityTask E P payload =
     andThen (of_option payload (quit SkipRetry)) (\<lambda>p.
     andThen (delete_dns_record E P (Some (env_getenv E ''CLOUDFLARE_ZONE_ID'')) (dp_cf_record_id p)) (\<lambda>_.
     delete_service P (dp_railway_service_id p)))"

record email_payload =
  ep_template_id :: string
  ep_template_variables :: "(string \<times> json) list"
  ep_from :: string
  ep_to :: string

definition HandleEmailDeliveryTask :: "env \<Rightarrow> providers \<Rightarrow> email_payload option \<Rightarrow> unit job_prog" where
  "HandleEmailDeliveryTask E P payload =
     andThen (of_option payload (quit SkipRetry)) (\<lambda>p.
     on_err (tell (\<lambda>n. pv_email P n (ep_to p))
         (SendTemplatedEmail (ep_template_id p) (ep_template_variables p) (ep_from p) (ep_to p)))
       (\<lambda>_. quit SkipRetry))"

text \<open>A task in the queue: its type and its payload. The constructors are \<^verbatim>\<open>New...Task\<close>.\<close>

datatype queue_task =
    CreateCommunityTask "nat option"
  | DeleteCommunityTask "delete_community_payload option"
  | EmailDeliveryTask "email_payload option"

definition NewCreateCommunityTask :: "nat \<Rightarrow> queue_task" where
  "NewCreateCommunityTask communityId = CreateCommunityTask (Some communityId)"

definition NewDeleteCommunityTask :: "string \<Rightarrow> string \<Rightarrow> queue_task" where
  "NewDeleteCommunityTask cfRecordID railwayServiceID =
     DeleteCommunityTask (Some \<lparr>dp_cf_record_id = cfRecordID, dp_railway_service_id = railwayServiceID\<rparr>)"

definition NewEmailDeliveryTask :: "string \<Rightarrow> string \<Rightarrow> string \<Rightarrow> (string \<times> json) list \<Rightarrow> queue_task" where
  "NewEmailDeliveryTask templateId sender recipient variables =
     EmailDeliveryTask (Some \<lparr>ep_template_id = templateId, ep_template_variables = variables,
       ep_from = sender, ep_to = recipient\<rparr>)"

fun process_task :: "env \<Rightarrow> providers \<Rightarrow> queue_task \<Rightarrow> unit job_prog" where
  "process_task E P (CreateCommunityTask p) = HandleCreateCommunityTask E P p"
| "process_task E P (DeleteCommunityTask p) = HandleDeleteCommunityTask E P p"
| "process_task E P (EmailDeliveryTask p) = HandleEmailDeliveryTask E P p"

section \<open>The webhook\<close>

record webhook_input =
  wh_type :: string
  wh_status :: string
  wh_service_id :: string
  wh_environment_name :: string

definition webhook_checks :: "env \<Rightarrow> webhook_input \<Rightarrow> json list" where
  "webhook_checks E input =
     check_string E ''Type'' [VRequired] (wh_type input) @
     check_string E ''Status'' [VRequired] (wh_status input) @
     check_string E ''ID'' [VRequired, VGte 3] (wh_service_id input) @
     check_string E ''Name'' [VRequired, VGte 3] (wh_environment_name input)"

definition update_deploy_status :: "env \<Rightarrow> string \<Rightarrow> string \<Rightarrow> database \<Rightarrow> db_err + database" where
  "update_deploy_status E status sid d =
     (if (\<exists>c \<in> set (d_communities d). has_service E sid c) \<and> too_long status then Inl ErrTooLong
      else Inr (d\<lparr>d_communities := rows_update (has_service E sid)
             (\<lambda>c. c\<lparr>c_railway_deploy_status := Some status,
                    c_ready := (if status = ''success'' then True else c_ready c)\<rparr>) (d_communities d)\<rparr>))"

definition unable_to_handle :: response where
  "unable_to_handle = message_error 500 ''Unable to handle webhook.''"

text \<open>When the transaction does not begin, \<^verbatim>\<open>handleTxError\<close> rolls back a nil transaction and panics.\<close>

definition RailwayServiceWebhook :: "env \<Rightarrow> webhook_input option \<Rightarrow> response go" where
  "RailwayServiceWebhook E b =
     andThen (of_option b (quit (plain_error 401 ''Invalid input''))) (\<lambda>input.
     andThen (need_valid 401 (webhook_checks E input)) (\<lambda>_.
     let rwServiceId = wh_service_id input; rwStatus = lower E (wh_status input) in
     if \<not> (rwServiceId \<noteq> [] \<and> rwStatus \<noteq> [] \<and> rwStatus \<noteq> ''removing'') then ret (Resp 200 (JObj []))
     else
       andThen (on_err (begin_tx E) (\<lambda>_. quit Panic)) (\<lambda>_.
       andThen (on_err (tx_exec E (if rwStatus = ''success''
             then \<lparr>st_table = ''communities'', st_holes = 3, st_args = 3\<rparr>
             else \<lparr>st_table = ''communities'', st_holes = 2, st_args = 2\<rparr>)
           (update_deploy_status E rwStatus rwServiceId))
         (\<lambda>_. rolling_back unable_to_handle)) (\<lambda>_.
       andThen (on_err (commit E) (\<lambda>_. quit unable_to_handle)) (\<lambda>_.
       ret (Resp 200 (JObj [])))))))"

end
