(* ===== verification/Endpoints_Keep.thy ===== *)
theory Endpoints_Keep
  imports Invariants Provisioning Samples
begin

text \<open>
  Every handler of the API and every goroutine keeps the invariant of the stores, in every
  outcome. Each proof unfolds a handler and applies the rules of its constructs.
\<close>

lemma entry_ok_keys [simp]:
  "entry_ok (user_key i) (RUser u) = (u_id u = i)"
  "entry_ok (PermissionRedisKey i c) (RPerm r) = (cu_user_id r = i \<and> cu_community_id r = c)"
  "entry_ok (reactions_key m) (RReactions x)"
  "entry_ok (user_channel_key i c) (RText t)"
  by (auto simp: entry_ok_def)

lemma job_ok_stamp [keeps_intro]: "job_ok (JobRedisStamp (user_channel_key u c))"
  by simp

lemma world_ok_user: "world_ok E w \<Longrightarrow> w_redis w (user_key i) = Some (v, ttl) \<Longrightarrow> \<exists>u. v = RUser u \<and> u_id u = i"
  unfolding world_ok_def entry_ok_def by blast

section \<open>Shared steps\<close>

lemma keeps_guards [keeps_intro]:
  "keeps_ok E (need_viewer v)" "keeps_ok E (need_valid n es)" "keeps_ok E (get_community E h)"
  "keeps_ok E (get_community_by_id E i)" "keeps_ok E (get_member E u c)" "keeps_ok E (user_roles E i co)"
  "keeps_ok E (get_user_by_id E i)" "keeps_ok E (get_role E i)"
  "keeps_ok E (get_group E i c)" "keeps_ok E (get_channel_by_id E i)" "keeps_ok E (get_channel_by_handle E h c)"
  "keeps_ok E (get_message E i)" "keeps_ok E (count_users E n P)" "keeps_ok E (beta_count E n Q)"
  unfolding need_viewer_def need_valid_def get_community_def get_community_by_id_def get_member_def
    get_user_by_id_def get_role_def get_group_def get_channel_by_id_def get_channel_by_handle_def
    get_message_def count_users_def beta_count_def user_roles_def
  by (rule keeps_intro)+

text \<open>The permissions that are cached are those of the member the key names.\<close>

lemma keeps_attempt_get_member:
  assumes "\<And>x. (\<And>r. x = Inr r \<Longrightarrow> cu_user_id r = u \<and> cu_community_id r = c) \<Longrightarrow> keeps_ok E (k x)"
  shows "keeps_ok E (andThen (attempt (get_member E u c)) k)"
  unfolding keeps_ok_def
proof (intro allI impI)
  fix w assume w: "world_ok E w"
  obtain x w1 where m: "get_member E u c w = (x, w1)" by (cases "get_member E u c w")
  have "cu_user_id r = u \<and> cu_community_id r = c" if "x = Inr r" for r
    using m that by (auto simp: get_member_def member_row_def dest!: db_get_InrD find_SomeD)
  then have "keeps_ok E (k x)" by (rule assms)
  moreover have "keeps_ok E (get_member E u c)" by (rule keeps_intro)
  ultimately show "world_ok E (snd (andThen (attempt (get_member E u c)) k w))"
    using w m by (auto simp: andThen_def attempt_def dest: keeps_okD simp: keeps_ok_def)
qed

lemma keeps_HasCommunityPermission [keeps_intro]: "keeps_ok E (HasCommunityPermission E u c k)"
proof -
  have hit: "keeps_ok E (case x of Inl _ \<Rightarrow> ret False
      | Inr r \<Rightarrow> andThen (spawn (JobRedisSet (PermissionRedisKey u c) (RPerm r) (Some one_hour)))
          (\<lambda>_. ret (HasCommunityPermission_row r k)))"
    if "\<And>r. x = Inr r \<Longrightarrow> cu_user_id r = u \<and> cu_community_id r = c" for x :: "db_err + communities_users_row"
    using that by (cases x) (simp_all add: keeps_basic keeps_andThen keeps_spawn)
  show ?thesis
    unfolding HasCommunityPermission_cases
    by (rule keeps_attempt_get_member | (rule hit, blast) | rule keeps_intro)+
qed

lemma keeps_permissions [keeps_intro]:
  "keeps_ok E (need_permission E na u c k)"
  "keeps_ok E (RecalculateAndUpdatePermissionsForUsers E us co)"
  "keeps_ok E (RecalculateAndUpdatePermissionsForUser E u co)"
  unfolding need_permission_def RecalculateAndUpdatePermissionsForUsers_def
    RecalculateAndUpdatePermissionsForUser_def Let_def
  by (rule keeps_intro)+

lemma keeps_admit [keeps_intro]: "keeps_ok E (admit_with r nf E v b bad ck h k)"
  unfolding admit_with_def by (rule keeps_intro)+

section \<open>Channels, groups and membership\<close>

lemma keeps_channel_parts [keeps_intro]:
  "keeps_ok E (need_own_group g c)" "keeps_ok E (create_channel_group E i c)"
  "keeps_ok E (edit_channel_group E i2 c)" "keeps_ok E (need_channel E s c)" "keeps_ok E (need_group E s c)"
  "keeps_ok E (need_user_id E s)" "keeps_ok E (need_invite E c cd)"
  unfolding need_own_group_def create_channel_group_def edit_channel_group_def need_channel_def
    need_group_def need_user_id_def need_invite_def Let_def
  by (rule keeps_intro)+

lemma keeps_channels [keeps_intro]:
  "keeps_ok E (CreateChannel E v p b1)" "keeps_ok E (EditChannel E v p b2)"
  "keeps_ok E (DeleteChannel E v p b3)" "keeps_ok E (ChannelSelect E v p b4)"
  "keeps_ok E (CreateGroup E v p b5)" "keeps_ok E (EditGroup E v p b6)" "keeps_ok E (DeleteGroup E v p b7)"
  unfolding channel_handlers CreateGroup_def EditGroup_def DeleteGroup_def Let_def
  by (rule keeps_intro | (simp; fail))+

lemma keeps_membership [keeps_intro]:
  "keeps_ok E (JoinCommunity E v p b1)" "keeps_ok E (LeaveCommunity E v p)"
  "keeps_ok E (KickUser E v p b2)" "keeps_ok E (BanUser E v p b3)"
  unfolding JoinCommunity_def LeaveCommunity_def KickUser_def BanUser_def Let_def
  by (rule keeps_intro)+

section \<open>Roles and communities\<close>

lemma keeps_role_parts [keeps_intro]:
  "keeps_ok E (grant_if E f r k err)" "keeps_ok E (add_role_member E f t i c r)"
  "keeps_ok E (create_role_members E f t i co)" "keeps_ok E (show_role E i)" "keeps_ok E (need_role E s co)"
  "keeps_ok E (delete_role_members E i co us)"
  unfolding grant_if_def add_role_member_def create_role_members_def show_role_def need_role_def
    delete_role_members_def Let_def
  by (rule keeps_intro)+

lemma keeps_roles [keeps_intro]:
  "keeps_ok E (CreateCommunityRole E v p b1)" "keeps_ok E (EditCommunityRole E v p b2)"
  "keeps_ok E (DeleteCommunityRole E v p b3)" "keeps_ok E (EditCommunityRolesPriority E v p b4)"
  unfolding CreateCommunityRole_def create_role_tx_def EditCommunityRole_def DeleteCommunityRole_def
    EditCommunityRolesPriority_def Let_def
  by (rule keeps_intro | (simp; fail))+

lemma keeps_case_outcome [keeps_intro]:
  "(\<And>a. keeps_ok E (k a)) \<Longrightarrow> keeps_ok E m \<Longrightarrow> keeps_ok E n \<Longrightarrow>
   keeps_ok E (case x of Returned a \<Rightarrow> k a | Failed \<Rightarrow> m | Panicked \<Rightarrow> n)"
  by (simp split: outcome.split)

lemma keeps_run_edit_role [keeps_intro]: "keeps_ok E (run_edit_role E i co input)"
  unfolding run_edit_role_def edit_role_row_def edit_role_members_def add_members_to_role_def
  by (rule keeps_intro)+

lemma keeps_rand_string [keeps_intro]: "keeps_ok E (rand_string E n)"
  by (auto simp: keeps_ok_def rand_string_def split: option.split)

lemma keeps_communities [keeps_intro]:
  "keeps_ok E (CreateCommunity E v b1)" "keeps_ok E (EditCommunity E v p b2)"
  "keeps_ok E (EditCommunityDefaultPermissions E v p b3)" "keeps_ok E (DeleteCommunity E v p)"
  "keeps_ok E (CreateCommunityInvite E v p b4)"
  unfolding CreateCommunity_def create_community_guards_def last_id_def EditCommunity_def
    EditCommunityDefaultPermissions_def DeleteCommunity_def delete_rows_of_community_def delete_where_def
    CreateCommunityInvite_def Let_def
  by (rule keeps_intro | (simp; fail))+

section \<open>Messages\<close>

lemma keeps_file_io [keeps_intro]: "keeps_ok E h \<Longrightarrow> keeps_ok E (file_io E h)"
  by (simp add: keeps_ok_def file_io_def)

lemma keeps_store_file [keeps_intro]: "keeps_ok E (store_file E q i f)"
  unfolding store_file_def store_image_def store_video_def store_other_def file_row_def Let_def
  by (rule keeps_intro | (simp; fail))+

lemma keeps_message_parts [keeps_intro]:
  "keeps_ok E (create_message_guards E v p b)" "keeps_ok E (create_message_tx E q)"
  "keeps_ok E (need_message E s)"
  unfolding create_message_guards_def create_message_tx_def parent_of_def place_message_def
    last_in_channel_def files_before_def need_message_def Let_def
  by (rule keeps_intro | (simp; fail))+

lemma keeps_answer_message [keeps_intro]: "keeps_ok E (answer_message E q i)"
  unfolding answer_message_def show_new_message_def powerful_role_def show_parent_def show_files_def Let_def
  by (rule keeps_intro | (simp; fail))+

lemma keeps_messages [keeps_intro]:
  "keeps_ok E (CreateMessage E v p b1)" "keeps_ok E (EditMessage E v p b2)" "keeps_ok E (ReactToMessage E v p b3)"
  unfolding CreateMessage_def EditMessage_def ReactToMessage_def Let_def
  by (rule keeps_intro | (simp; fail))+

section \<open>Accounts\<close>

lemma keeps_account_parts [keeps_intro]:
  "keeps_ok E (issue_token E u r)" "keeps_ok E (sign_in_user E i1)" "keeps_ok E (accept_invite E u cd)"
  "keeps_ok E (sign_up_handle E i2)" "keeps_ok E (sign_up_email E i2)" "keeps_ok E (sign_up_invite E cdo)"
  "keeps_ok E (sign_up_beta E e bb)" "keeps_ok E (join_invited E u iv)" "keeps_ok E (show_viewer E u ex)"
  "keeps_ok E (upload_avatar E sl)" "keeps_ok E (first_file fs)" "keeps_ok E (claimed_id E cl)"
  unfolding issue_token_def sign_in_user_def accept_invite_def sign_up_handle_def sign_up_email_def
    sign_up_invite_def sign_up_beta_def join_invited_def show_viewer_def upload_avatar_def
    first_file_def claimed_id_def Let_def
  by (rule keeps_intro | (simp add: keeps_basic split: json.split; fail))+

lemma keeps_sign_up_tx [keeps_intro]: "keeps_ok E (sign_up_tx E e h hash iv)"
  unfolding sign_up_tx_def by (rule keeps_new_salt keeps_intro | (simp add: new_user_def; fail))+

text \<open>The profile stores the row it has read under the number it has read it by.\<close>

lemma keeps_read_own:
  assumes "\<And>x. u_id x = i \<Longrightarrow> keeps_ok E (k x)"
  shows "keeps_ok E (andThen (on_err (tx_get E s (user_by_id i)) (\<lambda>_. rolling_back r)) k)"
  unfolding keeps_ok_def
proof (intro allI impI)
  fix w assume "world_ok E w"
  obtain x w1 where m: "on_err (tx_get E s (user_by_id i)) (\<lambda>_. rolling_back r) w = (x, w1)"
    by (cases "on_err (tx_get E s (user_by_id i)) (\<lambda>_. rolling_back r) w")
  have "keeps_ok E (on_err (tx_get E s (user_by_id i)) (\<lambda>_. rolling_back r))" by (rule keeps_intro)+
  then have ok: "world_ok E w1" using \<open>world_ok E w\<close> m by (rule keeps_okD)
  show "world_ok E (snd (andThen (on_err (tx_get E s (user_by_id i)) (\<lambda>_. rolling_back r)) k w))"
  proof (cases x)
    case (Inr u)
    then have "u_id u = i"
      using m by (auto dest!: inr_dest tx_get_InrD find_SomeD simp: user_by_id_def)
    from assms [OF this] ok show ?thesis by (simp add: andThen_def m Inr keeps_ok_def)
  qed (simp add: andThen_def m ok)
qed

lemma keeps_accounts [keeps_intro]:
  "keeps_ok E (RefreshToken E v)" "keeps_ok E (SignIn E b1)" "keeps_ok E (SignUp E b2)"
  "keeps_ok E (JoinBeta E b3)" "keeps_ok E (UpdateProfile E v b4)" "keeps_ok E (EditProfilePicture E v b5)"
  unfolding RefreshToken_def SignIn_def SignUp_def JoinBeta_def UpdateProfile_def EditProfilePicture_def Let_def
  by (rule keeps_read_own | rule keeps_intro | (simp; fail))+

lemma keeps_find_viewer:
  "(\<And>u. keeps_ok E (f u)) \<Longrightarrow> keeps_ok E (find_viewer E f i)"
  unfolding find_viewer_def Let_def by (rule keeps_intro | assumption | (simp; fail))+

lemma keeps_authorization [keeps_intro]:
  "keeps_ok E (AuthorizationREST E t)" "keeps_ok E (AuthorizationWS E parse s)"
  unfolding AuthorizationREST_def AuthorizationWS_def
  by (rule keeps_find_viewer keeps_intro | (simp; fail))+

section \<open>Views\<close>

lemma keeps_select_page [keeps_intro]: "keeps_ok E (select_page E chi off)"
  by (auto simp: keeps_ok_def select_page_def statement_def external_def split: option.splits)

lemma keeps_view_parts [keeps_intro]:
  "keeps_ok E (select_ids E t n ids f)" "keeps_ok E (unread_count E u ch)" "keeps_ok E (show_user E user)"
  "keeps_ok E (participates E v c)" "keeps_ok E (settings_admit E v p)" "keeps_ok E (first_channel_handle E c)"
  "keeps_ok E (my_communities E user)" "keeps_ok E (default_channel E hs c)" "keeps_ok E (show_files E fs)"
  unfolding unread_count_def show_user_def participates_def settings_admit_def first_channel_handle_def
    my_communities_def select_ids_def default_channel_def show_files_def Let_def
  by (rule keeps_intro)+

lemma keeps_views [keeps_intro]:
  "keeps_ok E (Community E v p)" "keeps_ok E (CommunityUsers E p)" "keeps_ok E (GetUser E p)"
  "keeps_ok E (CommunityInvite E p)" "keeps_ok E (CommunityDefaultPermissions E v p)"
  "keeps_ok E (CommunityRoles E v p)" "keeps_ok E (CommunityRole E v p rp)" "keeps_ok E (Sitemap E)"
  "keeps_ok E (Channel E v p cp pn)" "keeps_ok E (Me E v)"
  unfolding Community_def CommunityUsers_def GetUser_def CommunityInvite_def
    CommunityDefaultPermissions_def CommunityRoles_def CommunityRole_def Sitemap_def Channel_def
    Me_def show_channel_entry_def show_group_def viewer_part_def show_role_count_def
    role_member_ids_def show_prominent_def show_message_def show_page_message_def
    channel_viewer_def show_my_community_def read_page_def page_files_def page_parents_def
    read_people_def Let_def
  by (rule keeps_intro | (simp; fail))+

section \<open>The queue and the webhook\<close>

lemma keeps_providers [keeps_intro]:
  "keeps_ok E (ask f c)" "keeps_ok E (tell g d)" "keeps_ok E roll_back"
proof -
  have "world_ok E (w\<lparr>w_calls := cs\<rparr>) = world_ok E w" for w cs by (simp add: world_ok_def)
  then show "keeps_ok E (ask f c)" "keeps_ok E (tell g d)" "keeps_ok E roll_back"
    by (simp_all add: keeps_ok_def ask_def tell_def roll_back_def Let_def world_ok_rollback split: option.split)
qed

lemma preserves_provisioning [keeps_intro]:
  "preserves E (update_provisioned E i rid sid)" "preserves E (update_deploy_status E s sid)"
  by (auto intro!: preservesI simp: update_provisioned_def update_deploy_status_def tables_ok_updates split: if_splits)

lemma keeps_provider_parts [keeps_intro]:
  "keeps_ok E (delete_dns_record E P z rid)" "keeps_ok E (delete_service P sid)" "keeps_ok E (tx_community E i)"
  "keeps_ok E (case y of Returned s \<Rightarrow> ret s | _ \<Rightarrow> quit TaskPanic)"
  unfolding delete_dns_record_def delete_service_def tx_community_def
  by (rule keeps_intro | (simp add: keeps_basic split: outcome.split; fail))+

lemma keeps_cleanup [keeps_intro]: "keeps_ok E (cleanup_and_return E P u r s)"
  unfolding cleanup_and_return_def by (rule keeps_intro)+

lemma keeps_process_task [keeps_intro]: "keeps_ok E (process_task E P t)"
  by (cases t; simp only: process_task.simps HandleCreateCommunityTask_def HandleDeleteCommunityTask_def
      HandleEmailDeliveryTask_def provision_def create_service_def connect_service_def Let_def; (rule keeps_intro)+)

lemma keeps_webhook [keeps_intro]: "keeps_ok E (RailwayServiceWebhook E b)"
  unfolding RailwayServiceWebhook_def Let_def by (rule keeps_intro)+

end
