(* ===== verification/Api.thy ===== *)
theory Api
  imports Endpoints_Keep
begin

text \<open>
  The REST server of \<^verbatim>\<open>api_hot/api_hot.go\<close> as one program: its routes in the order of their
  registration, the middleware between them, the handlers, and the goroutines the handlers
  leave behind. A run of the server is a sequence of requests and goroutines.
\<close>

section \<open>Routes\<close>

datatype verb = GET | POST

datatype segment = Lit string | Param string

datatype endpoint =
    EpSitemap | EpSignIn | EpSignUp | EpJoinBeta
  | EpCommunity | EpGetUser | EpCommunityUsers | EpChannel | EpCommunityInvite
  | EpCreateCommunity | EpDeleteCommunity | EpMe | EpUpdateProfile | EpRefreshToken
  | EpEditProfilePicture | EpEditCommunity | EpCommunityRoles | EpCommunityDefaultPermissions
  | EpKickUser | EpBanUser | EpCreateCommunityInvite | EpLeaveCommunity | EpJoinCommunity
  | EpEditCommunityDefaultPermissions | EpCommunityRole | EpEditCommunityRole
  | EpEditCommunityRolesPriority | EpDeleteCommunityRole | EpCreateCommunityRole
  | EpEditChannel | EpChannelSelect | EpCreateChannel | EpDeleteChannel
  | EpCreateGroup | EpEditGroup | EpDeleteGroup | EpCreateMessage | EpEditMessage | EpReactToMessage

type_synonym route = "verb \<times> segment list \<times> endpoint"

text \<open>Paths are below \<^verbatim>\<open>/v1\<close>. These routes come before the token is looked at.\<close>

definition open_routes :: "route list" where
  "open_routes =
     [(GET, [Lit ''internal'', Lit ''sitemap''], EpSitemap),
      (POST, [Lit ''auth'', Lit ''sign_in''], EpSignIn),
      (POST, [Lit ''auth'', Lit ''sign_up''], EpSignUp),
      (POST, [Lit ''auth'', Lit ''join_beta''], EpJoinBeta)]"

text \<open>These come after the authorization and are open to guests.\<close>

definition guest_routes :: "route list" where
  "guest_routes =
     [(GET, [Lit ''community'', Param ''handle''], EpCommunity),
      (GET, [Lit ''users'', Param ''id''], EpGetUser),
      (GET, [Lit ''communities'', Param ''communityHandle'', Lit ''users''], EpCommunityUsers),
      (GET, [Lit ''communities'', Param ''communityHandle'', Lit ''channels'', Param ''channelHandle''], EpChannel),
      (GET, [Lit ''communities'', Param ''handle''], EpCommunity),
      (GET, [Lit ''invite''], EpCommunityInvite)]"

text \<open>The rest is behind the middleware that asks for a viewer.\<close>

abbreviation of_community :: "string list \<Rightarrow> segment list" where
  "of_community ls \<equiv> Lit ''communities'' # Param ''handle'' # map Lit ls"

definition viewer_routes :: "route list" where
  "viewer_routes =
     [(POST, [Lit ''communities'', Lit ''create''], EpCreateCommunity),
      (POST, of_community [''delete''], EpDeleteCommunity),
      (GET, [Lit ''me''], EpMe),
      (POST, [Lit ''me'', Lit ''update''], EpUpdateProfile),
      (POST, [Lit ''refresh_token''], EpRefreshToken),
      (POST, [Lit ''me'', Lit ''edit-profile-picture''], EpEditProfilePicture),
      (POST, of_community [''edit''], EpEditCommunity),
      (GET, of_community [''roles''], EpCommunityRoles),
      (GET, of_community [''default-permissions''], EpCommunityDefaultPermissions),
      (POST, of_community [''kick-user''], EpKickUser),
      (POST, of_community [''ban-user''], EpBanUser),
      (POST, of_community [''invites'', ''create''], EpCreateCommunityInvite),
      (POST, of_community [''leave''], EpLeaveCommunity),
      (POST, of_community [''join''], EpJoinCommunity),
      (POST, of_community [''default-permissions'', ''edit''], EpEditCommunityDefaultPermissions),
      (GET, of_community [''roles''] @ [Param ''roleId''], EpCommunityRole),
      (POST, of_community [''roles'', ''edit''], EpEditCommunityRole),
      (POST, of_community [''roles'', ''edit-priority''], EpEditCommunityRolesPriority),
      (POST, of_community [''roles'', ''delete''], EpDeleteCommunityRole),
      (POST, of_community [''roles'', ''create''], EpCreateCommunityRole),
      (POST, of_community [''channels'', ''edit''], EpEditChannel),
      (POST, of_community [''channels'', ''select''], EpChannelSelect),
      (POST, of_community [''channels'', ''create''], EpCreateChannel),
      (POST, of_community [''channels'', ''delete''], EpDeleteChannel),
      (POST, of_community [''groups'', ''create''], EpCreateGroup),
      (POST, of_community [''groups'', ''edit''], EpEditGroup),
      (POST, of_community [''groups'', ''delete''], EpDeleteGroup),
      (POST, of_community [''messages'', ''create''], EpCreateMessage),
      (POST, of_community [''messages'', ''edit''], EpEditMessage),
      (POST, of_community [''messages'', ''react''], EpReactToMessage)]"

text \<open>
  A path is the list of its segments. The router does not distinguish the case of ASCII letters,
  takes a parameter from one segment that is not empty, and tries the routes in order.
\<close>

definition ascii_lower :: "string \<Rightarrow> string" where
  "ascii_lower s = map (\<lambda>c. if CHR ''A'' \<le> c \<and> c \<le> CHR ''Z'' then char_of (of_char c + 32 :: nat) else c) s"

fun match_path :: "segment list \<Rightarrow> string list \<Rightarrow> (string \<times> string) list option" where
  "match_path [] [] = Some []"
| "match_path (Lit s # ps) (x # xs) = (if ascii_lower x = s then match_path ps xs else None)"
| "match_path (Param n # ps) (x # xs) =
     (if x = [] then None else map_option (\<lambda>m. (n, x) # m) (match_path ps xs))"
| "match_path _ _ = None"

fun find_route :: "route list \<Rightarrow> verb \<Rightarrow> string list \<Rightarrow> (endpoint \<times> (string \<times> string) list) option" where
  "find_route [] v xs = None"
| "find_route ((v', ps, e) # rs) v xs =
     (case if v' = v then match_path ps xs else None of
        Some m \<Rightarrow> Some (e, m)
      | None \<Rightarrow> find_route rs v xs)"

section \<open>Requests\<close>

text \<open>
  A request, its method and path as the error of the router writes them, with the \<^verbatim>\<open>id\<close> claim of its token, if it brings one that verifies, and with what
  the body parser makes of its body for each type of input (\<open>None\<close>: the parser fails).
\<close>

record request =
  rq_verb :: verb
  rq_path :: "string list"
  rq_line :: string
  rq_claim :: "json option"
  rq_code :: string
  rq_page :: "64 word"
  rq_sign_in :: "sign_in_input option"
  rq_sign_up :: "sign_up_input option"
  rq_join_beta :: "string option"
  rq_create_community :: "create_community_input option"
  rq_update_profile :: "update_profile_input option"
  rq_files :: "file_part list option"
  rq_edit_community :: "edit_community_input option"
  rq_kick_user :: "kick_user_input option"
  rq_create_invite :: "create_invite_input option"
  rq_join_community :: "join_community_input option"
  rq_defaults :: "default_permissions_input option"
  rq_role :: "role_form option"
  rq_edit_role :: "edit_role_form option"
  rq_priority :: "roles_priority_input option"
  rq_delete_role :: "delete_role_input option"
  rq_edit_channel :: "edit_channel_input option"
  rq_select :: "channel_select_input option"
  rq_create_channel :: "create_channel_input option"
  rq_delete_channel :: "delete_channel_input option"
  rq_create_group :: "create_group_input option"
  rq_edit_group :: "edit_group_input option"
  rq_delete_group :: "delete_group_input option"
  rq_message :: "message_form option"
  rq_edit_message :: "edit_message_input option"
  rq_react :: "react_input option"

text \<open>\<^verbatim>\<open>c.Params\<close> of a name the route does not have is the empty string.\<close>

definition param :: "string \<Rightarrow> (string \<times> string) list \<Rightarrow> string" where
  "param n m = (case map_of m n of None \<Rightarrow> [] | Some x \<Rightarrow> x)"

fun open_handler :: "env \<Rightarrow> request \<Rightarrow> endpoint \<Rightarrow> response go" where
  "open_handler E q EpSignIn = SignIn E (rq_sign_in q)"
| "open_handler E q EpSignUp = SignUp E (rq_sign_up q)"
| "open_handler E q EpJoinBeta = JoinBeta E (rq_join_beta q)"
| "open_handler E q _ = Sitemap E"

fun guest_handler ::
  "env \<Rightarrow> request \<Rightarrow> users_row option \<Rightarrow> (string \<times> string) list \<Rightarrow> endpoint \<Rightarrow> response go" where
  "guest_handler E q v m EpGetUser = GetUser E (param ''id'' m)"
| "guest_handler E q v m EpCommunityUsers = CommunityUsers E (param ''communityHandle'' m)"
| "guest_handler E q v m EpChannel =
     Channel E v (param ''communityHandle'' m) (param ''channelHandle'' m) (rq_page q)"
| "guest_handler E q v m EpCommunityInvite = CommunityInvite E (rq_code q)"
| "guest_handler E q v m _ = Community E v (param ''handle'' m)"

fun viewer_handler ::
  "env \<Rightarrow> request \<Rightarrow> users_row option \<Rightarrow> (string \<times> string) list \<Rightarrow> endpoint \<Rightarrow> response go" where
  "viewer_handler E q v m EpCreateCommunity = CreateCommunity E v (rq_create_community q)"
| "viewer_handler E q v m EpDeleteCommunity = DeleteCommunity E v (param ''handle'' m)"
| "viewer_handler E q v m EpUpdateProfile = UpdateProfile E v (rq_update_profile q)"
| "viewer_handler E q v m EpRefreshToken = RefreshToken E v"
| "viewer_handler E q v m EpEditProfilePicture = EditProfilePicture E v (rq_files q)"
| "viewer_handler E q v m EpEditCommunity = EditCommunity E v (param ''handle'' m) (rq_edit_community q)"
| "viewer_handler E q v m EpCommunityRoles = CommunityRoles E v (param ''handle'' m)"
| "viewer_handler E q v m EpCommunityDefaultPermissions = CommunityDefaultPermissions E v (param ''handle'' m)"
| "viewer_handler E q v m EpKickUser = KickUser E v (param ''handle'' m) (rq_kick_user q)"
| "viewer_handler E q v m EpBanUser = BanUser E v (param ''handle'' m) (rq_kick_user q)"
| "viewer_handler E q v m EpCreateCommunityInvite =
     CreateCommunityInvite E v (param ''handle'' m) (rq_create_invite q)"
| "viewer_handler E q v m EpLeaveCommunity = LeaveCommunity E v (param ''handle'' m)"
| "viewer_handler E q v m EpJoinCommunity = JoinCommunity E v (param ''handle'' m) (rq_join_community q)"
| "viewer_handler E q v m EpEditCommunityDefaultPermissions =
     EditCommunityDefaultPermissions E v (param ''handle'' m) (rq_defaults q)"
| "viewer_handler E q v m EpCommunityRole = CommunityRole E v (param ''handle'' m) (param ''roleId'' m)"
| "viewer_handler E q v m EpEditCommunityRole = EditCommunityRole E v (param ''handle'' m) (rq_edit_role q)"
| "viewer_handler E q v m EpEditCommunityRolesPriority =
     EditCommunityRolesPriority E v (param ''handle'' m) (rq_priority q)"
| "viewer_handler E q v m EpDeleteCommunityRole =
     DeleteCommunityRole E v (param ''handle'' m) (rq_delete_role q)"
| "viewer_handler E q v m EpCreateCommunityRole = CreateCommunityRole E v (param ''handle'' m) (rq_role q)"
| "viewer_handler E q v m EpEditChannel = EditChannel E v (param ''handle'' m) (rq_edit_channel q)"
| "viewer_handler E q v m EpChannelSelect = ChannelSelect E v (param ''handle'' m) (rq_select q)"
| "viewer_handler E q v m EpCreateChannel = CreateChannel E v (param ''handle'' m) (rq_create_channel q)"
| "viewer_handler E q v m EpDeleteChannel = DeleteChannel E v (param ''handle'' m) (rq_delete_channel q)"
| "viewer_handler E q v m EpCreateGroup = CreateGroup E v (param ''handle'' m) (rq_create_group q)"
| "viewer_handler E q v m EpEditGroup = EditGroup E v (param ''handle'' m) (rq_edit_group q)"
| "viewer_handler E q v m EpDeleteGroup = DeleteGroup E v (param ''handle'' m) (rq_delete_group q)"
| "viewer_handler E q v m EpCreateMessage = CreateMessage E v (param ''handle'' m) (rq_message q)"
| "viewer_handler E q v m EpEditMessage = EditMessage E v (param ''handle'' m) (rq_edit_message q)"
| "viewer_handler E q v m EpReactToMessage = ReactToMessage E v (param ''handle'' m) (rq_react q)"
| "viewer_handler E q v m _ = Me E v"

text \<open>No route: the router tells whether the path has another method.\<close>

fun other_verb :: "verb \<Rightarrow> verb" where
  "other_verb GET = POST"
| "other_verb POST = GET"

definition unrouted :: "request \<Rightarrow> response" where
  "unrouted q =
     (if find_route (open_routes @ guest_routes @ viewer_routes) (other_verb (rq_verb q)) (rq_path q) = None
      then Resp 404 (JStr (''Cannot '' @ rq_line q))
      else Resp 405 (JStr ''Method Not Allowed''))"

text \<open>A handler that panics gives \<^const>\<open>Panic\<close>, which the recovery middleware answers with status 500.\<close>

definition api :: "env \<Rightarrow> request \<Rightarrow> response go" where
  "api E q =
     (case find_route open_routes (rq_verb q) (rq_path q) of
        Some (e, m) \<Rightarrow> open_handler E q e
      | None \<Rightarrow>
          andThen (AuthorizationREST E (rq_claim q)) (\<lambda>viewer.
          case find_route guest_routes (rq_verb q) (rq_path q) of
            Some (e, m) \<Rightarrow> guest_handler E q viewer m e
          | None \<Rightarrow>
              andThen (ensure (viewer \<noteq> None) (quit (message_error 401 ''Not allowed.''))) (\<lambda>_.
              case find_route viewer_routes (rq_verb q) (rq_path q) of
                Some (e, m) \<Rightarrow> viewer_handler E q viewer m e
              | None \<Rightarrow> quit (unrouted q))))"

section \<open>Goroutines\<close>

definition touch_user :: "nat \<Rightarrow> nat \<Rightarrow> database \<Rightarrow> db_err + database" where
  "touch_user u t d = Inr (d\<lparr>d_users := rows_update (\<lambda>x. u_id x = u)
     (\<lambda>x. x\<lparr>u_last_active_at := t\<rparr>) (d_users d)\<rparr>)"

text \<open>Errors of goroutines are logged at most. A broadcast changes nothing here: it is a request
  to the chat server.\<close>

fun run_job :: "env \<Rightarrow> job \<Rightarrow> (unit, unit) prog" where
  "run_job E (JobRedisSet k v ttl) = andThen (attempt (redis_set E k v ttl)) (\<lambda>_. ret ())"
| "run_job E (JobRedisStamp k) =
     andThen (time_now E) (\<lambda>t.
     andThen (attempt (redis_set E k (RText (env_rfc3339 E t)) None)) (\<lambda>_. ret ()))"
| "run_job E (JobLastActive u) =
     andThen (time_now E) (\<lambda>t.
     andThen (attempt (db_exec E \<lparr>st_table = ''users'', st_holes = 2, st_args = 2\<rparr> (touch_user u t)))
       (\<lambda>_. ret ()))"
| "run_job E (JobEditRole i c input) = run_edit_role E i c input"
| "run_job E (JobBroadcast topic m) = ret ()"

definition take_job :: "nat \<Rightarrow> world \<Rightarrow> world" where
  "take_job i w = w\<lparr>w_jobs := take i (w_jobs w) @ drop (Suc i) (w_jobs w)\<rparr>"

text \<open>
  A step of the server: a request with its answer, or a goroutine that has not run, in any order,
  or a connection to the chat server, which looks up its viewer in the same stores, or a task of
  the queue, with any answers of the providers. A key of the cache may expire, whatever its time
  to live, and a restart loses the goroutines and the transactions that are open.
  The statements of two requests are not interleaved.
\<close>

inductive api_step :: "env \<Rightarrow> world \<Rightarrow> world \<Rightarrow> bool" for E :: env where
  Serve: "run (api E q) w = (r, w') \<Longrightarrow> api_step E w w'"
| Job: "i < length (w_jobs w) \<Longrightarrow> run_job E (w_jobs w ! i) (take_job i w) = (x, w') \<Longrightarrow> api_step E w w'"
| Connect: "AuthorizationWS E parse t w = (x, w') \<Longrightarrow> api_step E w w'"
| Work: "process_task E P task w = (e, w') \<Longrightarrow> api_step E w w'"
| Expire: "api_step E w (w\<lparr>w_redis := (w_redis w)(k := None)\<rparr>)"
| Restart: "api_step E w (w\<lparr>w_txs := [], w_jobs := []\<rparr>)"

inductive_cases api_stepE: "api_step E w w'"

text \<open>The server starts on tables that respect the schema, with an empty cache.\<close>

inductive reachable :: "env \<Rightarrow> world \<Rightarrow> bool" for E :: env where
  Start: "tables_ok E (w_auto w) (w_db w) \<Longrightarrow> w_txs w = [] \<Longrightarrow> w_redis w = (\<lambda>_. None) \<Longrightarrow> w_jobs w = [] \<Longrightarrow>
    reachable E w"
| Step: "reachable E w \<Longrightarrow> api_step E w w' \<Longrightarrow> reachable E w'"

section \<open>What every run keeps\<close>

lemma keeps_handlers [keeps_intro]:
  "keeps_ok E (open_handler E q e)" "keeps_ok E (guest_handler E q v m e)" "keeps_ok E (viewer_handler E q v m e)"
  by (cases e; (simp, rule keeps_intro))+

lemma keeps_api: "keeps_ok E (api E q)"
  unfolding api_def by (rule keeps_intro)+

lemma preserves_touch_user [keeps_intro]: "preserves E (touch_user u t)"
  by (auto intro!: preservesI simp: touch_user_def tables_ok_def map_rows_update_key)

lemma keeps_run_job: "job_ok j \<Longrightarrow> keeps_ok E (run_job E j)"
  by (cases j; simp only: run_job.simps job_ok.simps;
      (rule keeps_intro | (simp; fail))+)

lemma world_ok_take_job:
  assumes "world_ok E w" and "i < length (w_jobs w)"
  shows "world_ok E (take_job i w)" and "job_ok (w_jobs w ! i)"
proof -
  have "list_all job_ok (w_jobs w)" using assms(1) by (simp add: world_ok_def)
  then show "job_ok (w_jobs w ! i)" using assms(2) by (simp add: list_all_length)
  have "list_all job_ok (take i (w_jobs w) @ drop (Suc i) (w_jobs w))"
    using \<open>list_all job_ok (w_jobs w)\<close> by (auto simp: list_all_iff dest: in_set_takeD in_set_dropD)
  then show "world_ok E (take_job i w)" using assms(1) by (simp add: world_ok_def take_job_def)
qed

lemma run_world: "run m w = (r, w') \<Longrightarrow> w' = snd (m w)"
  by (auto simp: run_def split: prod.splits sum.splits)

lemma api_step_ok: "api_step E w w' \<Longrightarrow> world_ok E w \<Longrightarrow> world_ok E w'"
proof (induction rule: api_step.induct)
  case (Serve q w r w')
  then show ?case using keeps_api [of E q] run_world [OF Serve(1)] by (simp add: keeps_ok_def)
next
  case (Job i w x w')
  then show ?case
    using world_ok_take_job [OF Job(3,1)] keeps_okD [OF keeps_run_job _ Job(2)] by blast
next
  case (Connect parse t w x w')
  then show ?case using keeps_okD [OF keeps_authorization(2)] by blast
next
  case (Work P task w e w')
  then show ?case using keeps_okD [OF keeps_process_task] by blast
qed (simp_all add: world_ok_def)

lemma reachable_ok: "reachable E w \<Longrightarrow> world_ok E w"
proof (induction rule: reachable.induct)
  case (Start w)
  then show ?case by (simp add: world_ok_def)
qed (rule api_step_ok)

end
