(* ===== verification/Api_Laws.thy ===== *)
theory Api_Laws
  imports Api Account_Laws
begin

text \<open>
  What holds of the whole REST server: of every state it can reach by requests and goroutines,
  of every request whatever its route, and of a request that brings the token of an earlier one.
\<close>

section \<open>Routing\<close>

text \<open>Two patterns that some path could match both.\<close>

fun overlap :: "segment list \<Rightarrow> segment list \<Rightarrow> bool" where
  "overlap [] [] = True"
| "overlap (Lit s # ps) (Lit t # qs) = (s = t \<and> overlap ps qs)"
| "overlap (Param n # ps) (q # qs) = overlap ps qs"
| "overlap (p # ps) (Param n # qs) = overlap ps qs"
| "overlap _ _ = False"

lemma match_path_ConsD:
  "match_path (p # ps) xs = Some m \<Longrightarrow>
   \<exists>y ys k. xs = y # ys \<and> match_path ps ys = Some k \<and> (\<forall>s. p = Lit s \<longrightarrow> ascii_lower y = s)"
  by (cases p; cases xs) (auto split: if_splits)

lemma match_path_NilD: "match_path [] xs = Some m \<Longrightarrow> xs = []"
  by (cases xs) auto

lemma match_path_overlap: "match_path ps xs = Some m \<Longrightarrow> match_path qs xs = Some n \<Longrightarrow> overlap ps qs"
  by (induction ps qs arbitrary: xs m n rule: overlap.induct)
    (auto dest!: match_path_ConsD match_path_NilD)

definition apart :: "route \<Rightarrow> route \<Rightarrow> bool" where
  "apart r s \<longleftrightarrow> fst r \<noteq> fst s \<or> \<not> overlap (fst (snd r)) (fst (snd s))"

lemma routes_apart: "sorted_wrt apart (open_routes @ guest_routes @ viewer_routes)"
  by code_simp

lemma find_route_iff:
  "sorted_wrt apart rs \<Longrightarrow>
   find_route rs v xs = Some (e, m) \<longleftrightarrow> (\<exists>ps. (v, ps, e) \<in> set rs \<and> match_path ps xs = Some m)"
proof (induction rs)
  case (Cons r rs)
  obtain v' qs e' where r: "r = (v', qs, e')" by (cases r)
  show ?case
  proof (cases "v' = v \<and> match_path qs xs \<noteq> None")
    case True
    then obtain n where n: "v' = v" "match_path qs xs = Some n" by blast
    have "\<not> overlap qs ps" if "(v, ps, e) \<in> set rs" for ps e
      using Cons.prems n(1) that by (force simp: r apart_def)
    then have "\<not> (\<exists>ps. (v, ps, e) \<in> set rs \<and> match_path ps xs = Some m)" for e m
      using match_path_overlap [OF n(2)] by blast
    then show ?thesis using n by (auto simp: r)
  next
    case False
    then show ?thesis using Cons by (auto simp: r split: option.split)
  qed
qed simp

text \<open>C30: the order in which the routes are registered decides nothing: a request gets the endpoint of
  a route exactly when its method and its path match that route, so that no route hides another.\<close>

theorem route_order_is_irrelevant:
  "find_route (open_routes @ guest_routes @ viewer_routes) v xs = Some (e, m) \<longleftrightarrow>
   (\<exists>ps. (v, ps, e) \<in> set (open_routes @ guest_routes @ viewer_routes) \<and> match_path ps xs = Some m)"
  by (rule find_route_iff [OF routes_apart])

section \<open>Reading\<close>








definition guest_request :: request where
  "guest_request =
     \<lparr>rq_verb = POST, rq_path = [''communities'', ''home'', ''delete''], rq_line = ''POST /v1/communities/home/delete'', rq_claim = None, rq_code = [], rq_page = 0,
      rq_sign_in = None, rq_sign_up = None, rq_join_beta = None, rq_create_community = None,
      rq_update_profile = None, rq_files = None, rq_edit_community = None, rq_kick_user = None,
      rq_create_invite = None, rq_join_community = None, rq_defaults = None, rq_role = None,
      rq_edit_role = None, rq_priority = None, rq_delete_role = None, rq_edit_channel = None,
      rq_select = None, rq_create_channel = None, rq_delete_channel = None, rq_create_group = None,
      rq_edit_group = None, rq_delete_group = None, rq_message = None, rq_edit_message = None, rq_react = None\<rparr>"



section \<open>The states of the server\<close>

text \<open>C1: in every state that requests, goroutines, connections and tasks of the queue lead to, whatever calls fail in between,
  the numbers of each table are distinct, positive and small enough for 64 bits; the unique
  columns hold no value twice, so that looking a user up by number and a community by
  handle finds the very row; and the cache keeps each user under the own number.\<close>

theorem reachable_states_are_consistent:
  assumes "reachable E w"
  shows "tables_ok E (w_auto w) (w_db w) \<and>
    list_all (\<lambda>u. user_by_id (u_id u) (w_db w) = Some u) (d_users (w_db w)) \<and>
    list_all (\<lambda>c. community_by_handle E (c_handle c) (w_db w) = Some c) (d_communities (w_db w)) \<and>
    (\<nexists>i v ttl. w_redis w (user_key i) = Some (v, ttl) \<and> (\<nexists>u. v = RUser u \<and> u_id u = i))"
proof -
  have ok: "world_ok E w" by (rule reachable_ok [OF assms])
  have t: "tables_ok E (w_auto w) (w_db w)" using ok by (simp add: world_ok_def)
  have "distinct (map u_id (d_users (w_db w)))"
    and "distinct (map (\<lambda>c. env_collate E (c_handle c)) (d_communities (w_db w)))"
    using t by (simp_all add: tables_ok_def keyed_def)
  then have "list_all (\<lambda>u. user_by_id (u_id u) (w_db w) = Some u) (d_users (w_db w))"
    and "list_all (\<lambda>c. community_by_handle E (c_handle c) (w_db w) = Some c) (d_communities (w_db w))"
    by (auto simp: list_all_iff user_by_id_def community_by_handle_def text_eq_def find_unique_key
        find_unique_key [where k = "\<lambda>c. env_collate E (c_handle c)"])
  moreover have "\<nexists>i v ttl. w_redis w (user_key i) = Some (v, ttl) \<and> (\<nexists>u. v = RUser u \<and> u_id u = i)"
    using world_ok_user [OF ok] by blast
  ultimately show ?thesis using t by blast
qed

lemma accounts_start: "reachable sample_env accounts"
  by (rule reachable.Start)
    (simp_all add: accounts_def sample_world_def tables_ok_def counting_def plain_salts_def keyed_def
      sample_db_def ann_def sample_user_def sample_community_def sample_role_def sample_channel_def
      sample_group_def sample_message_def sample_env_def max_uint64_def slash_def)

text \<open>C7: the cache is well typed: whatever has run, a key of a user holds that user, a key of permissions
  holds a membership of that user in that community, a key of reactions holds reactions, and a key of
  a visit holds a text; so that no value is ever parsed as another type than it was written as.\<close>

theorem cache_is_typed:
  assumes "reachable E w" and "w_redis w k = Some (v, ttl)"
  shows "(k = user_key i \<longrightarrow> (\<exists>u. v = RUser u \<and> u_id u = i)) \<and>
    (k = PermissionRedisKey i c \<longrightarrow> (\<exists>r. v = RPerm r \<and> cu_user_id r = i \<and> cu_community_id r = c)) \<and>
    (k = reactions_key m \<longrightarrow> (\<exists>x. v = RReactions x)) \<and>
    (k = user_channel_key i c \<longrightarrow> (\<exists>t. v = RText t))"
proof -
  have "entry_ok k v" using reachable_ok [OF assms(1)] assms(2) by (simp add: world_ok_def)
  then show ?thesis unfolding entry_ok_def by blast
qed

text \<open>After a sign-in and the goroutine it leaves behind.\<close>

definition signed_in :: world where
  "signed_in = snd (run_job sample_env (w_jobs (snd sign_in_request) ! 0) (take_job 0 (snd sign_in_request)))"

definition sign_in_web_request :: request where
  "sign_in_web_request = guest_request\<lparr>rq_path := [''auth'', ''sign_in''],
     rq_sign_in := Some \<lparr>si_email = ''A@b'', si_password = ''secret'', si_code = None\<rparr>\<rparr>"

theorem cache_is_typed_witness:
  "\<exists>u ttl. w_redis signed_in (user_key 1) = Some (RUser u, ttl) \<and> u_id u = 1"
proof -
  have "api sample_env sign_in_web_request = SignIn sample_env
      (Some \<lparr>si_email = ''A@b'', si_password = ''secret'', si_code = None\<rparr>)"
  proof -
    have "find_route open_routes (rq_verb sign_in_web_request) (rq_path sign_in_web_request) = Some (EpSignIn, [])"
      by code_simp
    then show ?thesis by (simp add: api_def sign_in_web_request_def)
  qed
  then have "run (api sample_env sign_in_web_request) accounts = (fst sign_in_request, snd sign_in_request)"
    by (simp add: sign_in_request_def)
  then have "api_step sample_env accounts (snd sign_in_request)" by (rule Serve)
  moreover have jobs: "0 < length (w_jobs (snd sign_in_request))" by code_simp
  have "api_step sample_env (snd sign_in_request) signed_in"
    unfolding signed_in_def by (rule Job [OF jobs prod.collapse [symmetric]])
  ultimately have reach: "reachable sample_env signed_in" using accounts_start by (blast intro: reachable.Step)
  have "w_redis signed_in (user_key 1) \<noteq> None" by code_simp
  then obtain v ttl where "w_redis signed_in (user_key 1) = Some (v, ttl)" by fastforce
  with cache_is_typed [OF reach this, of 1] show ?thesis by auto
qed

section \<open>Tokens\<close>

lemma reachable_user_cache: "reachable E w \<Longrightarrow> user_cache_ok w"
  by (drule reachable_ok) (auto simp: user_cache_ok_def dest: world_ok_user)

text \<open>C5: a request acts as a user only with a token whose identifier decodes to that user's number,
  as the user's row or as a cached copy of one; a token of another type of object with this
  number is taken for the user's as well.\<close>

theorem viewer_identity:
  assumes "reachable E w" and "AuthorizationREST E t w = (Inr (Some u), w')"
  shows "0 < u_id u \<and> (\<exists>s ty. t = Some (JStr s) \<and> Decode (env_aes E) s = Returned (u_id u, ty)) \<and>
    ((\<exists>ttl. w_redis w (user_key (u_id u)) = Some (RUser u, ttl)) \<or> user_by_id (u_id u) (w_db w) = Some u)"
proof -
  have cache: "user_cache_ok w" by (rule reachable_user_cache [OF assms(1)])
  obtain claim i w1 where t: "t = Some claim" and c: "claimed_id E claim w = (Inr i, w1)" and
    f: "find_viewer E (\<lambda>user. spawn (JobRedisSet (user_key (u_id user)) (RUser user) (Some one_hour))) i w1
      = (Inr u, w')"
    using assms(2) unfolding AuthorizationREST_def
    by (auto elim!: andThen_InrE dest!: ret_InrD split: option.splits)
  have "w1 = w" using claimed_id_InrD [OF c] by auto
  then have v: "(\<exists>ttl. w_redis w (user_key i) = Some (RUser u, ttl)) \<or> user_by_id i (w_db w) = Some u"
    using find_viewer_InrD [OF f] by simp
  then have "i = u_id u" using cache by (auto simp: user_by_id_def user_cache_ok_def dest: find_SomeD)
  then show ?thesis using AuthorizationREST_viewer [OF assms(2) cache] v by blast
qed

definition channel_token :: string where
  "channel_token = sample_id 1 CHANNELS_TYPE"

text \<open>The identifier of channel 1 makes user 1 the viewer.\<close>

theorem viewer_identity_witness:
  "\<exists>u w'. AuthorizationREST sample_env (Some (JStr channel_token)) accounts = (Inr (Some u), w') \<and>
     user_by_id (u_id u) (w_db accounts) = Some u \<and> Decode sample_aes channel_token = Returned (1, CHANNELS_TYPE)"
proof -
  let ?r = "AuthorizationREST sample_env (Some (JStr channel_token)) accounts"
  have "case fst ?r of Inr (Some u) \<Rightarrow> True | _ \<Rightarrow> False" by code_simp
  then obtain u where u: "?r = (Inr (Some u), snd ?r)"
    by (cases ?r) (auto split: sum.splits option.splits)
  have "Decode sample_aes channel_token = Returned (1, CHANNELS_TYPE)" by code_simp
  moreover have "user_by_id (u_id u) (w_db accounts) = Some u"
    using viewer_identity [OF accounts_start u] by simp
  ultimately show ?thesis using u by blast
qed

theorem reachable_states_are_consistent_witness:
  "user_by_id 1 (w_db accounts) = Some ann \<and> tables_ok sample_env (w_auto accounts) (w_db accounts)"
  using reachable_states_are_consistent [OF accounts_start] by (simp add: ann_def sample_user_def)

text \<open>C6: a token from signing in is accepted: in every state the server can reach, the next request that
  brings the identifier it was signed for is answered as the user who signed in, when no call
  of the two requests fails.\<close>

theorem sign_in_authorizes:
  assumes "reachable E w" and "plain_uuids E" and "block_cipher (env_aes E)" and "aes_configured (env_aes E)"
    and "H = E\<lparr>env_fault := (\<lambda>_. None)\<rparr>" and "run (SignIn H b) w = (r, w')" and "\<not> is_error r"
  shows "\<exists>u i exp t x w''. u \<in> set (d_users (w_db w)) \<and> env_sign E i exp = Some t \<and>
    r = Resp 200 (JObj [(''token'', JStr t)]) \<and>
    AuthorizationREST H (Some (JStr i)) w' = (Inr (Some x), w'') \<and> u_id x = u_id u"
proof -
  have H: "env_aes H = env_aes E" "env_sign H = env_sign E" "healthy H"
    using assms(5) by (simp_all add: healthy_def)
  have ok: "world_ok E w" by (rule reachable_ok [OF assms(1)])
  then have users: "distinct (map u_id (d_users (w_db w)))"
    "\<And>u. u \<in> set (d_users (w_db w)) \<Longrightarrow> 0 < u_id u \<and> u_id u \<le> max_uint64 \<and> slash \<notin> set (u_salt u)"
    using assms(2) by (auto simp: world_ok_def tables_ok_def keyed_def plain_salts_def list_all_iff)
  have "SignIn H b w = (Inr r, w')" by (rule alive_run_ok [OF alive_account_handlers(1) assms(6,7)])
  then show ?thesis
  proof (rule SignIn_done)
    fix input addr i t exp and u :: users_row
    assume find: "user_by_email H (lower H addr) (w_db w) = Some u"
      and enc: "Encode (env_aes H) (u_id u) USERS_TYPE (u_salt u) = Returned i"
      and t: "env_sign H i exp = Some t" "r = Resp 200 (JObj [(''token'', JStr t)])"
      and same: "same_stores w w'"
    have u: "u \<in> set (d_users (w_db w))" using find by (auto simp: user_by_email_def dest: find_SomeD)
    have "slash \<notin> set USERS_TYPE" using type_tags_no_slash by simp
    then have dec: "Decode (env_aes H) i = Returned (u_id u, USERS_TYPE)"
      using Decode_Encode [OF assms(3,4), of "u_id u" USERS_TYPE "u_salt u"] enc users(2) [OF u] H(1) by auto
    have "user_by_id (u_id u) (w_db w') = Some u"
      using find_unique_key [OF users(1) u] same by (simp add: user_by_id_def same_stores_def)
    moreover have "case w_redis w' (user_key (u_id u)) of None \<Rightarrow> True
        | Some (v, _) \<Rightarrow> \<exists>x. v = RUser x \<and> u_id x = u_id u"
      using same by (auto simp: same_stores_def dest: world_ok_user [OF ok] split: option.split)
    ultimately obtain x w'' where "AuthorizationREST H (Some (JStr i)) w' = (Inr (Some x), w'')" "u_id x = u_id u"
      using AuthorizationREST_accepts [OF H(3) dec] users(2) [OF u] by blast
    then show ?thesis using u t H(2) by auto
  qed
qed

lemma sample_env_no_fault: "sample_env = sample_env\<lparr>env_fault := (\<lambda>_. None)\<rparr>"
  by (simp add: sample_env_def)

theorem sign_in_authorizes_witness:
  "\<exists>i x w''. fst sign_in_request = Resp 200 (JObj [(''token'', JStr i)]) \<and>
     AuthorizationREST sample_env (Some (JStr i)) (snd sign_in_request) = (Inr (Some x), w'') \<and> u_id x = 1"
proof -
  have ok: "\<not> is_error (fst sign_in_request)" by code_simp
  have cipher: "block_cipher (env_aes sample_env)" "aes_configured (env_aes sample_env)"
    by (simp_all add: block_cipher_def sample_aes_def aes_configured_def key_size_ok_def block_size_def)
  have uuids: "plain_uuids sample_env" by (simp add: plain_uuids_def sample_env_def slash_def)
  have "u_id u = 1" if "u \<in> set (d_users (w_db accounts))" for u
    using that by (simp add: ann_def sample_user_def)
  moreover have "\<exists>u i exp t x w''. u \<in> set (d_users (w_db accounts)) \<and> env_sign sample_env i exp = Some t \<and>
    fst sign_in_request = Resp 200 (JObj [(''token'', JStr t)]) \<and>
    AuthorizationREST sample_env (Some (JStr i)) (snd sign_in_request) = (Inr (Some x), w'') \<and> u_id x = u_id u"
    unfolding sign_in_request_def
    by (rule sign_in_authorizes [OF accounts_start uuids cipher sample_env_no_fault run_pair
      ok [unfolded sign_in_request_def]])
  moreover have "env_sign sample_env i exp = Some i" for i exp by (simp add: sample_env_def)
  ultimately show ?thesis by fastforce
qed

section \<open>Errors\<close>


















end
