(* ===== verification/Provisioning_Laws.thy ===== *)
theory Provisioning_Laws
  imports Provisioning Accounts Samples
begin

text \<open>
  What the workers leave behind: the tables and the transactions of a task that failed, what it
  has asked of the providers, the row of a community that was provisioned, and what the webhook
  then makes of it. The rules for \<open>calls\<close> are verification conditions on the sequence of
  calls to the providers alone.
\<close>

section \<open>Tables and transactions\<close>

lemma moves_providers [shapes]:
  "moves s s s (ask f c)" "moves s s s (tell g d)" "moves Busy u Idle roll_back"
  using rollback_shape
  by (auto simp: moves_def ask_def tell_def roll_back_def Let_def split: option.split)

lemma moves_deletes [shapes]: "moves s s s (delete_dns_record E P z rid)" "moves s s s (delete_service P sid)"
proof -
  show "moves s s s (delete_dns_record E P z rid)"
    unfolding delete_dns_record_def by (rule shapes)+
  show "moves s s s (delete_service P sid)"
    unfolding delete_service_def by (rule shapes)+
qed

lemma moves_cleanup [shapes]:
  "moves Busy Idle t (cleanup_and_return E P True r s)" "moves Idle Idle t (cleanup_and_return E P False r s)"
proof -
  have "moves Idle Idle Idle (case r of None \<Rightarrow> ret () | Some x \<Rightarrow> delete_dns_record E P None x)"
    "moves Idle Idle Idle (case s of None \<Rightarrow> ret () | Some x \<Rightarrow> delete_service P x)"
    by (simp_all add: shapes split: option.split)
  then show "moves Busy Idle t (cleanup_and_return E P True r s)" "moves Idle Idle t (cleanup_and_return E P False r s)"
    unfolding cleanup_and_return_def by (auto intro!: moves_andThen shapes)
qed

lemma moves_ensure_at:
  "moves s f s h \<Longrightarrow> moves s f s (ensure b h)" "moves s f s h' \<Longrightarrow> moves s f s (of_option x h')"
  by (simp_all add: ensure_def of_option_def moves_ret split: option.split)

lemma moves_create_service [shapes]:
  assumes "aes_configured (env_aes E)"
  shows "moves Busy Idle Busy (create_service E P co)"
proof -
  obtain s where "Encode (env_aes E) (c_id co) COMMUNITIES_TYPE (c_salt co) = Returned s"
    using Encode_configured [OF assms] by blast
  then have s: "(case Encode (env_aes E) (c_id co) COMMUNITIES_TYPE (c_salt co) of
      Returned s \<Rightarrow> ret s | _ \<Rightarrow> quit TaskPanic) = ret s" by simp
  show ?thesis unfolding create_service_def s by (rule shapes)+
qed



lemma moves_other_tasks:
  "moves Idle Idle Idle (HandleDeleteCommunityTask E P b1)" "moves Idle Idle Idle (HandleEmailDeliveryTask E P b2)"
  unfolding HandleDeleteCommunityTask_def HandleEmailDeliveryTask_def
  by (rule moves_ensure_at shapes)+

section \<open>What was asked of the providers\<close>

text \<open>\<open>calls cs m Q R\<close>: run after the calls \<open>cs\<close>, \<open>m\<close> ends with calls of which \<open>Q\<close> holds, or
  fails with calls of which \<open>R\<close> holds.\<close>

definition calls :: "provider_call list \<Rightarrow> ('e, 'a) prog \<Rightarrow> ('a \<Rightarrow> provider_call list \<Rightarrow> bool) \<Rightarrow>
    ('e \<Rightarrow> provider_call list \<Rightarrow> bool) \<Rightarrow> bool" where
  "calls cs m Q R \<longleftrightarrow>
     (\<forall>w. w_calls w = cs \<longrightarrow> wp m (\<lambda>x w'. Q x (w_calls w')) (\<lambda>e w'. R e (w_calls w')) w)"

definition silent :: "('e, 'a) prog \<Rightarrow> bool" where
  "silent m \<longleftrightarrow> (\<forall>w. w_calls (snd (m w)) = w_calls w)"

named_theorems calls_intro \<open>one rule per statement, for the calls to the providers\<close>

lemma calls_end [calls_intro]:
  "Q x cs \<Longrightarrow> calls cs (ret x) Q R" "R e cs \<Longrightarrow> calls cs (quit e) Q R" "R e cs \<Longrightarrow> calls cs (rolling_back e) Q R"
  by (simp_all add: calls_def wp_def ret_def quit_def rolling_back_def rollback_def)

lemma calls_andThen:
  assumes "calls cs m Q' R" and "\<And>x cs'. Q' x cs' \<Longrightarrow> calls cs' (k x) Q R"
  shows "calls cs (andThen m k) Q R"
  unfolding calls_def
proof (intro allI impI wp_andThen)
  fix w :: world assume "w_calls w = cs"
  then have "wp m (\<lambda>x w'. Q' x (w_calls w')) (\<lambda>e w'. R e (w_calls w')) w" using assms(1) by (simp add: calls_def)
  then show "wp m (\<lambda>x. wp (k x) (\<lambda>y w'. Q y (w_calls w')) (\<lambda>e w'. R e (w_calls w'))) (\<lambda>e w'. R e (w_calls w')) w"
    by (rule wp_mono) (use assms(2) in \<open>auto simp: calls_def\<close>)
qed

lemma calls_on_err:
  assumes "calls cs m Q R'" and "\<And>e cs'. R' e cs' \<Longrightarrow> calls cs' (h e) Q R"
  shows "calls cs (on_err m h) Q R"
  unfolding calls_def
proof (intro allI impI wp_on_err)
  fix w :: world assume "w_calls w = cs"
  then have "wp m (\<lambda>x w'. Q x (w_calls w')) (\<lambda>e w'. R' e (w_calls w')) w" using assms(1) by (simp add: calls_def)
  then show "wp m (\<lambda>x w'. Q x (w_calls w')) (\<lambda>e. wp (h e) (\<lambda>y w'. Q y (w_calls w')) (\<lambda>e w'. R e (w_calls w'))) w"
    by (rule wp_mono) (use assms(2) in \<open>auto simp: calls_def\<close>)
qed

lemma calls_False: "calls cs m (\<lambda>_ _. False) R \<Longrightarrow> calls cs m Q R"
  unfolding calls_def by (fast elim: wp_mono)

lemma calls_ask: "(\<And>x. Q x (cs @ [c (Some x)])) \<Longrightarrow> R () (cs @ [c None]) \<Longrightarrow> calls cs (ask f c) Q R"
  by (auto simp: calls_def wp_def ask_def Let_def split: option.split)

lemma calls_ask_then [calls_intro]:
  assumes "\<And>x. calls (cs @ [c (Some x)]) (k x) Q R" and "calls (cs @ [c None]) h (\<lambda>_ _. False) R"
  shows "calls cs (andThen (on_err (ask f c) (\<lambda>_. h)) k) Q R"
proof (rule calls_andThen)
  show "calls cs (on_err (ask f c) (\<lambda>_. h)) (\<lambda>x cs'. cs' = cs @ [c (Some x)]) R"
    by (rule calls_on_err [where R' = "\<lambda>_ cs'. cs' = cs @ [c None]"], rule calls_ask)
      (use calls_False [OF assms(2)] in auto)
qed (use assms(1) in blast)

lemma calls_tell_then [calls_intro]:
  assumes "calls (cs @ [c True]) (k ()) Q R" and "calls (cs @ [c False]) h (\<lambda>_ _. False) R"
  shows "calls cs (andThen (on_err (tell f c) (\<lambda>_. h)) k) Q R"
  unfolding tell_def by (rule calls_ask_then) (use assms in simp_all)

lemma calls_silent_then [calls_intro]:
  assumes "silent m" and "\<And>x. calls cs (k x) Q R" and "\<And>e. calls cs (h e) (\<lambda>_ _. False) R"
  shows "calls cs (andThen (on_err m h) k) Q R"
proof (rule calls_andThen)
  have "calls cs m (\<lambda>_ cs'. cs' = cs) (\<lambda>_ cs'. cs' = cs)"
    using assms(1) by (auto simp: calls_def silent_def wp_def split: prod.split sum.split)
      (metis snd_conv)+
  then show "calls cs (on_err m h) (\<lambda>_ cs'. cs' = cs) R"
    by (rule calls_on_err) (use calls_False [OF assms(3)] in auto)
qed (use assms(2) in blast)

lemma calls_guard_then [calls_intro]:
  "(b \<Longrightarrow> calls cs (k ()) Q R) \<Longrightarrow> (\<not> b \<Longrightarrow> calls cs h (\<lambda>_ _. False) R) \<Longrightarrow> calls cs (andThen (ensure b h) k) Q R"
  by (cases b) (auto intro: calls_andThen)

lemma silent_calls [calls_intro]:
  "silent (begin_tx E)" "silent (tx_get E s f)" "silent (tx_exec E s g)" "silent (commit E)"
  by (auto simp: silent_def call_defs begin_tx_def commit_def split: option.split list.split sum.split)

text \<open>The services and records that a sequence of calls has made and removed.\<close>

fun services_made :: "provider_call list \<Rightarrow> string list" where
  "services_made (ServiceCreate n (Some sid) # cs) = sid # services_made cs"
| "services_made (_ # cs) = services_made cs"
| "services_made [] = []"


fun records_made :: "provider_call list \<Rightarrow> string list" where
  "records_made (CreateDNSRecord z n a (Some rid) # cs) = rid # records_made cs"
| "records_made (_ # cs) = records_made cs"
| "records_made [] = []"



lemma calls_cleanup [calls_intro]:
  "(\<And>b. R SkipRetry (cs @ [ServiceDelete sid b])) \<Longrightarrow> calls cs (cleanup_and_return E P u None (Some sid)) Q R"
  "R SkipRetry cs \<Longrightarrow> calls cs (cleanup_and_return E P u None None) Q R"
  "R TaskPanic cs \<Longrightarrow> calls cs (cleanup_and_return E P u (Some rid) x) Q R"
  by (auto simp: calls_def wp_def cleanup_and_return_def delete_service_def delete_dns_record_def
      andThen_def roll_back_def ret_def quit_def attempt_def tell_def ask_def rollback_def Let_def
      split: prod.split sum.split option.split)

lemma calls_last [calls_intro]:
  assumes "silent m" and "\<And>x. Q x cs" and "\<And>e. calls cs (h e) (\<lambda>_ _. False) R"
  shows "calls cs (on_err m h) Q R"
proof -
  have "calls cs (andThen (on_err m h) ret) Q R"
    using assms by (intro calls_silent_then) (auto intro: calls_end)
  moreover have "andThen (on_err m h) ret = on_err m h"
    by (rule ext) (simp add: andThen_def ret_def split: prod.split sum.split)
  ultimately show ?thesis by simp
qed

lemma calls_of_option_then [calls_intro]:
  "(\<And>a. x = Some a \<Longrightarrow> calls cs (k a) Q R) \<Longrightarrow> (x = None \<Longrightarrow> calls cs h (\<lambda>_ _. False) R) \<Longrightarrow>
   calls cs (andThen (of_option x h) k) Q R"
  by (cases x) (auto simp: of_option_def intro: calls_andThen)



text \<open>Where calls fail, the code does not only give up: the leak, on the sample installation.\<close>

definition sample_providers :: providers where
  "sample_providers =
     \<lparr>pv_service_create = (\<lambda>_ _. Some ''srv''),
      pv_domain_create = (\<lambda>_ _ _. Some [\<lparr>dr_record_type = ''DNS_RECORD_TYPE_CNAME'', dr_required_value = ''up.app''\<rparr>]),
      pv_variables = (\<lambda>_ _. True), pv_dns_create = (\<lambda>_ _ _. Some ''rec''),
      pv_instance_update = (\<lambda>_ _. True), pv_connect = (\<lambda>_ _. True),
      pv_service_delete = (\<lambda>_ _. True), pv_dns_delete = (\<lambda>_ _. True), pv_email = (\<lambda>_ _. True)\<rparr>"


definition task_run :: "env \<Rightarrow> providers \<Rightarrow> (task_error + unit) \<times> world" where
  "task_run E P = HandleCreateCommunityTask E P (Some 5) sample_world"


section \<open>A community that is provisioned\<close>

lemma ask_InrD:
  "ask f c w = (Inr x, w') \<Longrightarrow> f (w_tick w) = Some x \<and> w' = tick (w\<lparr>w_calls := w_calls w @ [c (Some x)]\<rparr>)"
  by (auto simp: ask_def Let_def split: option.splits)

lemma tell_InrD:
  "tell f c w = (Inr x, w') \<Longrightarrow> f (w_tick w) \<and> w' = tick (w\<lparr>w_calls := w_calls w @ [c True]\<rparr>)"
  by (auto simp: tell_def dest!: ask_InrD split: if_splits)

lemma cleanup_no_Inr [simp]: "cleanup_and_return E P b r s w \<noteq> (Inr x, w')"
  by (auto simp: cleanup_and_return_def quit_def elim!: andThen_InrE)

lemma on_err_cleanup_InrD:
  "on_err m (\<lambda>_. cleanup_and_return E P b r s) w = (Inr x, w') \<Longrightarrow> m w = (Inr x, w')"
  by (auto simp: on_err_def split: prod.splits sum.splits)

lemma ensure_cleanup_InrD:
  "ensure g (cleanup_and_return E P b r s) w = (Inr x, w') \<Longrightarrow> g \<and> w' = w"
  by (auto simp: ensure_def ret_def split: if_splits)

lemma encoded_InrD:
  "(case y of Returned s \<Rightarrow> ret s | _ \<Rightarrow> quit TaskPanic) w = (Inr x, w') \<Longrightarrow> y = Returned x \<and> w' = w"
  by (auto simp: ret_def quit_def split: outcome.splits)

lemmas task_dest = on_err_cleanup_InrD ensure_cleanup_InrD encoded_InrD ask_InrD tell_InrD

lemma create_service_InrD:
  "create_service E P co w = (Inr (sid, rwr), w') \<Longrightarrow>
   \<exists>i. w' = (tick (tick (tick w)))\<lparr>w_calls := w_calls w @ [ServiceCreate (c_handle co) (Some sid),
       CustomDomainCreate (c_fqn co) sid (Some rwr), VariableCollectionUpsert sid (service_variables E co i) True]\<rparr> \<and>
     Encode (env_aes E) (c_id co) COMMUNITIES_TYPE (c_salt co) = Returned i"
  unfolding create_service_def
  by (auto simp: ret_def tick_def elim!: andThen_InrE dest!: task_dest)

lemma connect_service_InrD:
  "connect_service E P sid w = (Inr x, w') \<Longrightarrow>
   w' = (tick (tick w))\<lparr>w_calls := w_calls w @ [ServiceInstanceUpdate sid ''/health'' True,
     ServiceConnect sid ''mattsrobot/exotic-auth'' ''main'' True]\<rparr>"
  unfolding connect_service_def
  by (auto simp: tick_def elim!: andThen_InrE dest!: task_dest)

lemma provisioning_effect_lemma:
  assumes "HandleCreateCommunityTask E P b w = (Inr (), w')"
  shows "\<exists>i co sid rwr rid id. b = Some i \<and> community_by_id i (w_db w) = Some co \<and>
    w_db w' = (w_db w)\<lparr>d_communities := rows_update (\<lambda>c. c_id c = i)
      (\<lambda>c. c\<lparr>c_cf_record_id := Some rid, c_railway_service_id := Some sid\<rparr>) (d_communities (w_db w))\<rparr> \<and>
    list_all (\<lambda>c. c_id c = i \<or> \<not> has_service E sid c) (d_communities (w_db w)) \<and>
    w_txs w' = w_txs w \<and> w_redis w' = w_redis w \<and> cname_of rwr \<noteq> [] \<and>
    Encode (env_aes E) i COMMUNITIES_TYPE (c_salt co) = Returned id \<and>
    w_calls w' = w_calls w @
      [ServiceCreate (c_handle co) (Some sid), CustomDomainCreate (c_fqn co) sid (Some rwr),
       VariableCollectionUpsert sid (service_variables E co id) True,
       CreateDNSRecord (env_getenv E ''CLOUDFLARE_ZONE_ID'') (c_handle co) (cname_of rwr) (Some rid),
       ServiceInstanceUpdate sid ''/health'' True,
       ServiceConnect sid ''mattsrobot/exotic-auth'' ''main'' True]"
proof -
  obtain i co w1 w2 w3 where b: "b = Some i" and 1: "begin_tx E w = (Inr (), w1)"
    and 2: "tx_community E i w1 = (Inr co, w2)" and 3: "provision E P co w2 = (Inr (), w')"
    using assms unfolding HandleCreateCommunityTask_def
    by (auto elim!: andThen_InrE dest!: inr_dest)
  have w1: "w1 = (tick w)\<lparr>w_txs := w_db w # w_txs w\<rparr>" using 1 by (rule begin_tx_InrD)
  have w2: "w2 = tick w1" and co: "community_by_id i (w_db w) = Some co"
    using tx_get_InrD [OF 2 [unfolded tx_community_def]] by (auto simp: w1)
  have i: "c_id co = i" using co by (auto simp: community_by_id_def dest: find_SomeD)
  obtain sid rwr rid w3 w4 w5 w6 where 31: "create_service E P co w2 = (Inr (sid, rwr), w3)"
    and ne: "cname_of rwr \<noteq> []"
    and 32: "ask (\<lambda>n. pv_dns_create P n (c_handle co) (cname_of rwr))
         (CreateDNSRecord (env_getenv E ''CLOUDFLARE_ZONE_ID'') (c_handle co) (cname_of rwr)) w3 = (Inr rid, w4)"
    and 33: "tx_exec E \<lparr>st_table = ''communities'', st_holes = 3, st_args = 3\<rparr>
         (update_provisioned E (c_id co) rid sid) w4 = (Inr (), w5)"
    and 34: "connect_service E P sid w5 = (Inr (), w6)" and 35: "commit E w6 = (Inr (), w')"
    using 3 unfolding provision_def Let_def
    by (auto elim!: andThen_InrE dest!: on_err_cleanup_InrD ensure_cleanup_InrD split: prod.splits)
  obtain id where w3: "w3 = (tick (tick (tick w2)))\<lparr>w_calls := w_calls w2 @ [ServiceCreate (c_handle co) (Some sid),
       CustomDomainCreate (c_fqn co) sid (Some rwr), VariableCollectionUpsert sid (service_variables E co id) True]\<rparr>"
    and id: "Encode (env_aes E) (c_id co) COMMUNITIES_TYPE (c_salt co) = Returned id"
    using create_service_InrD [OF 31] by blast
  note w4 = ask_InrD [OF 32, THEN conjunct2]
  obtain d' where d': "update_provisioned E i rid sid (w_db w) = Inr d'" and w5: "w5 = (tick w4)\<lparr>w_txs := d' # w_txs w\<rparr>"
    using tx_exec_InrD [OF 33] by (auto simp: w4 w3 w2 w1 i)
  have w': "w_db w' = d' \<and> w_txs w' = w_txs w \<and> w_redis w' = w_redis w \<and> w_calls w' = w_calls w6"
    using commit_InrD [OF 35] by (auto simp: connect_service_InrD [OF 34] w5 w4 w3 w2 w1)
  have in_d: "co \<in> set (d_communities (w_db w))" using co by (auto simp: community_by_id_def dest: find_SomeD)
  have "d' = (w_db w)\<lparr>d_communities := rows_update (\<lambda>c. c_id c = i)
      (\<lambda>c. c\<lparr>c_cf_record_id := Some rid, c_railway_service_id := Some sid\<rparr>) (d_communities (w_db w))\<rparr>"
    and "list_all (\<lambda>c. c_id c = i \<or> \<not> has_service E sid c) (d_communities (w_db w))"
    using d' in_d i by (auto simp: update_provisioned_def has_service_def list_all_iff split: if_splits)
  moreover have "w_calls w6 = w_calls w @
      [ServiceCreate (c_handle co) (Some sid), CustomDomainCreate (c_fqn co) sid (Some rwr),
       VariableCollectionUpsert sid (service_variables E co id) True,
       CreateDNSRecord (env_getenv E ''CLOUDFLARE_ZONE_ID'') (c_handle co) (cname_of rwr) (Some rid),
       ServiceInstanceUpdate sid ''/health'' True,
       ServiceConnect sid ''mattsrobot/exotic-auth'' ''main'' True]"
    by (simp add: connect_service_InrD [OF 34] w5 w4 w3 w2 w1)
  ultimately show ?thesis using b co w' ne id [unfolded i] by (intro exI conjI) simp_all
qed

text \<open>C26: a task that succeeds has recorded, in the row of its community and nowhere else, the service
  and the zone record that the providers gave it; it has asked them for exactly these, in this
  order, with the address of the first record of the right type, and no other community has
  this service or record.\<close>

theorem provisioning_effect:
  assumes "HandleCreateCommunityTask E P b w = (Inr (), w')"
  shows "\<exists>i co sid rwr rid id. b = Some i \<and> community_by_id i (w_db w) = Some co \<and>
    w_db w' = (w_db w)\<lparr>d_communities := rows_update (\<lambda>c. c_id c = i)
      (\<lambda>c. c\<lparr>c_cf_record_id := Some rid, c_railway_service_id := Some sid\<rparr>) (d_communities (w_db w))\<rparr> \<and>
    list_all (\<lambda>c. c_id c = i \<or> \<not> has_service E sid c) (d_communities (w_db w)) \<and>
    w_txs w' = w_txs w \<and> w_redis w' = w_redis w \<and> cname_of rwr \<noteq> [] \<and>
    Encode (env_aes E) i COMMUNITIES_TYPE (c_salt co) = Returned id \<and>
    w_calls w' = w_calls w @
      [ServiceCreate (c_handle co) (Some sid), CustomDomainCreate (c_fqn co) sid (Some rwr),
       VariableCollectionUpsert sid (service_variables E co id) True,
       CreateDNSRecord (env_getenv E ''CLOUDFLARE_ZONE_ID'') (c_handle co) (cname_of rwr) (Some rid),
       ServiceInstanceUpdate sid ''/health'' True,
       ServiceConnect sid ''mattsrobot/exotic-auth'' ''main'' True]"
  using assms by (rule provisioning_effect_lemma)

theorem provisioning_effect_witness:
  "\<exists>c. d_communities (w_db (snd (task_run sample_env sample_providers))) = [c] \<and>
     c_railway_service_id c = Some ''srv'' \<and> c_cf_record_id c = Some ''rec''"
proof -
  have r: "fst (task_run sample_env sample_providers) = Inr () \<and>
      services_made (w_calls (snd (task_run sample_env sample_providers))) = [''srv''] \<and>
      records_made (w_calls (snd (task_run sample_env sample_providers))) = [''rec'']"
    by code_simp
  then have eq: "HandleCreateCommunityTask sample_env sample_providers (Some 5) sample_world
      = (Inr (), snd (task_run sample_env sample_providers))"
    by (metis task_run_def prod.collapse)
  have "d_communities (w_db sample_world) = [sample_community]" "w_calls sample_world = []" "c_id sample_community = 5"
    by (simp_all add: sample_world_def sample_db_def sample_community_def)
  with provisioning_effect [OF eq] r show ?thesis by auto
qed

section \<open>The webhook\<close>

lemma sound_RailwayServiceWebhook: "sound Idle Done (RailwayServiceWebhook E b)"
  unfolding RailwayServiceWebhook_def Let_def
  by (intro sound_andThen sound_if | rule sound_intro shapes sound_Idle_Done)+

lemma answers_RailwayServiceWebhook: "answers (RailwayServiceWebhook E b)"
  unfolding RailwayServiceWebhook_def Let_def
  by (intro answers_andThen answers_if answers_rules) (simp_all add: json_field_def)

interpretation webhook: endpoint "\<lambda>q. run (case q of (E, b) \<Rightarrow> RailwayServiceWebhook E b)" "\<lambda>_. True"
  by (rule endpointI) (auto intro: sound_RailwayServiceWebhook answers_RailwayServiceWebhook)

lemma RailwayServiceWebhook_done:
  assumes "RailwayServiceWebhook E (Some input) w = (Inr r, w')"
    and "lower E (wh_status input) = ''success''"
  shows "w_db w' = (w_db w)\<lparr>d_communities := rows_update (has_service E (wh_service_id input))
      (\<lambda>c. c\<lparr>c_railway_deploy_status := Some ''success'', c_ready := True\<rparr>) (d_communities (w_db w))\<rparr>"
proof -
  have "webhook_checks E input = []" using assms(1)
    unfolding RailwayServiceWebhook_def by (auto elim!: andThen_InrE dest!: inr_dest need_valid_InrD)
  then have ne: "wh_service_id input \<noteq> []" by (auto simp: webhook_checks_def check_string_ok)
  obtain w1 w2 w3 where 1: "begin_tx E w1 = (Inr (), w2)" and w1: "w1 = w"
    and 2: "tx_exec E \<lparr>st_table = ''communities'', st_holes = 3, st_args = 3\<rparr>
        (update_deploy_status E ''success'' (wh_service_id input)) w2 = (Inr (), w3)"
    and 3: "commit E w3 = (Inr (), w')"
    using assms ne unfolding RailwayServiceWebhook_def Let_def
    by (auto elim!: andThen_InrE dest!: inr_dest need_valid_InrD)
  have w2: "w2 = (tick w)\<lparr>w_txs := w_db w # w_txs w\<rparr>" using begin_tx_InrD [OF 1] w1 by simp
  obtain d' where d': "update_deploy_status E ''success'' (wh_service_id input) (w_db w) = Inr d'"
    and w3: "w_txs w3 = d' # w_txs w"
    using tx_exec_InrD [OF 2] by (auto simp: w2)
  have "w_db w' = d'" using commit_InrD [OF 3] w3 by auto
  then show ?thesis using d' by (auto simp: update_deploy_status_def split: if_splits)
qed

lemma alive_RailwayServiceWebhook: "alive (RailwayServiceWebhook E b)"
  unfolding RailwayServiceWebhook_def Let_def unable_to_handle_def
  by (rule dead_intro is_error_simps | (simp; fail))+

text \<open>C25: the two halves of provisioning fit together: once the task has recorded the service, the
  webhook that reports its success makes exactly this community ready, and no other.\<close>

theorem provisioned_community_becomes_ready:
  assumes "HandleCreateCommunityTask E P (Some i) w = (Inr (), w')"
    and "c \<in> set (d_communities (w_db w'))" and "c_id c = i"
    and "c_railway_service_id c = Some (wh_service_id input)" and "lower E (wh_status input) = ''success''"
    and "run (RailwayServiceWebhook E (Some input)) w' = (r, w'')" and "\<not> is_error r"
  shows "w_db w'' = (w_db w')\<lparr>d_communities := rows_update (\<lambda>x. c_id x = i)
      (\<lambda>x. x\<lparr>c_railway_deploy_status := Some ''success'', c_ready := True\<rparr>) (d_communities (w_db w'))\<rparr>"
proof -
  obtain sid rid where w': "w_db w' = (w_db w)\<lparr>d_communities := rows_update (\<lambda>c. c_id c = i)
      (\<lambda>c. c\<lparr>c_cf_record_id := Some rid, c_railway_service_id := Some sid\<rparr>) (d_communities (w_db w))\<rparr>"
    and others: "list_all (\<lambda>c. c_id c = i \<or> \<not> has_service E sid c) (d_communities (w_db w))"
    using provisioning_effect_lemma [OF assms(1)] by blast
  have rows: "\<exists>y \<in> set (d_communities (w_db w)). x = (if c_id y = i
      then y\<lparr>c_cf_record_id := Some rid, c_railway_service_id := Some sid\<rparr> else y)"
    if "x \<in> set (d_communities (w_db w'))" for x
    using that unfolding w' rows_update_def by auto
  have "c_railway_service_id c = Some sid"
  proof -
    obtain y where c: "c = (if c_id y = i
        then y\<lparr>c_cf_record_id := Some rid, c_railway_service_id := Some sid\<rparr> else y)"
      using rows [OF assms(2)] by blast
    show ?thesis using assms(3) unfolding c by (cases "c_id y = i") simp_all
  qed
  then have sid: "wh_service_id input = sid" using assms(4) by simp
  have "has_service E sid x \<longleftrightarrow> c_id x = i" if x_in: "x \<in> set (d_communities (w_db w'))" for x
  proof -
    obtain y where y: "y \<in> set (d_communities (w_db w))" and x: "x = (if c_id y = i
        then y\<lparr>c_cf_record_id := Some rid, c_railway_service_id := Some sid\<rparr> else y)"
      using rows [OF x_in] by blast
    have "c_id y = i \<or> \<not> has_service E sid y" using others y by (simp add: list_all_iff)
    then show ?thesis unfolding x
      by (cases "c_id y = i") (simp_all add: has_service_def has_text_def text_eq_def)
  qed
  then have "rows_update (has_service E sid) f (d_communities (w_db w')) = rows_update (\<lambda>x. c_id x = i) f (d_communities (w_db w'))"
    for f unfolding rows_update_def by (intro map_cong) auto
  then show ?thesis
    using RailwayServiceWebhook_done [OF alive_run_ok [OF alive_RailwayServiceWebhook assms(6,7)] assms(5)]
    by (simp add: sid)
qed

theorem provisioned_community_becomes_ready_witness:
  "\<exists>w'' r. run (RailwayServiceWebhook sample_env (Some \<lparr>wh_type = ''DEPLOY'', wh_status = ''SUCCESS'',
      wh_service_id = ''srv'', wh_environment_name = ''production''\<rparr>))
      (snd (task_run sample_env sample_providers)) = (r, w'') \<and>
    list_all c_ready (d_communities (w_db w''))"
proof -
  let ?i = "\<lparr>wh_type = ''DEPLOY'', wh_status = ''SUCCESS'', wh_service_id = ''srv'',
    wh_environment_name = ''production''\<rparr>"
  let ?w = "snd (task_run sample_env sample_providers)"
  have r: "fst (task_run sample_env sample_providers) = Inr () \<and>
      \<not> is_error (fst (run (RailwayServiceWebhook sample_env (Some ?i)) ?w)) \<and>
      list_all (\<lambda>c. c_id c = 5) (d_communities (w_db ?w)) \<and> lower sample_env ''SUCCESS'' = ''success''"
    by code_simp
  then have eq: "HandleCreateCommunityTask sample_env sample_providers (Some 5) sample_world = (Inr (), ?w)"
    by (metis task_run_def prod.collapse)
  have made: "services_made (w_calls ?w) = [''srv'']" by code_simp
  have s: "d_communities (w_db sample_world) = [sample_community]" "w_calls sample_world = []"
    "c_id sample_community = 5"
    by (simp_all add: sample_world_def sample_db_def sample_community_def)
  obtain c where c: "d_communities (w_db ?w) = [c]" "c_railway_service_id c = Some ''srv''"
    using provisioning_effect_lemma [OF eq] made s by auto
  have "w_db (snd (run (RailwayServiceWebhook sample_env (Some ?i)) ?w)) =
      (w_db ?w)\<lparr>d_communities := rows_update (\<lambda>x. c_id x = 5)
        (\<lambda>x. x\<lparr>c_railway_deploy_status := Some ''success'', c_ready := True\<rparr>) (d_communities (w_db ?w))\<rparr>"
    by (rule provisioned_community_becomes_ready [OF eq, where c = c and input = ?i and
          r = "fst (run (RailwayServiceWebhook sample_env (Some ?i)) ?w)"])
      (use c r in simp_all)
  then have "list_all c_ready (d_communities (w_db (snd (run (RailwayServiceWebhook sample_env (Some ?i)) ?w))))"
    using c(1) r by (simp add: rows_update_def)
  then show ?thesis using run_pair by blast
qed

end
