(* ===== verification/Signing.thy ===== *)
theory Signing
  imports Models Samples
begin

text \<open>
  The signed addresses of images and videos of \<^verbatim>\<open>security_helpers/image_helpers.go\<close>. The keyed
  hashes of \<^verbatim>\<open>crypto/hmac\<close> are parameters, of which only the length of the result matters here:
  20 bytes with SHA-1, 32 bytes with SHA-256.
\<close>

section \<open>Encodings\<close>





section \<open>Signers\<close>





section \<open>Addresses\<close>







section \<open>A signed address is for one file and size\<close>





lemma itoa_not_negative [simp]: "itoa m \<noteq> CHR ''-'' # s" "CHR ''-'' # s \<noteq> itoa m"
  using itoa_digits [of "CHR ''-''" m] by (auto dest: sym)








end
