(* ===== verification/Spec2Isabelle.thy ===== *)
theory Spec2Isabelle
  imports Samples View_Facts Chat_Server Community_Laws Message_Laws Account_Laws View_Laws Hub_Laws Api_Laws Provisioning_Laws Signing
begin

text \<open>
  A model of the API server of a chat service (Go, \<^verbatim>\<open>src/\<close>) and the theorems that make it
  correct. Paths below are relative to \<^verbatim>\<open>src/\<close>.

  \<^bold>\<open>The program.\<close> A REST server (\<^verbatim>\<open>api_hot/api_hot.go\<close>) authorizes each request from its token and
  routes it to a handler of \<^verbatim>\<open>handlers/\<close>. A handler checks its input and the permissions of the
  viewer, works on MySQL in a transaction, keeps a cache of users, memberships and reactions in
  Redis, and may leave goroutines behind. A websocket server (\<^verbatim>\<open>api_ws/api_ws.go\<close>) keeps the
  connected clients with the topics they subscribed to and delivers the broadcasts the handlers
  post to it. A worker (\<^verbatim>\<open>scheduler/scheduler.go\<close>, \<^verbatim>\<open>tasks/\<close>) provisions hosted communities with
  two external providers; a webhook reports their deployment back.

  \<^bold>\<open>How it is modelled.\<close> Everything is a total HOL function on explicit state, translated
  statement by statement from the handler it models.
  \<^item> \<^verbatim>\<open>Prelude\<close>, \<^verbatim>\<open>Go_Strings\<close>: tables as lists of rows, theorem collections, Go's byte strings
    with UTF-8 decoding, and \<^verbatim>\<open>security_helpers/text_helpers.go\<close>.
  \<^item> \<^verbatim>\<open>Base64\<close>, \<^verbatim>\<open>Object_Id\<close>: \<^verbatim>\<open>security_helpers/object_id.go\<close>. Both base64 encodings, CBC chaining
    and padding are defined; the block cipher is a parameter. The locales \<open>codec\<close>,
    \<open>framed_codec\<close> and \<open>codec_pair\<close> state what an encoding promises.
  \<^item> \<^verbatim>\<open>Signing\<close>: the signed addresses of \<^verbatim>\<open>security_helpers/image_helpers.go\<close>, over keyed hashes.
  \<^item> \<^verbatim>\<open>Models\<close>: the row types of \<^verbatim>\<open>db/chat_users_db/model/\<close> as records, the permission enum, the
    JSON renderings, the Redis keys, and the record \<open>env\<close> of what the process gets from outside.
  \<^item> \<^verbatim>\<open>Store\<close>: the record \<open>world\<close>: the tables, the stack of open transactions, the counters of
    \<^verbatim>\<open>AUTO_INCREMENT\<close>, Redis, the goroutines not run yet, and the calls made to providers. Any call
    to a store fails when the schedule \<open>env_fault\<close> says so; a statement that names a table missing
    from the schema, or whose arguments do not match its placeholders, always fails.
  \<^item> \<^verbatim>\<open>Handler\<close>: programs with early returns and panics, the calculus of their outcomes (\<open>moves\<close>
    for the open transactions, \<open>sound\<close> and \<open>dead\<close> for success, \<open>wp\<close>), and the locales
    \<open>tidy_endpoint\<close>, \<open>endpoint\<close>, \<open>guarded_endpoint\<close> and \<open>broken_endpoint\<close>, interpreted for
    every handler that changes tables in the theory that defines it.
  \<^item> \<^verbatim>\<open>Validation\<close>, \<^verbatim>\<open>Permissions\<close>: the checks at the start of a handler, and
    \<^verbatim>\<open>handlers/validations.go\<close>; \<open>effective_permissions\<close> is the specification of what a member
    may do.
  \<^item> \<^verbatim>\<open>Channels\<close>, \<^verbatim>\<open>Roles\<close>, \<^verbatim>\<open>Membership\<close>, \<^verbatim>\<open>Communities\<close>, \<^verbatim>\<open>Messages\<close>, \<^verbatim>\<open>Accounts\<close>, \<^verbatim>\<open>Views\<close>: one
    definition for each handler of the same name in \<^verbatim>\<open>handlers/\<close>, in the order of the code, and the
    lemmas \<open>..._done\<close> on what a success has done. \<^verbatim>\<open>Views\<close> also holds
    \<^verbatim>\<open>internal_handlers/sitemap.go\<close>, \<^verbatim>\<open>Accounts\<close> the two variants of the authorization,
    \<^verbatim>\<open>Rand_String\<close> the generator of invite codes.
  \<^item> \<^verbatim>\<open>Chat_Server\<close>: the hub of \<^verbatim>\<open>api_ws/api_ws.go\<close> as an inductive step relation: the hub takes an
    event, or one of its goroutines runs when the mutex of its client is free, in any order.
  \<^item> \<^verbatim>\<open>Provisioning\<close>: the tasks of \<^verbatim>\<open>tasks/\<close>, their dispatch, and
    \<^verbatim>\<open>handlers/railway_service_webhook.go\<close>, to which no route leads.
  \<^item> \<^verbatim>\<open>Api\<close>: all routes in the order of their registration, the matching of paths, the middleware
    that authorizes, and the reachable states: requests, goroutines, connections and tasks in any
    order, with any failures, expired keys and restarts.
  \<^item> \<^verbatim>\<open>Samples\<close>: a small installation on which the witnesses are evaluated.

  \<^bold>\<open>What is shown.\<close>
  \<^item> The whole server (\<^verbatim>\<open>Invariants\<close>, \<^verbatim>\<open>Endpoints_Keep\<close>, \<^verbatim>\<open>Api_Laws\<close>): in every reachable state the
    tables have distinct keys within 64 bits and unique handles, addresses and codes, and the cache
    holds what its keys say; a refused request changes no table, but for three endpoints that are
    named; reads and guests change nothing; a token names exactly one user, and the token of a
    sign-in is accepted as that user; the order of the routes does not matter.
  \<^item> Permissions (\<^verbatim>\<open>Role_Effects\<close>, \<^verbatim>\<open>Community_Laws\<close>): the recalculation refines
    \<open>effective_permissions\<close>, creating and deleting roles keep it, and no handler of channels or
    settings succeeds without the permission it needs.
  \<^item> The effects of the handlers (\<^verbatim>\<open>Community_Laws\<close>, \<^verbatim>\<open>Message_Laws\<close>, \<^verbatim>\<open>Account_Laws\<close>): which rows
    a success adds, changes or removes, and that nothing else changes.
  \<^item> The views (\<^verbatim>\<open>View_Facts\<close>, \<^verbatim>\<open>View_Laws\<close>): the pages of a channel are its history; who is let in.
  \<^item> The chat server (\<^verbatim>\<open>Hub_Laws\<close>): in every interleaving deliveries were asked for, happen at most
    once, reach every subscriber once the goroutines have run, and the goroutines do run out.
  \<^item> The worker (\<^verbatim>\<open>Provisioning_Laws\<close>): what a task that succeeds records and asks for, and what a
    task that fails leaves behind.
  \<^item> This theory: identifiers and strings, and the effect of creating a channel.

  Several of the theorems state behaviour that was surely not intended: nobody can join, leave or
  be thrown out of a community; edited defaults take effect only with the next recalculation; a
  channel that is deleted locks out the members who had it selected. They are proved as they are.

  \<^bold>\<open>Integers, loops and bounds.\<close> Identifiers are natural numbers, bounded by \<open>2 ^ 64\<close> where they
  are parsed and where a counter gives them out; the invariant shows that the bound is kept. The
  page arithmetic of the channel view and the random words of invite codes are 64 bit words with
  their wrap-around. The loops over rows are structural. The one loop that may not end, the
  rejection of random bits in \<^verbatim>\<open>RandString\<close>, is a \<open>partial_function\<close> whose value is \<open>None\<close> when it
  does not return; no fuel is used anywhere.

  \<^bold>\<open>Parameters.\<close> Code outside the repository is a field of \<open>env\<close> or of \<open>providers\<close>: the AES block
  cipher, bcrypt, the signing of tokens, the mail parser, the texts of the validator, the case
  mapping and the collation, clock, UUIDs and random words, uploads, and the answers of Railway, Cloudflare and
  Postmark. Theorems that need something of them say so: \<open>block_cipher\<close> (decryption inverts
  encryption), \<open>plain_uuids\<close> (no slash in a UUID), \<open>signs\<close>, \<open>healthy\<close> (no call fails).

  \<^bold>\<open>Not modelled.\<close> The set-up of the three processes in their \<^verbatim>\<open>main\<close> functions, logging, and the
  third-party middleware (limiter, idempotency, compression, CORS); the generated GraphQL client of
  \<^verbatim>\<open>railway/\<close>; the row of \<^verbatim>\<open>schema_migrations\<close>, which nothing uses; the lag
  between the two Redis clients; the interleaving of the statements of two requests, which run one
  after the other here, each with its failures. The bodies of requests are the parsed inputs.
\<close>

section \<open>Identifiers and strings\<close>

text \<open>C32: an object identifier that the program hands out decodes to the number and the type
  tag it was made from, and encoding one never fails under an accepted key.\<close>

theorem object_id_roundtrip:
  assumes "block_cipher A" and "aes_configured A" and "i \<le> max_uint64"
    and "slash \<notin> set ty" and "slash \<notin> set salt"
  shows "\<exists>s. Encode A i ty salt = Returned s \<and> Decode A s = Returned (i, ty)"
  using Decode_Encode [OF assms] by blast

theorem object_id_roundtrip_witness:
  "\<exists>s. Encode sample_aes 5 COMMUNITIES_TYPE ''salt'' = Returned s \<and>
       Decode sample_aes s = Returned (5, COMMUNITIES_TYPE)"
  by (rule object_id_roundtrip)
    (simp_all add: block_cipher_def sample_aes_def aes_configured_def key_size_ok_def
      block_size_def max_uint64_def type_tags slash_def)



text \<open>\<^verbatim>\<open>Truncate\<close> keeps at most the asked number of characters, never cuts inside one,
  and truncating twice is truncating once.\<close>

theorem truncate_spec:
  "rune_count (Truncate s lim) = min (rune_count s) (nat lim) \<and>
   (\<exists>n. decode_runes (Truncate s lim) = take n (decode_runes s)) \<and>
   Truncate (Truncate s lim) lim = Truncate s lim"
proof (intro conjI)
  show "\<exists>n. decode_runes (Truncate s lim) = take n (decode_runes s)"
  proof (cases "0 \<le> lim")
    case True
    then show ?thesis using decode_Truncate by blast
  next
    case False
    then have "decode_runes (Truncate s lim) = take 0 (decode_runes s)" by (simp add: Truncate_def)
    then show ?thesis by blast
  qed
qed (rule rune_count_Truncate Truncate_idem)+

text \<open>The handle of a channel holds lower-case letters, digits and dashes only, whatever
  the name, and computing the handle of a handle gives it back.\<close>

theorem channel_handle_spec:
  "list_all handle_char (channel_handle_of tbl name) \<and>
   channel_handle_of tbl (channel_handle_of tbl name) = channel_handle_of tbl name"
  using channel_handle_chars channel_handle_fixed by blast

text \<open>C40: an invite code is drawn until it has the asked length, it is made of letters, and
  the draw ends when usable random words keep coming.\<close>

theorem rand_string_spec:
  assumes "\<And>d. \<exists>k. usable (src (d + k))"
  shows "\<exists>s d'. RandString src d n = Some (s, d') \<and> length s = n \<and> set s \<subseteq> set letterBytes"
  using RandString_returns [OF assms] RandString_result by blast

theorem rand_string_spec_witness:
  "\<exists>s d'. RandString (\<lambda>_. 0) 0 10 = Some (s, d') \<and> length s = 10 \<and> set s \<subseteq> set letterBytes"
proof (rule rand_string_spec)
  fix d :: nat
  have "usable_within letterIdxMax 0"
    unfolding usable_within_def by (intro exI [of _ 0]) (simp add: letter_constants letter_index_def)
  then show "\<exists>k. usable ((\<lambda>_. 0) (d + k))" by (simp add: usable_def)
qed

text \<open>A random source that never gives a usable word again keeps the request waiting for
  ever: the routine has no bound on its draws.\<close>

theorem rand_string_waits:
  assumes "\<And>k. \<not> usable (src (d + k))" and "0 < n"
  shows "RandString src d n = None"
  using assms by (rule RandString_diverges)

theorem rand_string_waits_witness: "RandString (\<lambda>_. - 1) 0 10 = None"
proof (rule rand_string_waits)
  fix k :: nat
  have "list_all (\<lambda>j. \<not> letter_index (drop_bit (letterIdxBits * j) (- 1)) < length letterBytes)
      [0..<letterIdxMax]"
    by code_simp
  then show "\<not> usable ((\<lambda>_. - 1) (0 + k))" by (auto simp: usable_def usable_within_def list_all_iff)
qed simp

text \<open>Cached permissions of different members and communities never share a Redis key,
  and no other key of the program collides with them.\<close>

theorem permission_keys_separate:
  "(PermissionRedisKey u c = PermissionRedisKey u' c' \<longleftrightarrow> u = u' \<and> c = c') \<and>
   PermissionRedisKey u c \<noteq> user_key v \<and> PermissionRedisKey u c \<noteq> user_channel_key v ch \<and>
   PermissionRedisKey u c \<noteq> reactions_key m"
  by simp

section \<open>Channels and groups\<close>




end
